(* ===== verification/NF_Prelude.thy ===== *)
theory NF_Prelude
  imports Main "HOL-Library.AList"
begin

text \<open>
  The shared ground of the development: the collections of rewrite rules the component
  theories add to, hash maps, bounded queues, the comparison-driven list routines of the Rust
  standard library, and the result type of fallible code.

  A Rust \<open>HashMap\<close> is an association list with distinct keys. The order of the list stands for
  the iteration order, which Rust leaves open: a statement proved for every such list holds
  for every iteration order.
\<close>

named_theorems hm_simps \<open>lookups and key sets of hash maps after an update\<close>

section \<open>Hash maps\<close>

type_synonym ('k, 'v) hmap = "('k \<times> 'v) list"

abbreviation hm_get :: "('k, 'v) hmap \<Rightarrow> 'k \<Rightarrow> 'v option" where
  "hm_get m k \<equiv> map_of m k"

abbreviation hm_insert :: "'k \<Rightarrow> 'v \<Rightarrow> ('k, 'v) hmap \<Rightarrow> ('k, 'v) hmap" where
  "hm_insert k v m \<equiv> AList.update k v m"

abbreviation hm_remove :: "'k \<Rightarrow> ('k, 'v) hmap \<Rightarrow> ('k, 'v) hmap" where
  "hm_remove k m \<equiv> AList.delete k m"

abbreviation hm_keys :: "('k, 'v) hmap \<Rightarrow> 'k list" where
  "hm_keys m \<equiv> List.map fst m"

definition hm_ok :: "('k, 'v) hmap \<Rightarrow> bool" where
  "hm_ok m \<longleftrightarrow> distinct (hm_keys m)"

definition hm_contains :: "('k, 'v) hmap \<Rightarrow> 'k \<Rightarrow> bool" where
  "hm_contains m k \<longleftrightarrow> hm_get m k \<noteq> None"

text \<open>
  The contract the components rely on when they keep a hash map: what a lookup returns after
  an insertion or a removal, and that the keys stay distinct. \<open>m_ok\<close> is the well-formedness
  the provider maintains.
\<close>

locale hash_map =
  fixes m_empty :: "'m"
    and m_get :: "'m \<Rightarrow> 'k \<Rightarrow> 'v option"
    and m_insert :: "'k \<Rightarrow> 'v \<Rightarrow> 'm \<Rightarrow> 'm"
    and m_remove :: "'k \<Rightarrow> 'm \<Rightarrow> 'm"
    and m_ok :: "'m \<Rightarrow> bool"
  assumes get_empty: "m_get m_empty k = None"
    and get_insert: "m_get (m_insert k v m) k' = (if k' = k then Some v else m_get m k')"
    and get_remove: "m_get (m_remove k m) k' = (if k' = k then None else m_get m k')"
    and ok_empty: "m_ok m_empty"
    and ok_insert: "m_ok m \<Longrightarrow> m_ok (m_insert k v m)"
    and ok_remove: "m_ok m \<Longrightarrow> m_ok (m_remove k m)"
begin

lemma get_insert_same: "m_get (m_insert k v m) k = Some v"
  by (simp add: get_insert)

lemma get_insert_other: "k' \<noteq> k \<Longrightarrow> m_get (m_insert k v m) k' = m_get m k'"
  by (simp add: get_insert)

lemma get_remove_same: "m_get (m_remove k m) k = None"
  by (simp add: get_remove)

lemma get_remove_other: "k' \<noteq> k \<Longrightarrow> m_get (m_remove k m) k' = m_get m k'"
  by (simp add: get_remove)

lemma insert_keeps_present: "m_get m k' \<noteq> None \<Longrightarrow> m_get (m_insert k v m) k' \<noteq> None"
  by (simp add: get_insert)

end

interpretation hm: hash_map "[]" map_of AList.update AList.delete hm_ok
  by unfold_locales
     (auto simp: update_conv' delete_conv' hm_ok_def distinct_update distinct_delete)

lemmas hm_facts [hm_simps, simp] =
  hm.get_insert_same hm.get_remove_same

lemmas hm_other [hm_simps] =
  hm.get_insert hm.get_remove

lemma hm_ok_Nil [simp]: "hm_ok []"
  by (simp add: hm_ok_def)

lemma hm_ok_insert [simp, intro]: "hm_ok m \<Longrightarrow> hm_ok (hm_insert k v m)"
  by (rule hm.ok_insert)

lemma hm_ok_remove [simp, intro]: "hm_ok m \<Longrightarrow> hm_ok (hm_remove k m)"
  by (rule hm.ok_remove)

lemma hm_keys_insert: "set (hm_keys (hm_insert k v m)) = insert k (set (hm_keys m))"
  by (simp add: dom_update)

lemma hm_get_in_keys: "hm_get m k = Some v \<Longrightarrow> k \<in> set (hm_keys m)"
  by (metis map_of_eq_None_iff option.simps(3) set_map)

lemma hm_get_iff: "hm_ok m \<Longrightarrow> hm_get m k = Some v \<longleftrightarrow> (k, v) \<in> set m"
  by (simp add: hm_ok_def)

section \<open>Bounded queues\<close>

text \<open>
  The shape \<^verbatim>\<open>q.push_back(x); while q.len() > cap { q.pop_front(); }\<close> that the event log, the
  health history of the terminal interface, the analytics tracker and the predictive engine
  all use on a \<open>VecDeque\<close>. The loop pops from the front one by one.
\<close>

fun pop_until :: "nat \<Rightarrow> 'a list \<Rightarrow> 'a list" where
  "pop_until cap [] = []"
| "pop_until cap (x # xs) = (if cap < length (x # xs) then pop_until cap xs else x # xs)"

definition push_bounded :: "nat \<Rightarrow> 'a \<Rightarrow> 'a list \<Rightarrow> 'a list" where
  "push_bounded cap x q = pop_until cap (q @ [x])"

lemma pop_until_eq_drop: "pop_until cap xs = drop (length xs - cap) xs"
  by (induction xs) (auto simp: Suc_diff_le)

lemma length_pop_until: "length (pop_until cap xs) = min (length xs) cap"
  by (simp add: pop_until_eq_drop)

lemma push_bounded_length: "length (push_bounded cap x q) = min (Suc (length q)) cap"
  by (simp add: push_bounded_def length_pop_until)

lemma push_bounded_le: "length (push_bounded cap x q) \<le> cap"
  by (simp add: push_bounded_length)

lemma push_bounded_last: "0 < cap \<Longrightarrow> last (push_bounded cap x q) = x"
  by (simp add: push_bounded_def pop_until_eq_drop)

lemma push_bounded_nonempty: "0 < cap \<Longrightarrow> push_bounded cap x q \<noteq> []"
  by (metis length_greater_0_conv min_less_iff_conj push_bounded_length zero_less_Suc)

lemma push_bounded_below: "length q < cap \<Longrightarrow> push_bounded cap x q = q @ [x]"
  by (simp add: push_bounded_def pop_until_eq_drop)

lemma push_bounded_set: "set (push_bounded cap x q) \<subseteq> insert x (set q)"
  unfolding push_bounded_def pop_until_eq_drop
  by (auto dest: in_set_dropD)

lemma push_bounded_step:
  assumes "length v \<le> cap"
  shows "drop (length (push_bounded cap x v) + length xs - cap) (push_bounded cap x v @ xs)
    = drop (length v + length (x # xs) - cap) (v @ x # xs)"
proof -
  let ?k = "Suc (length v) - cap"
  have p: "push_bounded cap x v = drop ?k (v @ [x])"
    by (simp add: push_bounded_def pop_until_eq_drop)
  have len: "length (push_bounded cap x v) = min (Suc (length v)) cap"
    by (rule push_bounded_length)
  have "push_bounded cap x v @ xs = drop ?k (v @ x # xs)"
    unfolding p using assms by (cases cap; cases "?k \<le> length v") auto
  moreover have "length (push_bounded cap x v) + length xs - cap + ?k = length v + length (x # xs) - cap"
    using assms len by (cases "length v < cap") auto
  ultimately show ?thesis by (metis drop_drop)
qed

text \<open>
  A component whose operations are the steps of a relation: what every step keeps holds in every
  state that is reached from one in which it holds.
\<close>

locale step_invariant =
  fixes si_step :: "'s \<Rightarrow> 's \<Rightarrow> bool" and si_inv :: "'s \<Rightarrow> bool"
  assumes step_keeps: "si_step s t \<Longrightarrow> si_inv s \<Longrightarrow> si_inv t"
begin

lemma reached_keeps: "si_step\<^sup>*\<^sup>* s t \<Longrightarrow> si_inv s \<Longrightarrow> si_inv t"
  by (induction rule: rtranclp_induct) (simp_all add: step_keeps)

lemma run_keeps:
  assumes "\<And>e s. si_step s (f e s)" "si_inv s"
  shows "si_inv (fold f es s)"
  using assms(2) by (induction es arbitrary: s) (simp_all add: step_keeps [OF assms(1)])

end

text \<open>
  A component that is specified by a simpler one: every operation carried out on the state has, seen
  through \<open>sm_abs\<close>, the effect of its specification; so has every sequence of operations.
\<close>

locale simulation =
  fixes sm_step :: "'e \<Rightarrow> 's \<Rightarrow> 's"
    and sm_spec :: "'e \<Rightarrow> 'a \<Rightarrow> 'a"
    and sm_abs :: "'s \<Rightarrow> 'a"
    and sm_inv :: "'s \<Rightarrow> bool"
  assumes inv_kept: "sm_inv s \<Longrightarrow> sm_inv (sm_step e s)"
    and simulates: "sm_inv s \<Longrightarrow> sm_abs (sm_step e s) = sm_spec e (sm_abs s)"

sublocale simulation < stepped: step_invariant "\<lambda>s t. \<exists>e. t = sm_step e s" sm_inv
  by unfold_locales (auto simp: inv_kept)

context simulation
begin

lemma run_inv: "sm_inv s \<Longrightarrow> sm_inv (fold sm_step es s)"
  by (rule stepped.run_keeps) auto

lemma run_simulates: "sm_inv s \<Longrightarrow> sm_abs (fold sm_step es s) = fold sm_spec es (sm_abs s)"
  by (induction es arbitrary: s) (simp_all add: inv_kept simulates)

end

text \<open>
  A history component pushes one sample at a time; what its clients rely on is the bound and
  that the newest samples are kept. \<open>h_view\<close> reads the samples, oldest first.
\<close>

locale bounded_history =
  fixes h_view :: "'s \<Rightarrow> 'a list"
    and h_push :: "'a \<Rightarrow> 's \<Rightarrow> 's"
    and h_cap :: "'s \<Rightarrow> nat"
  assumes push_view: "h_view (h_push x s) = push_bounded (h_cap s) x (h_view s)"
    and push_cap: "h_cap (h_push x s) = h_cap s"
begin

lemma push_bound: "length (h_view (h_push x s)) \<le> h_cap s"
  by (simp add: push_view push_bounded_le)

lemma push_newest: "0 < h_cap s \<Longrightarrow> last (h_view (h_push x s)) = x"
  by (simp add: push_view push_bounded_last)

lemma fold_push_cap: "h_cap (fold h_push xs s) = h_cap s"
  by (induction xs arbitrary: s) (simp_all add: push_cap)

lemma fold_push_view:
  assumes "length (h_view s) \<le> h_cap s"
  shows "h_view (fold h_push xs s)
    = drop (length (h_view s) + length xs - h_cap s) (h_view s @ xs)"
  using assms
proof (induction xs arbitrary: s)
  case Nil
  then show ?case by simp
next
  case (Cons x xs)
  have len: "length (h_view (h_push x s)) \<le> h_cap (h_push x s)"
    by (simp add: push_cap push_bound)
  have "h_view (fold h_push (x # xs) s) = h_view (fold h_push xs (h_push x s))"
    by simp
  also have "\<dots> = drop (length (h_view (h_push x s)) + length xs - h_cap s) (h_view (h_push x s) @ xs)"
    using Cons.IH [OF len] by (simp add: push_cap)
  also have "\<dots> = drop (length (h_view s) + length (x # xs) - h_cap s) (h_view s @ (x # xs))"
    unfolding push_view by (rule push_bounded_step [OF Cons.prems])
  finally show ?case .
qed

end

section \<open>Comparison-driven routines of the standard library\<close>

datatype ordering = Less | Equal | Greater

text \<open>
  \<^verbatim>\<open>sort_by\<close> is a stable sort. For a comparison that is a total preorder its result is the
  only stable arrangement; it is computed here by insertion, each element going in front of
  the ones that are not strictly smaller and after the strictly smaller ones, from the right.
  For a comparison that is no total order (a NaN among the keys) Rust leaves the order open, and
  newer versions of its library may panic.
\<close>

fun insert_by :: "('a \<Rightarrow> 'a \<Rightarrow> ordering) \<Rightarrow> 'a \<Rightarrow> 'a list \<Rightarrow> 'a list" where
  "insert_by c x [] = [x]"
| "insert_by c x (y # ys) = (if c x y = Greater then y # insert_by c x ys else x # y # ys)"

definition sort_by :: "('a \<Rightarrow> 'a \<Rightarrow> ordering) \<Rightarrow> 'a list \<Rightarrow> 'a list" where
  "sort_by c xs = foldr (insert_by c) xs []"

text \<open>\<^verbatim>\<open>Iterator::max_by\<close> keeps the last of several maximal elements.\<close>

fun max_by :: "('a \<Rightarrow> 'a \<Rightarrow> ordering) \<Rightarrow> 'a list \<Rightarrow> 'a option" where
  "max_by c [] = None"
| "max_by c (x # xs) = Some (fold (\<lambda>y best. if c best y = Greater then best else y) xs x)"

lemma set_insert_by [simp]: "set (insert_by c x ys) = insert x (set ys)"
  by (induction ys) auto

lemma length_insert_by [simp]: "length (insert_by c x ys) = Suc (length ys)"
  by (induction ys) auto

lemma set_sort_by [simp]: "set (sort_by c xs) = set xs"
  by (induction xs) (auto simp: sort_by_def)

lemma length_sort_by [simp]: "length (sort_by c xs) = length xs"
  by (induction xs) (auto simp: sort_by_def)

lemma sort_by_Nil [simp]: "sort_by c [] = []"
  by (simp add: sort_by_def)

lemma sort_by_eq_Nil [simp]: "sort_by c xs = [] \<longleftrightarrow> xs = []"
  by (metis length_0_conv length_sort_by)

text \<open>
  A comparison through a key in a linear preorder \<open>le\<close>. The clients compare by a score; the
  laws are what makes the first element of the sorted list and the result of \<open>max_by\<close> extremal.
\<close>

locale key_comparison =
  fixes c :: "'a \<Rightarrow> 'a \<Rightarrow> ordering"
    and le :: "'a \<Rightarrow> 'a \<Rightarrow> bool"
    and dom_ok :: "'a \<Rightarrow> bool"
  assumes greater_iff: "dom_ok x \<Longrightarrow> dom_ok y \<Longrightarrow> c x y = Greater \<longleftrightarrow> \<not> le x y"
    and total: "dom_ok x \<Longrightarrow> dom_ok y \<Longrightarrow> le x y \<or> le y x"
    and trans: "dom_ok x \<Longrightarrow> dom_ok y \<Longrightarrow> dom_ok z \<Longrightarrow> le x y \<Longrightarrow> le y z \<Longrightarrow> le x z"
begin

lemma refl: "dom_ok x \<Longrightarrow> le x x"
  using total by blast

lemma insert_by_sorted:
  "\<forall>z \<in> insert x (set ys). dom_ok z \<Longrightarrow> sorted_wrt le ys \<Longrightarrow> sorted_wrt le (insert_by c x ys)"
proof (induction ys)
  case Nil
  then show ?case by simp
next
  case (Cons y ys)
  show ?case
  proof (cases "c x y = Greater")
    case True
    then have "le y x"
      using Cons.prems greater_iff [of x y] total [of x y] by auto
    with Cons True show ?thesis by auto
  next
    case False
    then have "le x y"
      using Cons.prems greater_iff [of x y] by auto
    have "le x z" if "z \<in> set ys" for z
      using trans [of x y z] \<open>le x y\<close> Cons.prems that by simp
    with False Cons.prems \<open>le x y\<close> show ?thesis by auto
  qed
qed

lemma sort_by_sorted: "\<forall>z \<in> set xs. dom_ok z \<Longrightarrow> sorted_wrt le (sort_by c xs)"
proof (induction xs)
  case Nil
  then show ?case by simp
next
  case (Cons x xs)
  have "set (sort_by c xs) = set xs" by simp
  with Cons show ?case
    by (auto simp: sort_by_def intro!: insert_by_sorted)
qed

lemma sort_by_hd_least:
  assumes "\<forall>z \<in> set xs. dom_ok z" and "x \<in> set xs"
  shows "le (hd (sort_by c xs)) x"
proof -
  obtain y ys where eq: "sort_by c xs = y # ys"
    using assms(2) by (metis list.exhaust list.set_intros(1) set_sort_by empty_iff list.set(1))
  have "x \<in> set (y # ys)" and "y \<in> set xs"
    using assms(2) set_sort_by [of c xs] eq by auto
  moreover have "sorted_wrt le (y # ys)"
    using sort_by_sorted [OF assms(1)] eq by simp
  ultimately show ?thesis
    using eq assms(1) refl by auto
qed

lemma max_fold_ge:
  "dom_ok b \<Longrightarrow> \<forall>z \<in> set xs. dom_ok z \<Longrightarrow>
   (let m = fold (\<lambda>y best. if c best y = Greater then best else y) xs b
    in m \<in> insert b (set xs) \<and> le b m \<and> (\<forall>z \<in> set xs. le z m))"
proof (induction xs arbitrary: b)
  case Nil
  then show ?case by (simp add: refl)
next
  case (Cons y ys)
  let ?b = "if c b y = Greater then b else y"
  have ok: "dom_ok ?b" and bb: "le b ?b" and yb: "le y ?b"
    using Cons.prems refl [of b] refl [of y] greater_iff [of b y] total [of b y] by auto
  let ?m = "fold (\<lambda>y best. if c best y = Greater then best else y) ys ?b"
  have IH: "?m \<in> insert ?b (set ys)" "le ?b ?m" "\<forall>z \<in> set ys. le z ?m"
    using Cons.IH [OF ok] Cons.prems by (auto simp: Let_def)
  have "dom_ok ?m"
    using IH(1) ok Cons.prems by auto
  then have "le b ?m" and "le y ?m"
    using trans [of b ?b ?m] trans [of y ?b ?m] bb yb IH(2) ok Cons.prems by auto
  with IH show ?case
    by (auto simp: Let_def split: if_splits)
qed

lemma max_by_in: "max_by c xs = Some m \<Longrightarrow> \<forall>z \<in> set xs. dom_ok z \<Longrightarrow> m \<in> set xs"
  using max_fold_ge by (cases xs) (auto simp: Let_def)

lemma max_by_greatest:
  "max_by c xs = Some m \<Longrightarrow> \<forall>z \<in> set xs. dom_ok z \<Longrightarrow> z \<in> set xs \<Longrightarrow> le z m"
  using max_fold_ge by (cases xs) (auto simp: Let_def)

end

lemma max_by_None [simp]: "max_by c xs = None \<longleftrightarrow> xs = []"
  by (cases xs) auto

lemma set_map_filter: "set (List.map_filter f xs) = {y. \<exists>x \<in> set xs. f x = Some y}"
  by (induction xs) (auto simp: map_filter_simps split: option.split)

lemma map_filter_snoc:
  "List.map_filter f (xs @ [x]) = List.map_filter f xs @ (case f x of None \<Rightarrow> [] | Some y \<Rightarrow> [y])"
  by (induction xs) (auto simp: map_filter_simps split: option.split)

section \<open>Fallible code\<close>

text \<open>\<open>Result<T, E>\<close> is \<open>'e + 'a\<close> with the error on the left.\<close>

type_synonym ('e, 'a) result = "'e + 'a"

abbreviation Ok :: "'a \<Rightarrow> ('e, 'a) result" where "Ok \<equiv> Inr"

abbreviation Err :: "'e \<Rightarrow> ('e, 'a) result" where "Err \<equiv> Inl"

definition is_ok :: "('e, 'a) result \<Rightarrow> bool" where
  "is_ok r = (case r of Inl _ \<Rightarrow> False | Inr _ \<Rightarrow> True)"

lemma is_ok_simps [simp]: "is_ok (Inl e) = False" "is_ok (Inr a) = True"
  by (simp_all add: is_ok_def)

end
