(* ===== verification/NF_F64.thy ===== *)
theory NF_F64
  imports Complex_Main "HOL-Library.Log_Nat" "HOL-Library.Word" NF_Prelude
begin

text \<open>
  IEEE-754 binary64, the \<open>f64\<close> of the program: finite values, the two infinities and NaN, with
  every operation rounded to nearest, ties to even (the only mode Rust uses). The rounding is
  computed, not chosen: the binade of a real is found with \<open>bitlen\<close>, and the quotient by the
  unit in the last place is rounded to an even integer on a tie.

  A finite value is a real number. Every operation yields a representable one; statements
  quantify over all reals, which covers the representable ones. The sign of zero and the sign
  of NaN are not kept; the modelled code compares values with operators that do not see them.
\<close>

named_theorems f64_simps \<open>operations and comparisons on finite doubles\<close>

section \<open>Rounding a real to a double\<close>

definition binade :: "real \<Rightarrow> int" where
  "binade x = (if 1 \<le> x then bitlen \<lfloor>x\<rfloor> - 1 else - bitlen (\<lceil>1 / x\<rceil> - 1))"

definition rne :: "real \<Rightarrow> int" where
  "rne y = (let f = \<lfloor>y\<rfloor>; d = y - of_int f
            in if d < 1 / 2 \<or> (d = 1 / 2 \<and> even f) then f else f + 1)"

definition ulp_exp :: "real \<Rightarrow> int" where
  "ulp_exp x = max (binade \<bar>x\<bar> - 52) (- 1074)"

definition rnd :: "real \<Rightarrow> real" where
  "rnd x = (if x = 0 then 0 else of_int (rne (x / 2 powi ulp_exp x)) * 2 powi ulp_exp x)"

definition max_finite_bound :: real where
  "max_finite_bound = 2 ^ 1024"

lemma pow2_int_pos [simp]: "0 < (2::real) powi e"
  by (simp add: zero_less_power_int)

lemma pow2_int_add: "(2::real) powi (a + b) = 2 powi a * 2 powi b"
  by (simp add: power_int_add)

lemma pow2_int_diff: "(2::real) powi (a - b) = 2 powi a / 2 powi b"
  by (simp add: power_int_diff)

lemma pow2_int_mono: "a \<le> b \<Longrightarrow> (2::real) powi a \<le> 2 powi b"
  by (simp add: power_int_increasing)

lemma pow2_int_less_cancel: "(2::real) powi a < 2 powi b \<Longrightarrow> a < b"
  by (metis not_less pow2_int_mono)

lemma pow2_int_le_cancel: "(2::real) powi a \<le> 2 powi b \<Longrightarrow> a \<le> b"
  by (metis linorder_not_less power_int_strict_increasing one_less_numeral_iff semiring_norm(76))

lemma pow2_int_is_int: "0 \<le> e \<Longrightarrow> (2::real) powi e = of_int (2 ^ nat e)"
  by (metis nat_0_le of_int_numeral of_int_power power_int_of_nat)

lemma bitlen_real_bounds:
  assumes "0 < n"
  shows "(2::real) powi (bitlen n - 1) \<le> of_int n" "of_int n + 1 \<le> (2::real) powi bitlen n"
proof -
  have b: "2 ^ nat (bitlen n - 1) \<le> n" "n < 2 ^ nat (bitlen n)"
    using bitlen_bounds [OF assms] by auto
  have pos: "0 < bitlen n"
    using assms bitlen_nonneg [of n] bitlen_eq_zero_iff [of n] by simp
  have "(2::real) powi (bitlen n - 1) = of_int (2 ^ nat (bitlen n - 1))"
    using pos by (intro pow2_int_is_int) simp
  with b(1) show "(2::real) powi (bitlen n - 1) \<le> of_int n"
    by (metis of_int_le_iff)
  have "n + 1 \<le> 2 ^ nat (bitlen n)"
    using b(2) by simp
  then have "(of_int (n + 1) :: real) \<le> of_int (2 ^ nat (bitlen n))"
    by (metis of_int_le_iff)
  then show "of_int n + 1 \<le> (2::real) powi bitlen n"
    using pow2_int_is_int [of "bitlen n"] bitlen_nonneg [of n] by simp
qed

lemma binade_bounds:
  assumes "0 < x"
  shows "2 powi binade x \<le> x" "x < 2 powi (binade x + 1)"
proof -
  have "2 powi binade x \<le> x \<and> x < 2 powi (binade x + 1)"
  proof (cases "1 \<le> x")
    case True
    then have n: "0 < \<lfloor>x\<rfloor>" by simp
    have "of_int \<lfloor>x\<rfloor> \<le> x" "x < of_int \<lfloor>x\<rfloor> + 1"
      by linarith+
    with bitlen_real_bounds [OF n] have "2 powi (bitlen \<lfloor>x\<rfloor> - 1) \<le> x \<and> x < 2 powi bitlen \<lfloor>x\<rfloor>"
      by linarith
    with True show ?thesis
      by (simp add: binade_def)
  next
    case False
    with assms have y: "1 < 1 / x" by simp
    then have m: "0 < \<lceil>1 / x\<rceil> - 1" by linarith
    have c: "of_int (\<lceil>1 / x\<rceil> - 1) < 1 / x" "1 / x \<le> of_int (\<lceil>1 / x\<rceil> - 1) + 1"
      by linarith+
    let ?b = "bitlen (\<lceil>1 / x\<rceil> - 1)"
    have lo: "2 powi (?b - 1) < 1 / x" and hi: "1 / x \<le> 2 powi ?b"
      using bitlen_real_bounds [OF m] c by linarith+
    have "2 powi (- ?b) \<le> x"
      using hi assms by (simp add: power_int_minus field_simps)
    moreover have "x < 2 powi (- ?b + 1)"
    proof -
      have "2 powi (?b - 1) * x < 1"
        using lo assms by (simp add: field_simps)
      moreover have "(2::real) powi (?b - 1) * 2 powi (- ?b + 1) = 1"
        by (simp flip: pow2_int_add)
      ultimately show ?thesis
        by (metis mult_less_cancel_left_pos pow2_int_pos)
    qed
    ultimately show ?thesis
      using False by (simp add: binade_def)
  qed
  then show "2 powi binade x \<le> x" "x < 2 powi (binade x + 1)" by auto
qed

lemma binade_mono: "0 < x \<Longrightarrow> x \<le> y \<Longrightarrow> binade x \<le> binade y"
  using binade_bounds [of x] binade_bounds [of y] pow2_int_less_cancel [of "binade x" "binade y + 1"]
  by simp

lemma rne_of_int [simp]: "rne (of_int n) = n"
  by (simp add: rne_def)

lemma rne_floor_or: "rne y = \<lfloor>y\<rfloor> \<or> rne y = \<lfloor>y\<rfloor> + 1"
  by (auto simp: rne_def Let_def)

lemma rne_mono:
  assumes "x \<le> y"
  shows "rne x \<le> rne y"
proof (cases "\<lfloor>x\<rfloor> = \<lfloor>y\<rfloor>")
  case True
  with assms show ?thesis by (auto simp: rne_def Let_def)
next
  case False
  with assms have "\<lfloor>x\<rfloor> + 1 \<le> \<lfloor>y\<rfloor>"
    using floor_mono [OF assms] by linarith
  with rne_floor_or [of x] rne_floor_or [of y] show ?thesis by linarith
qed

lemma rne_minus: "rne (- y) = - rne y"
proof (cases "y = of_int \<lfloor>y\<rfloor>")
  case True
  then have "- y = of_int (- \<lfloor>y\<rfloor>)" by simp
  then show ?thesis by (metis True rne_of_int)
next
  case False
  then have f: "\<lfloor>- y\<rfloor> = - \<lfloor>y\<rfloor> - 1"
    by linarith
  show ?thesis
    unfolding rne_def Let_def f by (auto simp: field_simps)
qed

lemma rne_error: "\<bar>of_int (rne y) - y\<bar> \<le> 1 / 2"
  unfolding rne_def Let_def by (auto split: if_splits)

section \<open>Laws of the rounding\<close>

lemma binade_ge: "2 powi k \<le> x \<Longrightarrow> k \<le> binade x"
  using binade_bounds [of x] pow2_int_less_cancel [of k "binade x + 1"] pow2_int_pos [of k]
  by (smt (verit))

lemma rnd_0 [simp]: "rnd 0 = 0"
  by (simp add: rnd_def)

lemma ulp_exp_minus [simp]: "ulp_exp (- x) = ulp_exp x"
  by (simp add: ulp_exp_def)

lemma rnd_minus: "rnd (- x) = - rnd x"
  using rne_minus [of "x / 2 powi ulp_exp x"] by (simp add: rnd_def)

text \<open>Multiples of the unit in the last place, and of any finer power, are kept.\<close>

lemma rnd_grid: "x = of_int n * 2 powi ulp_exp x \<Longrightarrow> rnd x = x"
proof -
  assume x: "x = of_int n * 2 powi ulp_exp x"
  then have "x / 2 powi ulp_exp x = of_int n"
    by (metis nonzero_mult_div_cancel_right order_less_irrefl pow2_int_pos)
  then show ?thesis
    using x by (simp add: rnd_def)
qed

lemma ulp_exp_mono: "0 < x \<Longrightarrow> x \<le> y \<Longrightarrow> ulp_exp x \<le> ulp_exp y"
  using binade_mono [of x y] by (simp add: ulp_exp_def)

text \<open>A power of two that is a multiple of the unit of \<open>x\<close> bounds the rounding of \<open>x\<close>.\<close>

lemma rnd_le_pow2:
  assumes "0 < x" "x \<le> 2 powi k" "ulp_exp x \<le> k"
  shows "rnd x \<le> 2 powi k"
proof -
  let ?e = "ulp_exp x"
  have q: "(2::real) powi k = of_int (2 ^ nat (k - ?e)) * 2 powi ?e"
    using assms(3) pow2_int_is_int [of "k - ?e"] by (metis diff_add_cancel diff_ge_0_iff_ge pow2_int_add)
  have "x / 2 powi ?e \<le> of_int (2 ^ nat (k - ?e))"
    using assms(2) unfolding q by (simp add: field_simps)
  then have "rne (x / 2 powi ?e) \<le> 2 ^ nat (k - ?e)"
    by (metis rne_mono rne_of_int)
  then have "of_int (rne (x / 2 powi ?e)) \<le> (of_int (2 ^ nat (k - ?e)) :: real)"
    by (metis of_int_le_iff)
  then show ?thesis
    using assms(1) unfolding rnd_def q by (simp add: mult_right_mono)
qed

lemma rnd_ge_pow2:
  assumes "2 powi k \<le> x" "ulp_exp x \<le> k"
  shows "2 powi k \<le> rnd x"
proof -
  let ?e = "ulp_exp x"
  have pos: "0 < x" using assms(1) pow2_int_pos [of k] by linarith
  have q: "(2::real) powi k = of_int (2 ^ nat (k - ?e)) * 2 powi ?e"
    using assms(2) pow2_int_is_int [of "k - ?e"] by (metis diff_add_cancel diff_ge_0_iff_ge pow2_int_add)
  have "of_int (2 ^ nat (k - ?e)) \<le> x / 2 powi ?e"
    using assms(1) unfolding q by (simp add: field_simps)
  then have "2 ^ nat (k - ?e) \<le> rne (x / 2 powi ?e)"
    by (metis rne_mono rne_of_int)
  then have "(of_int (2 ^ nat (k - ?e)) :: real) \<le> of_int (rne (x / 2 powi ?e))"
    by (metis of_int_le_iff)
  then show ?thesis
    using pos unfolding rnd_def q by (simp add: mult_right_mono)
qed

lemma rnd_nonneg: "0 \<le> x \<Longrightarrow> 0 \<le> rnd x"
proof -
  assume "0 \<le> x"
  then have "rne 0 \<le> rne (x / 2 powi ulp_exp x)"
    by (intro rne_mono) (simp add: pow2_int_pos order.strict_implies_order)
  then have "0 \<le> rne (x / 2 powi ulp_exp x)"
    using rne_of_int [of 0] by simp
  then show ?thesis by (simp add: rnd_def order.strict_implies_order)
qed

lemma rnd_mono_pos:
  assumes "0 < x" "x \<le> y"
  shows "rnd x \<le> rnd y"
proof (cases "ulp_exp x = ulp_exp y")
  case True
  have "x / 2 powi ulp_exp y \<le> y / 2 powi ulp_exp y"
    using assms(2) by (simp add: divide_right_mono order.strict_implies_order)
  then have "(of_int (rne (x / 2 powi ulp_exp y)) :: real) \<le> of_int (rne (y / 2 powi ulp_exp y))"
    using rne_mono by simp
  with True assms show ?thesis by (simp add: rnd_def mult_right_mono)
next
  case False
  then have less: "ulp_exp x < ulp_exp y"
    using ulp_exp_mono [OF assms] by simp
  then have e: "ulp_exp y = binade y - 52" and b: "binade x < binade y"
    using assms binade_mono [of x y] by (auto simp: ulp_exp_def)
  have "x < 2 powi (binade x + 1)"
    using binade_bounds [of x] assms by simp
  also have "\<dots> \<le> 2 powi binade y"
    using b by (intro pow2_int_mono) simp
  finally have "rnd x \<le> 2 powi binade y"
    using assms(1) less e by (intro rnd_le_pow2) auto
  also have "\<dots> \<le> rnd y"
    using binade_bounds [of y] assms e by (intro rnd_ge_pow2) auto
  finally show ?thesis .
qed

lemma rnd_mono: "x \<le> y \<Longrightarrow> rnd x \<le> rnd y"
proof -
  assume le: "x \<le> y"
  consider "0 < x" | "x \<le> 0" "0 \<le> y" | "y < 0" by linarith
  then show ?thesis
  proof cases
    case 1
    with le show ?thesis by (rule rnd_mono_pos [rotated 1])
  next
    case 2
    then have "0 \<le> rnd (- x)" and "0 \<le> rnd y"
      by (auto intro: rnd_nonneg)
    then show ?thesis by (simp add: rnd_minus)
  next
    case 3
    with le have "rnd (- y) \<le> rnd (- x)"
      by (intro rnd_mono_pos) auto
    then show ?thesis by (simp add: rnd_minus)
  qed
qed

text \<open>
  The representable values: an integer of at most 53 bits times a power of two that is no
  smaller than the least subnormal.
\<close>

lemma rnd_exact_inside:
  assumes "x = of_int m * 2 powi k" "m \<noteq> 0" "\<bar>m\<bar> < 2 ^ 53" "- 1074 \<le> k"
  shows "rnd x = x"
proof -
  have ax: "\<bar>x\<bar> = of_int \<bar>m\<bar> * 2 powi k"
    using assms(1) by (simp add: abs_mult order.strict_implies_order)
  have pos: "0 < \<bar>x\<bar>"
    using assms(2) ax by simp
  have "(of_int \<bar>m\<bar> :: real) < of_int (2 ^ 53)"
    using assms(3) by (simp only: of_int_less_iff)
  then have "\<bar>x\<bar> < 2 ^ 53 * 2 powi k"
    unfolding ax by (intro mult_strict_right_mono) simp_all
  then have "\<bar>x\<bar> < 2 powi (53 + k)"
    by (simp add: power_int_add)
  then have "binade \<bar>x\<bar> < 53 + k"
    using binade_bounds(1) [OF pos] pow2_int_less_cancel [of "binade \<bar>x\<bar>" "53 + k"] by linarith
  then have u: "ulp_exp x \<le> k"
    using assms(4) by (simp add: ulp_exp_def)
  have "x = of_int (m * 2 ^ nat (k - ulp_exp x)) * 2 powi ulp_exp x"
    using assms(1) u pow2_int_is_int [of "k - ulp_exp x"]
    by (metis (no_types, lifting) diff_add_cancel diff_ge_0_iff_ge mult.assoc of_int_mult pow2_int_add)
  then show ?thesis by (rule rnd_grid)
qed

text \<open>A power of two is on the grid of its own binade.\<close>

lemma rnd_exact_power:
  assumes "x = of_int c * 2 powi e" "\<bar>c\<bar> = 1" "- 1021 \<le> e"
  shows "rnd x = x"
proof -
  have ax: "\<bar>x\<bar> = 2 powi e"
    using assms(1,2) by (simp add: abs_mult flip: of_int_abs)
  have pos: "0 < \<bar>x\<bar>" unfolding ax by simp
  have "binade \<bar>x\<bar> \<le> e"
    using binade_bounds(1) [OF pos] unfolding ax by (rule pow2_int_le_cancel)
  then have u: "ulp_exp x \<le> e"
    using assms(3) by (simp add: ulp_exp_def)
  have "x = of_int (c * 2 ^ nat (e - ulp_exp x)) * 2 powi ulp_exp x"
    using assms(1) u pow2_int_is_int [of "e - ulp_exp x"]
    by (metis (no_types, lifting) diff_add_cancel diff_ge_0_iff_ge mult.assoc of_int_mult pow2_int_add)
  then show ?thesis by (rule rnd_grid)
qed

lemma rnd_exact:
  assumes "x = of_int m * 2 powi k" "\<bar>m\<bar> \<le> 2 ^ 53" "- 1074 \<le> k"
  shows "rnd x = x"
proof (cases "m = 0 \<or> \<bar>m\<bar> = 2 ^ 53")
  case False
  with assms show ?thesis by (intro rnd_exact_inside [of x m k]) auto
next
  case True
  show ?thesis
  proof (cases "m = 0")
    case True
    with assms show ?thesis by simp
  next
    case False
    with True have "m = sgn m * 2 ^ 53"
      by (metis mult_sgn_abs)
    with assms(1) have "x = of_int (sgn m) * 2 powi (53 + k)"
      by (metis (no_types, lifting) mult.assoc of_int_mult of_int_numeral of_int_power pow2_int_add power_int_numeral)
    then show ?thesis
      by (rule rnd_exact_power) (use False assms(3) in \<open>simp_all add: abs_sgn_eq\<close>)
  qed
qed

lemma rnd_int [simp]: "\<bar>n\<bar> \<le> 2 ^ 53 \<Longrightarrow> rnd (of_int n) = of_int n"
  by (rule rnd_exact [of _ n 0]) auto

lemma rnd_nat: "n \<le> 2 ^ 53 \<Longrightarrow> rnd (of_nat n) = of_nat n"
  using rnd_int [of "int n"] by simp

lemma rnd_numeral [simp]: "(numeral k :: int) \<le> 2 ^ 53 \<Longrightarrow> rnd (numeral k) = numeral k"
  using rnd_int [of "numeral k"] by simp

lemma rnd_1 [simp]: "rnd 1 = 1"
  using rnd_int [of 1] by simp

lemma rnd_le_int: "x \<le> of_int n \<Longrightarrow> \<bar>n\<bar> \<le> 2 ^ 53 \<Longrightarrow> rnd x \<le> of_int n"
  by (metis rnd_int rnd_mono)

lemma rnd_ge_int: "of_int n \<le> x \<Longrightarrow> \<bar>n\<bar> \<le> 2 ^ 53 \<Longrightarrow> of_int n \<le> rnd x"
  by (metis rnd_int rnd_mono)

lemma rnd_le_numeral: "x \<le> numeral k \<Longrightarrow> (numeral k :: int) \<le> 2 ^ 53 \<Longrightarrow> rnd x \<le> numeral k"
  by (metis rnd_numeral rnd_mono)

lemma rnd_le_1: "x \<le> 1 \<Longrightarrow> rnd x \<le> 1"
  by (metis rnd_1 rnd_mono)

lemma rnd_nonpos: "x \<le> 0 \<Longrightarrow> rnd x \<le> 0"
  by (metis rnd_0 rnd_mono)

section \<open>Doubles\<close>

datatype f64 = Fin real | PInf | NInf | NaN

text \<open>Round a real and overflow to an infinity.\<close>

definition fl :: "real \<Rightarrow> f64" where
  "fl x = (let r = rnd x in
     if 2 ^ 1024 \<le> r then PInf else if r \<le> - (2 ^ 1024) then NInf else Fin r)"

definition is_nan :: "f64 \<Rightarrow> bool" where
  "is_nan a \<longleftrightarrow> a = NaN"

definition is_finite :: "f64 \<Rightarrow> bool" where
  "is_finite a \<longleftrightarrow> (case a of Fin _ \<Rightarrow> True | _ \<Rightarrow> False)"

instantiation f64 :: "{zero, one, plus, minus, uminus, times, divide, ord}"
begin

definition zero_f64 :: f64 where "0 = Fin 0"

definition one_f64 :: f64 where "1 = Fin 1"

fun uminus_f64 :: "f64 \<Rightarrow> f64" where
  "- (Fin a) = Fin (- a)"
| "- PInf = NInf"
| "- NInf = PInf"
| "- NaN = NaN"

fun plus_f64 :: "f64 \<Rightarrow> f64 \<Rightarrow> f64" where
  "Fin a + Fin b = fl (a + b)"
| "NaN + y = NaN"
| "x + NaN = NaN"
| "PInf + NInf = NaN"
| "NInf + PInf = NaN"
| "PInf + y = PInf"
| "NInf + y = NInf"
| "x + PInf = PInf"
| "x + NInf = NInf"

definition minus_f64 :: "f64 \<Rightarrow> f64 \<Rightarrow> f64" where
  "x - y = x + (- y :: f64)"

fun times_f64 :: "f64 \<Rightarrow> f64 \<Rightarrow> f64" where
  "Fin a * Fin b = fl (a * b)"
| "NaN * y = NaN"
| "x * NaN = NaN"
| "PInf * PInf = PInf"
| "PInf * NInf = NInf"
| "NInf * PInf = NInf"
| "NInf * NInf = PInf"
| "PInf * Fin b = (if b = 0 then NaN else if 0 < b then PInf else NInf)"
| "NInf * Fin b = (if b = 0 then NaN else if 0 < b then NInf else PInf)"
| "Fin a * PInf = (if a = 0 then NaN else if 0 < a then PInf else NInf)"
| "Fin a * NInf = (if a = 0 then NaN else if 0 < a then NInf else PInf)"

text \<open>Division by a zero of positive sign; the code divides by no negative zero.\<close>

fun divide_f64 :: "f64 \<Rightarrow> f64 \<Rightarrow> f64" where
  "divide (Fin a) (Fin b) =
     (if b = 0 then (if a = 0 then NaN else if 0 < a then PInf else NInf) else fl (a / b))"
| "divide NaN y = NaN"
| "divide x NaN = NaN"
| "divide PInf (Fin b) = (if 0 \<le> b then PInf else NInf)"
| "divide NInf (Fin b) = (if 0 \<le> b then NInf else PInf)"
| "divide (Fin a) PInf = Fin 0"
| "divide (Fin a) NInf = Fin 0"
| "divide x y = NaN"

text \<open>Comparisons with NaN are false.\<close>

fun less_eq_f64 :: "f64 \<Rightarrow> f64 \<Rightarrow> bool" where
  "Fin a \<le> Fin b \<longleftrightarrow> a \<le> b"
| "NaN \<le> y \<longleftrightarrow> False"
| "x \<le> NaN \<longleftrightarrow> False"
| "NInf \<le> y \<longleftrightarrow> True"
| "x \<le> PInf \<longleftrightarrow> True"
| "(x :: f64) \<le> y \<longleftrightarrow> False"

fun less_f64 :: "f64 \<Rightarrow> f64 \<Rightarrow> bool" where
  "Fin a < Fin b \<longleftrightarrow> a < b"
| "NaN < y \<longleftrightarrow> False"
| "x < NaN \<longleftrightarrow> False"
| "NInf < NInf \<longleftrightarrow> False"
| "NInf < y \<longleftrightarrow> True"
| "PInf < y \<longleftrightarrow> False"
| "x < PInf \<longleftrightarrow> True"
| "(x :: f64) < y \<longleftrightarrow> False"

instance ..

end

text \<open>The operator \<^verbatim>\<open>==\<close> of the code: NaN is different from everything, itself included.\<close>

definition feq :: "f64 \<Rightarrow> f64 \<Rightarrow> bool" where
  "feq x y \<longleftrightarrow> x \<noteq> NaN \<and> x = y"

section \<open>The methods of \<open>f64\<close> the code uses\<close>

fun f_abs :: "f64 \<Rightarrow> f64" where
  "f_abs (Fin a) = Fin \<bar>a\<bar>"
| "f_abs PInf = PInf"
| "f_abs NInf = PInf"
| "f_abs NaN = NaN"

text \<open>\<^verbatim>\<open>min\<close> and \<^verbatim>\<open>max\<close> return the other operand when one is NaN.\<close>

definition f_min :: "f64 \<Rightarrow> f64 \<Rightarrow> f64" where
  "f_min x y = (if x = NaN then y else if y = NaN then x else if y < x then y else x)"

definition f_max :: "f64 \<Rightarrow> f64 \<Rightarrow> f64" where
  "f_max x y = (if x = NaN then y else if y = NaN then x else if x < y then y else x)"

definition f_clamp :: "f64 \<Rightarrow> f64 \<Rightarrow> f64 \<Rightarrow> f64" where
  "f_clamp x lo hi = (if x < lo then lo else if hi < x then hi else x)"

fun f_sqrt :: "f64 \<Rightarrow> f64" where
  "f_sqrt (Fin a) = (if a < 0 then NaN else fl (sqrt a))"
| "f_sqrt PInf = PInf"
| "f_sqrt NInf = NaN"
| "f_sqrt NaN = NaN"

text \<open>\<^verbatim>\<open>powi(2)\<close>.\<close>

definition f_square :: "f64 \<Rightarrow> f64" where
  "f_square x = x * x"

text \<open>\<^verbatim>\<open>round\<close> goes away from zero on a tie; \<^verbatim>\<open>floor\<close> and \<^verbatim>\<open>ceil\<close> are exact.\<close>

fun f_round :: "f64 \<Rightarrow> f64" where
  "f_round (Fin a) = Fin (of_int (if 0 \<le> a then \<lfloor>a + 1 / 2\<rfloor> else - \<lfloor>- a + 1 / 2\<rfloor>))"
| "f_round x = x"

fun f_floor :: "f64 \<Rightarrow> f64" where
  "f_floor (Fin a) = Fin (of_int \<lfloor>a\<rfloor>)"
| "f_floor x = x"

fun f_ceil :: "f64 \<Rightarrow> f64" where
  "f_ceil (Fin a) = Fin (of_int \<lceil>a\<rceil>)"
| "f_ceil x = x"

text \<open>\<^verbatim>\<open>as uN\<close>: truncation towards zero, saturating, NaN to 0. The bound is \<open>2^N - 1\<close>.\<close>

fun f_as_uint :: "nat \<Rightarrow> f64 \<Rightarrow> nat" where
  "f_as_uint m (Fin a) = min m (nat \<lfloor>a\<rfloor>)"
| "f_as_uint m PInf = m"
| "f_as_uint m NInf = 0"
| "f_as_uint m NaN = 0"

text \<open>Integers into doubles: rounded, so exact up to \<open>2^53\<close>.\<close>

definition f_of_nat :: "nat \<Rightarrow> f64" where
  "f_of_nat n = fl (of_nat n)"

definition f_of_int :: "int \<Rightarrow> f64" where
  "f_of_int n = fl (of_int n)"

text \<open>\<^verbatim>\<open>iter().sum()\<close>: from the left, each partial sum rounded.\<close>

definition f_sum :: "f64 list \<Rightarrow> f64" where
  "f_sum xs = foldl (+) 0 xs"

text \<open>\<^verbatim>\<open>partial_cmp\<close> with the \<^verbatim>\<open>unwrap_or(Equal)\<close> of the code, and \<^verbatim>\<open>total_cmp\<close>.\<close>

definition f_partial_cmp :: "f64 \<Rightarrow> f64 \<Rightarrow> ordering" where
  "f_partial_cmp x y = (if x < y then Less else if y < x then Greater else Equal)"

definition f_total_cmp :: "f64 \<Rightarrow> f64 \<Rightarrow> ordering" where
  "f_total_cmp x y =
     (if x = y then Equal
      else if y = NaN then Less
      else if x = NaN then Greater
      else if x < y then Less else Greater)"

section \<open>Laws of the operations\<close>

lemma f64_arith [f64_simps]:
  "Fin a + Fin b = fl (a + b)" "Fin a * Fin b = fl (a * b)" "Fin a - Fin b = fl (a - b)"
  "b \<noteq> 0 \<Longrightarrow> divide (Fin a) (Fin b) = fl (a / b)"
  by (simp_all add: minus_f64_def)

lemma f64_consts [f64_simps]: "(0::f64) = Fin 0" "(1::f64) = Fin 1"
  by (simp_all add: zero_f64_def one_f64_def)

lemma feq_Fin [simp]: "feq (Fin a) (Fin b) \<longleftrightarrow> a = b"
  by (simp add: feq_def)

lemma fl_Fin: "\<bar>rnd x\<bar> < 2 ^ 1024 \<Longrightarrow> fl x = Fin (rnd x)"
  by (auto simp: fl_def Let_def)

lemma fl_cases: "fl x = PInf \<or> fl x = NInf \<or> fl x = Fin (rnd x)"
  by (auto simp: fl_def Let_def)

lemma fl_not_nan [simp]: "fl x \<noteq> NaN"
  by (auto simp: fl_def Let_def)

lemma fl_bounded:
  assumes "\<bar>x\<bar> \<le> 2 ^ 1000"
  shows "fl x = Fin (rnd x)" "\<bar>rnd x\<bar> \<le> 2 ^ 1000"
proof -
  have top: "rnd (2 ^ 1000) = 2 ^ 1000"
    by (rule rnd_exact [of _ 1 1000]) auto
  have "rnd x \<le> 2 ^ 1000" and "rnd (- x) \<le> 2 ^ 1000"
    using assms rnd_mono [of x "2 ^ 1000"] rnd_mono [of "- x" "2 ^ 1000"] unfolding top by auto
  then show b: "\<bar>rnd x\<bar> \<le> 2 ^ 1000"
    by (simp add: rnd_minus abs_le_iff)
  have "(2::real) ^ 1000 < 2 ^ 1024" by (rule power_strict_increasing) auto
  with b show "fl x = Fin (rnd x)"
    by (intro fl_Fin) linarith
qed

lemma fl_small:
  assumes "\<bar>x\<bar> \<le> 2 ^ 53"
  shows "fl x = Fin (rnd x)"
proof -
  have "(2::real) ^ 53 \<le> 2 ^ 1000" by (rule power_increasing) auto
  with assms show ?thesis by (intro fl_bounded(1)) linarith
qed

lemma fl_in_range:
  assumes "of_int lo \<le> x" "x \<le> of_int hi" "- (2 ^ 53) \<le> lo" "hi \<le> 2 ^ 53"
  shows "fl x = Fin (rnd x)" "of_int lo \<le> rnd x" "rnd x \<le> of_int hi"
proof -
  have b: "(of_int lo :: real) \<le> of_int hi" using assms(1,2) by linarith
  then have lh: "lo \<le> hi" by simp
  have "of_int (- (2 ^ 53)) \<le> (of_int lo :: real)" "(of_int hi :: real) \<le> of_int (2 ^ 53)"
    using assms(3,4) by (simp_all only: of_int_le_iff)
  then have "- (2 ^ 53) \<le> (of_int lo :: real)" "(of_int hi :: real) \<le> 2 ^ 53"
    by simp_all
  with assms(1,2) have "\<bar>x\<bar> \<le> 2 ^ 53" by linarith
  then show "fl x = Fin (rnd x)" by (rule fl_small)
  show "of_int lo \<le> rnd x" "rnd x \<le> of_int hi"
    using assms lh by (auto intro!: rnd_ge_int rnd_le_int)
qed

text \<open>The absolute error of a rounding, by the binade of its argument.\<close>

lemma rnd_abs_error:
  assumes "\<bar>x\<bar> < 2 powi (k + 1)" "- 1022 \<le> k"
  shows "\<bar>rnd x - x\<bar> \<le> 2 powi (k - 53)"
proof (cases "x = 0")
  case True
  then show ?thesis by (simp add: order.strict_implies_order)
next
  case False
  let ?e = "ulp_exp x"
  have "binade \<bar>x\<bar> < k + 1"
    using binade_bounds(1) [of "\<bar>x\<bar>"] False assms(1)
      pow2_int_less_cancel [of "binade \<bar>x\<bar>" "k + 1"] by linarith
  then have e: "?e \<le> k - 52"
    using assms(2) by (simp add: ulp_exp_def)
  have "rnd x - x = (of_int (rne (x / 2 powi ?e)) - x / 2 powi ?e) * 2 powi ?e"
    using False by (simp add: rnd_def left_diff_distrib)
  then have "\<bar>rnd x - x\<bar> = \<bar>of_int (rne (x / 2 powi ?e)) - x / 2 powi ?e\<bar> * 2 powi ?e"
    by (simp add: abs_mult order.strict_implies_order)
  also have "\<dots> \<le> 1 / 2 * 2 powi ?e"
    using rne_error by (intro mult_right_mono) (auto simp: order.strict_implies_order)
  also have "\<dots> \<le> 1 / 2 * 2 powi (k - 52)"
    using e by (intro mult_left_mono pow2_int_mono) auto
  also have "\<dots> = 2 powi (k - 53)"
    using pow2_int_add [of "k - 53" 1] by simp
  finally show ?thesis .
qed

lemma fl_exact:
  assumes "x = of_int m * 2 powi k" "\<bar>m\<bar> \<le> 2 ^ 53" "- 1074 \<le> k" "k \<le> 900"
  shows "fl x = Fin x"
proof -
  have "\<bar>x\<bar> = of_int \<bar>m\<bar> * 2 powi k"
    using assms(1) by (simp add: abs_mult order.strict_implies_order)
  also have "\<dots> \<le> of_int (2 ^ 53) * 2 powi 900"
    using assms(2,4) by (intro mult_mono pow2_int_mono) (auto simp: order.strict_implies_order)
  also have "\<dots> \<le> (2::real) ^ 1000"
    by (simp flip: power_add) 
  finally show ?thesis
    using fl_bounded(1) [of x] rnd_exact [OF assms(1-3)] by simp
qed

lemma fl_int: "\<bar>n\<bar> \<le> 2 ^ 53 \<Longrightarrow> fl (of_int n) = Fin (of_int n)"
  by (rule fl_exact [of _ n 0]) auto

lemma fl_of_nat: "n \<le> 2 ^ 53 \<Longrightarrow> fl (of_nat n) = Fin (of_nat n)"
  using fl_int [of "int n"] by simp

lemma fl_numeral [simp]: "(numeral k :: int) \<le> 2 ^ 53 \<Longrightarrow> fl (numeral k) = Fin (numeral k)"
  using fl_int [of "numeral k"] by simp

lemma fl_neg_numeral [simp]: "(numeral k :: int) \<le> 2 ^ 53 \<Longrightarrow> fl (- numeral k) = Fin (- numeral k)"
  using fl_int [of "- numeral k"] by simp

lemma fl_0 [simp]: "fl 0 = Fin 0" and fl_1 [simp]: "fl 1 = Fin 1"
  using fl_int [of 0] fl_int [of 1] by simp_all

lemma f_of_nat_small: "n \<le> 2 ^ 53 \<Longrightarrow> f_of_nat n = Fin (of_nat n)"
  by (simp add: f_of_nat_def fl_of_nat)

lemma fl_half_numeral [simp]:
  assumes "(numeral k :: int) \<le> 2 ^ 53"
  shows "fl (numeral k / 2) = Fin (numeral k / 2)"
proof (rule fl_exact [of _ "numeral k" "- 1"])
  show "numeral k / 2 = (of_int (numeral k) * 2 powi - 1 :: real)"
    by (simp add: power_int_minus field_simps)
qed (use assms in auto)

lemma fl_quarter_numeral [simp]:
  assumes "(numeral k :: int) \<le> 2 ^ 53"
  shows "fl (numeral k / 4) = Fin (numeral k / 4)"
proof (rule fl_exact [of _ "numeral k" "- 2"])
  show "numeral k / 4 = (of_int (numeral k) * 2 powi - 2 :: real)"
    by (simp add: power_int_minus field_simps)
qed (use assms in auto)

text \<open>
  A certificate for the rounding of a concrete real: its binade and the nearest integer
  multiple of the unit.
\<close>

lemma rnd_eqI:
  assumes "2 powi k \<le> x" "x < 2 powi (k + 1)" "e = max (k - 52) (- 1074)"
    and "\<bar>x / 2 powi e - of_int n\<bar> < 1 / 2"
  shows "rnd x = of_int n * 2 powi e"
proof -
  have pos: "0 < x"
    using assms(1) pow2_int_pos [of k] by linarith
  have "binade x = k"
    using binade_bounds [OF pos] binade_ge [OF assms(1)] assms(2)
      pow2_int_less_cancel [of "binade x" "k + 1"] by linarith
  then have e: "ulp_exp x = e"
    using pos assms(3) by (simp add: ulp_exp_def)
  have "\<bar>of_int (rne (x / 2 powi e)) - (of_int n :: real)\<bar> < 1"
    using rne_error [of "x / 2 powi e"] assms(4) by linarith
  then have "rne (x / 2 powi e) = n" by linarith
  then show ?thesis
    using pos e by (simp add: rnd_def)
qed

subsection \<open>Order\<close>

lemma f64_le_refl: "x \<noteq> NaN \<Longrightarrow> (x::f64) \<le> x"
  by (cases x) auto

lemma f64_le_total: "x \<noteq> NaN \<Longrightarrow> y \<noteq> NaN \<Longrightarrow> (x::f64) \<le> y \<or> y \<le> x"
  by (cases x; cases y) auto

lemma f64_le_trans: "(x::f64) \<le> y \<Longrightarrow> y \<le> z \<Longrightarrow> x \<le> z"
  by (cases x; cases y; cases z) auto

lemma f64_le_antisym: "(x::f64) \<le> y \<Longrightarrow> y \<le> x \<Longrightarrow> x = y"
  by (cases x; cases y) auto

lemma f64_not_le: "x \<noteq> NaN \<Longrightarrow> y \<noteq> NaN \<Longrightarrow> \<not> (x::f64) \<le> y \<longleftrightarrow> y < x"
  by (cases x; cases y) auto

lemma f64_not_less: "x \<noteq> NaN \<Longrightarrow> y \<noteq> NaN \<Longrightarrow> \<not> (x::f64) < y \<longleftrightarrow> y \<le> x"
  by (cases x; cases y) auto

lemma f64_less_imp_le: "(x::f64) < y \<Longrightarrow> x \<le> y"
  by (cases x; cases y) auto

lemma f64_le_less_trans: "(x::f64) \<le> y \<Longrightarrow> y < z \<Longrightarrow> x < z"
  by (cases x; cases y; cases z) auto

lemma f64_less_le_trans: "(x::f64) < y \<Longrightarrow> y \<le> z \<Longrightarrow> x < z"
  by (cases x; cases y; cases z) auto

lemma f64_less_irrefl [simp]: "\<not> (x::f64) < x"
  by (cases x) auto

lemma f64_le_not_nan: "(x::f64) \<le> y \<Longrightarrow> x \<noteq> NaN \<and> y \<noteq> NaN"
  by (cases x; cases y) auto

lemma f64_less_not_nan: "(x::f64) < y \<Longrightarrow> x \<noteq> NaN \<and> y \<noteq> NaN"
  by (cases x; cases y) auto

lemma f64_nan_compare [simp]:
  "\<not> NaN \<le> (x::f64)" "\<not> (x::f64) \<le> NaN" "\<not> NaN < (x::f64)" "\<not> (x::f64) < NaN"
  by (cases x; simp)+

lemma f64_nan_arith [simp]:
  "NaN + x = (NaN::f64)" "x + NaN = (NaN::f64)" "NaN * x = (NaN::f64)" "x * NaN = (NaN::f64)"
  "NaN - x = (NaN::f64)" "x - NaN = (NaN::f64)" "divide NaN x = (NaN::f64)" "divide x NaN = (NaN::f64)"
  by (cases x; simp add: minus_f64_def)+

lemma f64_between: "Fin a \<le> x \<Longrightarrow> x \<le> Fin b \<Longrightarrow> \<exists>r. x = Fin r \<and> a \<le> r \<and> r \<le> b"
  by (cases x) auto

lemma fl_mono: "x \<le> y \<Longrightarrow> fl x \<le> fl y"
  using rnd_mono [of x y] by (auto simp: fl_def Let_def)

text \<open>The comparison of the code's sorts, on keys that are numbers.\<close>

lemma f_partial_cmp_greater:
  "x \<noteq> NaN \<Longrightarrow> y \<noteq> NaN \<Longrightarrow> f_partial_cmp x y = Greater \<longleftrightarrow> \<not> x \<le> y"
  by (cases x; cases y) (auto simp: f_partial_cmp_def)

interpretation f_cmp: key_comparison f_partial_cmp "(\<le>)" "\<lambda>x. x \<noteq> NaN"
  by unfold_locales (auto simp: f_partial_cmp_greater dest: f64_le_total f64_le_trans)

interpretation f_cmp_desc: key_comparison "\<lambda>x y. f_partial_cmp y x" "\<lambda>x y. y \<le> x" "\<lambda>x. x \<noteq> NaN"
  by unfold_locales (use f_cmp.greater_iff f_cmp.total f_cmp.trans in blast)+

subsection \<open>Clamping\<close>

lemma f_clamp_range:
  "x \<noteq> NaN \<Longrightarrow> lo \<le> hi \<Longrightarrow> \<exists>r. f_clamp x (Fin lo) (Fin hi) = Fin r \<and> lo \<le> r \<and> r \<le> hi"
  by (cases x) (auto simp: f_clamp_def)

lemma f_clamp_nan [simp]: "f_clamp NaN lo hi = NaN"
  by (simp add: f_clamp_def)

lemma f_clamp_id: "lo \<le> r \<Longrightarrow> r \<le> hi \<Longrightarrow> f_clamp (Fin r) (Fin lo) (Fin hi) = Fin r"
  by (simp add: f_clamp_def)

lemma f_clamp_mono:
  "x \<le> y \<Longrightarrow> lo \<le> hi \<Longrightarrow> f_clamp x (Fin lo) (Fin hi) \<le> f_clamp y (Fin lo) (Fin hi)"
  by (cases x; cases y) (auto simp: f_clamp_def)

end
