(* ===== verification/NF_Strings.thy ===== *)
theory NF_Strings
  imports NF_F64 "HOL-Library.Sublist"
begin

text \<open>
  The string methods and the number parsing and printing of the Rust standard library that
  the program uses. A string is its list of bytes; the white space of \<open>trim\<close> and
  \<open>split_whitespace\<close> is the ASCII one, which is all that the tools whose output is parsed
  print.
\<close>

section \<open>Slices\<close>

definition is_ws :: "char \<Rightarrow> bool" where
  "is_ws c \<longleftrightarrow> c \<in> {CHR '' '', CHR 0x09, CHR 0x0A, CHR 0x0B, CHR 0x0C, CHR 0x0D}"

definition starts_with :: "string \<Rightarrow> string \<Rightarrow> bool" where
  "starts_with s p \<longleftrightarrow> take (length p) s = p"

definition strip_prefix :: "string \<Rightarrow> string \<Rightarrow> string option" where
  "strip_prefix s p = (if starts_with s p then Some (drop (length p) s) else None)"

definition strip_suffix :: "string \<Rightarrow> string \<Rightarrow> string option" where
  "strip_suffix s p = map_option rev (strip_prefix (rev s) (rev p))"

fun contains_str :: "string \<Rightarrow> string \<Rightarrow> bool" where
  "contains_str [] p = (p = [])"
| "contains_str (c # s) p = (starts_with (c # s) p \<or> contains_str s p)"

definition trim :: "string \<Rightarrow> string" where
  "trim s = rev (dropWhile is_ws (rev (dropWhile is_ws s)))"

text \<open>
  \<open>trim_start_matches\<close> removes the pattern as often as it occurs at the front; the length of
  the string bounds the number of rounds.
\<close>

fun trim_start_rounds :: "nat \<Rightarrow> string \<Rightarrow> string \<Rightarrow> string" where
  "trim_start_rounds 0 s p = s"
| "trim_start_rounds (Suc n) s p =
     (case strip_prefix s p of None \<Rightarrow> s | Some t \<Rightarrow> trim_start_rounds n t p)"

definition trim_start_matches :: "string \<Rightarrow> string \<Rightarrow> string" where
  "trim_start_matches s p = trim_start_rounds (length s) s p"

definition trim_end_matches :: "string \<Rightarrow> string \<Rightarrow> string" where
  "trim_end_matches s p = rev (trim_start_matches (rev s) (rev p))"

fun split_when :: "(char \<Rightarrow> bool) \<Rightarrow> string \<Rightarrow> string list" where
  "split_when P [] = [[]]"
| "split_when P (c # s) =
     (if P c then [] # split_when P s
      else (c # hd (split_when P s)) # tl (split_when P s))"

definition split_char :: "char \<Rightarrow> string \<Rightarrow> string list" where
  "split_char c s = split_when (\<lambda>x. x = c) s"

definition split_whitespace :: "string \<Rightarrow> string list" where
  "split_whitespace s = filter (\<lambda>w. w \<noteq> []) (split_when is_ws s)"

text \<open>\<open>lines\<close>: a carriage return is dropped only in front of a line feed, and an empty last piece is no line.\<close>

definition strip_cr :: "string \<Rightarrow> string" where
  "strip_cr s = (case strip_suffix s [CHR 0x0D] of None \<Rightarrow> s | Some t \<Rightarrow> t)"

definition str_lines :: "string \<Rightarrow> string list" where
  "str_lines s =
     (let ps = split_char (CHR 0x0A) s
      in List.map strip_cr (butlast ps) @ (if last ps = [] then [] else [last ps]))"

fun join :: "string \<Rightarrow> string list \<Rightarrow> string" where
  "join sep [] = []"
| "join sep [s] = s"
| "join sep (s # t # ts) = s @ sep @ join sep (t # ts)"

lemma split_when_nonempty [simp]: "split_when P s \<noteq> []"
  by (cases s) auto

lemma split_when_pieces: "\<forall>p \<in> set (split_when P s). \<forall>c \<in> set p. \<not> P c"
proof (induction s)
  case Nil
  then show ?case by simp
next
  case (Cons c s)
  then show ?case
    by (cases "split_when P s") auto
qed

text \<open>Splitting at a character is undone by joining with it.\<close>

lemma join_split_char: "join [c] (split_char c s) = s"
  unfolding split_char_def
proof (induction s)
  case Nil
  then show ?case by simp
next
  case (Cons x s)
  then show ?case
    by (cases "split_when (\<lambda>y. y = c) s"; cases "tl (split_when (\<lambda>y. y = c) s)") auto
qed

lemma split_when_absent: "\<forall>c \<in> set s. \<not> P c \<Longrightarrow> split_when P s = [s]"
  by (induction s) auto

lemma split_when_append:
  "\<forall>c \<in> set s. \<not> P c \<Longrightarrow> P c \<Longrightarrow> split_when P (s @ c # t) = s # split_when P t"
  by (induction s) auto

lemma split_char_join:
  assumes "ps \<noteq> []" "\<forall>p \<in> set ps. c \<notin> set p"
  shows "split_char c (join [c] ps) = ps"
  using assms
proof (induction "[c]" ps rule: join.induct)
  case 1
  then show ?case by simp
next
  case (2 s)
  then show ?case
    using split_when_absent [of s "\<lambda>x. x = c"] by (auto simp: split_char_def)
next
  case (3 s t ts)
  then have "\<forall>x \<in> set s. x \<noteq> c" by auto
  then show ?case
    using 3 split_when_append [of s "\<lambda>x. x = c" c "join [c] (t # ts)"]
    by (simp add: split_char_def)
qed

lemma starts_with_append [simp]: "starts_with (p @ s) p"
  by (simp add: starts_with_def)

lemma strip_prefix_append [simp]: "strip_prefix (p @ s) p = Some s"
  by (simp add: strip_prefix_def)

lemma starts_with_iff: "starts_with s p \<longleftrightarrow> (\<exists>t. s = p @ t)"
  by (metis append_eq_conv_conj append_take_drop_id starts_with_def)

lemma contains_str_iff: "contains_str s p \<longleftrightarrow> (\<exists>a b. s = a @ p @ b)"
proof (induction s)
  case Nil
  then show ?case by auto
next
  case (Cons c s)
  note IH = Cons.IH
  show ?case
  proof
    assume "contains_str (c # s) p"
    then consider t where "c # s = p @ t" | a b where "s = a @ p @ b"
      using Cons.IH by (auto simp: starts_with_iff)
    then show "\<exists>a b. c # s = a @ p @ b"
      by cases (metis append_Nil, metis append_Cons)
  next
    assume "\<exists>a b. c # s = a @ p @ b"
    then obtain a b where ab: "c # s = a @ p @ b" by blast
    show "contains_str (c # s) p"
    proof (cases a)
      case Nil
      with ab have "starts_with (c # s) p" by (auto simp: starts_with_iff)
      then show ?thesis by simp
    next
      case (Cons x xs)
      with ab have "s = xs @ p @ b" by simp
      then have "contains_str s p" using IH by blast
      then show ?thesis by simp
    qed
  qed
qed

lemma contains_str_append: "contains_str s p \<Longrightarrow> contains_str (a @ s @ b) p"
  unfolding contains_str_iff by (metis append.assoc)

text \<open>Text made of lines, each ended by a line feed, and reading it back line by line.\<close>

definition unlines :: "string list \<Rightarrow> string" where
  "unlines ls = concat (List.map (\<lambda>l. l @ [CHR 0x0A]) ls)"

definition plain_line :: "string \<Rightarrow> bool" where
  "plain_line l \<longleftrightarrow> CHR 0x0A \<notin> set l \<and> CHR 0x0D \<notin> set l"

lemma starts_with_singleton: "starts_with s [c] \<longleftrightarrow> s \<noteq> [] \<and> hd s = c"
  by (cases s) (auto simp: starts_with_def)

lemma strip_cr_plain: "CHR 0x0D \<notin> set l \<Longrightarrow> strip_cr l = l"
proof -
  assume a: "CHR 0x0D \<notin> set l"
  have "\<not> starts_with (rev l) [CHR 0x0D]"
    using a hd_in_set [of "rev l"] by (auto simp: starts_with_singleton)
  then show ?thesis
    by (simp add: strip_cr_def strip_suffix_def strip_prefix_def)
qed

lemma str_lines_unlines: "\<forall>l \<in> set ls. plain_line l \<Longrightarrow> str_lines (unlines ls) = ls"
proof -
  assume pl: "\<forall>l \<in> set ls. plain_line l"
  have "split_char (CHR 0x0A) (unlines ls) = ls @ [[]]"
    using pl
  proof (induction ls)
    case Nil
    then show ?case by (simp add: unlines_def split_char_def)
  next
    case (Cons l ls)
    have "\<forall>c \<in> set l. c \<noteq> CHR 0x0A"
      using Cons.prems by (auto simp: plain_line_def)
    from split_when_append [of l "\<lambda>x. x = CHR 0x0A" "CHR 0x0A" "unlines ls", OF this] Cons
    show ?case by (simp add: unlines_def split_char_def)
  qed
  moreover have "List.map strip_cr ls = ls"
    using pl by (intro map_idI strip_cr_plain) (auto simp: plain_line_def)
  ultimately show ?thesis by (simp add: str_lines_def)
qed

text \<open>A prefix without the first character of the pattern does not matter to the search.\<close>

lemma contains_str_skip: "c \<notin> set xs \<Longrightarrow> contains_str (xs @ s) (c # p) = contains_str s (c # p)"
  by (induction xs) (auto simp: starts_with_def)

lemma split_char_pieces2:
  "c \<notin> set s \<Longrightarrow> split_char c (s @ c # t) = s # split_char c t"
  "c \<notin> set s \<Longrightarrow> split_char c s = [s]"
  unfolding split_char_def by (auto intro!: split_when_append split_when_absent)

lemma dropWhile_hd: "s = [] \<or> \<not> P (hd s) \<Longrightarrow> dropWhile P s = s"
  by (cases s) auto

lemma trim_id: "s = [] \<or> (\<not> is_ws (hd s) \<and> \<not> is_ws (last s)) \<Longrightarrow> trim s = s"
  using dropWhile_hd [of s is_ws] dropWhile_hd [of "rev s" is_ws] by (auto simp: trim_def hd_rev)

lemma strip_suffix_append [simp]: "strip_suffix (s @ p) p = Some s"
  by (simp add: strip_suffix_def)

section \<open>Printing and parsing integers\<close>

definition is_digit :: "char \<Rightarrow> bool" where
  "is_digit c \<longleftrightarrow> 48 \<le> (of_char c :: nat) \<and> (of_char c :: nat) \<le> 57"

definition digit_val :: "char \<Rightarrow> nat" where
  "digit_val c = of_char c - 48"

definition digit_char :: "nat \<Rightarrow> char" where
  "digit_char d = char_of (48 + d)"

fun show_nat :: "nat \<Rightarrow> string" where
  "show_nat n = (if n < 10 then [digit_char n] else show_nat (n div 10) @ [digit_char (n mod 10)])"

declare show_nat.simps [simp del]

definition digits_val :: "string \<Rightarrow> nat" where
  "digits_val ds = foldl (\<lambda>n c. 10 * n + digit_val c) 0 ds"

text \<open>\<^verbatim>\<open>parse::<uN>()\<close>: an optional plus sign, at least one digit, no overflow.\<close>

definition parse_uint :: "nat \<Rightarrow> string \<Rightarrow> nat option" where
  "parse_uint m s =
     (let ds = (case strip_prefix s ''+'' of None \<Rightarrow> s | Some t \<Rightarrow> t)
      in if ds \<noteq> [] \<and> list_all is_digit ds \<and> digits_val ds \<le> m then Some (digits_val ds) else None)"

abbreviation parse_u16 :: "string \<Rightarrow> nat option" where
  "parse_u16 \<equiv> parse_uint 65535"

abbreviation parse_u32 :: "string \<Rightarrow> nat option" where
  "parse_u32 \<equiv> parse_uint 4294967295"

abbreviation parse_u64 :: "string \<Rightarrow> nat option" where
  "parse_u64 \<equiv> parse_uint 18446744073709551615"

text \<open>\<^verbatim>\<open>parse::<i8>()\<close>: an optional sign; a lone sign is an error.\<close>

definition parse_i8 :: "string \<Rightarrow> int option" where
  "parse_i8 s =
     (case strip_prefix s ''-'' of
        Some ds \<Rightarrow> if ds \<noteq> [] \<and> list_all is_digit ds \<and> digits_val ds \<le> 128
                    then Some (- int (digits_val ds)) else None
      | None \<Rightarrow> map_option int (parse_uint 127 s))"

lemma digit_char_is_digit: "d < 10 \<Longrightarrow> is_digit (digit_char d)"
  by (simp add: is_digit_def digit_char_def)

lemma digit_val_char: "d < 10 \<Longrightarrow> digit_val (digit_char d) = d"
  by (simp add: digit_val_def digit_char_def)

lemma show_nat_nonempty [simp]: "show_nat n \<noteq> []"
  by (subst show_nat.simps) simp

lemma show_nat_digits: "list_all is_digit (show_nat n)"
proof (induction n rule: show_nat.induct)
  case (1 n)
  then show ?case
    by (subst show_nat.simps) (auto simp: digit_char_is_digit)
qed

lemma digits_val_show: "digits_val (show_nat n) = n"
proof (induction n rule: show_nat.induct)
  case (1 n)
  show ?case
  proof (cases "n < 10")
    case True
    then show ?thesis
      by (subst show_nat.simps) (simp add: digits_val_def digit_val_char)
  next
    case False
    then have "digits_val (show_nat (n div 10)) = n div 10"
      using 1 by simp
    with False show ?thesis
      by (subst show_nat.simps) (simp add: digits_val_def digit_val_char)
  qed
qed

lemma plus_no_digit: "\<not> is_digit (CHR ''+'')"
  by (simp add: is_digit_def)

lemma parse_show_nat: "n \<le> m \<Longrightarrow> parse_uint m (show_nat n) = Some n"
proof -
  assume le: "n \<le> m"
  have "strip_prefix (show_nat n) ''+'' = None"
    using show_nat_digits [of n] plus_no_digit
    by (cases "show_nat n") (auto simp: strip_prefix_def starts_with_def)
  with le show ?thesis
    by (simp add: parse_uint_def show_nat_digits digits_val_show)
qed

lemma parse_uint_bound: "parse_uint m s = Some n \<Longrightarrow> n \<le> m"
  by (auto simp: parse_uint_def Let_def split: if_splits)

section \<open>Parsing doubles\<close>

definition lower :: "char \<Rightarrow> char" where
  "lower c = (if 65 \<le> (of_char c :: nat) \<and> (of_char c :: nat) \<le> 90 then char_of ((of_char c :: nat) + 32) else c)"

text \<open>The exponent: absent, or the letter, an optional sign and at least one digit up to the end.\<close>

definition parse_exponent :: "string \<Rightarrow> int option" where
  "parse_exponent s =
     (case s of [] \<Rightarrow> Some 0
      | c # r \<Rightarrow>
          if lower c \<noteq> CHR ''e'' then None
          else (let (neg, ds) = (case r of
                        [] \<Rightarrow> (False, r)
                      | x # t \<Rightarrow> if x = CHR ''-'' then (True, t)
                                 else if x = CHR ''+'' then (False, t) else (False, r))
                in if ds \<noteq> [] \<and> list_all is_digit ds
                   then Some (if neg then - int (digits_val ds) else int (digits_val ds))
                   else None))"

definition parse_decimal :: "string \<Rightarrow> real option" where
  "parse_decimal s =
     (let ip = takeWhile is_digit s; r = dropWhile is_digit s;
          (fp, rest) = (case r of
              [] \<Rightarrow> ([], r)
            | c # t \<Rightarrow> if c = CHR ''.'' then (takeWhile is_digit t, dropWhile is_digit t) else ([], r))
      in if ip = [] \<and> fp = [] then None
         else map_option (\<lambda>e. of_nat (digits_val (ip @ fp)) * 10 powi (e - int (length fp)))
                (parse_exponent rest))"

text \<open>\<^verbatim>\<open>parse::<f64>()\<close>: a sign, then a decimal number, or one of the special names in any case.\<close>

definition parse_f64 :: "string \<Rightarrow> f64 option" where
  "parse_f64 s =
     (let (neg, t) = (case s of
              [] \<Rightarrow> (False, s)
            | c # r \<Rightarrow> if c = CHR ''-'' then (True, r) else if c = CHR ''+'' then (False, r) else (False, s));
          name = List.map lower t
      in if name = ''inf'' \<or> name = ''infinity'' then Some (if neg then NInf else PInf)
         else if name = ''nan'' then Some NaN
         else map_option (\<lambda>v. if neg then - fl v else fl v) (parse_decimal t))"

text \<open>
  \<^verbatim>\<open>format!("{:.1}")\<close> and \<^verbatim>\<open>{:.0}\<close>: the value to the given number of decimals, ties to even.
\<close>

definition pad_left :: "nat \<Rightarrow> string \<Rightarrow> string" where
  "pad_left w s = replicate (w - length s) (CHR ''0'') @ s"

fun show_fixed :: "nat \<Rightarrow> f64 \<Rightarrow> string" where
  "show_fixed d (Fin a) =
     (let n = nat (rne (\<bar>a\<bar> * 10 ^ d))
      in (if a < 0 then ''-'' else []) @ show_nat (n div 10 ^ d)
         @ (if d = 0 then [] else ''.'' @ pad_left d (show_nat (n mod 10 ^ d))))"
| "show_fixed d PInf = ''inf''"
| "show_fixed d NInf = ''-inf''"
| "show_fixed d NaN = ''NaN''"

text \<open>
  The debug form of a string: in double quotes, with the quote, the backslash and the control
  characters escaped.
\<close>

definition hex_digit :: "nat \<Rightarrow> char" where
  "hex_digit d = (if d < 10 then digit_char d else char_of (87 + d))"

definition debug_char :: "char \<Rightarrow> string" where
  "debug_char c =
     (if c = CHR 0x22 then [CHR 0x5C, CHR 0x22]
      else if c = CHR 0x5C then [CHR 0x5C, CHR 0x5C]
      else if c = CHR 0x0A then [CHR 0x5C, CHR ''n'']
      else if c = CHR 0x0D then [CHR 0x5C, CHR ''r'']
      else if c = CHR 0x09 then [CHR 0x5C, CHR ''t'']
      else if c = CHR 0x00 then [CHR 0x5C, CHR ''0'']
      else (let n = of_char c :: nat
            in if n < 32 \<or> n = 127
               then [CHR 0x5C, CHR ''u'', CHR 0x7B] @ (if n < 16 then [] else [hex_digit (n div 16)])
                      @ [hex_digit (n mod 16), CHR 0x7D]
               else [c]))"

definition debug_str :: "string \<Rightarrow> string" where
  "debug_str s = [CHR 0x22] @ concat (List.map debug_char s) @ [CHR 0x22]"

end
