(* ===== verification/Shared_Config.thy ===== *)
theory Shared_Config
  imports NF_Strings
begin

text \<open>
  \<^verbatim>\<open>crates/netfusion-shared/src/config.rs\<close>: the configuration schema with its default values,
  the weight presets, and the constraints the \<^verbatim>\<open>#[validate(...)]\<close> attributes declare. A field
  \<open>f\<close> of the struct \<open>S\<close> is the record field \<open>x_f\<close>, with \<open>x\<close> a short prefix for \<open>S\<close>.
\<close>

type_synonym u8 = "8 word"
type_synonym u16 = "16 word"
type_synonym u32 = "32 word"
type_synonym u64 = "64 word"

definition SCHEMA_VERSION :: u32 where
  "SCHEMA_VERSION = 1"

section \<open>Enumerations\<close>

datatype interface_type =
    Ethernet | Wireless | Vlan | Bridge | Bond | Tunnel | WireGuard | Tailscale | Ppp
  | UsbTether | Cellular | Loopback | Virtual | UnknownType

datatype bond_mode =
    ActiveBackup | BalanceRr | BalanceXor | Broadcast | Lacp | AdaptiveTlb | AdaptiveAlb
  | Mptcp | Ecmp | Weighted | TunnelMode

datatype policy_action =
    ActRoute string | LowestLatency | HighestThroughput | ActLoadBalance string | ActDrop | ActAccept

datatype tunnel_type = TWireGuard | TOpenVpn | TQuic | TRelay | TTailscale

datatype profile_mode = LowLatency | Streaming | BulkTransfer | Voip | Balanced | Custom

datatype qdisc_type = FqCodel | Cake | Htb | Prio | PfifoFast

section \<open>Structures and defaults\<close>

record daemon_config =
  dc_socket_path :: string
  dc_state_path :: string
  dc_health_interval_ms :: u64
  dc_rollback_timeout_secs :: u64
  dc_dry_run :: bool

definition default_socket_path :: string where
  "default_socket_path = ''/run/netfusion/netfusion.sock''"

definition default_state_path :: string where
  "default_state_path = ''/var/lib/netfusion/state.db''"

definition default_health_interval :: u64 where
  "default_health_interval = 1000"

definition default_rollback_timeout :: u64 where
  "default_rollback_timeout = 30"

definition daemon_config_default :: daemon_config where
  "daemon_config_default =
     \<lparr>dc_socket_path = default_socket_path, dc_state_path = default_state_path,
      dc_health_interval_ms = default_health_interval,
      dc_rollback_timeout_secs = default_rollback_timeout, dc_dry_run = False\<rparr>"

record interface_selector =
  is_name :: string
  is_name_pattern :: "string option"
  is_type :: "interface_type option"
  is_driver :: "string option"
  is_min_speed_mbps :: u64
  is_weight :: u8

definition default_selector_weight :: u8 where
  "default_selector_weight = 50"

record interface_config =
  ic_selectors :: "interface_selector list"
  ic_managed :: "string list"
  ic_exclude :: "string list"

definition interface_config_default :: interface_config where
  "interface_config_default = \<lparr>ic_selectors = [], ic_managed = [], ic_exclude = []\<rparr>"

record bond_config =
  bc_name :: string
  bc_mode :: bond_mode
  bc_members :: "string list"
  bc_weights :: "u8 list"
  bc_min_active_members :: u64
  bc_health_targets :: "string list"
  bc_policy :: "string option"

definition default_min_members :: u64 where
  "default_min_members = 1"

record rule_config =
  rc_src :: "string option"
  rc_dst :: "string option"
  rc_proto :: "string option"
  rc_dport :: "u16 option"
  rc_sport :: "u16 option"
  rc_dscp :: "u8 option"
  rc_fwmark :: "u32 option"
  rc_app :: "string option"

record policy_config =
  pc_name :: string
  pc_rules :: "rule_config list"
  pc_action :: policy_action
  pc_priority :: u32

definition default_policy_priority :: u32 where
  "default_policy_priority = 100"

record tunnel_config =
  tc_name :: string
  tc_type :: tunnel_type
  tc_remote :: string
  tc_local_bind :: "string option"
  tc_auth_ref :: "string option"
  tc_options :: "(string, string) hmap"
  tc_auto_connect :: bool
  tc_auto_reconnect :: bool
  tc_reconnect_interval_secs :: u64

definition default_auto_reconnect :: bool where
  "default_auto_reconnect = True"

definition default_reconnect_interval :: u64 where
  "default_reconnect_interval = 10"

record health_weights =
  hw_rtt :: u8
  hw_jitter :: u8
  hw_loss :: u8
  hw_throughput :: u8
  hw_stability :: u8

record schedule_config =
  sc_cron :: string
  sc_duration_mins :: "u32 option"

record profile_config =
  pr_mode :: profile_mode
  pr_interfaces :: "string list"
  pr_health_weights :: "health_weights option"
  pr_max_jitter_ms :: "f64 option"
  pr_max_loss_percent :: "f64 option"
  pr_prefer_lowest_rtt :: bool
  pr_failover_threshold :: u8
  pr_activate_on_app :: "string list"
  pr_schedule :: "schedule_config option"

definition default_failover_threshold :: u8 where
  "default_failover_threshold = 15"

record qdisc_config =
  qd_qdisc :: "qdisc_type option"
  qd_target_ms :: "u32 option"
  qd_interval_ms :: "u32 option"
  qd_limit :: "u32 option"

record qos_config =
  qc_enabled :: bool
  qc_qdisc :: qdisc_type
  qc_ecn :: bool
  qc_dscp_tagging :: bool
  qc_interface_overrides :: "(string, qdisc_config) hmap"

definition qdisc_type_default :: qdisc_type where
  "qdisc_type_default = FqCodel"

record logging_config =
  lc_level :: string
  lc_file :: "string option"
  lc_journald :: bool
  lc_max_size_mb :: u64
  lc_max_files :: u64

definition default_log_level :: string where
  "default_log_level = ''info''"

definition default_max_log_size :: u64 where
  "default_max_log_size = 10"

definition default_max_log_files :: u64 where
  "default_max_log_files = 5"

record relay_client_config =
  rl_server :: string
  rl_port :: u16
  rl_auth_ref :: "string option"
  rl_server_name :: "string option"
  rl_enabled :: bool

definition default_relay_port :: u16 where
  "default_relay_port = 4433"

record netfusion_config =
  nc_schema_version :: u32
  nc_daemon :: daemon_config
  nc_interfaces :: interface_config
  nc_bonds :: "bond_config list"
  nc_policies :: "policy_config list"
  nc_tunnels :: "tunnel_config list"
  nc_profiles :: "(string, profile_config) hmap"
  nc_qos :: "qos_config option"
  nc_logging :: "logging_config option"
  nc_relay :: "relay_client_config option"

definition netfusion_config_default :: netfusion_config where
  "netfusion_config_default =
     \<lparr>nc_schema_version = SCHEMA_VERSION, nc_daemon = daemon_config_default,
      nc_interfaces = interface_config_default, nc_bonds = [], nc_policies = [],
      nc_tunnels = [], nc_profiles = [], nc_qos = None, nc_logging = None, nc_relay = None\<rparr>"

section \<open>Health weights\<close>

definition health_weights_default :: health_weights where
  "health_weights_default =
     \<lparr>hw_rtt = 30, hw_jitter = 20, hw_loss = 25, hw_throughput = 15, hw_stability = 10\<rparr>"

definition hw_balanced :: health_weights where
  "hw_balanced = health_weights_default"

definition hw_gaming :: health_weights where
  "hw_gaming = \<lparr>hw_rtt = 40, hw_jitter = 30, hw_loss = 15, hw_throughput = 5, hw_stability = 10\<rparr>"

definition hw_streaming :: health_weights where
  "hw_streaming = \<lparr>hw_rtt = 15, hw_jitter = 20, hw_loss = 25, hw_throughput = 30, hw_stability = 10\<rparr>"

definition hw_voip :: health_weights where
  "hw_voip = \<lparr>hw_rtt = 20, hw_jitter = 30, hw_loss = 30, hw_throughput = 5, hw_stability = 15\<rparr>"

definition hw_bulk_transfer :: health_weights where
  "hw_bulk_transfer = \<lparr>hw_rtt = 10, hw_jitter = 10, hw_loss = 15, hw_throughput = 45, hw_stability = 20\<rparr>"

text \<open>\<open>normalize\<close>: the sum is taken in \<open>u16\<close>, where five bytes cannot overflow.\<close>

definition hw_total16 :: "health_weights \<Rightarrow> u16" where
  "hw_total16 w = ucast (hw_rtt w) + ucast (hw_jitter w) + ucast (hw_loss w)
     + ucast (hw_throughput w) + ucast (hw_stability w)"

definition hw_normalize :: "health_weights \<Rightarrow> health_weights" where
  "hw_normalize w = (if hw_total16 w = 0 then health_weights_default else w)"

definition hw_sum :: "health_weights \<Rightarrow> nat" where
  "hw_sum w = unat (hw_rtt w) + unat (hw_jitter w) + unat (hw_loss w)
     + unat (hw_throughput w) + unat (hw_stability w)"

section \<open>The declared constraints\<close>

text \<open>
  Names are taken to be ASCII, where the \<open>length\<close> constraint and the number of bytes agree.
  The \<open>validator\<close> derive checks what the attributes say and recurses into \<open>nested\<close> fields.
  \<open>DaemonConfig\<close>, \<open>InterfaceSelector\<close> and the other structs carry no constraint of their own,
  so their check always succeeds.
\<close>

definition valid_length :: "nat \<Rightarrow> nat \<Rightarrow> 'a list \<Rightarrow> bool" where
  "valid_length lo hi s \<longleftrightarrow> lo \<le> length s \<and> length s \<le> hi"

definition validate_daemon :: "daemon_config \<Rightarrow> bool" where
  "validate_daemon d = True"

definition validate_bond :: "bond_config \<Rightarrow> bool" where
  "validate_bond b \<longleftrightarrow> valid_length 1 64 (bc_name b) \<and> bc_members b \<noteq> []"

definition validate_policy :: "policy_config \<Rightarrow> bool" where
  "validate_policy p \<longleftrightarrow> valid_length 1 64 (pc_name p)"

definition validate_tunnel :: "tunnel_config \<Rightarrow> bool" where
  "validate_tunnel t \<longleftrightarrow> valid_length 1 64 (tc_name t)"

definition validate_weights :: "health_weights \<Rightarrow> bool" where
  "validate_weights w \<longleftrightarrow> hw_rtt w \<le> 100 \<and> hw_jitter w \<le> 100 \<and> hw_loss w \<le> 100
     \<and> hw_throughput w \<le> 100 \<and> hw_stability w \<le> 100"

definition validate_profile :: "profile_config \<Rightarrow> bool" where
  "validate_profile p \<longleftrightarrow> (case pr_health_weights p of None \<Rightarrow> True | Some w \<Rightarrow> validate_weights w)"

definition validate_config :: "netfusion_config \<Rightarrow> bool" where
  "validate_config c \<longleftrightarrow> validate_daemon (nc_daemon c) \<and> list_all validate_bond (nc_bonds c)
     \<and> list_all validate_policy (nc_policies c) \<and> list_all validate_tunnel (nc_tunnels c)
     \<and> list_all (\<lambda>(_, p). validate_profile p) (nc_profiles c)"

section \<open>Facts\<close>

text \<open>Weights are read as natural numbers; keep \<open>real (unat w)\<close> as it is written.\<close>

declare of_nat_unat [simp del]

lemma unat_u8_less: "unat (w :: u8) < 256"
  using unsigned_less [of w, where ?'a = nat] by simp

lemma unat_u8_le: "unat (w :: u8) \<le> 255"
  using unat_u8_less [of w] by simp

lemma unat_u8_to_u16: "unat (ucast x :: u16) = unat (x :: u8)"
  using unat_u8_less [of x] by (simp add: unsigned_ucast_eq take_bit_nat_eq_self)

lemma hw_total16_exact: "unat (hw_total16 w) = hw_sum w"
  using unat_u8_less [of "hw_rtt w"] unat_u8_less [of "hw_jitter w"] unat_u8_less [of "hw_loss w"]
    unat_u8_less [of "hw_throughput w"] unat_u8_less [of "hw_stability w"]
  by (simp add: hw_total16_def hw_sum_def unat_word_ariths unat_u8_to_u16)

lemma hw_normalize_idem: "hw_normalize (hw_normalize w) = hw_normalize w"
  by (simp add: hw_normalize_def)

end
