(* ===== verification/Shared_Types.thy ===== *)
theory Shared_Types
  imports Shared_Config
begin

text \<open>
  \<^verbatim>\<open>crates/netfusion-shared/src/types.rs\<close>: the runtime records of interfaces, bonds and tunnels,
  and the health score with its three methods. Timestamps are nanoseconds since the epoch; the
  clock reading of a method is its argument \<open>now\<close>. An \<open>i8\<close> or \<open>i16\<close> that is only stored is an
  \<open>int\<close>.

  Arithmetic on \<open>u8\<close> panics on overflow when overflow checks are compiled in and wraps
  otherwise; the flag \<open>chk\<close> says which build is meant and a panic is \<open>None\<close>.
\<close>

type_synonym timestamp = int

section \<open>Records\<close>

datatype duplex = Full | Half | DuplexUnknown

definition duplex_default :: duplex where
  "duplex_default = DuplexUnknown"

datatype link_state = Up | Down | LinkUnknown

record ip_info =
  ip_cidr :: string
  ip_dhcp :: bool

record wireless_info =
  wi_signal_dbm :: "int option"
  wi_noise_dbm :: "int option"
  wi_quality_percent :: "u8 option"
  wi_ssid :: "string option"
  wi_frequency_mhz :: "nat option"
  wi_channel_width_mhz :: "nat option"
  wi_tx_rate_mbps :: "f64 option"
  wi_rx_rate_mbps :: "f64 option"

definition wireless_info_default :: wireless_info where
  "wireless_info_default =
     \<lparr>wi_signal_dbm = None, wi_noise_dbm = None, wi_quality_percent = None, wi_ssid = None,
      wi_frequency_mhz = None, wi_channel_width_mhz = None, wi_tx_rate_mbps = None,
      wi_rx_rate_mbps = None\<rparr>"

record cellular_info =
  ci_signal_dbm :: "int option"
  ci_cell_id :: "string option"
  ci_network_type :: "string option"
  ci_rsrp :: "int option"
  ci_rsrq :: "int option"
  ci_sinr :: "int option"

record interface_stats =
  st_rx_bytes :: nat
  st_tx_bytes :: nat
  st_rx_packets :: nat
  st_tx_packets :: nat
  st_rx_errors :: nat
  st_tx_errors :: nat
  st_rx_dropped :: nat
  st_tx_dropped :: nat

definition interface_stats_default :: interface_stats where
  "interface_stats_default =
     \<lparr>st_rx_bytes = 0, st_tx_bytes = 0, st_rx_packets = 0, st_tx_packets = 0,
      st_rx_errors = 0, st_tx_errors = 0, st_rx_dropped = 0, st_tx_dropped = 0\<rparr>"

record health_score =
  hs_overall :: f64
  hs_rtt :: f64
  hs_jitter :: f64
  hs_loss :: f64
  hs_throughput :: f64
  hs_stability :: f64
  hs_timestamp :: timestamp
  hs_failover_candidate :: bool

record interface_info =
  if_name :: string
  if_type :: interface_type
  if_mac :: "string option"
  if_driver :: "string option"
  if_speed_mbps :: "nat option"
  if_duplex :: "duplex option"
  if_mtu :: nat
  if_addresses :: "ip_info list"
  if_gateway :: "string option"
  if_dns_servers :: "string list"
  if_link_state :: link_state
  if_managed :: bool
  if_nm_managed :: bool
  if_wireless :: "wireless_info option"
  if_cellular :: "cellular_info option"
  if_stats :: interface_stats
  if_health :: "health_score option"
  if_last_seen :: "timestamp option"

record bond_state =
  bs_name :: string
  bs_mode :: bond_mode
  bs_active_members :: "string list"
  bs_standby_members :: "string list"
  bs_failed_members :: "string list"
  bs_health :: "health_score option"
  bs_failover_active :: bool
  bs_last_failover :: "timestamp option"
  bs_bond_interface :: "string option"

record tunnel_state =
  ts_name :: string
  ts_connected :: bool
  ts_remote :: string
  ts_interface :: "string option"
  ts_connected_since :: "timestamp option"
  ts_tx_bytes :: nat
  ts_rx_bytes :: nat
  ts_reconnect_count :: nat
  ts_last_error :: "string option"

record system_status =
  ss_total_interfaces :: nat
  ss_active_bonds :: nat
  ss_connected_tunnels :: nat
  ss_active_profile :: "string option"
  ss_health :: "health_score option"
  ss_failover_active :: bool
  ss_dry_run :: bool
  ss_uptime_secs :: nat
  ss_timestamp :: timestamp

section \<open>Health scores\<close>

definition u8_add :: "bool \<Rightarrow> u8 \<Rightarrow> u8 \<Rightarrow> u8 option" where
  "u8_add chk a b = (if chk \<and> 256 \<le> unat a + unat b then None else Some (a + b))"

definition u8_sum5 :: "bool \<Rightarrow> u8 \<Rightarrow> u8 \<Rightarrow> u8 \<Rightarrow> u8 \<Rightarrow> u8 \<Rightarrow> u8 option" where
  "u8_sum5 chk a b c d e =
     Option.bind (u8_add chk a b) (\<lambda>s. Option.bind (u8_add chk s c)
       (\<lambda>s. Option.bind (u8_add chk s d) (\<lambda>s. u8_add chk s e)))"

definition f_of_u8 :: "u8 \<Rightarrow> f64" where
  "f_of_u8 w = f_of_nat (unat w)"

abbreviation clamp100 :: "f64 \<Rightarrow> f64" where
  "clamp100 x \<equiv> f_clamp x (Fin 0) (Fin 100)"

definition weighted_mean ::
  "f64 \<Rightarrow> f64 \<Rightarrow> f64 \<Rightarrow> f64 \<Rightarrow> f64 \<Rightarrow> u8 \<Rightarrow> u8 \<Rightarrow> u8 \<Rightarrow> u8 \<Rightarrow> u8 \<Rightarrow> f64 \<Rightarrow> f64" where
  "weighted_mean rtt jitter loss throughput stability w_rtt w_jitter w_loss w_throughput w_stability total_weight =
     divide (rtt * f_of_u8 w_rtt + jitter * f_of_u8 w_jitter + loss * f_of_u8 w_loss
       + throughput * f_of_u8 w_throughput + stability * f_of_u8 w_stability) total_weight"

definition hs_compute ::
  "bool \<Rightarrow> timestamp \<Rightarrow> f64 \<Rightarrow> f64 \<Rightarrow> f64 \<Rightarrow> f64 \<Rightarrow> f64 \<Rightarrow> u8 \<Rightarrow> u8 \<Rightarrow> u8 \<Rightarrow> u8 \<Rightarrow> u8 \<Rightarrow> health_score option" where
  "hs_compute chk now rtt jitter loss throughput stability w_rtt w_jitter w_loss w_throughput w_stability =
     (case u8_sum5 chk w_rtt w_jitter w_loss w_throughput w_stability of
        None \<Rightarrow> None
      | Some w_sum \<Rightarrow>
          (let total_weight = f_of_u8 w_sum
           in if feq total_weight 0 then
                Some \<lparr>hs_overall = 0, hs_rtt = rtt, hs_jitter = jitter, hs_loss = loss,
                  hs_throughput = throughput, hs_stability = stability, hs_timestamp = now,
                  hs_failover_candidate = False\<rparr>
              else
                Some \<lparr>hs_overall = clamp100 (weighted_mean rtt jitter loss throughput stability
                        w_rtt w_jitter w_loss w_throughput w_stability total_weight),
                  hs_rtt = clamp100 rtt, hs_jitter = clamp100 jitter, hs_loss = clamp100 loss,
                  hs_throughput = clamp100 throughput, hs_stability = clamp100 stability,
                  hs_timestamp = now, hs_failover_candidate = False\<rparr>))"

definition ema1 :: "f64 \<Rightarrow> f64 \<Rightarrow> f64 \<Rightarrow> f64" where
  "ema1 alpha cur prev = cur * alpha + prev * (1 - alpha)"

definition hs_ema :: "timestamp \<Rightarrow> health_score \<Rightarrow> health_score \<Rightarrow> f64 \<Rightarrow> health_score" where
  "hs_ema now self previous alpha =
     (let alpha = f_clamp alpha 0 1
      in \<lparr>hs_overall = ema1 alpha (hs_overall self) (hs_overall previous),
          hs_rtt = ema1 alpha (hs_rtt self) (hs_rtt previous),
          hs_jitter = ema1 alpha (hs_jitter self) (hs_jitter previous),
          hs_loss = ema1 alpha (hs_loss self) (hs_loss previous),
          hs_throughput = ema1 alpha (hs_throughput self) (hs_throughput previous),
          hs_stability = ema1 alpha (hs_stability self) (hs_stability previous),
          hs_timestamp = now,
          hs_failover_candidate = hs_failover_candidate self\<rparr>)"

definition hs_exceeds_hysteresis :: "health_score \<Rightarrow> health_score \<Rightarrow> u8 \<Rightarrow> bool" where
  "hs_exceeds_hysteresis self other threshold_percent =
     (let diff = f_abs (hs_overall self - hs_overall other);
          threshold = f_of_u8 threshold_percent
      in threshold < diff)"

section \<open>Facts about the weights\<close>

lemma f_of_u8_Fin [simp]: "f_of_u8 w = Fin (real (unat w))"
  using unat_u8_le [of w] by (simp add: f_of_u8_def f_of_nat_small)

lemma u8_add_exact: "unat a + unat b < 256 \<Longrightarrow> u8_add chk a b = Some (a + b)"
  by (simp add: u8_add_def)

lemma unat_u8_add_exact: "unat (a::u8) + unat b < 256 \<Longrightarrow> unat (a + b) = unat a + unat b"
  by (simp add: unat_word_ariths)

text \<open>Below the overflow both builds take the exact sum; the wrapping build always returns.\<close>

lemma u8_sum5_exact:
  assumes "unat a + unat b + unat c + unat d + unat e < 256"
  shows "\<exists>s. u8_sum5 chk a b c d e = Some s \<and> unat s = unat a + unat b + unat c + unat d + unat e"
  using assms by (simp add: u8_sum5_def u8_add_exact unat_u8_add_exact)

lemma u8_sum5_overflow:
  assumes "256 \<le> unat a + unat b + unat c + unat d + unat e"
  shows "u8_sum5 True a b c d e = None"
  using assms
  by (auto simp: u8_sum5_def u8_add_def unat_word_ariths)

lemma u8_sum5_wraps: "u8_sum5 False a b c d e = Some (a + b + c + d + e)"
  by (simp add: u8_sum5_def u8_add_def)

lemma u8_sum5_Some_exact:
  assumes "u8_sum5 True a b c d e = Some s"
  shows "unat s = unat a + unat b + unat c + unat d + unat e"
  using u8_sum5_overflow [of a b c d e] u8_sum5_exact [of a b c d e True] assms
  by (cases "256 \<le> unat a + unat b + unat c + unat d + unat e") auto

end
