(* ===== verification/Health.thy ===== *)
theory Health
  imports Shared_Types
begin

text \<open>
  \<^verbatim>\<open>crates/netfusion-core/src/health.rs\<close>: normalisation of the raw metrics to scores in
  0..100, the weighted composite score, smoothing and hysteresis.
\<close>

section \<open>The code\<close>

definition normalize_linear :: "f64 \<Rightarrow> f64 \<Rightarrow> f64 \<Rightarrow> f64" where
  "normalize_linear value ideal worst =
     (if feq ideal worst then Fin 100
      else if ideal < worst then
        (if value \<le> ideal then Fin 100
         else if worst \<le> value then Fin 0
         else divide (worst - value) (worst - ideal) * Fin 100)
      else
        (if ideal \<le> value then Fin 100
         else if value \<le> worst then Fin 0
         else divide (value - worst) (ideal - worst) * Fin 100))"

definition normalize_rtt :: "f64 \<Rightarrow> f64" where
  "normalize_rtt rtt_ms = normalize_linear rtt_ms (Fin 10) (Fin 500)"

definition normalize_jitter :: "f64 \<Rightarrow> f64" where
  "normalize_jitter jitter_ms = normalize_linear jitter_ms (Fin 1) (Fin 100)"

definition normalize_loss :: "f64 \<Rightarrow> f64" where
  "normalize_loss loss_percent = normalize_linear loss_percent (Fin 0) (Fin 10)"

definition normalize_throughput :: "f64 \<Rightarrow> f64" where
  "normalize_throughput throughput_mbps = normalize_linear throughput_mbps (Fin 1000) (Fin 1)"

definition normalize_stability :: "u32 \<Rightarrow> f64" where
  "normalize_stability state_changes = normalize_linear (f_of_nat (unat state_changes)) (Fin 0) (Fin 10)"

record health_weights_config =
  wc_rtt :: u8
  wc_jitter :: u8
  wc_loss :: u8
  wc_throughput :: u8
  wc_stability :: u8

definition wc_default :: health_weights_config where
  "wc_default = \<lparr>wc_rtt = 30, wc_jitter = 20, wc_loss = 25, wc_throughput = 15, wc_stability = 10\<rparr>"

definition wc_gaming :: health_weights_config where
  "wc_gaming = \<lparr>wc_rtt = 40, wc_jitter = 30, wc_loss = 15, wc_throughput = 5, wc_stability = 10\<rparr>"

definition wc_streaming :: health_weights_config where
  "wc_streaming = \<lparr>wc_rtt = 15, wc_jitter = 20, wc_loss = 25, wc_throughput = 30, wc_stability = 10\<rparr>"

definition wc_voip :: health_weights_config where
  "wc_voip = \<lparr>wc_rtt = 20, wc_jitter = 30, wc_loss = 30, wc_throughput = 5, wc_stability = 15\<rparr>"

definition wc_bulk_transfer :: health_weights_config where
  "wc_bulk_transfer = \<lparr>wc_rtt = 10, wc_jitter = 10, wc_loss = 15, wc_throughput = 45, wc_stability = 20\<rparr>"

text \<open>
  \<open>compute_health\<close>: the unused sum of the weights in the source is also \<open>u8\<close> arithmetic, so
  in a build with overflow checks it is the first place to panic.
\<close>

definition compute_health ::
  "bool \<Rightarrow> timestamp \<Rightarrow> f64 \<Rightarrow> f64 \<Rightarrow> f64 \<Rightarrow> f64 \<Rightarrow> u32 \<Rightarrow> health_weights_config \<Rightarrow> health_score option" where
  "compute_health chk now rtt_ms jitter_ms loss_percent throughput_mbps state_changes weights =
     (let rtt_score = normalize_rtt rtt_ms;
          jitter_score = normalize_jitter jitter_ms;
          loss_score = normalize_loss loss_percent;
          throughput_score = normalize_throughput throughput_mbps;
          stability_score = normalize_stability state_changes
      in case u8_sum5 chk (wc_rtt weights) (wc_jitter weights) (wc_loss weights)
                (wc_throughput weights) (wc_stability weights) of
           None \<Rightarrow> None
         | Some _ \<Rightarrow>
             hs_compute chk now rtt_score jitter_score loss_score throughput_score stability_score
               (wc_rtt weights) (wc_jitter weights) (wc_loss weights)
               (wc_throughput weights) (wc_stability weights))"

definition ema_smooth :: "timestamp \<Rightarrow> health_score \<Rightarrow> health_score \<Rightarrow> f64 \<Rightarrow> health_score" where
  "ema_smooth now current previous alpha = hs_ema now current previous alpha"

definition exceeds_hysteresis :: "health_score \<Rightarrow> health_score \<Rightarrow> u8 \<Rightarrow> bool" where
  "exceeds_hysteresis current previous threshold_percent =
     hs_exceeds_hysteresis current previous threshold_percent"

section \<open>Scores\<close>

text \<open>A score is a number between 0 and 100.\<close>

definition is_score :: "f64 \<Rightarrow> bool" where
  "is_score x \<longleftrightarrow> Fin 0 \<le> x \<and> x \<le> Fin 100"

lemma is_scoreE: "is_score x \<Longrightarrow> \<exists>r. x = Fin r \<and> 0 \<le> r \<and> r \<le> 100"
  unfolding is_score_def by (rule f64_between) auto

lemma is_score_Fin [simp]: "is_score (Fin r) \<longleftrightarrow> 0 \<le> r \<and> r \<le> 100"
  by (simp add: is_score_def)

lemma is_score_not_nan: "is_score x \<Longrightarrow> x \<noteq> NaN"
  by (auto simp: is_score_def)

lemma is_score_clamp: "x \<noteq> NaN \<Longrightarrow> is_score (clamp100 x)"
  using f_clamp_range [of x 0 100] by auto

text \<open>
  The interpolated part of a normalisation, on reals: the quotient of two rounded differences,
  rounded, times 100, rounded.
\<close>

definition ramp :: "real \<Rightarrow> real \<Rightarrow> real" where
  "ramp num den = rnd (rnd (rnd num / rnd den) * 100)"

lemma ramp_mono:
  assumes "a \<le> b" "0 \<le> den"
  shows "ramp a den \<le> ramp b den"
proof -
  have "rnd a / rnd den \<le> rnd b / rnd den"
    using assms rnd_mono [of a b] rnd_nonneg [of den] by (intro divide_right_mono) auto
  then show ?thesis
    unfolding ramp_def by (intro rnd_mono mult_right_mono) auto
qed

lemma ramp_bounds:
  assumes "0 \<le> a" "a \<le> den" "1 \<le> den"
  shows "0 \<le> ramp a den" "ramp a den \<le> 100" "0 \<le> rnd (rnd a / rnd den)" "rnd (rnd a / rnd den) \<le> 1"
proof -
  have d: "1 \<le> rnd den" using assms(3) rnd_mono [of 1 den] by simp
  have r: "0 \<le> rnd a" "rnd a \<le> rnd den"
    using assms rnd_mono [of 0 a] rnd_mono [of a den] by simp_all
  with d show q: "0 \<le> rnd (rnd a / rnd den)" "rnd (rnd a / rnd den) \<le> 1"
    by (auto intro!: rnd_nonneg rnd_le_1)
  show "0 \<le> ramp a den" "ramp a den \<le> 100"
    unfolding ramp_def using q by (auto intro!: rnd_nonneg rnd_le_numeral)
qed

lemma ramp_fl:
  assumes "0 \<le> a" "a \<le> den" "1 \<le> den" "den \<le> 2 ^ 53"
  shows "divide (fl a) (fl den) * Fin 100 = Fin (ramp a den)"
proof -
  have fa: "fl a = Fin (rnd a)" and fd: "fl den = Fin (rnd den)"
    using assms by (auto intro!: fl_small)
  have nz: "rnd den \<noteq> 0" using assms(3) rnd_mono [of 1 den] by simp
  have q: "0 \<le> rnd a / rnd den" "rnd a / rnd den \<le> 1"
    using assms rnd_mono [of 0 a] rnd_mono [of a den] rnd_mono [of 1 den]
    by (auto simp: divide_le_eq_1)
  then have fq: "fl (rnd a / rnd den) = Fin (rnd (rnd a / rnd den))"
    by (intro fl_small) auto
  have "fl (rnd (rnd a / rnd den) * 100) = Fin (ramp a den)"
    unfolding ramp_def using ramp_bounds(3,4) [OF assms(1-3)] by (intro fl_small) auto
  with nz show ?thesis
    by (simp add: fa fd fq f64_simps)
qed

text \<open>Metrics where lower is better: the score as a real function of a finite value.\<close>

definition score_down :: "real \<Rightarrow> real \<Rightarrow> real \<Rightarrow> real" where
  "score_down i w v = (if v \<le> i then 100 else if w \<le> v then 0 else ramp (w - v) (w - i))"

definition score_up :: "real \<Rightarrow> real \<Rightarrow> real \<Rightarrow> real" where
  "score_up i w v = (if i \<le> v then 100 else if v \<le> w then 0 else ramp (v - w) (i - w))"

lemma normalize_down_Fin:
  assumes "1 \<le> w - i" "w - i \<le> 2 ^ 53"
  shows "normalize_linear (Fin v) (Fin i) (Fin w) = Fin (score_down i w v)"
  using assms ramp_fl [of "w - v" "w - i"]
  by (auto simp: normalize_linear_def score_down_def f64_simps)

lemma normalize_up_Fin:
  assumes "1 \<le> i - w" "i - w \<le> 2 ^ 53"
  shows "normalize_linear (Fin v) (Fin i) (Fin w) = Fin (score_up i w v)"
  using assms ramp_fl [of "v - w" "i - w"]
  by (auto simp: normalize_linear_def score_up_def f64_simps)

lemma score_down_bounds: "1 \<le> w - i \<Longrightarrow> 0 \<le> score_down i w v \<and> score_down i w v \<le> 100"
  using ramp_bounds [of "w - v" "w - i"] by (simp add: score_down_def)

lemma score_up_bounds: "1 \<le> i - w \<Longrightarrow> 0 \<le> score_up i w v \<and> score_up i w v \<le> 100"
  using ramp_bounds [of "v - w" "i - w"] by (simp add: score_up_def)

lemma score_down_antimono:
  assumes "1 \<le> w - i" "v \<le> v'"
  shows "score_down i w v' \<le> score_down i w v"
  using assms score_down_bounds [OF assms(1), of v] score_down_bounds [OF assms(1), of v']
    ramp_mono [of "w - v'" "w - v" "w - i"]
  by (auto simp: score_down_def)

lemma score_up_mono:
  assumes "1 \<le> i - w" "v \<le> v'"
  shows "score_up i w v \<le> score_up i w v'"
  using assms score_up_bounds [OF assms(1), of v] score_up_bounds [OF assms(1), of v']
    ramp_mono [of "v - w" "v' - w" "i - w"]
  by (auto simp: score_up_def)

text \<open>The infinities fall on the ends of the scale.\<close>

lemma normalize_down_infinite:
  "i < w \<Longrightarrow> normalize_linear PInf (Fin i) (Fin w) = Fin 0"
  "i < w \<Longrightarrow> normalize_linear NInf (Fin i) (Fin w) = Fin 100"
  by (simp_all add: normalize_linear_def)

lemma normalize_up_infinite:
  "w < i \<Longrightarrow> normalize_linear PInf (Fin i) (Fin w) = Fin 100"
  "w < i \<Longrightarrow> normalize_linear NInf (Fin i) (Fin w) = Fin 0"
  by (simp_all add: normalize_linear_def)

lemma normalize_down_antimono:
  assumes "1 \<le> w - i" "w - i \<le> 2 ^ 53" "v \<le> v'"
  shows "normalize_linear v' (Fin i) (Fin w) \<le> normalize_linear v (Fin i) (Fin w)"
    "is_score (normalize_linear v (Fin i) (Fin w))"
proof -
  have iw: "i < w" using assms(1) by simp
  note infs = normalize_down_infinite [OF iw] normalize_down_Fin [OF assms(1,2)]
  note bnds = score_down_bounds [OF assms(1)]
  show "normalize_linear v' (Fin i) (Fin w) \<le> normalize_linear v (Fin i) (Fin w)"
    using assms(3) bnds score_down_antimono [OF assms(1)]
    by (cases v; cases v') (simp_all add: infs)
  show "is_score (normalize_linear v (Fin i) (Fin w))"
    using assms(3) bnds by (cases v) (simp_all add: infs)
qed

lemma normalize_up_mono:
  assumes "1 \<le> i - w" "i - w \<le> 2 ^ 53" "v \<le> v'"
  shows "normalize_linear v (Fin i) (Fin w) \<le> normalize_linear v' (Fin i) (Fin w)"
    "is_score (normalize_linear v (Fin i) (Fin w))"
proof -
  have wi: "w < i" using assms(1) by simp
  note infs = normalize_up_infinite [OF wi] normalize_up_Fin [OF assms(1,2)]
  note bnds = score_up_bounds [OF assms(1)]
  show "normalize_linear v (Fin i) (Fin w) \<le> normalize_linear v' (Fin i) (Fin w)"
    using assms(3) bnds score_up_mono [OF assms(1)]
    by (cases v; cases v') (simp_all add: infs)
  show "is_score (normalize_linear v (Fin i) (Fin w))"
    using assms(3) bnds by (cases v) (simp_all add: infs)
qed

section \<open>The composite score\<close>

text \<open>Two finite nonnegative doubles in order, below a bound; with equal doubles, a range.\<close>

definition le_upto :: "int \<Rightarrow> f64 \<Rightarrow> f64 \<Rightarrow> bool" where
  "le_upto B x y \<longleftrightarrow> (\<exists>r s. x = Fin r \<and> y = Fin s \<and> 0 \<le> r \<and> r \<le> s \<and> s \<le> of_int B)"

lemma le_upto_fl:
  assumes "0 \<le> r" "r \<le> s" "s \<le> of_int B" "B \<le> 2 ^ 53"
  shows "le_upto B (fl r) (fl s)"
proof -
  have "fl r = Fin (rnd r)" "0 \<le> rnd r"
    using fl_in_range [of 0 r B] assms by auto
  moreover have "fl s = Fin (rnd s)" "rnd s \<le> of_int B"
    using fl_in_range [of 0 s B] assms by auto
  ultimately show ?thesis
    using rnd_mono [OF assms(2)] by (auto simp: le_upto_def)
qed

lemma le_upto_add:
  assumes "le_upto A x y" "le_upto B x' y'" "A + B \<le> 2 ^ 53"
  shows "le_upto (A + B) (x + x') (y + y')"
  using assms by (auto simp: le_upto_def [of A] le_upto_def [of B] f64_simps intro!: le_upto_fl)

lemma le_upto_mult_u8:
  assumes "le_upto A x y" "A * 255 \<le> 2 ^ 53"
  shows "le_upto (A * 255) (x * f_of_u8 w) (y * f_of_u8 w)"
proof -
  obtain r s where rs: "x = Fin r" "y = Fin s" "0 \<le> r" "r \<le> s" "s \<le> of_int A"
    using assms(1) by (auto simp: le_upto_def)
  have "s * real (unat w) \<le> of_int A * 255"
    using rs unat_u8_le [of w] by (intro mult_mono) auto
  with rs assms(2) show ?thesis
    by (auto simp: f64_simps intro!: le_upto_fl mult_right_mono)
qed

lemma le_upto_divide:
  assumes "le_upto A x y" "A \<le> 2 ^ 53" "1 \<le> t"
  shows "le_upto A (divide x (Fin t)) (divide y (Fin t))"
proof -
  obtain r s where rs: "x = Fin r" "y = Fin s" "0 \<le> r" "r \<le> s" "s \<le> of_int A"
    using assms(1) by (auto simp: le_upto_def)
  have "s / t \<le> s / 1"
    using rs assms(3) by (intro divide_left_mono) auto
  with rs assms(2,3) show ?thesis
    by (auto simp: f64_simps intro!: le_upto_fl divide_right_mono)
qed

lemma le_upto_clamp: "le_upto B x y \<Longrightarrow> clamp100 x \<le> clamp100 y \<and> is_score (clamp100 x)"
  by (auto simp: le_upto_def intro: f_clamp_mono is_score_clamp)

lemma is_score_le_upto: "is_score x \<Longrightarrow> is_score y \<Longrightarrow> x \<le> y \<Longrightarrow> le_upto 100 x y"
  by (auto simp: le_upto_def dest!: is_scoreE)

text \<open>The weighted mean grows with every score.\<close>

lemma weighted_mean_mono:
  assumes "le_upto 100 a a'" "le_upto 100 b b'" "le_upto 100 c c'" "le_upto 100 d d'" "le_upto 100 e e'"
    and "1 \<le> t"
  shows "le_upto 127500 (weighted_mean a b c d e wa wb wc wd we (Fin t))
                        (weighted_mean a' b' c' d' e' wa wb wc wd we (Fin t))"
proof -
  have m: "le_upto 25500 (x * f_of_u8 w) (y * f_of_u8 w)" if "le_upto 100 x y" for x y w
    using le_upto_mult_u8 [OF that] by simp
  have "le_upto 51000 (a * f_of_u8 wa + b * f_of_u8 wb) (a' * f_of_u8 wa + b' * f_of_u8 wb)"
    using le_upto_add [OF m [OF assms(1)] m [OF assms(2)]] by simp
  from le_upto_add [OF this m [OF assms(3)]]
  have "le_upto 76500 (a * f_of_u8 wa + b * f_of_u8 wb + c * f_of_u8 wc)
                      (a' * f_of_u8 wa + b' * f_of_u8 wb + c' * f_of_u8 wc)" by simp
  from le_upto_add [OF this m [OF assms(4)]]
  have "le_upto 102000 (a * f_of_u8 wa + b * f_of_u8 wb + c * f_of_u8 wc + d * f_of_u8 wd)
                       (a' * f_of_u8 wa + b' * f_of_u8 wb + c' * f_of_u8 wc + d' * f_of_u8 wd)" by simp
  from le_upto_add [OF this m [OF assms(5)]] assms(6)
  show ?thesis
    unfolding weighted_mean_def by (intro le_upto_divide) simp_all
qed

definition wc_sum :: "health_weights_config \<Rightarrow> nat" where
  "wc_sum w = unat (wc_rtt w) + unat (wc_jitter w) + unat (wc_loss w)
     + unat (wc_throughput w) + unat (wc_stability w)"

lemma u8_sum5_wc:
  "wc_sum w < 256 \<Longrightarrow> \<exists>s. u8_sum5 chk (wc_rtt w) (wc_jitter w) (wc_loss w) (wc_throughput w) (wc_stability w)
     = Some s \<and> unat s = wc_sum w"
  using u8_sum5_exact unfolding wc_sum_def by blast

text \<open>The score in closed form, when the sum of the weights fits a byte and is not zero.\<close>

lemma compute_health_eq:
  assumes "0 < wc_sum w" "wc_sum w < 256"
  shows "compute_health chk now rtt jitter loss thr sc w = Some
    \<lparr>hs_overall = clamp100 (weighted_mean (normalize_rtt rtt) (normalize_jitter jitter) (normalize_loss loss)
         (normalize_throughput thr) (normalize_stability sc)
         (wc_rtt w) (wc_jitter w) (wc_loss w) (wc_throughput w) (wc_stability w) (Fin (real (wc_sum w)))),
     hs_rtt = clamp100 (normalize_rtt rtt), hs_jitter = clamp100 (normalize_jitter jitter),
     hs_loss = clamp100 (normalize_loss loss), hs_throughput = clamp100 (normalize_throughput thr),
     hs_stability = clamp100 (normalize_stability sc), hs_timestamp = now, hs_failover_candidate = False\<rparr>"
proof -
  obtain s where s: "u8_sum5 chk (wc_rtt w) (wc_jitter w) (wc_loss w) (wc_throughput w) (wc_stability w) = Some s"
    and u: "unat s = wc_sum w"
    using u8_sum5_wc [OF assms(2)] by blast
  show ?thesis
    using assms(1) by (simp add: compute_health_def hs_compute_def s u f64_consts Let_def)
qed

lemma normalize_ordered:
  assumes "v \<le> v'"
  shows "le_upto 100 (normalize_rtt v') (normalize_rtt v)"
    "le_upto 100 (normalize_jitter v') (normalize_jitter v)"
    "le_upto 100 (normalize_loss v') (normalize_loss v)"
    "le_upto 100 (normalize_throughput v) (normalize_throughput v')"
proof -
  have refl: "v' \<le> v'" "v \<le> v" using f64_le_not_nan [OF assms] f64_le_refl by auto
  show "le_upto 100 (normalize_rtt v') (normalize_rtt v)"
    "le_upto 100 (normalize_jitter v') (normalize_jitter v)"
    "le_upto 100 (normalize_loss v') (normalize_loss v)"
    unfolding normalize_rtt_def normalize_jitter_def normalize_loss_def
    using assms refl by (auto intro!: is_score_le_upto normalize_down_antimono)
  show "le_upto 100 (normalize_throughput v) (normalize_throughput v')"
    unfolding normalize_throughput_def
    using assms refl by (auto intro!: is_score_le_upto normalize_up_mono)
qed

lemma normalize_stability_ordered:
  assumes "v \<le> v'"
  shows "le_upto 100 (normalize_stability v') (normalize_stability v)"
proof -
  have "fl (of_nat (unat v)) \<le> fl (of_nat (unat v'))"
    using assms by (intro fl_mono) (simp add: word_le_nat_alt)
  moreover have "f_of_nat (unat v') \<le> f_of_nat (unat v')"
    by (simp add: f_of_nat_def f64_le_refl)
  ultimately show ?thesis
    unfolding normalize_stability_def
    by (intro is_score_le_upto normalize_down_antimono) (auto simp: f_of_nat_def)
qed

section \<open>Smoothing and hysteresis\<close>

text \<open>
  One smoothed component is the exact convex combination of the two scores up to the rounding
  of four operations on values below 128.
\<close>

lemma rnd_error_128: "\<bar>x\<bar> < 128 \<Longrightarrow> \<bar>rnd x - x\<bar> \<le> 1 / 2 ^ 47"
  using rnd_abs_error [of x 6] by (simp add: power_int_minus divide_simps)

lemma rnd_error_1: "\<bar>x\<bar> < 2 \<Longrightarrow> \<bar>rnd x - x\<bar> \<le> 1 / 2 ^ 53"
  using rnd_abs_error [of x 0] by (simp add: power_int_minus divide_simps)

lemma ema1_error:
  assumes "0 \<le> c" "c \<le> 101" "0 \<le> p" "p \<le> 101" "0 \<le> al" "al \<le> 1"
  shows "\<exists>r. ema1 (Fin al) (Fin c) (Fin p) = Fin r \<and> 0 \<le> r \<and> \<bar>r - (c * al + p * (1 - al))\<bar> \<le> 1 / 2 ^ 44"
proof -
  let ?b = "rnd (1 - al)"
  have b: "0 \<le> ?b" "?b \<le> 1" "\<bar>?b - (1 - al)\<bar> \<le> 1 / 2 ^ 53"
    using assms rnd_error_1 [of "1 - al"] by (auto intro!: rnd_nonneg rnd_le_1)
  have ca: "0 \<le> c * al" "c * al \<le> 101" and pb: "0 \<le> p * ?b" "p * ?b \<le> 101"
    using assms b mult_mono [of c 101 al 1] mult_mono [of p 101 ?b 1] by auto
  have x: "\<bar>rnd (c * al) - c * al\<bar> \<le> 1 / 2 ^ 47" "0 \<le> rnd (c * al)"
    and y: "\<bar>rnd (p * ?b) - p * ?b\<bar> \<le> 1 / 2 ^ 47" "0 \<le> rnd (p * ?b)"
    using ca pb rnd_error_128 [of "c * al"] rnd_error_128 [of "p * ?b"] by (auto intro!: rnd_nonneg)
  have pe: "\<bar>p * ?b - p * (1 - al)\<bar> \<le> 101 * (1 / 2 ^ 53)"
  proof -
    have "\<bar>p * ?b - p * (1 - al)\<bar> = p * \<bar>?b - (1 - al)\<bar>"
      using assms by (simp add: abs_mult flip: right_diff_distrib)
    also have "\<dots> \<le> 101 * (1 / 2 ^ 53)"
      using assms b(3) by (intro mult_mono) auto
    finally show ?thesis .
  qed
  have ex: "c * al + p * (1 - al) \<le> 101"
    using mult_right_mono [OF assms(2) assms(5)] mult_right_mono [of p 101 "1 - al"] assms
    by (simp add: algebra_simps)
  let ?s = "rnd (c * al) + rnd (p * ?b)"
  have s: "\<bar>?s - (c * al + p * (1 - al))\<bar> \<le> 1 / 2 ^ 47 + 1 / 2 ^ 47 + 101 * (1 / 2 ^ 53)"
    using x y pe by linarith
  moreover have "(1::real) / 2 ^ 47 + 1 / 2 ^ 47 + 101 * (1 / 2 ^ 53) < 1" by simp
  ultimately have "\<bar>?s\<bar> < 128"
    using ex x(2) y(2) by linarith
  then have e: "\<bar>rnd ?s - ?s\<bar> \<le> 1 / 2 ^ 47" and f: "fl ?s = Fin (rnd ?s)"
    using rnd_error_128 [of ?s] by (auto intro: fl_small)
  have "(1::real) / 2 ^ 47 + (1 / 2 ^ 47 + 1 / 2 ^ 47 + 101 * (1 / 2 ^ 53)) \<le> 1 / 2 ^ 44" by simp
  with s e have "\<bar>rnd ?s - (c * al + p * (1 - al))\<bar> \<le> 1 / 2 ^ 44" by linarith
  moreover have "ema1 (Fin al) (Fin c) (Fin p) = Fin (rnd ?s)"
  proof -
    have "fl (1 - al) = Fin ?b" "fl (c * al) = Fin (rnd (c * al))" "fl (p * ?b) = Fin (rnd (p * ?b))"
      using assms ca pb by (auto intro!: fl_small)
    then show ?thesis by (simp add: ema1_def f64_simps f)
  qed
  moreover have "0 \<le> rnd ?s" using x(2) y(2) by (intro rnd_nonneg) simp
  ultimately show ?thesis by blast
qed

text \<open>
  Smoothing does not drift: for a factor of at least \<open>2^-40\<close> a stored component stays between
  0 and 101, whatever scores come in.
\<close>

lemma ema1_no_drift:
  assumes "0 \<le> c" "c \<le> 100" "0 \<le> p" "p \<le> 101" "1 / 2 ^ 40 \<le> al" "al \<le> 1"
  shows "\<exists>r. ema1 (Fin al) (Fin c) (Fin p) = Fin r \<and> 0 \<le> r \<and> r \<le> 101"
proof -
  have al: "0 \<le> al" using assms(5) by (smt (verit) divide_nonneg_nonneg zero_le_power)
  obtain r where r: "ema1 (Fin al) (Fin c) (Fin p) = Fin r" "0 \<le> r"
    "\<bar>r - (c * al + p * (1 - al))\<bar> \<le> 1 / 2 ^ 44"
    using ema1_error [of c p al] assms al by auto
  have "c * al + p * (1 - al) \<le> 100 * al + 101 * (1 - al)"
    using assms al by (intro add_mono mult_right_mono) auto
  also have "\<dots> = 101 - al" by (simp add: algebra_simps)
  also have "\<dots> \<le> 101 - 1 / 2 ^ 44" using assms(5) by simp
  finally have "r \<le> 101" using r(3) by linarith
  with r show ?thesis by blast
qed

lemma hysteresis_self: "\<not> hs_exceeds_hysteresis s s t"
proof (cases "hs_overall s")
  case (Fin r)
  then show ?thesis by (simp add: hs_exceeds_hysteresis_def f64_simps)
qed (simp_all add: hs_exceeds_hysteresis_def minus_f64_def)

lemma hysteresis_Fin:
  assumes "hs_overall a = Fin x" "hs_overall b = Fin y" "0 \<le> x" "x \<le> 100" "0 \<le> y" "y \<le> 100"
  shows "hs_exceeds_hysteresis a b t \<longleftrightarrow> real (unat t) < rnd \<bar>x - y\<bar>"
proof -
  have "\<bar>rnd (x - y)\<bar> = rnd \<bar>x - y\<bar>"
    using rnd_minus [of "x - y"] rnd_nonneg [of "x - y"] rnd_nonpos [of "x - y"]
    by (cases "0 \<le> x - y") auto
  moreover have "fl (x - y) = Fin (rnd (x - y))"
    using assms by (intro fl_small) auto
  ultimately show ?thesis
    using assms by (simp add: hs_exceeds_hysteresis_def f64_simps)
qed

section \<open>Equal scores\<close>

lemma fl_nat_sum:
  "m + n \<le> 2 ^ 53 \<Longrightarrow> fl (real m + real n) = Fin (real (m + n))"
  using fl_of_nat [of "m + n"] by simp

lemma fl_nat_times:
  "m * n \<le> 2 ^ 53 \<Longrightarrow> Fin (real m) * Fin (real n) = Fin (real (m * n))"
  using fl_of_nat [of "m * n"] by (simp add: f64_simps)

text \<open>Integral scores that agree are their own weighted mean: no step rounds.\<close>

lemma weighted_mean_const:
  assumes "k \<le> 100" "0 < wc_sum w" "wc_sum w < 256"
  shows "weighted_mean (Fin (real k)) (Fin (real k)) (Fin (real k)) (Fin (real k)) (Fin (real k))
    (wc_rtt w) (wc_jitter w) (wc_loss w) (wc_throughput w) (wc_stability w) (Fin (real (wc_sum w))) = Fin (real k)"
proof -
  have m: "Fin (real k) * f_of_u8 x = Fin (real (k * unat x))" and b: "k * unat x \<le> 100 * 255" for x
  proof -
    show b: "k * unat x \<le> 100 * 255" using assms(1) unat_u8_le [of x] by (rule mult_le_mono)
    then show "Fin (real k) * f_of_u8 x = Fin (real (k * unat x))"
      using fl_nat_times [of k "unat x"] by simp
  qed
  note bs = b [of "wc_rtt w"] b [of "wc_jitter w"] b [of "wc_loss w"] b [of "wc_throughput w"]
    b [of "wc_stability w"]
  have "Fin (real k) * f_of_u8 (wc_rtt w) + Fin (real k) * f_of_u8 (wc_jitter w)
      + Fin (real k) * f_of_u8 (wc_loss w) + Fin (real k) * f_of_u8 (wc_throughput w)
      + Fin (real k) * f_of_u8 (wc_stability w) = Fin (real (k * wc_sum w))"
    using bs unfolding m by (simp add: fl_nat_sum wc_sum_def distrib_left del: of_nat_add of_nat_mult)
  moreover have "divide (Fin (real (k * wc_sum w))) (Fin (real (wc_sum w))) = fl (real k)"
    using assms(2) by (simp add: f64_simps)
  ultimately show ?thesis
    using assms(1) fl_of_nat [of k] by (simp add: weighted_mean_def)
qed

lemma normalize_best:
  "x \<le> Fin 10 \<Longrightarrow> normalize_rtt x = Fin 100" "x \<le> Fin 1 \<Longrightarrow> normalize_jitter x = Fin 100"
  "x \<le> Fin 0 \<Longrightarrow> normalize_loss x = Fin 100" "Fin 1000 \<le> x \<Longrightarrow> normalize_throughput x = Fin 100"
  by (simp_all add: normalize_rtt_def normalize_jitter_def normalize_loss_def
      normalize_throughput_def normalize_linear_def)

lemma normalize_worst:
  "Fin 500 \<le> x \<Longrightarrow> normalize_rtt x = Fin 0" "Fin 100 \<le> x \<Longrightarrow> normalize_jitter x = Fin 0"
  "Fin 10 \<le> x \<Longrightarrow> normalize_loss x = Fin 0" "x \<le> Fin 1 \<Longrightarrow> normalize_throughput x = Fin 0"
  by (cases x; simp add: normalize_rtt_def normalize_jitter_def normalize_loss_def
      normalize_throughput_def normalize_linear_def)+

lemma normalize_stability_ends: "normalize_stability 0 = Fin 100" "normalize_stability 10 = Fin 0"
  by (simp_all add: normalize_stability_def normalize_linear_def f_of_nat_small)

section \<open>Ranges of all six scores\<close>

definition scores_upto :: "real \<Rightarrow> health_score \<Rightarrow> bool" where
  "scores_upto B s \<longleftrightarrow> list_all (\<lambda>x. Fin 0 \<le> x \<and> x \<le> Fin B)
     [hs_overall s, hs_rtt s, hs_jitter s, hs_loss s, hs_throughput s, hs_stability s]"

lemma scores_upto_mono: "scores_upto B s \<Longrightarrow> B \<le> C \<Longrightarrow> scores_upto C s"
  by (auto simp: scores_upto_def elim!: f64_le_trans)

lemma compute_health_scores:
  assumes "rtt \<noteq> NaN" "jitter \<noteq> NaN" "loss \<noteq> NaN" "thr \<noteq> NaN"
    and "0 < wc_sum w" "wc_sum w < 256"
  shows "\<exists>s. compute_health chk now rtt jitter loss thr sc w = Some s \<and> scores_upto 100 s"
proof -
  note refl = f64_le_refl [OF assms(1)] f64_le_refl [OF assms(2)] f64_le_refl [OF assms(3)]
    f64_le_refl [OF assms(4)]
  note ord = normalize_ordered(1) [OF refl(1)] normalize_ordered(2) [OF refl(2)]
    normalize_ordered(3) [OF refl(3)] normalize_ordered(4) [OF refl(4)]
    normalize_stability_ordered [of sc sc, OF order.refl]
  have "le_upto 127500 (weighted_mean (normalize_rtt rtt) (normalize_jitter jitter) (normalize_loss loss)
      (normalize_throughput thr) (normalize_stability sc) (wc_rtt w) (wc_jitter w) (wc_loss w)
      (wc_throughput w) (wc_stability w) (Fin (real (wc_sum w))))
    (weighted_mean (normalize_rtt rtt) (normalize_jitter jitter) (normalize_loss loss)
      (normalize_throughput thr) (normalize_stability sc) (wc_rtt w) (wc_jitter w) (wc_loss w)
      (wc_throughput w) (wc_stability w) (Fin (real (wc_sum w))))"
    using assms(5) by (intro weighted_mean_mono ord) simp
  then show ?thesis
    using ord by (auto simp: compute_health_eq [OF assms(5,6)] scores_upto_def
        simp flip: is_score_def dest: le_upto_clamp)
qed

lemma scores_upto_ema:
  assumes "scores_upto 100 cur" "scores_upto 101 prev" "1 / 2 ^ 40 \<le> al" "al \<le> 1"
  shows "scores_upto 101 (ema_smooth now cur prev (Fin al))"
proof -
  have al: "0 \<le> al" using assms(3) by (smt (verit) divide_nonneg_nonneg zero_le_power)
  have one: "Fin 0 \<le> ema1 (Fin al) x y \<and> ema1 (Fin al) x y \<le> Fin 101"
    if "Fin 0 \<le> x" "x \<le> Fin 100" "Fin 0 \<le> y" "y \<le> Fin 101" for x y
    using f64_between [OF that(1,2)] f64_between [OF that(3,4)] ema1_no_drift [OF _ _ _ _ assms(3,4)]
    by fastforce
  show ?thesis
    using assms one al
    by (simp add: ema_smooth_def hs_ema_def f64_consts f_clamp_id Let_def scores_upto_def)
qed

section \<open>Properties\<close>

text \<open>A score with equal components, the fixture of the concrete instances below.\<close>

definition uniform_score :: "f64 \<Rightarrow> health_score" where
  "uniform_score x = \<lparr>hs_overall = x, hs_rtt = x, hs_jitter = x, hs_loss = x, hs_throughput = x,
     hs_stability = x, hs_timestamp = 0, hs_failover_candidate = False\<rparr>"

text \<open>C1: for metrics that are numbers (infinities included) and weights whose sum is
  between 1 and 255, \<open>compute_health\<close> returns in both builds, and all six scores are
  numbers between 0 and 100.\<close>

theorem compute_health_in_range:
  assumes "rtt \<noteq> NaN" "jitter \<noteq> NaN" "loss \<noteq> NaN" "thr \<noteq> NaN"
    and "0 < wc_sum w" "wc_sum w < 256"
  shows "\<exists>s. compute_health chk now rtt jitter loss thr sc w = Some s
    \<and> is_score (hs_overall s) \<and> is_score (hs_rtt s) \<and> is_score (hs_jitter s) \<and> is_score (hs_loss s)
    \<and> is_score (hs_throughput s) \<and> is_score (hs_stability s)"
  using compute_health_scores [OF assms] by (simp add: scores_upto_def is_score_def)

theorem compute_health_in_range_witness:
  "\<exists>s. compute_health True 0 (Fin 5) (Fin 1) (Fin 0) PInf 0 wc_default = Some s
    \<and> is_score (hs_overall s) \<and> is_score (hs_rtt s) \<and> is_score (hs_jitter s) \<and> is_score (hs_loss s)
    \<and> is_score (hs_throughput s) \<and> is_score (hs_stability s)"
  by (rule compute_health_in_range) (simp_all add: wc_sum_def wc_default_def)

text \<open>C2: a path that is no worse in every metric never scores lower: raising the round-trip
  time, the jitter, the loss or the number of state changes, or lowering the throughput, never
  raises the overall score, whatever the rounding does.\<close>

theorem compute_health_monotone:
  assumes "rtt \<le> rtt'" "jitter \<le> jitter'" "loss \<le> loss'" "thr' \<le> thr" "sc \<le> sc'"
    and "0 < wc_sum w" "wc_sum w < 256"
    and "compute_health chk now rtt jitter loss thr sc w = Some good"
    and "compute_health chk now' rtt' jitter' loss' thr' sc' w = Some bad"
  shows "hs_overall bad \<le> hs_overall good"
proof -
  have "le_upto 127500 (weighted_mean (normalize_rtt rtt') (normalize_jitter jitter') (normalize_loss loss')
      (normalize_throughput thr') (normalize_stability sc') (wc_rtt w) (wc_jitter w) (wc_loss w)
      (wc_throughput w) (wc_stability w) (Fin (real (wc_sum w))))
    (weighted_mean (normalize_rtt rtt) (normalize_jitter jitter) (normalize_loss loss)
      (normalize_throughput thr) (normalize_stability sc) (wc_rtt w) (wc_jitter w) (wc_loss w)
      (wc_throughput w) (wc_stability w) (Fin (real (wc_sum w))))"
    using assms(1-6) by (intro weighted_mean_mono normalize_ordered normalize_stability_ordered) simp_all
  then show ?thesis
    using assms(8,9) by (auto simp: compute_health_eq [OF assms(6,7)] dest: le_upto_clamp)
qed

theorem compute_health_monotone_witness:
  "hs_overall (the (compute_health True 0 (Fin 600) (Fin 1) (Fin 0) (Fin 1000) 0 wc_gaming))
     \<le> hs_overall (the (compute_health True 0 (Fin 10) (Fin 1) (Fin 0) (Fin 1000) 0 wc_gaming))"
proof -
  have w: "0 < wc_sum wc_gaming" "wc_sum wc_gaming < 256"
    by (simp_all add: wc_sum_def wc_gaming_def)
  show ?thesis
    by (rule compute_health_monotone [where rtt = "Fin 10" and rtt' = "Fin 600" and jitter = "Fin 1"
          and jitter' = "Fin 1" and loss = "Fin 0" and loss' = "Fin 0" and thr = "Fin 1000"
          and thr' = "Fin 1000" and sc = 0 and sc' = 0 and w = wc_gaming and chk = True and now = 0
          and now' = 0]) (simp_all add: w compute_health_eq [OF w])
qed

text \<open>The ends of the scale are reached: with every metric at its ideal or better the
  overall score is exactly 100, with every metric at its worst or beyond it is exactly 0.\<close>

theorem compute_health_extremes:
  assumes "0 < wc_sum w" "wc_sum w < 256"
    and "rtt \<le> Fin 10" "jitter \<le> Fin 1" "loss \<le> Fin 0" "Fin 1000 \<le> thr"
    and "Fin 500 \<le> rtt'" "Fin 100 \<le> jitter'" "Fin 10 \<le> loss'" "thr' \<le> Fin 1"
  shows "map_option hs_overall (compute_health chk now rtt jitter loss thr 0 w) = Some (Fin 100)
    \<and> map_option hs_overall (compute_health chk now rtt' jitter' loss' thr' 10 w) = Some (Fin 0)"
  using assms(3-10) weighted_mean_const [of 100 w] weighted_mean_const [of 0 w] assms(1,2)
  by (simp add: compute_health_eq normalize_best normalize_worst normalize_stability_ends f_clamp_id)

theorem compute_health_extremes_witness:
  "map_option hs_overall (compute_health True 0 (Fin 5) (Fin 1) (Fin 0) (Fin 1000) 0 wc_voip) = Some (Fin 100)
    \<and> map_option hs_overall (compute_health True 0 PInf (Fin 100) (Fin 10) (Fin 1) 10 wc_voip) = Some (Fin 0)"
  by (rule compute_health_extremes) (simp_all add: wc_sum_def wc_voip_def)

text \<open>The divisor of the wrapping build.\<close>

lemma u8_sum5_total:
  "u8_sum5 chk (wc_rtt w) (wc_jitter w) (wc_loss w) (wc_throughput w) (wc_stability w) = None \<longleftrightarrow> chk \<and> 256 \<le> wc_sum w"
  using u8_sum5_overflow [of "wc_rtt w" "wc_jitter w" "wc_loss w" "wc_throughput w" "wc_stability w"] u8_sum5_wc [of w chk]
  by (cases chk; cases "256 \<le> wc_sum w") (auto simp: wc_sum_def u8_sum5_wraps)

lemma unat_wrapped_sum: "unat (wc_rtt w + wc_jitter w + wc_loss w + wc_throughput w + wc_stability w) = wc_sum w mod 256"
  by (simp add: wc_sum_def unat_word_ariths mod_simps)

text \<open>C3: the five weights are added in a byte. The overflow-checked build panics exactly when their sum
  reaches 256; the wrapping build divides by the sum modulo 256, and gives the overall score 0
  when that is zero. Weights that pass the declared range check 0..100 one by one do both: a
  perfect path then panics or scores 0.\<close>

theorem compute_health_weight_overflow:
  "(compute_health chk now rtt jitter loss thr sc w = None \<longleftrightarrow> chk \<and> 256 \<le> wc_sum w)
   \<and> map_option hs_overall (compute_health False now rtt jitter loss thr sc w) =
       Some (if wc_sum w mod 256 = 0 then 0
             else clamp100 (weighted_mean (normalize_rtt rtt) (normalize_jitter jitter) (normalize_loss loss)
               (normalize_throughput thr) (normalize_stability sc)
               (wc_rtt w) (wc_jitter w) (wc_loss w) (wc_throughput w) (wc_stability w) (Fin (real (wc_sum w mod 256)))))
   \<and> (\<exists>v. wc_rtt v \<le> 100 \<and> wc_jitter v \<le> 100 \<and> wc_loss v \<le> 100 \<and> wc_throughput v \<le> 100 \<and> wc_stability v \<le> 100
        \<and> wc_sum v = 256)"
proof (intro conjI)
  show "compute_health chk now rtt jitter loss thr sc w = None \<longleftrightarrow> chk \<and> 256 \<le> wc_sum w"
    unfolding u8_sum5_total [symmetric]
    by (auto simp: compute_health_def hs_compute_def Let_def split: option.split)
  show "map_option hs_overall (compute_health False now rtt jitter loss thr sc w) =
       Some (if wc_sum w mod 256 = 0 then 0
             else clamp100 (weighted_mean (normalize_rtt rtt) (normalize_jitter jitter) (normalize_loss loss)
               (normalize_throughput thr) (normalize_stability sc)
               (wc_rtt w) (wc_jitter w) (wc_loss w) (wc_throughput w) (wc_stability w) (Fin (real (wc_sum w mod 256)))))"
    by (simp add: compute_health_def Let_def hs_compute_def u8_sum5_wraps f64_consts unat_wrapped_sum)
  show "\<exists>v. wc_rtt v \<le> 100 \<and> wc_jitter v \<le> 100 \<and> wc_loss v \<le> 100 \<and> wc_throughput v \<le> 100 \<and> wc_stability v \<le> 100
      \<and> wc_sum v = 256"
    by (rule exI [of _ "\<lparr>wc_rtt = 100, wc_jitter = 100, wc_loss = 56, wc_throughput = 0, wc_stability = 0\<rparr>"])
      (simp add: wc_sum_def)
qed

text \<open>C4: smoothing with a factor between 0 and 1 is the convex combination of the new and the
  previous score, up to rounding errors that add up to at most \<open>2^-44\<close>; so a smoothed score
  cannot leave the interval of the two by more than that.\<close>

theorem ema_smooth_between:
  assumes "hs_overall cur = Fin c" "hs_overall prev = Fin p"
    and "0 \<le> c" "c \<le> 100" "0 \<le> p" "p \<le> 100" "0 \<le> al" "al \<le> 1"
  shows "\<exists>r. hs_overall (ema_smooth now cur prev (Fin al)) = Fin r
    \<and> \<bar>r - (c * al + p * (1 - al))\<bar> \<le> 1 / 2 ^ 44
    \<and> min c p - 1 / 2 ^ 44 \<le> r \<and> r \<le> max c p + 1 / 2 ^ 44"
proof -
  obtain r where r: "ema1 (Fin al) (Fin c) (Fin p) = Fin r" "\<bar>r - (c * al + p * (1 - al))\<bar> \<le> 1 / 2 ^ 44"
    using ema1_error [of c p al] assms(3-8) by auto
  have m: "min c p \<le> c * al + p * (1 - al)" "c * al + p * (1 - al) \<le> max c p"
    using convex_bound_le [of c "max c p" p al "1 - al"] convex_bound_le [of "- c" "- min c p" "- p" al "1 - al"]
      assms(7,8) by (auto simp: algebra_simps)
  have "hs_overall (ema_smooth now cur prev (Fin al)) = Fin r"
    using assms(1,2,7,8) r(1) by (simp add: ema_smooth_def hs_ema_def f64_consts f_clamp_id Let_def)
  moreover have "min c p - 1 / 2 ^ 44 \<le> r" "r \<le> max c p + 1 / 2 ^ 44"
    using r(2) m by linarith+
  ultimately show ?thesis
    using r(2) by blast
qed

theorem ema_smooth_between_witness:
  "\<exists>r. hs_overall (ema_smooth 1 (uniform_score (Fin 80)) (uniform_score (Fin 40)) (Fin (1/4))) = Fin r
    \<and> \<bar>r - (80 * (1/4) + 40 * (1 - 1/4))\<bar> \<le> 1 / 2 ^ 44
    \<and> min 80 40 - 1 / 2 ^ 44 \<le> r \<and> r \<le> max 80 40 + 1 / 2 ^ 44"
  by (rule ema_smooth_between) (simp_all add: uniform_score_def)

text \<open>The hysteresis test on two scores is symmetric, never fires on equal scores, fires
  only on a difference above the threshold, and always fires when the difference is at least one
  point above it.\<close>

theorem exceeds_hysteresis_sound:
  assumes "hs_overall a = Fin x" "hs_overall b = Fin y" "0 \<le> x" "x \<le> 100" "0 \<le> y" "y \<le> 100"
  shows "(exceeds_hysteresis a b t \<longleftrightarrow> exceeds_hysteresis b a t)
    \<and> \<not> exceeds_hysteresis a a t
    \<and> (exceeds_hysteresis a b t \<longrightarrow> real (unat t) < \<bar>x - y\<bar>)
    \<and> (real (unat t) + 1 \<le> \<bar>x - y\<bar> \<longrightarrow> exceeds_hysteresis a b t)"
proof -
  note ab = hysteresis_Fin [OF assms, of t] and ba = hysteresis_Fin [OF assms(2,1,5,6,3,4), of t]
  have t: "int (unat t) \<le> 255" using unat_u8_le [of t] by simp
  have "real (unat t) < \<bar>x - y\<bar>" if "real (unat t) < rnd \<bar>x - y\<bar>"
    using that rnd_le_int [of "\<bar>x - y\<bar>" "int (unat t)"] t by fastforce
  moreover have "real (unat t) < rnd \<bar>x - y\<bar>" if "real (unat t) + 1 \<le> \<bar>x - y\<bar>"
    using that rnd_ge_int [of "int (unat t) + 1" "\<bar>x - y\<bar>"] t by simp
  ultimately show ?thesis
    using ab ba hysteresis_self [of a t] unfolding exceeds_hysteresis_def by (simp add: abs_minus_commute)
qed

theorem exceeds_hysteresis_sound_witness:
  "exceeds_hysteresis (uniform_score (Fin 80)) (uniform_score (Fin 40)) 15
    \<and> \<not> exceeds_hysteresis (uniform_score (Fin 80)) (uniform_score (Fin 80)) 15"
proof -
  have "real (unat (15 :: u8)) + 1 \<le> \<bar>80 - 40\<bar>" by simp
  with exceeds_hysteresis_sound [of "uniform_score (Fin 80)" 80 "uniform_score (Fin 40)" 40 15]
  show ?thesis unfolding uniform_score_def by force
qed

end
