(* ===== verification/Events.thy ===== *)
theory Events
  imports Health
begin

text \<open>
  \<^verbatim>\<open>crates/netfusion-shared/src/events.rs\<close> and \<^verbatim>\<open>crates/netfusion-core/src/error.rs\<close>: the events the
  components emit, with their timestamp and description, and the error types with the text
  their \<open>Display\<close> gives. An \<open>io::Error\<close> or a database error is kept as its text.
\<close>

section \<open>Events\<close>

record interface_event =
  ie_interface :: string
  ie_timestamp :: timestamp
  ie_details :: "string option"

record health_event =
  he_interface :: string
  he_timestamp :: timestamp
  he_previous_score :: f64
  he_new_score :: health_score

record loss_event =
  le_interface :: string
  le_timestamp :: timestamp
  le_loss_percent :: f64
  le_duration_secs :: nat

record congestion_event =
  ce_interface :: string
  ce_timestamp :: timestamp
  ce_queue_depth :: nat
  ce_latency_increase_ms :: f64

record failover_event =
  fe_bond :: string
  fe_timestamp :: timestamp
  fe_previous_active :: "string list"
  fe_new_active :: "string list"
  fe_reason :: string

record tunnel_event =
  te_tunnel :: string
  te_timestamp :: timestamp
  te_remote :: string
  te_error :: "string option"

record route_change =
  rch_action :: string
  rch_destination :: "string option"
  rch_gateway :: "string option"
  rch_interface :: string

record route_event =
  re_timestamp :: timestamp
  re_rule_count :: nat
  re_changes :: "route_change list"

record bond_event =
  be_bond :: string
  be_timestamp :: timestamp
  be_added :: "string list"
  be_removed :: "string list"

record config_event =
  cfe_timestamp :: timestamp
  cfe_source :: string
  cfe_errors :: "string list"

record error_event =
  ee_subsystem :: string
  ee_timestamp :: timestamp
  ee_message :: string
  ee_recoverable :: bool

record profile_event =
  pe_profile :: string
  pe_timestamp :: timestamp
  pe_trigger :: string

datatype netfusion_event =
    InterfaceUp interface_event
  | InterfaceDown interface_event
  | HealthChanged health_event
  | PacketLossSpike loss_event
  | CongestionDetected congestion_event
  | FailoverTriggered failover_event
  | FailoverRecovered failover_event
  | TunnelConnected tunnel_event
  | TunnelDisconnected tunnel_event
  | RouteChanged route_event
  | BondMembershipChanged bond_event
  | ConfigReloaded config_event
  | SubsystemError error_event
  | ProfileActivated profile_event
  | ProfileDeactivated profile_event

fun event_timestamp :: "netfusion_event \<Rightarrow> timestamp" where
  "event_timestamp (InterfaceUp e) = ie_timestamp e"
| "event_timestamp (InterfaceDown e) = ie_timestamp e"
| "event_timestamp (HealthChanged e) = he_timestamp e"
| "event_timestamp (PacketLossSpike e) = le_timestamp e"
| "event_timestamp (CongestionDetected e) = ce_timestamp e"
| "event_timestamp (FailoverTriggered e) = fe_timestamp e"
| "event_timestamp (FailoverRecovered e) = fe_timestamp e"
| "event_timestamp (TunnelConnected e) = te_timestamp e"
| "event_timestamp (TunnelDisconnected e) = te_timestamp e"
| "event_timestamp (RouteChanged e) = re_timestamp e"
| "event_timestamp (BondMembershipChanged e) = be_timestamp e"
| "event_timestamp (ConfigReloaded e) = cfe_timestamp e"
| "event_timestamp (SubsystemError e) = ee_timestamp e"
| "event_timestamp (ProfileActivated e) = pe_timestamp e"
| "event_timestamp (ProfileDeactivated e) = pe_timestamp e"

fun event_description :: "netfusion_event \<Rightarrow> string" where
  "event_description (InterfaceUp e) = ''Interface '' @ ie_interface e @ '' is up''"
| "event_description (InterfaceDown e) = ''Interface '' @ ie_interface e @ '' is down''"
| "event_description (HealthChanged e) =
     ''Interface '' @ he_interface e @ '' health: '' @ show_fixed 1 (hs_overall (he_new_score e))"
| "event_description (PacketLossSpike e) =
     ''Packet loss spike on '' @ le_interface e @ '': '' @ show_fixed 1 (le_loss_percent e) @ ''%''"
| "event_description (CongestionDetected e) =
     ''Congestion on '' @ ce_interface e @ '' (queue depth: '' @ show_nat (ce_queue_depth e) @ '')''"
| "event_description (FailoverTriggered e) =
     ''Failover on '' @ fe_bond e @ '' -> '' @ join '', '' (fe_new_active e)"
| "event_description (FailoverRecovered e) =
     ''Failover recovered on '' @ fe_bond e @ '': '' @ join '', '' (fe_new_active e)"
| "event_description (TunnelConnected e) = ''Tunnel '' @ te_tunnel e @ '' connected''"
| "event_description (TunnelDisconnected e) = ''Tunnel '' @ te_tunnel e @ '' disconnected''"
| "event_description (RouteChanged e) = ''Routes changed ('' @ show_nat (re_rule_count e) @ '' rules)''"
| "event_description (BondMembershipChanged e) = ''Bond '' @ be_bond e @ '' membership changed''"
| "event_description (ConfigReloaded e) = ''Config reloaded from '' @ cfe_source e"
| "event_description (SubsystemError e) = ''Error in '' @ ee_subsystem e @ '': '' @ ee_message e"
| "event_description (ProfileActivated e) = ''Profile '' @ [CHR 0x27] @ pe_profile e @ [CHR 0x27] @ '' activated''"
| "event_description (ProfileDeactivated e) = ''Profile '' @ [CHR 0x27] @ pe_profile e @ [CHR 0x27] @ '' deactivated''"

section \<open>Errors\<close>

datatype discovery_error =
    NetlinkConnect string
  | Enumerate string
  | Ethtool string string
  | WirelessUnavailable string

datatype monitoring_error =
    PingFailed string string
  | NoTarget string
  | ProbeTimeout string
  | InterfaceIsDown string
  | ChannelClosed string

datatype routing_error =
    RouteModify string
  | TableRead string
  | PolicyConflict string
  | RollbackFailed string

datatype bonding_error =
    CreateFailed string string
  | EnslaveFailed string string
  | InsufficientMembers string nat nat
  | BondNotFound string

datatype state_error =
    DbOpen string
  | QueryFailed string
  | MigrationFailed string
  | Corrupted string

datatype core_error =
    DiscoveryErr discovery_error
  | MonitoringErr monitoring_error
  | RoutingErr routing_error
  | BondingErr bonding_error
  | StateErr state_error
  | ConfigErr string
  | QosErr string
  | InternalErr string

definition quoted :: "string \<Rightarrow> string" where
  "quoted s = [CHR 0x27] @ s @ [CHR 0x27]"

fun show_discovery_error :: "discovery_error \<Rightarrow> string" where
  "show_discovery_error (NetlinkConnect e) = ''failed to connect to netlink: '' @ e"
| "show_discovery_error (Enumerate e) = ''failed to enumerate interfaces: '' @ e"
| "show_discovery_error (Ethtool i e) = ''ethtool failed for interface '' @ quoted i @ '': '' @ e"
| "show_discovery_error (WirelessUnavailable i) = ''wireless info unavailable for '' @ quoted i"

fun show_monitoring_error :: "monitoring_error \<Rightarrow> string" where
  "show_monitoring_error (PingFailed i r) = ''ping probe failed for '' @ quoted i @ '': '' @ r"
| "show_monitoring_error (NoTarget i) = ''no target available for probe on '' @ quoted i"
| "show_monitoring_error (ProbeTimeout i) = ''probe timed out for '' @ quoted i"
| "show_monitoring_error (InterfaceIsDown i) = ''interface '' @ quoted i @ '' is down''"
| "show_monitoring_error (ChannelClosed i) = ''monitor channel closed for '' @ quoted i"

fun show_routing_error :: "routing_error \<Rightarrow> string" where
  "show_routing_error (RouteModify e) = ''failed to modify route: '' @ e"
| "show_routing_error (TableRead e) = ''failed to read routing table: '' @ e"
| "show_routing_error (PolicyConflict e) = ''policy conflict: '' @ e"
| "show_routing_error (RollbackFailed e) = ''rollback failed: '' @ e"

fun show_bonding_error :: "bonding_error \<Rightarrow> string" where
  "show_bonding_error (CreateFailed n e) = ''failed to create bond '' @ quoted n @ '': '' @ e"
| "show_bonding_error (EnslaveFailed b i) =
     ''failed to enslave interface '' @ quoted i @ '' to bond '' @ quoted b"
| "show_bonding_error (InsufficientMembers n m a) =
     ''bond '' @ quoted n @ '' requires at least '' @ show_nat m @ '' members, got '' @ show_nat a"
| "show_bonding_error (BondNotFound n) = ''bond '' @ quoted n @ '' not found''"

fun show_state_error :: "state_error \<Rightarrow> string" where
  "show_state_error (DbOpen e) = ''failed to open state database: '' @ e"
| "show_state_error (QueryFailed e) = ''failed to execute query: '' @ e"
| "show_state_error (MigrationFailed e) = ''state migration failed: '' @ e"
| "show_state_error (Corrupted e) = ''state file corrupted: '' @ e"

fun show_core_error :: "core_error \<Rightarrow> string" where
  "show_core_error (DiscoveryErr e) = ''discovery error: '' @ show_discovery_error e"
| "show_core_error (MonitoringErr e) = ''monitoring error: '' @ show_monitoring_error e"
| "show_core_error (RoutingErr e) = ''routing error: '' @ show_routing_error e"
| "show_core_error (BondingErr e) = ''bonding error: '' @ show_bonding_error e"
| "show_core_error (StateErr e) = ''state persistence error: '' @ show_state_error e"
| "show_core_error (ConfigErr e) = ''configuration error: '' @ e"
| "show_core_error (QosErr e) = ''QoS error: '' @ e"
| "show_core_error (InternalErr e) = ''internal error: '' @ e"

text \<open>\<^verbatim>\<open>impl From<std::io::Error> for CoreError\<close>, which the operator \<^verbatim>\<open>?\<close> applies.\<close>

definition core_error_from_io :: "string \<Rightarrow> core_error" where
  "core_error_from_io e = InternalErr e"

end
