(* ===== verification/NF_Process.thy ===== *)
theory NF_Process
  imports NF_Strings
begin

text \<open>
  The operating system as the program sees it: \<open>Command::new(prog).args(args).output()\<close> either
  fails to start the process (an \<open>io::Error\<close>, kept as its text) or gives the exit status and
  the two output streams. What a command does and answers is not part of the program, so it is
  the parameter \<open>sh\<close> of every operation that runs commands, over an arbitrary world \<open>'w\<close>.
  \<open>recording\<close> is the shell whose world is the log of the commands run, in order, and whose
  answers are an arbitrary function of the command: statements about which commands are issued
  are made over it.
\<close>

named_theorems cmd_simps \<open>one step of a command-issuing operation\<close>

record cmd_output =
  out_success :: bool
  out_status :: string
  out_stdout :: string
  out_stderr :: string

type_synonym cmd = "string list"

type_synonym 'w shell = "cmd \<Rightarrow> 'w \<Rightarrow> (string, cmd_output) result \<times> 'w"

text \<open>
  \<^verbatim>\<open>tokio::time::timeout(d, command.output())\<close>: \<open>None\<close> when the time is up first. Durations and
  monotonic clock readings are nanoseconds.
\<close>

type_synonym duration = nat
type_synonym instant = nat

type_synonym 'w timed_shell = "duration \<Rightarrow> cmd \<Rightarrow> 'w \<Rightarrow> (string, cmd_output) result option \<times> 'w"

definition from_secs :: "nat \<Rightarrow> duration" where
  "from_secs n = n * 1000000000"

definition as_secs :: "duration \<Rightarrow> nat" where
  "as_secs d = d div 1000000000"

definition as_secs_f64 :: "duration \<Rightarrow> f64" where
  "as_secs_f64 d = f_of_nat (d div 1000000000) + divide (f_of_nat (d mod 1000000000)) (Fin 1000000000)"

text \<open>\<open>Instant::duration_since\<close> and \<open>elapsed\<close> saturate at zero.\<close>

definition duration_since :: "instant \<Rightarrow> instant \<Rightarrow> duration" where
  "duration_since now earlier = now - earlier"

text \<open>\<^verbatim>\<open>num_seconds\<close> of a signed duration truncates towards zero.\<close>

definition num_seconds :: "int \<Rightarrow> int" where
  "num_seconds d = (if 0 \<le> d then d div 1000000000 else - ((- d) div 1000000000))"

definition recording :: "(cmd \<Rightarrow> (string, cmd_output) result) \<Rightarrow> cmd list shell" where
  "recording f argv lg = (f argv, lg @ [argv])"

text \<open>The operator \<^verbatim>\<open>?\<close>: stop at an error, else go on with the value.\<close>

definition and_then :: "('e, 'a) result \<times> 'w \<Rightarrow> ('a \<Rightarrow> 'w \<Rightarrow> ('e, 'b) result \<times> 'w) \<Rightarrow> ('e, 'b) result \<times> 'w" where
  "and_then rw k = (case rw of (Inl e, w) \<Rightarrow> (Inl e, w) | (Inr a, w) \<Rightarrow> k a w)"

lemma and_then_simps [simp, cmd_simps]:
  "and_then (Inl e, w) k = (Inl e, w)"
  "and_then (Inr a, w) k = k a w"
  by (simp_all add: and_then_def)

lemma and_then_ok:
  "and_then rw k = (Inr b, w') \<longleftrightarrow> (\<exists>a w. rw = (Inr a, w) \<and> k a w = (Inr b, w'))"
  by (cases rw; cases "fst rw") (auto simp: and_then_def)

lemma and_then_assoc: "and_then (and_then rw k) l = and_then rw (\<lambda>a w. and_then (k a w) l)"
  by (cases rw; cases "fst rw") (auto simp: and_then_def)

lemma recording_apply [cmd_simps]: "recording f argv lg = (f argv, lg @ [argv])"
  by (simp add: recording_def)

definition ok_output :: cmd_output where
  "ok_output = \<lparr>out_success = True, out_status = ''exit status: 0'', out_stdout = [], out_stderr = []\<rparr>"

text \<open>A shell on which every command starts and succeeds silently.\<close>

definition all_ok :: "cmd \<Rightarrow> (string, cmd_output) result" where
  "all_ok argv = Inr ok_output"

lemma ok_output_simps [simp]:
  "out_success ok_output" "out_stdout ok_output = []" "out_stderr ok_output = []"
  by (simp_all add: ok_output_def)

text \<open>
  The file system: reading a file, writing it whole, removing it, each with the path first; an
  error is the text of the \<open>io::Error\<close>. \<open>fs_exists\<close> tells whether a path is there.
\<close>

record 'w files =
  fs_read :: "string \<Rightarrow> 'w \<Rightarrow> (string, string) result \<times> 'w"
  fs_write :: "string \<Rightarrow> string \<Rightarrow> 'w \<Rightarrow> (string, unit) result \<times> 'w"
  fs_remove :: "string \<Rightarrow> 'w \<Rightarrow> (string, unit) result \<times> 'w"
  fs_exists :: "string \<Rightarrow> 'w \<Rightarrow> bool \<times> 'w"

end
