(* ===== verification/Monitoring.thy ===== *)
theory Monitoring
  imports Events NF_Process
begin

text \<open>
  \<^verbatim>\<open>crates/netfusion-core/src/monitoring.rs\<close>: the probe of one interface (ping, throughput from
  the kernel counters), the smoothed score per interface, and one round of the monitoring loop.

  A probe takes the clock readings \<open>inst\<close> (monotonic) and \<open>now\<close> (wall clock) as arguments; the
  updates broadcast so far are the list \<open>hm_sent\<close>.
\<close>

section \<open>State\<close>

record monitor_config =
  mc_probe_interval :: duration
  mc_ping_targets :: "string list"
  mc_ema_alpha :: f64
  mc_hysteresis_threshold :: u8
  mc_ping_timeout :: duration

definition monitor_config_default :: monitor_config where
  "monitor_config_default =
     \<lparr>mc_probe_interval = from_secs 5, mc_ping_targets = [''8.8.8.8'', ''1.1.1.1''],
      mc_ema_alpha = fl (3 / 10), mc_hysteresis_threshold = 15, mc_ping_timeout = from_secs 2\<rparr>"

record probe_result =
  pb_interface :: string
  pb_rtt_ms :: f64
  pb_jitter_ms :: f64
  pb_loss_percent :: f64
  pb_throughput_mbps :: f64
  pb_state_changes :: u32
  pb_timestamp :: timestamp

record throughput_tracker =
  tt_last_rx :: "(string, nat) hmap"
  tt_last_tx :: "(string, nat) hmap"
  tt_last_time :: "instant option"

definition tracker_new :: throughput_tracker where
  "tracker_new = \<lparr>tt_last_rx = [], tt_last_tx = [], tt_last_time = None\<rparr>"

definition tracker_store :: "instant \<Rightarrow> string \<Rightarrow> nat \<Rightarrow> nat \<Rightarrow> throughput_tracker \<Rightarrow> throughput_tracker" where
  "tracker_store now name rx_bytes tx_bytes t =
     t\<lparr>tt_last_rx := hm_insert name rx_bytes (tt_last_rx t),
       tt_last_tx := hm_insert name tx_bytes (tt_last_tx t), tt_last_time := Some now\<rparr>"

definition tracker_estimate ::
  "instant \<Rightarrow> string \<Rightarrow> nat \<Rightarrow> nat \<Rightarrow> throughput_tracker \<Rightarrow> f64 \<times> throughput_tracker" where
  "tracker_estimate now name rx_bytes tx_bytes t =
     (case (tt_last_time t, hm_get (tt_last_rx t) name, hm_get (tt_last_tx t) name) of
        (Some last_time, Some last_rx, Some last_tx) \<Rightarrow>
          (let elapsed = as_secs_f64 (duration_since now last_time)
           in if 0 < elapsed then
                (let rx_delta = f_of_nat (rx_bytes - last_rx);
                     tx_delta = f_of_nat (tx_bytes - last_tx);
                     total_bits = (rx_delta + tx_delta) * Fin 8;
                     mbps = divide (divide total_bits elapsed) (Fin 1000000)
                 in (mbps, tracker_store now name rx_bytes tx_bytes t))
              else (0, tracker_store now name rx_bytes tx_bytes t))
      | _ \<Rightarrow> (0, tracker_store now name rx_bytes tx_bytes t))"

record health_update =
  hu_interface :: string
  hu_previous_score :: f64
  hu_new_score :: health_score
  hu_smoothed_score :: health_score
  hu_failover_candidate :: bool
  hu_probe :: probe_result

record health_monitor =
  hm_config :: monitor_config
  hm_weights :: health_weights_config
  hm_previous_scores :: "(string, health_score) hmap"
  hm_throughput_tracker :: throughput_tracker
  hm_sent :: "health_update list"

definition monitor_new :: "monitor_config \<Rightarrow> health_weights \<Rightarrow> health_monitor" where
  "monitor_new config weights =
     \<lparr>hm_config = config,
      hm_weights = \<lparr>wc_rtt = hw_rtt weights, wc_jitter = hw_jitter weights, wc_loss = hw_loss weights,
        wc_throughput = hw_throughput weights, wc_stability = hw_stability weights\<rparr>,
      hm_previous_scores = [], hm_throughput_tracker = tracker_new, hm_sent = []\<rparr>"

section \<open>The ping probe\<close>

text \<open>One line of the output updates the loss, the average round-trip time and the deviation.\<close>

record ping_stats =
  ps_loss :: f64
  ps_avg :: f64
  ps_mdev :: f64

definition parse_loss_line :: "string \<Rightarrow> ping_stats \<Rightarrow> ping_stats" where
  "parse_loss_line line st =
     (case find (\<lambda>part. contains_str part ''packet loss'') (split_char (CHR '','') line) of
        None \<Rightarrow> st
      | Some loss_str \<Rightarrow>
          (case strip_suffix (trim loss_str) ''% packet loss'' of
             None \<Rightarrow> st
           | Some loss_val \<Rightarrow>
               (case parse_f64 (trim loss_val) of None \<Rightarrow> st | Some loss \<Rightarrow> st\<lparr>ps_loss := loss\<rparr>)))"

definition parse_rtt_line :: "string \<Rightarrow> ping_stats \<Rightarrow> ping_stats" where
  "parse_rtt_line line st =
     (if contains_str line ''rtt min/avg/max/mdev'' \<or> contains_str line ''round-trip min/avg/max'' then
        (case split_char (CHR ''='') line of
           _ # stats # _ \<Rightarrow>
             (let parts = split_char (CHR ''/'') stats
              in if 4 \<le> length parts then
                   (let st = (case parse_f64 (trim (parts ! 1)) of
                                None \<Rightarrow> st | Some avg \<Rightarrow> st\<lparr>ps_avg := avg\<rparr>)
                    in case parse_f64 (trim_end_matches (parts ! 3) '' ms'') of
                         None \<Rightarrow> st | Some mdev_val \<Rightarrow> st\<lparr>ps_mdev := mdev_val\<rparr>)
                 else st)
         | _ \<Rightarrow> st)
      else st)"

definition parse_ping_output :: "string \<Rightarrow> (string, f64 \<times> f64 \<times> f64) result" where
  "parse_ping_output out =
     (let st = fold (\<lambda>line st. parse_rtt_line line (parse_loss_line line st)) (str_lines out)
                 \<lparr>ps_loss = 0, ps_avg = 0, ps_mdev = 0\<rparr>
      in if feq (ps_avg st) 0 \<and> ps_loss st < Fin 100
         then Err ''could not parse RTT from ping output''
         else Ok (ps_avg st, ps_mdev st, ps_loss st))"

definition ping_argv :: "string \<Rightarrow> cmd" where
  "ping_argv target = [''ping'', ''-c'', ''4'', ''-W'', ''2'', ''-i'', ''0.2'', target]"

definition ping_probe ::
  "'w timed_shell \<Rightarrow> string \<Rightarrow> duration \<Rightarrow> 'w \<Rightarrow> (string, f64 \<times> f64 \<times> f64) result \<times> 'w" where
  "ping_probe tsh target tmo w =
     (case tsh (tmo * 3) (ping_argv target) w of
        (None, w') \<Rightarrow> (Err (''ping command timed out for '' @ target), w')
      | (Some (Inl e), w') \<Rightarrow> (Err (''failed to run ping command: '' @ e), w')
      | (Some (Inr out), w') \<Rightarrow>
          if \<not> out_success out then (Err (''ping exited with status: '' @ out_status out), w')
          else (parse_ping_output (out_stdout out), w'))"

section \<open>Probing an interface\<close>

definition ping_target :: "monitor_config \<Rightarrow> interface_info \<Rightarrow> string option" where
  "ping_target c i =
     (case if_gateway i of
        Some g \<Rightarrow> Some g
      | None \<Rightarrow> (case mc_ping_targets c of [] \<Rightarrow> None | t # _ \<Rightarrow> Some t))"

definition run_probe ::
  "'w timed_shell \<Rightarrow> instant \<Rightarrow> timestamp \<Rightarrow> health_monitor \<Rightarrow> interface_info \<Rightarrow> 'w
     \<Rightarrow> probe_result option \<times> health_monitor \<times> 'w" where
  "run_probe tsh inst now m i w =
     (let ((rtt_ms, jitter_ms, loss_percent), w') =
            (case ping_target (hm_config m) i of
               Some target \<Rightarrow>
                 (case ping_probe tsh target (mc_ping_timeout (hm_config m)) w of
                    (Inr r, w') \<Rightarrow> (r, w')
                  | (Inl _, w') \<Rightarrow> ((Fin 999, Fin 100, Fin 100), w'))
             | None \<Rightarrow> ((Fin 50, Fin 10, Fin 0), w));
          (throughput_mbps, tracker) =
            tracker_estimate inst (if_name i) (st_rx_bytes (if_stats i)) (st_tx_bytes (if_stats i))
              (hm_throughput_tracker m)
      in (Some \<lparr>pb_interface = if_name i, pb_rtt_ms = rtt_ms, pb_jitter_ms = jitter_ms,
            pb_loss_percent = loss_percent, pb_throughput_mbps = throughput_mbps,
            pb_state_changes = 0, pb_timestamp = now\<rparr>,
          m\<lparr>hm_throughput_tracker := tracker\<rparr>, w'))"

text \<open>
  The smoothing section holds the write lock: it stores the new smoothed score. The hysteresis
  section then takes the read lock and compares with what is stored.
\<close>

definition smooth_section ::
  "timestamp \<Rightarrow> f64 \<Rightarrow> string \<Rightarrow> health_score \<Rightarrow> (string, health_score) hmap
     \<Rightarrow> health_score \<times> (string, health_score) hmap" where
  "smooth_section now alpha name raw_score prev_scores =
     (case hm_get prev_scores name of
        Some prev \<Rightarrow>
          (let smoothed = ema_smooth now raw_score prev alpha
           in (smoothed, hm_insert name smoothed prev_scores))
      | None \<Rightarrow> (raw_score, hm_insert name raw_score prev_scores))"

definition hysteresis_section ::
  "u8 \<Rightarrow> string \<Rightarrow> health_score \<Rightarrow> (string, health_score) hmap \<Rightarrow> bool" where
  "hysteresis_section threshold name smoothed prev_scores =
     (case hm_get prev_scores name of
        Some prev \<Rightarrow> exceeds_hysteresis smoothed prev threshold
      | None \<Rightarrow> False)"

text \<open>\<open>None\<close> is the overflow panic of the weighted score.\<close>

definition probe_interface ::
  "bool \<Rightarrow> 'w timed_shell \<Rightarrow> instant \<Rightarrow> timestamp \<Rightarrow> health_monitor \<Rightarrow> interface_info \<Rightarrow> 'w
     \<Rightarrow> (health_update option \<times> health_monitor \<times> 'w) option" where
  "probe_interface chk tsh inst now m i w =
     (if if_link_state i \<noteq> Up then Some (None, m, w)
      else case run_probe tsh inst now m i w of
        (None, m', w') \<Rightarrow> Some (None, m', w')
      | (Some probe, m', w') \<Rightarrow>
          (case compute_health chk now (pb_rtt_ms probe) (pb_jitter_ms probe) (pb_loss_percent probe)
                  (pb_throughput_mbps probe) (pb_state_changes probe) (hm_weights m') of
             None \<Rightarrow> None
           | Some raw_score \<Rightarrow>
               (let (smoothed, scores) = smooth_section now (mc_ema_alpha (hm_config m')) (if_name i)
                                           raw_score (hm_previous_scores m');
                    candidate = hysteresis_section (mc_hysteresis_threshold (hm_config m')) (if_name i)
                                  smoothed scores;
                    update = \<lparr>hu_interface = if_name i, hu_previous_score = hs_overall smoothed,
                      hu_new_score = raw_score, hu_smoothed_score = smoothed,
                      hu_failover_candidate = candidate, hu_probe = probe\<rparr>
                in Some (Some update,
                     m'\<lparr>hm_previous_scores := scores, hm_sent := hm_sent m' @ [update]\<rparr>, w'))))"

text \<open>One tick of \<open>run\<close>: every interface of the shared list in turn, with its clock readings.\<close>

fun monitor_round ::
  "bool \<Rightarrow> 'w timed_shell \<Rightarrow> (interface_info \<times> instant \<times> timestamp) list \<Rightarrow> health_monitor \<Rightarrow> 'w
     \<Rightarrow> (health_monitor \<times> 'w) option" where
  "monitor_round chk tsh [] m w = Some (m, w)"
| "monitor_round chk tsh ((i, inst, now) # is) m w =
     (case probe_interface chk tsh inst now m i w of
        None \<Rightarrow> None
      | Some (_, m', w') \<Rightarrow> monitor_round chk tsh is m' w')"

section \<open>Reading the output of ping\<close>

text \<open>The two summary lines of iputils, the second with its four figures.\<close>

definition loss_line :: "string \<Rightarrow> string \<Rightarrow> string \<Rightarrow> string \<Rightarrow> string" where
  "loss_line sent received loss ms =
     sent @ '' packets transmitted,'' @ '' '' @ received @ '' received,'' @ '' '' @ loss @ ''% packet loss,''
       @ '' time '' @ ms @ ''ms''"

definition rtt_line :: "string \<Rightarrow> string \<Rightarrow> string \<Rightarrow> string \<Rightarrow> string" where
  "rtt_line mn avg mx mdev =
     ''rtt min/avg/max/mdev ='' @ '' '' @ mn @ ''/'' @ avg @ ''/'' @ mx @ ''/'' @ mdev @ '' ms''"

text \<open>A printed number: at least one character, all digits or decimal points.\<close>

definition numeric :: "string \<Rightarrow> bool" where
  "numeric s \<longleftrightarrow> s \<noteq> [] \<and> (\<forall>c \<in> set s. is_digit c \<or> c = CHR ''.'')"

lemma numeric_no [simp]:
  assumes "numeric s"
  shows "CHR '','' \<notin> set s" "CHR ''/'' \<notin> set s" "CHR ''='' \<notin> set s" "CHR '' '' \<notin> set s"
    "CHR ''p'' \<notin> set s" "CHR ''r'' \<notin> set s" "CHR 0x0A \<notin> set s" "CHR 0x0D \<notin> set s"
    "\<forall>c \<in> set s. \<not> is_ws c" "s \<noteq> []"
  using assms by (auto simp: numeric_def is_digit_def is_ws_def)

lemma numeric_trim: "numeric s \<Longrightarrow> trim s = s"
  by (intro trim_id) (auto simp: numeric_no)

lemma trim_space: "trim (CHR '' '' # s) = trim s"
  by (simp add: trim_def is_ws_def)

lemma numeric_hd: "numeric s \<Longrightarrow> \<not> is_ws (hd s)"
  using numeric_no(9,10) [of s] by auto

lemma numeric_trim_lead: "numeric s \<Longrightarrow> trim (CHR '' '' # s) = s"
  by (simp add: trim_space numeric_trim)

text \<open>Other lines of the output: they contain none of the three markers.\<close>

definition unmarked :: "string \<Rightarrow> bool" where
  "unmarked l \<longleftrightarrow> plain_line l \<and> \<not> contains_str l ''packet loss''
     \<and> \<not> contains_str l ''rtt min/avg/max/mdev'' \<and> \<not> contains_str l ''round-trip min/avg/max''"

lemma piece_of_unmarked:
  assumes "\<not> contains_str l p" "x \<in> set (split_char c l)"
  shows "\<not> contains_str x p"
proof -
  from split_list [OF assms(2)] obtain ys zs where ys: "split_char c l = ys @ x # zs" by blast
  have "\<exists>a b. join [c] (ys @ x # zs) = a @ x @ b"
  proof (induction ys)
    case Nil
    then show ?case by (cases zs) (auto intro: exI [of _ "[]"])
  next
    case (Cons y ys)
    then obtain a b where "join [c] (ys @ x # zs) = a @ x @ b" by blast
    then have "join [c] ((y # ys) @ x # zs) = (y @ [c] @ a) @ x @ b"
      by (cases "ys @ x # zs") auto
    then show ?case by blast
  qed
  then obtain a b where "l = a @ x @ b" using join_split_char [of c l] ys by auto
  with assms(1) show ?thesis using contains_str_append [of x p a b] by blast
qed

lemma parse_unmarked: "unmarked l \<Longrightarrow> parse_rtt_line l (parse_loss_line l st) = st"
proof -
  assume u: "unmarked l"
  then have "find (\<lambda>part. contains_str part ''packet loss'') (split_char (CHR '','') l) = None"
    using piece_of_unmarked [of l "''packet loss''"] by (auto simp: unmarked_def find_None_iff)
  with u show ?thesis by (simp add: parse_loss_line_def parse_rtt_line_def unmarked_def)
qed

lemma fold_unmarked:
  "\<forall>l \<in> set ls. unmarked l \<Longrightarrow> fold (\<lambda>line st. parse_rtt_line line (parse_loss_line line st)) ls st = st"
  by (induction ls) (auto simp: parse_unmarked)

lemma loss_line_split:
  assumes "numeric sent" "numeric received" "numeric loss" "numeric ms"
  shows "split_char (CHR '','') (loss_line sent received loss ms) =
    [sent @ '' packets transmitted'', CHR '' '' # received @ '' received'',
     CHR '' '' # loss @ ''% packet loss'', '' time '' @ ms @ ''ms'']"
proof -
  have 1: "CHR '','' \<notin> set (sent @ '' packets transmitted'')" "CHR '','' \<notin> set (CHR '' '' # received @ '' received'')"
    "CHR '','' \<notin> set (CHR '' '' # loss @ ''% packet loss'')" "CHR '','' \<notin> set ('' time '' @ ms @ ''ms'')"
    using assms by auto
  have "loss_line sent received loss ms = (sent @ '' packets transmitted'') @ CHR '','' #
      (CHR '' '' # received @ '' received'') @ CHR '','' # (CHR '' '' # loss @ ''% packet loss'') @ CHR '','' #
      ('' time '' @ ms @ ''ms'')"
    by (simp add: loss_line_def)
  then show ?thesis
    by (simp only: split_char_pieces2(1) [OF 1(1)] split_char_pieces2(1) [OF 1(2)] split_char_pieces2(1) [OF 1(3)]
        split_char_pieces2(2) [OF 1(4)])
qed

lemma numeric_contains:
  assumes "numeric s"
  shows "contains_str (s @ t) (CHR ''p'' # p) = contains_str t (CHR ''p'' # p)"
    "contains_str (s @ t) (CHR ''r'' # p) = contains_str t (CHR ''r'' # p)"
  using assms by (auto intro!: contains_str_skip)

lemma parse_loss_line_loss:
  assumes "numeric sent" "numeric received" "numeric loss" "numeric ms" "parse_f64 loss = Some l"
  shows "parse_rtt_line (loss_line sent received loss ms) (parse_loss_line (loss_line sent received loss ms) st)
    = st\<lparr>ps_loss := l\<rparr>"
proof -
  have f: "find (\<lambda>part. contains_str part ''packet loss'') (split_char (CHR '','') (loss_line sent received loss ms))
      = Some (CHR '' '' # loss @ ''% packet loss'')"
    using assms by (simp add: loss_line_split numeric_contains starts_with_def)
  have t: "trim (CHR '' '' # loss @ ''% packet loss'') = loss @ ''% packet loss''"
    using numeric_hd [OF assms(3)] numeric_no(10) [OF assms(3)] unfolding trim_space
    by (intro trim_id) (simp add: is_ws_def)
  have a: "parse_loss_line (loss_line sent received loss ms) st = st\<lparr>ps_loss := l\<rparr>"
    using assms strip_suffix_append [of loss "''% packet loss''"]
    by (simp add: parse_loss_line_def f t numeric_trim)
  have r: "\<not> contains_str (loss_line sent received loss ms) ''rtt min/avg/max/mdev''"
    "\<not> contains_str (loss_line sent received loss ms) ''round-trip min/avg/max''"
    using assms by (simp_all add: loss_line_def numeric_contains starts_with_def)
  show ?thesis by (simp add: a parse_rtt_line_def r)
qed

lemma trim_end_matches_once:
  assumes "s \<noteq> []" "p \<noteq> []" "last s \<noteq> last p"
  shows "trim_end_matches (s @ p) p = s"
proof -
  have "rev s \<noteq> []" "rev p \<noteq> []" "hd (rev s) \<noteq> hd (rev p)"
    using assms by (simp_all add: hd_rev)
  then have n: "strip_prefix (rev s) (rev p) = None"
    by (cases "rev s"; cases "rev p") (simp_all add: strip_prefix_def starts_with_def)
  obtain k where k: "length p + length s = Suc (Suc k)"
    using assms by (cases s; cases p) auto
  show ?thesis
    by (simp add: trim_end_matches_def trim_start_matches_def k n)
qed

lemma parse_rtt_line_stats:
  assumes "numeric mn" "numeric avg" "numeric mx" "numeric mdev"
    and "parse_f64 avg = Some a" "parse_f64 mdev = Some m"
  shows "parse_rtt_line (rtt_line mn avg mx mdev) (parse_loss_line (rtt_line mn avg mx mdev) st)
    = st\<lparr>ps_avg := a, ps_mdev := m\<rparr>"
proof -
  let ?l = "rtt_line mn avg mx mdev"
  have "CHR '','' \<notin> set ?l" using assms(1-4) by (auto simp: rtt_line_def)
  moreover have "\<not> contains_str ?l ''packet loss''"
    using assms(1-4) by (simp add: rtt_line_def starts_with_def numeric_contains)
  ultimately have p: "parse_loss_line ?l st = st"
    by (simp add: parse_loss_line_def split_char_pieces2)
  have c: "contains_str ?l ''rtt min/avg/max/mdev''"
    by (simp add: rtt_line_def starts_with_def)
  let ?r = "CHR '' '' # mn @ ''/'' @ avg @ ''/'' @ mx @ ''/'' @ mdev @ '' ms''"
  have "CHR ''='' \<notin> set ''rtt min/avg/max/mdev ''" "CHR ''='' \<notin> set ?r"
    using assms(1-4) by auto
  from split_char_pieces2(1) [OF this(1), of ?r] split_char_pieces2(2) [OF this(2)]
  have e: "split_char (CHR ''='') ?l = [''rtt min/avg/max/mdev '', ?r]"
    by (simp add: rtt_line_def)
  have d: "CHR ''/'' \<notin> set (CHR '' '' # mn)" "CHR ''/'' \<notin> set avg" "CHR ''/'' \<notin> set mx"
      "CHR ''/'' \<notin> set (mdev @ '' ms'')"
    using assms(1-4) by auto
  have "?r = (CHR '' '' # mn) @ CHR ''/'' # avg @ CHR ''/'' # mx @ CHR ''/'' # (mdev @ '' ms'')" by simp
  then have s: "split_char (CHR ''/'') ?r = [CHR '' '' # mn, avg, mx, mdev @ '' ms'']"
    by (simp only: split_char_pieces2(1) [OF d(1)] split_char_pieces2(1) [OF d(2)]
        split_char_pieces2(1) [OF d(3)] split_char_pieces2(2) [OF d(4)])
  have "last mdev \<noteq> CHR ''s''"
    using assms(4) last_in_set [of mdev] by (force simp: numeric_def is_digit_def)
  then have "trim_end_matches (mdev @ '' ms'') '' ms'' = mdev"
    using assms(4) by (intro trim_end_matches_once) auto
  then show ?thesis
    using assms by (simp add: p parse_rtt_line_def c e s [simplified] numeric_trim Let_def)
qed

lemma plain_loss_line:
  "numeric a \<Longrightarrow> numeric b \<Longrightarrow> numeric c \<Longrightarrow> numeric d \<Longrightarrow> plain_line (loss_line a b c d)"
  by (simp add: plain_line_def loss_line_def)

lemma plain_rtt_line:
  "numeric a \<Longrightarrow> numeric b \<Longrightarrow> numeric c \<Longrightarrow> numeric d \<Longrightarrow> plain_line (rtt_line a b c d)"
  by (simp add: plain_line_def rtt_line_def)



section \<open>The throughput tracker\<close>

definition tracker_measure ::
  "instant \<times> string \<times> nat \<times> nat \<Rightarrow> throughput_tracker \<Rightarrow> throughput_tracker" where
  "tracker_measure m t = (case m of (now, n, rx, tx) \<Rightarrow> snd (tracker_estimate now n rx tx t))"

lemma tracker_measure_store: "tracker_measure (now, n, rx, tx) t = tracker_store now n rx tx t"
  by (auto simp: tracker_measure_def tracker_estimate_def Let_def split: option.splits)

lemma tracker_store_get:
  "hm_get (tt_last_rx (tracker_store now n rx tx t)) k = (if k = n then Some rx else hm_get (tt_last_rx t) k)"
  "hm_get (tt_last_tx (tracker_store now n rx tx t)) k = (if k = n then Some tx else hm_get (tt_last_tx t) k)"
  "tt_last_time (tracker_store now n rx tx t) = Some now"
  by (simp_all add: tracker_store_def AList.update_conv')

lemma tracker_fold_other:
  assumes "\<forall>m \<in> set ms. fst (snd m) \<noteq> a"
    and "hm_get (tt_last_rx t) a = Some rx" "hm_get (tt_last_tx t) a = Some tx" "tt_last_time t = Some t0"
  shows "hm_get (tt_last_rx (fold tracker_measure ms t)) a = Some rx
    \<and> hm_get (tt_last_tx (fold tracker_measure ms t)) a = Some tx
    \<and> tt_last_time (fold tracker_measure ms t) = Some (last (t0 # List.map fst ms))"
  using assms
proof (induction ms arbitrary: t t0)
  case Nil
  then show ?case by simp
next
  case (Cons m ms)
  obtain now n rx' tx' where m: "m = (now, n, rx', tx')" by (cases m)
  have "n \<noteq> a" using Cons.prems(1) m by auto
  then show ?case
    using Cons.IH [of "tracker_measure m t" now] Cons.prems
    by (simp add: m tracker_measure_store tracker_store_get)
qed

text \<open>The rate over an interval, the formula of the source.\<close>

definition rate_mbps :: "nat \<Rightarrow> nat \<Rightarrow> duration \<Rightarrow> f64" where
  "rate_mbps rx_delta tx_delta d =
     (if 0 < as_secs_f64 d
      then divide (divide ((f_of_nat rx_delta + f_of_nat tx_delta) * Fin 8) (as_secs_f64 d)) (Fin 1000000)
      else 0)"

lemma divide_not_nan: "(e :: f64) > 0 \<Longrightarrow> divide (Fin a) e \<noteq> NaN"
  by (cases e) (auto simp: f64_simps)

lemma divide_pos_not_nan: "x \<noteq> NaN \<Longrightarrow> 0 < b \<Longrightarrow> divide x (Fin b) \<noteq> NaN"
  by (cases x) (auto simp: f64_simps)

lemma f_of_nat_u64:
  assumes "n < 2 ^ 64"
  shows "\<exists>r. f_of_nat n = Fin r \<and> 0 \<le> r \<and> r \<le> 2 ^ 64"
proof -
  have n: "real n \<le> 2 ^ 64" using assms
    by (metis of_nat_le_iff less_imp_le of_nat_numeral of_nat_power)
  also have "(2::real) ^ 64 \<le> 2 ^ 1000" by (rule power_increasing) auto
  finally have "fl (real n) = Fin (rnd (real n))" by (intro fl_bounded(1)) simp
  moreover have "rnd (real n) \<le> rnd (2 ^ 64)" using n by (rule rnd_mono)
  moreover have "rnd (2 ^ 64) = 2 ^ 64" by (rule rnd_exact [of _ 1 64]) auto
  ultimately show ?thesis by (simp add: f_of_nat_def rnd_nonneg)
qed

lemma rate_not_nan:
  assumes "rx < 2 ^ 64" "tx < 2 ^ 64"
  shows "rate_mbps rx tx d \<noteq> NaN"
proof -
  obtain a b where ab: "f_of_nat rx = Fin a" "0 \<le> a" "a \<le> 2 ^ 64" "f_of_nat tx = Fin b" "0 \<le> b" "b \<le> 2 ^ 64"
    using f_of_nat_u64 assms by metis
  have big: "(2::real) ^ 65 \<le> 2 ^ 1000" "(2::real) ^ 68 \<le> 2 ^ 1000" by (rule power_increasing; simp)+
  have "fl (a + b) = Fin (rnd (a + b))" "0 \<le> rnd (a + b)"
    using ab big by (auto intro!: fl_bounded(1) rnd_nonneg)
  moreover have "rnd (a + b) \<le> 2 ^ 65"
    using rnd_mono [of "a + b" "2 ^ 65"] rnd_exact [of "2 ^ 65" 1 65] ab by auto
  ultimately obtain c where "Fin a + Fin b = Fin c" "0 \<le> c" "c \<le> 2 ^ 65" by (auto simp: f64_simps)
  moreover then have "fl (c * 8) = Fin (rnd (c * 8))"
    using big by (intro fl_bounded(1)) auto
  ultimately show ?thesis
    using divide_not_nan divide_pos_not_nan
    by (auto simp: rate_mbps_def ab f64_simps)
qed

lemma tracker_estimate_rate:
  "fst (tracker_estimate now n rx tx t) =
     (case (tt_last_time t, hm_get (tt_last_rx t) n, hm_get (tt_last_tx t) n) of
        (Some t0, Some rx0, Some tx0) \<Rightarrow> rate_mbps (rx - rx0) (tx - tx0) (duration_since now t0)
      | _ \<Rightarrow> 0)"
  by (auto simp: tracker_estimate_def rate_mbps_def Let_def split: option.splits)

lemma tracker_estimate_not_nan:
  "rx < 2 ^ 64 \<Longrightarrow> tx < 2 ^ 64 \<Longrightarrow> fst (tracker_estimate now n rx tx t) \<noteq> NaN"
  using rate_not_nan [of "rx - x" "tx - y" for x y]
  by (auto simp: tracker_estimate_rate f64_consts split: option.splits)

section \<open>The probe\<close>

lemma run_probe_cases:
  assumes "run_probe tsh inst now m i w = (r, m', w')"
  shows "\<exists>probe tr. r = Some probe \<and> m' = m\<lparr>hm_throughput_tracker := tr\<rparr>"
  using assms by (auto simp: run_probe_def Let_def split: prod.splits)

lemma run_probe_total: "\<exists>probe tr w'. run_probe tsh inst now m i w = (Some probe, m\<lparr>hm_throughput_tracker := tr\<rparr>, w')"
  by (metis run_probe_cases prod_cases3)

lemma smooth_section_stores:
  "hm_get (snd (smooth_section now al n raw ps)) k
     = (if k = n then Some (fst (smooth_section now al n raw ps)) else hm_get ps k)"
  by (simp add: smooth_section_def AList.update_conv' Let_def split: option.split)

lemma hysteresis_after_smoothing:
  "\<not> hysteresis_section t n (fst (smooth_section now al n raw ps)) (snd (smooth_section now al n raw ps))"
  by (simp add: hysteresis_section_def smooth_section_stores exceeds_hysteresis_def hysteresis_self)

lemma probe_interface_up:
  assumes "if_link_state i = Up" "run_probe tsh inst now m i w = (Some probe, m', w')"
    and "compute_health chk now (pb_rtt_ms probe) (pb_jitter_ms probe) (pb_loss_percent probe)
      (pb_throughput_mbps probe) (pb_state_changes probe) (hm_weights m) = Some raw"
  shows "\<exists>u. probe_interface chk tsh inst now m i w
      = Some (Some u, m'\<lparr>hm_previous_scores := snd (smooth_section now (mc_ema_alpha (hm_config m)) (if_name i)
            raw (hm_previous_scores m)), hm_sent := hm_sent m @ [u]\<rparr>, w')
    \<and> hu_interface u = if_name i \<and> hu_new_score u = raw \<and> hu_probe u = probe
    \<and> hu_smoothed_score u = fst (smooth_section now (mc_ema_alpha (hm_config m)) (if_name i) raw (hm_previous_scores m))
    \<and> hu_previous_score u = hs_overall (hu_smoothed_score u) \<and> \<not> hu_failover_candidate u"
  using assms run_probe_cases [OF assms(2)]
  using hysteresis_after_smoothing [of "mc_hysteresis_threshold (hm_config m)" "if_name i" now
      "mc_ema_alpha (hm_config m)" raw "hm_previous_scores m"]
  by (auto simp: probe_interface_def Let_def split: prod.split)

lemma probe_interface_down: "if_link_state i \<noteq> Up \<Longrightarrow> probe_interface chk tsh inst now m i w = Some (None, m, w)"
  by (simp add: probe_interface_def)

lemma probe_interface_SomeD:
  assumes "probe_interface chk tsh inst now m i w = Some (r, m', w')" "if_link_state i = Up"
  shows "\<exists>probe tr raw. run_probe tsh inst now m i w = (Some probe, m\<lparr>hm_throughput_tracker := tr\<rparr>, w')
    \<and> compute_health chk now (pb_rtt_ms probe) (pb_jitter_ms probe) (pb_loss_percent probe)
      (pb_throughput_mbps probe) (pb_state_changes probe) (hm_weights m) = Some raw"
proof -
  obtain probe tr w1 where r: "run_probe tsh inst now m i w = (Some probe, m\<lparr>hm_throughput_tracker := tr\<rparr>, w1)"
    using run_probe_total [of tsh inst now m i w] by auto
  with assms show ?thesis
    by (auto simp: probe_interface_def Let_def split: option.splits prod.splits)
qed

text \<open>
  What the tools promise: a successful ping never reports a figure that is not a number. (Its
  output is arbitrary text for the program; \<^verbatim>\<open>parse::<f64>\<close> accepts \<open>nan\<close>.)
\<close>

definition ping_sane :: "'w timed_shell \<Rightarrow> bool" where
  "ping_sane tsh \<longleftrightarrow> (\<forall>d argv w a m l w'.
     (\<exists>out. tsh d argv w = (Some (Inr out), w') \<and> out_success out
        \<and> parse_ping_output (out_stdout out) = Ok (a, m, l)) \<longrightarrow> a \<noteq> NaN \<and> m \<noteq> NaN \<and> l \<noteq> NaN)"

text \<open>The counters are \<open>u64\<close> in the source.\<close>

definition u64_counters :: "interface_info \<Rightarrow> bool" where
  "u64_counters i \<longleftrightarrow> st_rx_bytes (if_stats i) < 2 ^ 64 \<and> st_tx_bytes (if_stats i) < 2 ^ 64"

lemma ping_probe_sane:
  assumes "ping_sane tsh" "ping_probe tsh target d w = (Inr (a, m, l), w')"
  shows "a \<noteq> NaN \<and> m \<noteq> NaN \<and> l \<noteq> NaN"
proof -
  have "\<exists>out. tsh (d * 3) (ping_argv target) w = (Some (Inr out), w') \<and> out_success out
      \<and> parse_ping_output (out_stdout out) = Ok (a, m, l)"
    using assms(2) by (auto simp: ping_probe_def split: prod.splits option.splits sum.splits if_splits)
  with assms(1) show ?thesis unfolding ping_sane_def by blast
qed

lemma run_probe_sane:
  assumes "ping_sane tsh" "u64_counters i" "run_probe tsh inst now m i w = (Some p, m', w')"
  shows "pb_rtt_ms p \<noteq> NaN \<and> pb_jitter_ms p \<noteq> NaN \<and> pb_loss_percent p \<noteq> NaN \<and> pb_throughput_mbps p \<noteq> NaN"
proof -
  have "fst (tracker_estimate inst (if_name i) (st_rx_bytes (if_stats i)) (st_tx_bytes (if_stats i))
      (hm_throughput_tracker m)) \<noteq> NaN"
    using assms(2) by (intro tracker_estimate_not_nan) (auto simp: u64_counters_def)
  with assms show ?thesis
    by (auto simp: run_probe_def Let_def split: option.splits prod.splits sum.splits
        dest!: ping_probe_sane [OF assms(1)])
qed

definition monitor_inv :: "health_monitor \<Rightarrow> bool" where
  "monitor_inv m \<longleftrightarrow> (\<forall>n s. hm_get (hm_previous_scores m) n = Some s \<longrightarrow> scores_upto 101 s)"

definition monitor_config_ok :: "health_monitor \<Rightarrow> bool" where
  "monitor_config_ok m \<longleftrightarrow> 0 < wc_sum (hm_weights m) \<and> wc_sum (hm_weights m) < 256
     \<and> Fin (1 / 2 ^ 40) \<le> mc_ema_alpha (hm_config m) \<and> mc_ema_alpha (hm_config m) \<le> Fin 1"

lemma smooth_section_range:
  assumes "\<forall>n s. hm_get ps n = Some s \<longrightarrow> scores_upto 101 s" "scores_upto 100 raw"
    and "Fin (1 / 2 ^ 40) \<le> al" "al \<le> Fin 1"
  shows "scores_upto 101 (fst (smooth_section now al n raw ps))"
  using assms f64_between [OF assms(3,4)] scores_upto_mono [OF assms(2)]
  by (auto simp: smooth_section_def Let_def split: option.split intro!: scores_upto_ema)

lemma probe_interface_inv:
  assumes "ping_sane tsh" "u64_counters i" "monitor_config_ok m" "monitor_inv m"
  shows "\<exists>r m' w'. probe_interface chk tsh inst now m i w = Some (r, m', w') \<and> monitor_inv m'
    \<and> hm_config m' = hm_config m \<and> hm_weights m' = hm_weights m"
proof (cases "if_link_state i = Up")
  case False
  with assms(4) show ?thesis by (simp add: probe_interface_down)
next
  case True
  obtain p tr w' where p: "run_probe tsh inst now m i w = (Some p, m\<lparr>hm_throughput_tracker := tr\<rparr>, w')"
    using run_probe_total [of tsh inst now m i w] by auto
  obtain raw where raw: "compute_health chk now (pb_rtt_ms p) (pb_jitter_ms p) (pb_loss_percent p)
      (pb_throughput_mbps p) (pb_state_changes p) (hm_weights m) = Some raw" "scores_upto 100 raw"
    using run_probe_sane [OF assms(1,2) p] assms(3) compute_health_scores
    unfolding monitor_config_ok_def by metis
  have "scores_upto 101 (fst (smooth_section now (mc_ema_alpha (hm_config m)) (if_name i) raw (hm_previous_scores m)))"
    using assms(3,4) raw(2) by (intro smooth_section_range) (auto simp: monitor_inv_def monitor_config_ok_def)
  with probe_interface_up [OF True p raw(1)] assms(4) show ?thesis
    by (auto simp: monitor_inv_def smooth_section_stores)
qed

section \<open>Properties\<close>

text \<open>C7: the parser reads back what iputils prints. Whatever lines come before, between and after,
  as long as they hold none of the markers, the average, the deviation and the loss are the
  figures of the two summary lines; the probe is rejected exactly when the average is zero
  although some reply came back.\<close>

theorem parse_ping_output_summary:
  assumes "numeric sent" "numeric received" "numeric loss" "numeric ms"
    and "numeric mn" "numeric avg" "numeric mx" "numeric mdev"
    and "parse_f64 loss = Some l" "parse_f64 avg = Some a" "parse_f64 mdev = Some m"
    and "\<forall>x \<in> set (before @ between @ after). unmarked x"
  shows "parse_ping_output
      (unlines (before @ [loss_line sent received loss ms] @ between @ [rtt_line mn avg mx mdev] @ after))
    = (if feq a 0 \<and> l < Fin 100 then Err ''could not parse RTT from ping output'' else Ok (a, m, l))"
proof -
  have "\<forall>x \<in> set (before @ [loss_line sent received loss ms] @ between @ [rtt_line mn avg mx mdev] @ after).
      plain_line x"
    using assms by (auto simp: unmarked_def plain_loss_line plain_rtt_line)
  then show ?thesis
    using assms by (simp add: parse_ping_output_def str_lines_unlines fold_unmarked
        parse_loss_line_loss parse_rtt_line_stats Let_def)
qed

theorem parse_ping_output_summary_witness:
  "parse_ping_output (unlines (''PING 8.8.8.8'' #
      [loss_line ''4'' ''3'' ''25'' ''3005'', rtt_line ''14'' ''15'' ''16'' ''2'']))
    = Ok (Fin 15, Fin 2, Fin 25)"
proof -
  have n: "numeric ''4''" "numeric ''3''" "numeric ''25''" "numeric ''3005''" "numeric ''14''" "numeric ''15''"
    "numeric ''16''" "numeric ''2''"
    by (simp_all add: numeric_def is_digit_def)
  have v: "parse_f64 ''25'' = Some (Fin 25)" "parse_f64 ''15'' = Some (Fin 15)" "parse_f64 ''2'' = Some (Fin 2)"
    by (simp_all add: parse_f64_def parse_decimal_def parse_exponent_def is_digit_def digits_val_def
        digit_val_def lower_def)
  have u: "unmarked ''PING 8.8.8.8''"
    by (simp add: unmarked_def plain_line_def starts_with_def)
  show ?thesis
    using parse_ping_output_summary [OF n(1-4) n(5-8) v, of "[''PING 8.8.8.8'']" "[]" "[]"] u
    by (simp add: f64_consts)
qed

text \<open>C5: probing an interface that is up records the smoothed score of that interface and of
  no other, sends exactly one update, and the smoothed score is the first raw score seen, or its
  exponential average with the previous one; an interface that is not up changes nothing and
  runs no command.\<close>

theorem probe_interface_contract:
  assumes "probe_interface chk tsh inst now m i w = Some (r, m', w')"
  shows "if if_link_state i = Up then
      (\<exists>u. r = Some u \<and> hu_interface u = if_name i \<and> hm_sent m' = hm_sent m @ [u]
        \<and> hu_smoothed_score u = (case hm_get (hm_previous_scores m) (if_name i) of
            None \<Rightarrow> hu_new_score u
          | Some prev \<Rightarrow> ema_smooth now (hu_new_score u) prev (mc_ema_alpha (hm_config m)))
        \<and> (\<forall>k. hm_get (hm_previous_scores m') k = (if k = if_name i then Some (hu_smoothed_score u)
             else hm_get (hm_previous_scores m) k)))
    else r = None \<and> m' = m \<and> w' = w"
proof (cases "if_link_state i = Up")
  case False
  with assms show ?thesis by (simp add: probe_interface_down)
next
  case True
  obtain probe tr raw where "run_probe tsh inst now m i w = (Some probe, m\<lparr>hm_throughput_tracker := tr\<rparr>, w')"
    and "compute_health chk now (pb_rtt_ms probe) (pb_jitter_ms probe) (pb_loss_percent probe)
      (pb_throughput_mbps probe) (pb_state_changes probe) (hm_weights m) = Some raw"
    using probe_interface_SomeD [OF assms True] by blast
  from probe_interface_up [OF True this] assms True show ?thesis
    by (auto simp: smooth_section_stores) (simp add: smooth_section_def Let_def split: option.split)
qed

text \<open>A monitor with one stored score and no ping target, and an interface that is up.\<close>

definition sample_monitor :: health_monitor where
  "sample_monitor = (monitor_new (monitor_config_default\<lparr>mc_ping_targets := [], mc_ema_alpha := Fin (1/4)\<rparr>)
     health_weights_default)\<lparr>hm_previous_scores := [(''eth0'', uniform_score (Fin 10))]\<rparr>"

definition sample_interface :: interface_info where
  "sample_interface = \<lparr>if_name = ''eth0'', if_type = Ethernet, if_mac = None, if_driver = None,
     if_speed_mbps = None, if_duplex = None, if_mtu = 1500, if_addresses = [], if_gateway = None,
     if_dns_servers = [], if_link_state = Up, if_managed = True, if_nm_managed = False,
     if_wireless = None, if_cellular = None, if_stats = interface_stats_default, if_health = None,
     if_last_seen = None\<rparr>"

text \<open>A shell on which every command fails to start.\<close>

definition dead_shell :: "unit timed_shell" where
  "dead_shell d argv w = (Some (Inl ''not found''), w)"

lemma sample_probe:
  "\<exists>r m'. probe_interface True dead_shell 0 7 sample_monitor sample_interface () = Some (r, m', ())"
proof -
  have "ping_sane dead_shell" "u64_counters sample_interface"
    by (simp_all add: ping_sane_def dead_shell_def u64_counters_def sample_interface_def interface_stats_default_def)
  moreover have "monitor_config_ok sample_monitor" "monitor_inv sample_monitor"
    by (simp_all add: monitor_config_ok_def monitor_inv_def sample_monitor_def monitor_new_def wc_sum_def
        health_weights_default_def monitor_config_default_def uniform_score_def scores_upto_def)
  ultimately show ?thesis
    using probe_interface_inv [of dead_shell sample_interface sample_monitor True 0 7 "()"] by auto
qed

theorem probe_interface_contract_witness:
  "\<exists>u m'. probe_interface True dead_shell 0 7 sample_monitor sample_interface () = Some (Some u, m', ())
    \<and> hu_smoothed_score u = ema_smooth 7 (hu_new_score u) (uniform_score (Fin 10)) (Fin (1/4))
    \<and> hm_get (hm_previous_scores m') ''eth0'' = Some (hu_smoothed_score u)"
proof -
  obtain r m' where p: "probe_interface True dead_shell 0 7 sample_monitor sample_interface () = Some (r, m', ())"
    using sample_probe by blast
  from probe_interface_contract [OF p] p show ?thesis
    by (auto simp: sample_interface_def sample_monitor_def monitor_new_def monitor_config_default_def)
qed

text \<open>The update never marks a failover candidate, and the score it reports as the previous one
  is the new smoothed score: the comparison reads the map after the new score was stored in it.
  So no health update ever asks for a failover, however far the score fell.\<close>

theorem probe_interface_no_candidate:
  assumes "probe_interface chk tsh inst now m i w = Some (Some u, m', w')"
  shows "\<not> hu_failover_candidate u \<and> hu_previous_score u = hs_overall (hu_smoothed_score u)"
proof -
  have up: "if_link_state i = Up" using assms by (auto simp: probe_interface_def split: if_splits)
  obtain probe tr raw where "run_probe tsh inst now m i w = (Some probe, m\<lparr>hm_throughput_tracker := tr\<rparr>, w')"
    and "compute_health chk now (pb_rtt_ms probe) (pb_jitter_ms probe) (pb_loss_percent probe)
      (pb_throughput_mbps probe) (pb_state_changes probe) (hm_weights m) = Some raw"
    using probe_interface_SomeD [OF assms up] by blast
  from probe_interface_up [OF up this] assms show ?thesis by auto
qed

theorem probe_interface_no_candidate_witness:
  "\<exists>u m'. probe_interface True dead_shell 0 7 sample_monitor sample_interface () = Some (Some u, m', ())
    \<and> \<not> hu_failover_candidate u"
proof -
  obtain r m' where p: "probe_interface True dead_shell 0 7 sample_monitor sample_interface () = Some (r, m', ())"
    using sample_probe by blast
  moreover have "r \<noteq> None"
    using p by (auto simp: probe_interface_def sample_interface_def Let_def
        split: option.splits prod.splits)
      (use run_probe_cases in force)
  ultimately obtain u where u: "probe_interface True dead_shell 0 7 sample_monitor sample_interface ()
      = Some (Some u, m', ())" by auto
  with probe_interface_no_candidate [OF u] show ?thesis by blast
qed

text \<open>C6: over any number of rounds of the loop, with weights whose sum is between 1 and 255, a
  smoothing factor between \<open>2^-40\<close> and 1 and a ping that reports no NaN, no probe panics and
  every stored score keeps its six components between 0 and 101: rounding errors of the
  average do not accumulate.\<close>

theorem monitor_round_scores_bounded:
  assumes "ping_sane tsh" "\<forall>(i, inst, now) \<in> set ps. u64_counters i"
    and "monitor_config_ok m" "monitor_inv m"
  shows "\<exists>m' w'. monitor_round chk tsh ps m w = Some (m', w') \<and> monitor_inv m'"
  using assms(2-)
proof (induction ps arbitrary: m w)
  case Nil
  then show ?case by simp
next
  case (Cons q ps)
  obtain i inst now where q: "q = (i, inst, now)" by (cases q)
  obtain r m1 w1 where s: "probe_interface chk tsh inst now m i w = Some (r, m1, w1)" "monitor_inv m1"
    "hm_config m1 = hm_config m" "hm_weights m1 = hm_weights m"
    using probe_interface_inv [OF assms(1), of i m chk inst now w] Cons.prems q by auto
  then have "monitor_config_ok m1" using Cons.prems by (simp add: monitor_config_ok_def)
  with Cons.IH [of m1 w1] Cons.prems s show ?case by (simp add: q)
qed

theorem monitor_round_scores_bounded_witness:
  "\<exists>m' w'. monitor_round True dead_shell [(sample_interface, 0, 7), (sample_interface, 5, 9)] sample_monitor ()
     = Some (m', w') \<and> monitor_inv m'"
  by (rule monitor_round_scores_bounded)
    (simp_all add: ping_sane_def dead_shell_def u64_counters_def sample_interface_def interface_stats_default_def
      monitor_config_ok_def monitor_inv_def sample_monitor_def monitor_new_def wc_sum_def
      health_weights_default_def monitor_config_default_def uniform_score_def scores_upto_def)

text \<open>The tracker divides the bytes an interface moved since its own last measurement by the
  time since the last measurement of any interface. Right for a single interface (\<open>ms\<close> empty);
  with another interface probed in between the rate is inflated.\<close>

theorem tracker_estimate_interval:
  assumes "\<forall>m \<in> set ms. fst (snd m) \<noteq> a"
  shows "fst (tracker_estimate now a rx tx (fold tracker_measure ms (tracker_measure (t0, a, rx0, tx0) t)))
    = rate_mbps (rx - rx0) (tx - tx0) (duration_since now (last (t0 # List.map fst ms)))"
  using tracker_fold_other [OF assms, of "tracker_measure (t0, a, rx0, tx0) t" rx0 tx0 t0]
  by (simp add: tracker_estimate_rate tracker_measure_store tracker_store_get)

text \<open>1 MB in 10 s is 0.8 Mbps; with another interface measured one second before it reads 8 Mbps.\<close>

theorem tracker_estimate_interval_witness:
  "fst (tracker_estimate (from_secs 10) ''a'' 1000000 0
      (fold tracker_measure [(from_secs 9, ''b'', 0, 0)] (tracker_measure (0, ''a'', 0, 0) tracker_new))) = Fin 8"
proof -
  have "as_secs_f64 (duration_since (from_secs 10) (from_secs 9)) = Fin 1"
    by (simp add: as_secs_f64_def duration_since_def from_secs_def f_of_nat_def f64_simps)
  then have "rate_mbps 1000000 0 (duration_since (from_secs 10) (from_secs 9)) = Fin 8"
    by (simp add: rate_mbps_def f_of_nat_def f64_simps)
  then show ?thesis
    using tracker_estimate_interval [of "[(from_secs 9, ''b'', 0, 0)]" "''a''" "from_secs 10" 1000000 0 0 0 0 tracker_new]
    by simp
qed

end
