(* ===== verification/Bonding.thy ===== *)
theory Bonding
  imports Monitoring
begin

text \<open>
  \<^verbatim>\<open>crates/netfusion-core/src/bonding/manager.rs\<close> and \<^verbatim>\<open>failover.rs\<close>: the bond groups with
  their active and standby members, and the failover engine that watches them. The \<open>ip\<close>
  commands go through the shell \<open>sh\<close>; every reading of the wall clock is an argument. The
  netlink handle of the manager is not used by the code.
\<close>

section \<open>Bond groups\<close>

record bond_manager =
  bm_bonds :: "(string, bond_state) hmap"

definition bond_manager_new :: bond_manager where
  "bond_manager_new = \<lparr>bm_bonds = []\<rparr>"

definition bond_iface_name :: "bond_config \<Rightarrow> string" where
  "bond_iface_name config = ''netfusion'' @ trim_start_matches (bc_name config) ''bond''"

fun bond_mode_arg :: "bond_mode \<Rightarrow> string" where
  "bond_mode_arg ActiveBackup = ''1''"
| "bond_mode_arg BalanceRr = ''0''"
| "bond_mode_arg BalanceXor = ''2''"
| "bond_mode_arg Broadcast = ''3''"
| "bond_mode_arg Lacp = ''4''"
| "bond_mode_arg AdaptiveTlb = ''5''"
| "bond_mode_arg AdaptiveAlb = ''6''"
| "bond_mode_arg _ = ''1''"

definition enslave_interface ::
  "'w shell \<Rightarrow> string \<Rightarrow> string \<Rightarrow> 'w \<Rightarrow> (bonding_error, unit) result \<times> 'w" where
  "enslave_interface sh iface bond w =
     (case sh [''ip'', ''link'', ''set'', iface, ''master'', bond] w of
        (Inl _, w') \<Rightarrow> (Err (EnslaveFailed bond iface), w')
      | (Inr out, w') \<Rightarrow>
          (if \<not> out_success out then Err (EnslaveFailed bond iface) else Ok (), w'))"

definition release_interface ::
  "'w shell \<Rightarrow> string \<Rightarrow> 'w \<Rightarrow> (bonding_error, unit) result \<times> 'w" where
  "release_interface sh iface w =
     (case sh [''ip'', ''link'', ''set'', iface, ''nomaster''] w of (_, w') \<Rightarrow> (Ok (), w'))"

text \<open>A failed enslavement or release is only logged: the loops go on.\<close>

definition create_bond_interface ::
  "'w shell \<Rightarrow> string \<Rightarrow> bond_config \<Rightarrow> 'w \<Rightarrow> (bonding_error, unit) result \<times> 'w" where
  "create_bond_interface sh name config w =
     (case sh [''ip'', ''link'', ''add'', name, ''type'', ''bond'', ''mode'', bond_mode_arg (bc_mode config)] w of
        (Inl e, w') \<Rightarrow> (Err (CreateFailed name e), w')
      | (Inr out, w') \<Rightarrow>
          if \<not> out_success out then (Err (CreateFailed name (''ip command failed: '' @ out_stderr out)), w')
          else (Ok (), fold (\<lambda>member w. snd (enslave_interface sh member name w)) (bc_members config) w'))"

definition delete_bond_interface ::
  "'w shell \<Rightarrow> string \<Rightarrow> 'w \<Rightarrow> (bonding_error, unit) result \<times> 'w" where
  "delete_bond_interface sh name w =
     (case sh [''ip'', ''link'', ''del'', name] w of
        (Inl e, w') \<Rightarrow> (Err (CreateFailed name e), w')
      | (Inr _, w') \<Rightarrow> (Ok (), w'))"

definition create_bond ::
  "'w shell \<Rightarrow> bond_config \<Rightarrow> bond_manager \<Rightarrow> 'w \<Rightarrow> (bonding_error, unit) result \<times> bond_manager \<times> 'w" where
  "create_bond sh config m w =
     (let bond_name = bond_iface_name config
      in case create_bond_interface sh bond_name config w of
           (Inl e, w') \<Rightarrow> (Err e, m, w')
         | (Inr _, w') \<Rightarrow>
             (let bond_state = \<lparr>bs_name = bc_name config, bs_mode = bc_mode config, bs_active_members = [],
                    bs_standby_members = bc_members config, bs_failed_members = [], bs_health = None,
                    bs_failover_active = False, bs_last_failover = None, bs_bond_interface = Some bond_name\<rparr>
              in (Ok (), m\<lparr>bm_bonds := hm_insert (bc_name config) bond_state (bm_bonds m)\<rparr>, w')))"

definition delete_bond ::
  "'w shell \<Rightarrow> string \<Rightarrow> bond_manager \<Rightarrow> 'w \<Rightarrow> (bonding_error, unit) result \<times> bond_manager \<times> 'w" where
  "delete_bond sh name m w =
     (case hm_get (bm_bonds m) name of
        None \<Rightarrow> (Err (BondNotFound name), m, w)
      | Some state \<Rightarrow>
          (let m' = m\<lparr>bm_bonds := hm_remove name (bm_bonds m)\<rparr>;
               w' = fold (\<lambda>member w. snd (release_interface sh member w))
                      (bs_active_members state @ bs_standby_members state) w;
               w'' = (case bs_bond_interface state of
                        None \<Rightarrow> w' | Some bond_iface \<Rightarrow> snd (delete_bond_interface sh bond_iface w'))
           in (Ok (), m', w'')))"

section \<open>Choosing the active member\<close>

definition scored_members :: "(string, health_score) hmap \<Rightarrow> bond_state \<Rightarrow> (string \<times> f64) list" where
  "scored_members interface_health state =
     sort_by (\<lambda>a b. f_partial_cmp (snd b) (snd a))
       (List.map_filter
          (\<lambda>member. map_option (\<lambda>score. (member, hs_overall score)) (hm_get interface_health member))
          (bs_standby_members state @ bs_active_members state))"

definition fail_over_to ::
  "timestamp \<Rightarrow> (string, health_score) hmap \<Rightarrow> string \<Rightarrow> bond_state \<Rightarrow> bond_state" where
  "fail_over_to now interface_health best_member state =
     (let previous_active = (case bs_active_members state of [] \<Rightarrow> None | a # _ \<Rightarrow> Some a);
          standby = (case previous_active of
             Some prev \<Rightarrow> if prev \<in> set (bs_standby_members state) then bs_standby_members state
                          else bs_standby_members state @ [prev]
           | None \<Rightarrow> bs_standby_members state)
      in state\<lparr>bs_active_members := [best_member],
               bs_standby_members := filter (\<lambda>m. m \<noteq> best_member) standby,
               bs_failover_active := True, bs_last_failover := Some now,
               bs_failed_members := filter (hm_contains interface_health) (bs_failed_members state)\<rparr>)"

definition update_state ::
  "timestamp \<Rightarrow> (string, health_score) hmap \<Rightarrow> bond_state \<Rightarrow> string option \<times> bond_state" where
  "update_state now interface_health state =
     (case scored_members interface_health state of
        [] \<Rightarrow> (None, state)
      | (best_member, _) # _ \<Rightarrow>
          (if (case bs_active_members state of [] \<Rightarrow> None | a # _ \<Rightarrow> Some a) \<noteq> Some best_member
           then (Some best_member, fail_over_to now interface_health best_member state)
           else (None, state)))"

definition update_membership ::
  "timestamp \<Rightarrow> string \<Rightarrow> (string, health_score) hmap \<Rightarrow> bond_manager
     \<Rightarrow> (bonding_error, string option) result \<times> bond_manager" where
  "update_membership now bond_name interface_health m =
     (case hm_get (bm_bonds m) bond_name of
        None \<Rightarrow> (Err (BondNotFound bond_name), m)
      | Some state \<Rightarrow>
          (case update_state now interface_health state of
             (r, state') \<Rightarrow> (Ok r, m\<lparr>bm_bonds := hm_insert bond_name state' (bm_bonds m)\<rparr>)))"

section \<open>The failover engine\<close>

record failover_config =
  fc_evaluation_interval :: duration
  fc_min_viable_score :: f64
  fc_failover_cooldown :: duration
  fc_bad_reading_threshold :: u32

definition failover_config_default :: failover_config where
  "failover_config_default = \<lparr>fc_evaluation_interval = from_secs 3, fc_min_viable_score = Fin 20,
     fc_failover_cooldown = from_secs 30, fc_bad_reading_threshold = 3\<rparr>"

record failover_engine =
  fo_config :: failover_config
  fo_sent :: "netfusion_event list"
  fo_bad_readings :: "(string, u32) hmap"
  fo_last_failover :: "(string, timestamp) hmap"

definition failover_engine_new :: "failover_config \<Rightarrow> failover_engine" where
  "failover_engine_new config =
     \<lparr>fo_config = config, fo_sent = [], fo_bad_readings = [], fo_last_failover = []\<rparr>"

definition in_cooldown :: "timestamp \<Rightarrow> string \<Rightarrow> failover_engine \<Rightarrow> bool" where
  "in_cooldown now bond_name fo =
     (case hm_get (fo_last_failover fo) bond_name of
        None \<Rightarrow> False
      | Some last_time \<Rightarrow> num_seconds (now - last_time) < int (as_secs (fc_failover_cooldown (fo_config fo))))"

definition evaluate_bond :: "timestamp \<Rightarrow> string \<times> bond_state \<Rightarrow> failover_engine \<Rightarrow> failover_engine" where
  "evaluate_bond now b fo =
     (case b of (bond_name, state) \<Rightarrow>
        if in_cooldown now bond_name fo then fo
        else if bs_failover_active state then
          fo\<lparr>fo_sent := fo_sent fo @ [FailoverTriggered \<lparr>fe_bond = bond_name, fe_timestamp = now,
                 fe_previous_active = bs_standby_members state, fe_new_active = bs_active_members state,
                 fe_reason = ''health degradation''\<rparr>],
             fo_last_failover := hm_insert bond_name now (fo_last_failover fo)\<rparr>
        else fo)"

definition evaluate_failover :: "timestamp \<Rightarrow> bond_manager \<Rightarrow> failover_engine \<Rightarrow> failover_engine" where
  "evaluate_failover now m fo = fold (evaluate_bond now) (bm_bonds m) fo"

text \<open>The counter is a \<open>u32\<close>; \<open>None\<close> is the overflow panic of \<^verbatim>\<open>*count += 1\<close>.\<close>

definition track_reading :: "bool \<Rightarrow> health_update \<Rightarrow> failover_engine \<Rightarrow> failover_engine option" where
  "track_reading chk update fo =
     (if hs_overall (hu_smoothed_score update) < fc_min_viable_score (fo_config fo) then
        (let count = (case hm_get (fo_bad_readings fo) (hu_interface update) of None \<Rightarrow> 0 | Some c \<Rightarrow> c)
         in if chk \<and> count = - 1 then None
            else Some (fo\<lparr>fo_bad_readings := hm_insert (hu_interface update) (count + 1) (fo_bad_readings fo)\<rparr>))
      else Some (fo\<lparr>fo_bad_readings := hm_remove (hu_interface update) (fo_bad_readings fo)\<rparr>))"

definition process_health_update ::
  "bool \<Rightarrow> timestamp \<Rightarrow> health_update \<Rightarrow> bond_manager \<Rightarrow> failover_engine \<Rightarrow> failover_engine option" where
  "process_health_update chk now update m fo =
     map_option (evaluate_failover now m) (track_reading chk update fo)"

section \<open>The choice is the best scored member\<close>

interpretation member_cmp: key_comparison
  "\<lambda>a b. f_partial_cmp (snd b) (snd a)" "\<lambda>a b. snd b \<le> (snd a :: f64)" "\<lambda>a. snd a \<noteq> NaN"
  by unfold_locales (use f_cmp_desc.greater_iff f_cmp_desc.total f_cmp_desc.trans in blast)+

definition bond_members :: "bond_state \<Rightarrow> string set" where
  "bond_members state = set (bs_active_members state) \<union> set (bs_standby_members state)"

lemma set_scored_members:
  "set (scored_members h state)
    = {(m, hs_overall s) | m s. m \<in> bond_members state \<and> hm_get h m = Some s}"
  by (auto simp: scored_members_def bond_members_def set_map_filter)

lemma scored_members_Nil:
  assumes "scored_members h state = []" "k \<in> bond_members state"
  shows "hm_get h k = None"
proof (rule ccontr)
  assume "hm_get h k \<noteq> None"
  then obtain s where "hm_get h k = Some s" by blast
  with assms(2) have "(k, hs_overall s) \<in> set (scored_members h state)"
    unfolding set_scored_members by blast
  with assms(1) show False by simp
qed

lemma scored_members_best:
  assumes "scored_members h state = (b, sc) # rest" "\<forall>m s. hm_get h m = Some s \<longrightarrow> hs_overall s \<noteq> NaN"
  shows "\<exists>s. hm_get h b = Some s \<and> b \<in> bond_members state
    \<and> (\<forall>m s'. m \<in> bond_members state \<longrightarrow> hm_get h m = Some s' \<longrightarrow> hs_overall s' \<le> hs_overall s)"
proof -
  let ?l = "List.map_filter (\<lambda>member. map_option (\<lambda>score. (member, hs_overall score)) (hm_get h member))
      (bs_standby_members state @ bs_active_members state)"
  have l: "\<forall>z \<in> set ?l. snd z \<noteq> NaN"
    using assms(2) by (auto simp: set_map_filter)
  have "(b, sc) \<in> set (scored_members h state)" using assms(1) by simp
  then obtain s where s: "hm_get h b = Some s" "sc = hs_overall s" "b \<in> bond_members state"
    by (auto simp: set_scored_members)
  have "hs_overall s' \<le> sc" if "m \<in> bond_members state" "hm_get h m = Some s'" for m s'
  proof -
    have "(m, hs_overall s') \<in> set ?l"
      using that by (auto simp: bond_members_def set_map_filter)
    from member_cmp.sort_by_hd_least [OF l this] show ?thesis
      using assms(1) by (simp add: scored_members_def)
  qed
  with s show ?thesis by blast
qed

section \<open>Invariant of a bond\<close>

text \<open>At most one member is active, it is no standby, and the failover flag is just whether
  there is one.\<close>

definition bond_wf :: "string \<Rightarrow> bond_state \<Rightarrow> bool" where
  "bond_wf n state \<longleftrightarrow> bs_name state = n \<and> length (bs_active_members state) \<le> 1
     \<and> set (bs_active_members state) \<inter> set (bs_standby_members state) = {}
     \<and> (bs_failover_active state \<longleftrightarrow> bs_active_members state \<noteq> [])
     \<and> (bs_last_failover state \<noteq> None \<longleftrightarrow> bs_active_members state \<noteq> [])"

lemma short_list_cases: "length xs \<le> 1 \<Longrightarrow> xs = [] \<or> (\<exists>x. xs = [x])"
  by (cases xs) auto

lemma fail_over_to_wf: "bond_wf n state \<Longrightarrow> bond_wf n (fail_over_to now h b state)"
  by (auto simp: bond_wf_def fail_over_to_def Let_def)

lemma fail_over_to_members:
  "bond_wf n state \<Longrightarrow> b \<in> bond_members state \<Longrightarrow> bond_members (fail_over_to now h b state) = bond_members state"
  using short_list_cases [of "bs_active_members state"]
  by (auto simp: bond_wf_def fail_over_to_def Let_def bond_members_def)

lemma update_state_wf: "bond_wf n state \<Longrightarrow> bond_wf n (snd (update_state now h state))"
  by (auto simp: update_state_def fail_over_to_wf split: list.split)

definition bonds_wf :: "bond_manager \<Rightarrow> bool" where
  "bonds_wf m \<longleftrightarrow> hm_ok (bm_bonds m) \<and> (\<forall>n state. hm_get (bm_bonds m) n = Some state \<longrightarrow> bond_wf n state)"

lemma create_bond_wf: "bonds_wf m \<Longrightarrow> bonds_wf (fst (snd (create_bond sh config m w)))"
  by (auto simp: create_bond_def Let_def bonds_wf_def bond_wf_def hm_simps split: prod.split sum.split)

lemma delete_bond_wf: "bonds_wf m \<Longrightarrow> bonds_wf (fst (snd (delete_bond sh n m w)))"
  by (auto simp: delete_bond_def Let_def bonds_wf_def hm_simps split: option.split)

lemma update_membership_wf: "bonds_wf m \<Longrightarrow> bonds_wf (snd (update_membership now n h m))"
  using update_state_wf
  by (auto simp: update_membership_def bonds_wf_def hm_simps split: option.split prod.split)
    (metis snd_conv)

section \<open>Commands of the manager\<close>

lemma fold_enslave_log:
  "fold (\<lambda>member w. snd (enslave_interface (recording f) member name w)) ms lg
     = lg @ List.map (\<lambda>member. [''ip'', ''link'', ''set'', member, ''master'', name]) ms"
  by (induction ms arbitrary: lg) (auto simp: enslave_interface_def cmd_simps split: sum.split)

lemma fold_release_log:
  "fold (\<lambda>member w. snd (release_interface (recording f) member w)) ms lg
     = lg @ List.map (\<lambda>member. [''ip'', ''link'', ''set'', member, ''nomaster'']) ms"
  by (induction ms arbitrary: lg) (auto simp: release_interface_def cmd_simps)

section \<open>Spacing of the events\<close>

fun failover_time :: "string \<Rightarrow> netfusion_event \<Rightarrow> timestamp option" where
  "failover_time b (FailoverTriggered e) = (if fe_bond e = b then Some (fe_timestamp e) else None)"
| "failover_time b _ = None"

definition failover_times :: "string \<Rightarrow> failover_engine \<Rightarrow> timestamp list" where
  "failover_times b fo = List.map_filter (failover_time b) (fo_sent fo)"

definition spaced :: "failover_engine \<Rightarrow> bool" where
  "spaced fo \<longleftrightarrow> (\<forall>b.
     successively (\<lambda>t t'. int (as_secs (fc_failover_cooldown (fo_config fo))) \<le> num_seconds (t' - t))
       (failover_times b fo)
     \<and> hm_get (fo_last_failover fo) b = (if failover_times b fo = [] then None else Some (last (failover_times b fo))))"

lemma successively_snoc:
  "successively P (xs @ [x]) \<longleftrightarrow> successively P xs \<and> (xs \<noteq> [] \<longrightarrow> P (last xs) x)"
  by (auto simp: successively_append_iff)

lemma evaluate_bond_spaced: "spaced fo \<Longrightarrow> spaced (evaluate_bond now b fo)"
  by (auto simp: spaced_def evaluate_bond_def in_cooldown_def failover_times_def map_filter_snoc
      successively_snoc hm_simps split: prod.split option.splits if_splits)

lemma evaluate_failover_spaced: "spaced fo \<Longrightarrow> spaced (evaluate_failover now m fo)"
  unfolding evaluate_failover_def by (induction "bm_bonds m" arbitrary: fo rule: rev_induct)
    (simp_all add: evaluate_bond_spaced fold_invariant [where P = spaced and Q = "\<lambda>_. True"])

lemma track_reading_keeps:
  "track_reading chk u fo = Some fo' \<Longrightarrow> fo_sent fo' = fo_sent fo \<and> fo_last_failover fo' = fo_last_failover fo
     \<and> fo_config fo' = fo_config fo"
  by (auto simp: track_reading_def Let_def split: if_splits)

lemma spaced_cong:
  "fo_sent fo' = fo_sent fo \<Longrightarrow> fo_last_failover fo' = fo_last_failover fo \<Longrightarrow> fo_config fo' = fo_config fo
     \<Longrightarrow> spaced fo' = spaced fo"
  by (simp add: spaced_def failover_times_def)

section \<open>The two components together\<close>

text \<open>
  What can happen to the manager and the engine: a bond is created or deleted, a membership is
  re-evaluated, a health update arrives, the evaluation timer fires. The clock may read
  anything at each step.
\<close>

inductive bonding_step ::
  "'w shell \<Rightarrow> bond_manager \<times> failover_engine \<times> 'w \<Rightarrow> bond_manager \<times> failover_engine \<times> 'w \<Rightarrow> bool"
  for sh where
  create: "create_bond sh config m w = (r, m', w') \<Longrightarrow> bonding_step sh (m, fo, w) (m', fo, w')"
| delete: "delete_bond sh n m w = (r, m', w') \<Longrightarrow> bonding_step sh (m, fo, w) (m', fo, w')"
| membership: "update_membership now n h m = (r, m') \<Longrightarrow> bonding_step sh (m, fo, w) (m', fo, w)"
| health: "process_health_update chk now u m fo = Some fo' \<Longrightarrow> bonding_step sh (m, fo, w) (m, fo', w)"
| tick: "bonding_step sh (m, fo, w) (m, evaluate_failover now m fo, w)"

inductive_cases bonding_stepE: "bonding_step sh (m, fo, w) s'"

definition bonding_inv :: "bond_manager \<times> failover_engine \<times> 'w \<Rightarrow> bool" where
  "bonding_inv s = (case s of (m, fo, w) \<Rightarrow> bonds_wf m \<and> spaced fo)"

lemma evaluate_bond_config [simp]: "fo_config (evaluate_bond now b fo) = fo_config fo"
  by (simp add: evaluate_bond_def split: prod.split)

lemma bonding_step_inv: "bonding_step sh s s' \<Longrightarrow> bonding_inv s \<Longrightarrow> bonding_inv s'"
proof (induction rule: bonding_step.induct)
  case (create config m w r m' w' fo)
  then show ?case using create_bond_wf [of m sh config w] by (simp add: bonding_inv_def)
next
  case (delete n m w r m' w' fo)
  then show ?case using delete_bond_wf [of m sh n w] by (simp add: bonding_inv_def)
next
  case (membership now n h m r m' fo w)
  then show ?case using update_membership_wf [of m now n h] by (simp add: bonding_inv_def)
next
  case (health chk now u m fo fo' w)
  then obtain fo1 where fo1: "track_reading chk u fo = Some fo1" "fo' = evaluate_failover now m fo1"
    by (auto simp: process_health_update_def)
  note k = track_reading_keeps [OF fo1(1)]
  have "spaced fo1 = spaced fo" by (rule spaced_cong) (simp_all add: k)
  with health.prems have "bonds_wf m" "spaced fo1" by (simp_all add: bonding_inv_def)
  then show ?case by (simp add: bonding_inv_def fo1(2) evaluate_failover_spaced)
next
  case (tick m fo w now)
  then show ?case by (simp add: bonding_inv_def evaluate_failover_spaced)
qed

interpretation bonding: step_invariant "bonding_step sh" bonding_inv for sh
  by unfold_locales (rule bonding_step_inv)

lemma bonding_inv_start: "bonding_inv (bond_manager_new, failover_engine_new config, w0)"
  by (simp add: bonding_inv_def bonds_wf_def bond_manager_new_def failover_engine_new_def spaced_def
      failover_times_def map_filter_simps)

lemmas bonding_reach_inv = bonding.reached_keeps [OF _ bonding_inv_start]

section \<open>Repeated events\<close>

lemma evaluate_bond_appends: "\<exists>evs. fo_sent (evaluate_bond now b fo) = fo_sent fo @ evs"
  by (simp add: evaluate_bond_def split: prod.split)

lemma evaluate_appends: "\<exists>evs. fo_sent (fold (evaluate_bond now) bs fo) = fo_sent fo @ evs"
  by (induction bs arbitrary: fo) (simp, metis append.assoc evaluate_bond_appends fold_simps(2))

lemma evaluate_bond_other: "n \<noteq> fst b \<Longrightarrow> in_cooldown now n (evaluate_bond now b fo) = in_cooldown now n fo"
  by (auto simp: evaluate_bond_def in_cooldown_def hm_simps split: prod.splits option.splits)

definition failover_of :: "timestamp \<Rightarrow> string \<Rightarrow> bond_state \<Rightarrow> netfusion_event" where
  "failover_of now n state = FailoverTriggered \<lparr>fe_bond = n, fe_timestamp = now,
     fe_previous_active = bs_standby_members state, fe_new_active = bs_active_members state,
     fe_reason = ''health degradation''\<rparr>"

lemma evaluate_emits:
  assumes "distinct (List.map fst bs)" "(n, state) \<in> set bs" "bs_failover_active state" "\<not> in_cooldown now n fo"
  shows "failover_of now n state \<in> set (drop (length (fo_sent fo)) (fo_sent (fold (evaluate_bond now) bs fo)))"
  using assms
proof (induction bs arbitrary: fo)
  case Nil
  then show ?case by simp
next
  case (Cons b bs)
  obtain evs where evs: "fo_sent (evaluate_bond now b fo) = fo_sent fo @ evs"
    using evaluate_bond_appends by blast
  obtain evs' where evs': "fo_sent (fold (evaluate_bond now) bs (evaluate_bond now b fo)) = fo_sent fo @ evs @ evs'"
    using evaluate_appends [of now bs "evaluate_bond now b fo"] evs by auto
  show ?case
  proof (cases "b = (n, state)")
    case True
    then have "fo_sent (evaluate_bond now b fo) = fo_sent fo @ [failover_of now n state]"
      using Cons.prems by (simp add: evaluate_bond_def failover_of_def)
    with evs have "evs = [failover_of now n state]" by simp
    with evs' show ?thesis by simp
  next
    case False
    then have i: "(n, state) \<in> set bs" using Cons.prems by simp
    then have "n \<in> set (hm_keys bs)" by (metis fst_conv image_eqI list.set_map)
    with Cons.prems(1) have nb: "n \<noteq> fst b" unfolding list.map distinct.simps by metis
    note i nb
    then have "failover_of now n state \<in> set evs'"
      using Cons.IH [of "evaluate_bond now b fo"] Cons.prems evs evs' i nb by (simp add: evaluate_bond_other)
    with evs' show ?thesis by simp
  qed
qed

lemma in_cooldown_same:
  "fo_last_failover f1 = fo_last_failover f2 \<Longrightarrow> fo_config f1 = fo_config f2
    \<Longrightarrow> in_cooldown now n f1 = in_cooldown now n f2"
  by (simp add: in_cooldown_def split: option.split)

lemma evaluate_same_events:
  "fo_sent f1 = fo_sent f2 \<Longrightarrow> fo_last_failover f1 = fo_last_failover f2 \<Longrightarrow> fo_config f1 = fo_config f2
    \<Longrightarrow> fo_sent (fold (evaluate_bond now) bs f1) = fo_sent (fold (evaluate_bond now) bs f2)"
proof (induction bs arbitrary: f1 f2)
  case (Cons b bs)
  have "fo_sent (evaluate_bond now b f1) = fo_sent (evaluate_bond now b f2)"
    "fo_last_failover (evaluate_bond now b f1) = fo_last_failover (evaluate_bond now b f2)"
    using Cons.prems in_cooldown_same [OF Cons.prems(2,3), of now]
    by (simp_all add: evaluate_bond_def split: prod.split)
  with Cons.IH [of "evaluate_bond now b f1" "evaluate_bond now b f2"] Cons.prems(3) show ?case by simp
qed simp

section \<open>Properties\<close>

text \<open>The three outcomes of choosing: nobody has a score, the best scored member is active already, or it becomes so.\<close>

definition best_member :: "(string, health_score) hmap \<Rightarrow> bond_state \<Rightarrow> string \<Rightarrow> health_score \<Rightarrow> bool" where
  "best_member h state b s \<longleftrightarrow> b \<in> bond_members state \<and> hm_get h b = Some s
     \<and> (\<forall>k \<in> bond_members state. \<forall>s'. hm_get h k = Some s' \<longrightarrow> hs_overall s' \<le> hs_overall s)"

lemma update_state_cases:
  assumes "bond_wf n state" "\<forall>k s. hm_get h k = Some s \<longrightarrow> hs_overall s \<noteq> NaN" "update_state now h state = (r, state')"
  obtains (unscored) "r = None" "state' = state" "\<forall>k \<in> bond_members state. hm_get h k = None"
  | (active) b s where "r = None" "state' = state" "bs_active_members state = [b]" "best_member h state b s"
  | (moved) b s where "r = Some b" "state' = fail_over_to now h b state" "best_member h state b s"
proof (cases "scored_members h state")
  case Nil
  then show ?thesis
    using unscored assms(3) scored_members_Nil [of h state] by (simp add: update_state_def)
next
  case (Cons q rest)
  obtain b sc where q: "q = (b, sc)" by (cases q)
  obtain s where s: "best_member h state b s"
    using scored_members_best [OF Cons [unfolded q] assms(2)] by (auto simp: best_member_def)
  show ?thesis
    using assms(1,3) Cons q s active moved short_list_cases [of "bs_active_members state"]
    by (auto simp: update_state_def bond_wf_def split: if_splits)
qed

lemma fail_over_to_best:
  assumes "bond_wf n state" "b \<in> bond_members state"
  shows "bs_active_members (fail_over_to now h b state) = [b] \<and> bond_members (fail_over_to now h b state) = bond_members state
    \<and> set (bs_standby_members (fail_over_to now h b state)) = bond_members state - {b}"
proof -
  have a: "bs_active_members (fail_over_to now h b state) = [b]" by (simp add: fail_over_to_def Let_def)
  have m: "bond_members (fail_over_to now h b state) = bond_members state" "bond_wf n (fail_over_to now h b state)"
    using assms by (simp_all add: fail_over_to_members fail_over_to_wf)
  then show ?thesis using a by (auto simp: bond_members_def bond_wf_def)
qed

text \<open>C8: re-evaluating the membership of a bond makes the best scored member the only active one.
  When it reports a change to \<open>b\<close>, no member of the bond has a higher score, \<open>b\<close> is alone in
  the active list, and every other member is a standby: none is lost. When it reports no
  change, nothing changed, and either no member has a score or the active member is the best
  one.\<close>

theorem update_membership_best:
  assumes "bonds_wf m" "hm_get (bm_bonds m) n = Some state"
    and "\<forall>k s. hm_get h k = Some s \<longrightarrow> hs_overall s \<noteq> NaN"
    and "update_membership now n h m = (Ok r, m')"
  shows "\<exists>state'. hm_get (bm_bonds m') n = Some state' \<and> bond_members state' = bond_members state
    \<and> (case r of
        Some b \<Rightarrow> bs_active_members state' = [b] \<and> set (bs_standby_members state') = bond_members state - {b}
          \<and> (\<exists>s. b \<in> bond_members state \<and> hm_get h b = Some s
               \<and> (\<forall>k \<in> bond_members state. \<forall>s'. hm_get h k = Some s' \<longrightarrow> hs_overall s' \<le> hs_overall s))
      | None \<Rightarrow> state' = state
          \<and> ((\<forall>k \<in> bond_members state. hm_get h k = None)
             \<or> (\<exists>b s. bs_active_members state = [b] \<and> hm_get h b = Some s
                  \<and> (\<forall>k \<in> bond_members state. \<forall>s'. hm_get h k = Some s' \<longrightarrow> hs_overall s' \<le> hs_overall s))))"
proof -
  from assms(1,2) have wf: "bond_wf n state" by (simp add: bonds_wf_def)
  from assms(2,4) have m: "update_state now h state = (r, snd (update_state now h state))"
      "hm_get (bm_bonds m') n = Some (snd (update_state now h state))"
    by (auto simp: update_membership_def split: prod.splits)
  from wf assms(3) m(1) show ?thesis
  proof (cases rule: update_state_cases)
    case unscored
    with m(2) show ?thesis by simp
  next
    case (active b s)
    with m(2) show ?thesis by (auto simp: best_member_def)
  next
    case (moved b s)
    with m(2) fail_over_to_best [OF wf, of b now h] show ?thesis by (auto simp: best_member_def)
  qed
qed

text \<open>Two standby members with scores.\<close>

definition sample_bond :: bond_config where
  "sample_bond = \<lparr>bc_name = ''bond0'', bc_mode = ActiveBackup, bc_members = [''eth0'', ''wlan0''],
     bc_weights = [], bc_min_active_members = 1, bc_health_targets = [], bc_policy = None\<rparr>"

definition sample_bonds :: bond_manager where
  "sample_bonds = fst (snd (create_bond (recording all_ok) sample_bond bond_manager_new []))"

lemma sample_bonds_eq:
  "sample_bonds = \<lparr>bm_bonds = [(''bond0'', \<lparr>bs_name = ''bond0'', bs_mode = ActiveBackup, bs_active_members = [],
     bs_standby_members = [''eth0'', ''wlan0''], bs_failed_members = [], bs_health = None,
     bs_failover_active = False, bs_last_failover = None, bs_bond_interface = Some ''netfusion0''\<rparr>)]\<rparr>"
  by (simp add: sample_bonds_def create_bond_def create_bond_interface_def sample_bond_def bond_iface_name_def
      trim_start_matches_def strip_prefix_def starts_with_def bond_manager_new_def recording_def all_ok_def Let_def)

lemma sample_bonds_wf: "bonds_wf sample_bonds"
  unfolding sample_bonds_def by (rule create_bond_wf) (simp add: bonds_wf_def bond_manager_new_def)

definition sample_health :: "(string, health_score) hmap" where
  "sample_health = [(''eth0'', uniform_score (Fin 40)), (''wlan0'', uniform_score (Fin 80))]"

definition sample_active :: bond_manager where
  "sample_active = snd (update_membership 5 ''bond0'' sample_health sample_bonds)"

lemma sample_update:
  "update_membership 5 ''bond0'' sample_health sample_bonds = (Ok (Some ''wlan0''), sample_active)"
  "sample_active = \<lparr>bm_bonds = [(''bond0'', \<lparr>bs_name = ''bond0'', bs_mode = ActiveBackup,
     bs_active_members = [''wlan0''], bs_standby_members = [''eth0''], bs_failed_members = [], bs_health = None,
     bs_failover_active = True, bs_last_failover = Some 5, bs_bond_interface = Some ''netfusion0''\<rparr>)]\<rparr>"
  by (simp_all add: sample_active_def sample_bonds_eq update_membership_def update_state_def scored_members_def
      map_filter_simps sample_health_def uniform_score_def sort_by_def f_partial_cmp_def fail_over_to_def)

theorem update_membership_best_witness:
  "\<exists>state'. hm_get (bm_bonds sample_active) ''bond0'' = Some state'
     \<and> bond_members state' = {''eth0'', ''wlan0''} \<and> bs_active_members state' = [''wlan0'']"
proof -
  have h: "\<forall>k s. hm_get sample_health k = Some s \<longrightarrow> hs_overall s \<noteq> NaN"
    by (auto simp: sample_health_def uniform_score_def split: if_splits)
  have g: "hm_get (bm_bonds sample_bonds) ''bond0'' = Some (snd (hd (bm_bonds sample_bonds)))"
    by (simp add: sample_bonds_eq)
  have "bond_members (snd (hd (bm_bonds sample_bonds))) = {''eth0'', ''wlan0''}"
    by (simp add: sample_bonds_eq bond_members_def)
  with update_membership_best [OF sample_bonds_wf g h sample_update(1)] show ?thesis by auto
qed

text \<open>C9: in every state the manager and the engine can reach from a fresh start, whatever commands
  answer and whatever the clock reads: each bond is filed under its own name, has at most one
  active member, no member that is active and standby, and carries the failover flag and a
  time of the last failover exactly when it has an active member. The flag is never cleared
  again.\<close>

theorem bonding_reachable_wf:
  assumes "(bonding_step sh)\<^sup>*\<^sup>* (bond_manager_new, failover_engine_new config, w0) (m, fo, w)"
    and "hm_get (bm_bonds m) n = Some state"
  shows "bs_name state = n \<and> length (bs_active_members state) \<le> 1
    \<and> set (bs_active_members state) \<inter> set (bs_standby_members state) = {}
    \<and> (bs_failover_active state \<longleftrightarrow> bs_active_members state \<noteq> [])
    \<and> (bs_last_failover state \<noteq> None \<longleftrightarrow> bs_active_members state \<noteq> [])"
  using bonding_reach_inv [OF assms(1)] assms(2) by (auto simp: bonding_inv_def bonds_wf_def bond_wf_def)

lemma sample_active_reached:
  "(bonding_step (recording all_ok))\<^sup>*\<^sup>* (bond_manager_new, failover_engine_new config, [])
     (sample_active, failover_engine_new config, snd (snd (create_bond (recording all_ok) sample_bond bond_manager_new [])))"
proof -
  have "create_bond (recording all_ok) sample_bond bond_manager_new []
      = (fst (create_bond (recording all_ok) sample_bond bond_manager_new []), sample_bonds,
         snd (snd (create_bond (recording all_ok) sample_bond bond_manager_new [])))"
    by (simp add: sample_bonds_def)
  from bonding_step.create [OF this] bonding_step.membership [OF sample_update(1)]
  show ?thesis by (meson r_into_rtranclp rtranclp.rtrancl_into_rtrancl)
qed

theorem bonding_reachable_wf_witness:
  "length (bs_active_members (snd (hd (bm_bonds sample_active)))) \<le> 1
    \<and> bs_failover_active (snd (hd (bm_bonds sample_active)))"
  using bonding_reachable_wf [OF sample_active_reached [of failover_config_default],
      of "''bond0''" "snd (hd (bm_bonds sample_active))"]
  by (simp add: sample_update(2))



text \<open>Once a bond has had its first active member, every evaluation outside the cooldown sends
  the failover event again, with the current active and standby members, although nothing
  changed; the health update that triggers the evaluation is not looked at, so neither its
  score nor the count of bad readings decides anything.\<close>

theorem failover_repeats:
  assumes "(bonding_step sh)\<^sup>*\<^sup>* (bond_manager_new, failover_engine_new config, w0) (m, fo, w)"
    and "hm_get (bm_bonds m) n = Some state" "bs_active_members state \<noteq> []" "\<not> in_cooldown now n fo"
    and "process_health_update chk now u m fo = Some fo'"
  shows "fo_sent fo' = fo_sent (evaluate_failover now m fo)
    \<and> failover_of now n state \<in> set (drop (length (fo_sent fo)) (fo_sent fo'))"
proof -
  have wf: "bonds_wf m" using bonding_reach_inv [OF assms(1)] by (simp add: bonding_inv_def)
  then have st: "(n, state) \<in> set (bm_bonds m)" "bs_failover_active state" "distinct (List.map fst (bm_bonds m))"
    using assms(2,3) by (auto simp: bonds_wf_def bond_wf_def hm_ok_def dest: map_of_SomeD)
  obtain fo1 where fo1: "track_reading chk u fo = Some fo1" "fo' = evaluate_failover now m fo1"
    using assms(5) by (auto simp: process_health_update_def)
  note k = track_reading_keeps [OF fo1(1)]
  from k have "fo_sent fo' = fo_sent (evaluate_failover now m fo)"
    unfolding fo1(2) evaluate_failover_def by (intro evaluate_same_events) simp_all
  moreover have "\<not> in_cooldown now n fo1" using assms(4) k in_cooldown_same [of fo1 fo now n] by simp
  ultimately show ?thesis
    using evaluate_emits [OF st(3,1,2), of now fo1] k by (simp add: fo1(2) evaluate_failover_def)
qed

definition sample_bad_update :: health_update where
  "sample_bad_update = \<lparr>hu_interface = ''eth0'', hu_previous_score = Fin 80, hu_new_score = uniform_score (Fin 80),
     hu_smoothed_score = uniform_score (Fin 80), hu_failover_candidate = False,
     hu_probe = \<lparr>pb_interface = ''eth0'', pb_rtt_ms = Fin 5, pb_jitter_ms = Fin 1, pb_loss_percent = Fin 0,
       pb_throughput_mbps = Fin 100, pb_state_changes = 0, pb_timestamp = 0\<rparr>\<rparr>"

theorem failover_repeats_witness:
  "\<exists>fo'. process_health_update True 40000000000 sample_bad_update sample_active
        (evaluate_failover 6 sample_active (failover_engine_new failover_config_default)) = Some fo'
     \<and> failover_of 40000000000 ''bond0'' (snd (hd (bm_bonds sample_active))) \<in> set (drop 1 (fo_sent fo'))"
proof -
  let ?fo = "evaluate_failover 6 sample_active (failover_engine_new failover_config_default)"
  have 1: "(bonding_step (recording all_ok))\<^sup>*\<^sup>* (bond_manager_new, failover_engine_new failover_config_default, [])
      (sample_active, ?fo, snd (snd (create_bond (recording all_ok) sample_bond bond_manager_new [])))"
    by (meson bonding_step.tick rtranclp.rtrancl_into_rtrancl sample_active_reached)
  have fo: "length (fo_sent ?fo) = 1" "\<not> in_cooldown 40000000000 ''bond0'' ?fo" "fo_config ?fo = failover_config_default"
    by (simp_all add: evaluate_failover_def sample_update(2) evaluate_bond_def in_cooldown_def
        failover_engine_new_def failover_config_default_def from_secs_def as_secs_def num_seconds_def)
  then have "\<exists>fo'. process_health_update True 40000000000 sample_bad_update sample_active ?fo = Some fo'"
    by (simp add: process_health_update_def track_reading_def sample_bad_update_def uniform_score_def
        failover_config_default_def)
  then obtain fo' where p: "process_health_update True 40000000000 sample_bad_update sample_active ?fo = Some fo'"
    by blast
  have "hm_get (bm_bonds sample_active) ''bond0'' = Some (snd (hd (bm_bonds sample_active)))"
    "bs_active_members (snd (hd (bm_bonds sample_active))) \<noteq> []"
    by (simp_all add: sample_update(2))
  from failover_repeats [OF 1 this fo(2) p]
  have "failover_of 40000000000 ''bond0'' (snd (hd (bm_bonds sample_active))) \<in> set (drop 1 (fo_sent fo'))"
    unfolding fo(1) by blast
  with p show ?thesis by blast
qed

text \<open>C11: deleting a bond right after creating it undoes the creation: the manager forgets the
  bond and keeps every other one, and the commands are the creation of the bond interface, one
  enslavement per member, one release per member, and the deletion of the same interface,
  whatever the later commands answer.\<close>

theorem create_then_delete:
  assumes "create_bond (recording f) config m lg = (Ok (), m1, lg1)"
  shows "\<exists>m2 lg2. delete_bond (recording f) (bc_name config) m1 lg1 = (Ok (), m2, lg2)
    \<and> (\<forall>n. hm_get (bm_bonds m2) n = (if n = bc_name config then None else hm_get (bm_bonds m) n))
    \<and> lg2 = lg @ [''ip'', ''link'', ''add'', bond_iface_name config, ''type'', ''bond'', ''mode'',
                    bond_mode_arg (bc_mode config)]
        # List.map (\<lambda>i. [''ip'', ''link'', ''set'', i, ''master'', bond_iface_name config]) (bc_members config)
        @ List.map (\<lambda>i. [''ip'', ''link'', ''set'', i, ''nomaster'']) (bc_members config)
        @ [[''ip'', ''link'', ''del'', bond_iface_name config]]"
  using assms
  by (auto simp: create_bond_def create_bond_interface_def delete_bond_def delete_bond_interface_def Let_def
      cmd_simps fold_enslave_log fold_release_log hm_simps split: sum.splits if_splits)

theorem create_then_delete_witness:
  "\<exists>m2 lg2. delete_bond (recording all_ok) ''bond0'' sample_bonds
      (snd (snd (create_bond (recording all_ok) sample_bond bond_manager_new []))) = (Ok (), m2, lg2)
    \<and> bm_bonds m2 = [] \<and> length lg2 = 6"
proof -
  have "create_bond (recording all_ok) sample_bond bond_manager_new []
      = (Ok (), sample_bonds, snd (snd (create_bond (recording all_ok) sample_bond bond_manager_new [])))"
    by (simp add: sample_bonds_def create_bond_def create_bond_interface_def recording_def all_ok_def Let_def)
  from create_then_delete [OF this] obtain m2 lg2 where
    d: "delete_bond (recording all_ok) ''bond0'' sample_bonds
      (snd (snd (create_bond (recording all_ok) sample_bond bond_manager_new []))) = (Ok (), m2, lg2)"
    "length lg2 = 6" by (auto simp: sample_bond_def)
  moreover have "bm_bonds m2 = []"
    using d(1) by (auto simp: delete_bond_def sample_bonds_eq Let_def)
  ultimately show ?thesis by blast
qed

end
