(* ===== verification/Pipeline.thy ===== *)
theory Pipeline
  imports Bonding
begin

text \<open>
  The health pipeline: \<^verbatim>\<open>HealthMonitor::run\<close> of \<^verbatim>\<open>crates/netfusion-core/src/monitoring.rs\<close> probes the
  interfaces and broadcasts an update for each, \<^verbatim>\<open>FailoverEngine::run\<close> of \<^verbatim>\<open>bonding/failover.rs\<close>
  receives the updates and evaluates the bonds, on each update and on a timer. The two loops run
  concurrently, which the step relation interleaves probe by probe.

  The channel is the one of \<open>tokio\<close>: a receiver gets what was sent after it subscribed, in order, but
  loses the oldest messages when it lags behind. The loop waits with \<^verbatim>\<open>select!\<close>, where the report that
  messages were lost matches no branch, so that after a loss it goes on with the oldest one kept.
\<close>

record pipeline =
  pl_monitor :: health_monitor
  pl_position :: nat
  pl_engine :: failover_engine
  pl_bonds :: bond_manager
  pl_received :: "health_update list"

text \<open>
  \<open>pl_position\<close> is the place of the receiver in what the monitor has sent; \<open>pl_received\<close>, the
  updates the engine has taken so far, only serves to speak about them.
\<close>

definition pipeline_new :: "health_monitor \<Rightarrow> failover_config \<Rightarrow> bond_manager \<Rightarrow> pipeline" where
  "pipeline_new monitor config bonds =
     \<lparr>pl_monitor = monitor, pl_position = length (hm_sent monitor), pl_engine = failover_engine_new config,
      pl_bonds = bonds, pl_received = []\<rparr>"

text \<open>One turn of the engine's loop on the update at position \<open>i\<close>: earlier ones are past or lost.\<close>

definition receive_update :: "bool \<Rightarrow> timestamp \<Rightarrow> nat \<Rightarrow> pipeline \<Rightarrow> pipeline option" where
  "receive_update chk now i p =
     (let u = hm_sent (pl_monitor p) ! i
      in map_option
           (\<lambda>fo. p\<lparr>pl_position := Suc i, pl_engine := fo, pl_received := pl_received p @ [u]\<rparr>)
           (process_health_update chk now u (pl_bonds p) (pl_engine p)))"

inductive pipeline_step :: "'w timed_shell \<Rightarrow> pipeline \<times> 'w \<Rightarrow> pipeline \<times> 'w \<Rightarrow> bool" for tsh where
  probed: "probe_interface chk tsh inst now (pl_monitor p) i w = Some (r, m', w') \<Longrightarrow>
    pipeline_step tsh (p, w) (p\<lparr>pl_monitor := m'\<rparr>, w')"
| received: "pl_position p \<le> i \<Longrightarrow> i < length (hm_sent (pl_monitor p)) \<Longrightarrow> receive_update chk now i p = Some p' \<Longrightarrow>
    pipeline_step tsh (p, w) (p', w)"
| timer: "pipeline_step tsh (p, w) (p\<lparr>pl_engine := evaluate_failover now (pl_bonds p) (pl_engine p)\<rparr>, w)"

section \<open>What the engine has counted\<close>

text \<open>The readings of an interface since the last one that was good enough.\<close>

definition bad_reading :: "failover_config \<Rightarrow> health_update \<Rightarrow> bool" where
  "bad_reading c u \<longleftrightarrow> hs_overall (hu_smoothed_score u) < fc_min_viable_score c"

definition bad_streak :: "failover_config \<Rightarrow> string \<Rightarrow> health_update list \<Rightarrow> nat" where
  "bad_streak c n us = length (takeWhile (bad_reading c) (rev (filter (\<lambda>u. hu_interface u = n) us)))"

lemma bad_streak_snoc:
  "bad_streak c n (us @ [u]) =
     (if hu_interface u \<noteq> n then bad_streak c n us else if bad_reading c u then Suc (bad_streak c n us) else 0)"
  by (simp add: bad_streak_def)

definition counts_streaks :: "failover_config \<Rightarrow> health_update list \<Rightarrow> (string, u32) hmap \<Rightarrow> bool" where
  "counts_streaks c us bad \<longleftrightarrow>
     (\<forall>n. hm_get bad n = (if bad_streak c n us = 0 then None else Some (of_nat (bad_streak c n us))))"

lemma track_reading_counts:
  assumes "track_reading chk u fo = Some fo'" "counts_streaks (fo_config fo) us (fo_bad_readings fo)"
  shows "counts_streaks (fo_config fo) (us @ [u]) (fo_bad_readings fo')"
  unfolding counts_streaks_def
proof
  fix n
  have old: "hm_get (fo_bad_readings fo) k
      = (if bad_streak (fo_config fo) k us = 0 then None else Some (of_nat (bad_streak (fo_config fo) k us)))" for k
    using assms(2) by (simp add: counts_streaks_def)
  show "hm_get (fo_bad_readings fo') n = (if bad_streak (fo_config fo) n (us @ [u]) = 0 then None
      else Some (of_nat (bad_streak (fo_config fo) n (us @ [u]))))"
  proof (cases "bad_reading (fo_config fo) u")
    case True
    with assms(1) have "fo_bad_readings fo' = hm_insert (hu_interface u)
        ((case hm_get (fo_bad_readings fo) (hu_interface u) of None \<Rightarrow> 0 | Some c \<Rightarrow> c) + 1) (fo_bad_readings fo)"
      by (auto simp: track_reading_def bad_reading_def Let_def split: if_splits)
    with True show ?thesis
      by (simp add: AList.update_conv' old bad_streak_snoc add.commute)
  next
    case False
    with assms(1) have "fo_bad_readings fo' = hm_remove (hu_interface u) (fo_bad_readings fo)"
      by (auto simp: track_reading_def bad_reading_def Let_def)
    with False show ?thesis
      by (simp add: AList.delete_conv' old bad_streak_snoc)
  qed
qed

definition no_failover :: "bond_manager \<Rightarrow> bool" where
  "no_failover m \<longleftrightarrow> list_all (\<lambda>(_, b). \<not> bs_failover_active b) (bm_bonds m)"

lemma evaluate_no_failover: "no_failover m \<Longrightarrow> evaluate_failover now m fo = fo"
proof -
  have "list_all (\<lambda>(_, b). \<not> bs_failover_active b) bs \<Longrightarrow> fold (evaluate_bond now) bs fo = fo" for bs
    by (induction bs) (auto simp: evaluate_bond_def)
  then show "no_failover m \<Longrightarrow> evaluate_failover now m fo = fo"
    by (simp add: no_failover_def evaluate_failover_def)
qed

lemma probe_interface_sends:
  "probe_interface chk tsh inst now m i w = Some (r, m', w') \<Longrightarrow> \<exists>us. hm_sent m' = hm_sent m @ us"
  by (auto simp: probe_interface_def run_probe_def Let_def split: if_splits option.splits prod.splits)

section \<open>The pipeline only watches\<close>

text \<open>Seen from the start with \<open>sent\<close> updates broadcast before the engine subscribed.\<close>

definition pipeline_inv :: "failover_config \<Rightarrow> bond_manager \<Rightarrow> nat \<Rightarrow> pipeline \<Rightarrow> bool" where
  "pipeline_inv config bonds sent p \<longleftrightarrow>
     pl_bonds p = bonds \<and> fo_sent (pl_engine p) = [] \<and> fo_config (pl_engine p) = config
     \<and> counts_streaks config (pl_received p) (fo_bad_readings (pl_engine p))
     \<and> sent \<le> pl_position p \<and> pl_position p \<le> length (hm_sent (pl_monitor p))
     \<and> subseq (pl_received p) (drop sent (take (pl_position p) (hm_sent (pl_monitor p))))"

lemma subseq_next:
  assumes "subseq us (drop n (take k xs))" "n \<le> k" "k \<le> i" "i < length xs"
  shows "subseq (us @ [xs ! i]) (drop n (take (Suc i) xs))"
proof -
  have "drop n (take i xs) = drop n (take k xs) @ take (i - k) (drop k xs)"
    using take_add [of k "i - k" xs] assms(2-4) by simp
  then have "subseq us (drop n (take i xs))" using assms(1) by (simp add: list_emb_prefix)
  then show ?thesis
    using assms(2-4) by (simp add: take_Suc_conv_app_nth)
qed

lemma pipeline_inv_step:
  assumes "no_failover bonds" "pipeline_step tsh x y" "pipeline_inv config bonds sent (fst x)"
  shows "pipeline_inv config bonds sent (fst y)"
  using assms(2,3)
proof (induction rule: pipeline_step.induct)
  case (probed chk inst now p i w r m' w')
  from probe_interface_sends [OF probed.hyps] obtain us where "hm_sent m' = hm_sent (pl_monitor p) @ us" by blast
  with probed.prems show ?case by (auto simp: pipeline_inv_def)
next
  case (received p i chk now p' w)
  then obtain fo where fo: "track_reading chk (hm_sent (pl_monitor p) ! i) (pl_engine p) = Some fo"
      "p' = p\<lparr>pl_position := Suc i, pl_engine := fo, pl_received := pl_received p @ [hm_sent (pl_monitor p) ! i]\<rparr>"
    using evaluate_no_failover [OF assms(1)]
    by (auto simp: receive_update_def process_health_update_def pipeline_inv_def Let_def)
  have "subseq (pl_received p @ [hm_sent (pl_monitor p) ! i]) (drop sent (take (Suc i) (hm_sent (pl_monitor p))))"
    by (rule subseq_next) (use received.hyps received.prems in \<open>auto simp: pipeline_inv_def\<close>)
  moreover have old: "pl_bonds p = bonds" "fo_sent (pl_engine p) = []" "fo_config (pl_engine p) = config"
      "counts_streaks config (pl_received p) (fo_bad_readings (pl_engine p))" "sent \<le> pl_position p"
    using received.prems by (simp_all add: pipeline_inv_def)
  moreover have "counts_streaks config (pl_received p @ [hm_sent (pl_monitor p) ! i]) (fo_bad_readings fo)"
    using track_reading_counts [OF fo(1)] old by simp
  ultimately show ?case
    using received.hyps(1,2) track_reading_keeps [OF fo(1)] by (simp add: pipeline_inv_def fo(2))
next
  case (timer p w now)
  then show ?case using evaluate_no_failover [OF assms(1)] by (simp add: pipeline_inv_def)
qed

interpretation watching: step_invariant "pipeline_step tsh" "\<lambda>x. no_failover bonds \<and> pipeline_inv config bonds sent (fst x)"
  for tsh bonds config sent
  by unfold_locales (use pipeline_inv_step in blast)

lemma pipeline_inv_start: "pipeline_inv config bonds (length (hm_sent monitor)) (pipeline_new monitor config bonds)"
  by (simp add: pipeline_inv_def pipeline_new_def failover_engine_new_def counts_streaks_def bad_streak_def)

text \<open>C39: whatever the monitor measures, the failover engine takes the updates in the order they were sent,
  losing some at most, and its counter of an interface is the number of its bad readings since
  the last good one; and yet, as long as no bond has failed over, monitor and engine together
  never change a bond and never announce a failover, however long a streak becomes.\<close>

theorem pipeline_never_fails_over:
  assumes "(pipeline_step tsh)\<^sup>*\<^sup>* (pipeline_new monitor config bonds, w) (p, w')"
    and "list_all (\<lambda>(_, b). \<not> bs_failover_active b) (bm_bonds bonds)"
  shows "pl_bonds p = bonds \<and> fo_sent (pl_engine p) = []
    \<and> subseq (pl_received p) (drop (length (hm_sent monitor)) (hm_sent (pl_monitor p)))
    \<and> (\<forall>n. hm_get (fo_bad_readings (pl_engine p)) n =
          (if bad_streak config n (pl_received p) = 0 then None else Some (of_nat (bad_streak config n (pl_received p)))))"
proof -
  have "pipeline_inv config bonds (length (hm_sent monitor)) p"
    using watching.reached_keeps [OF assms(1)] assms(2) pipeline_inv_start by (simp add: no_failover_def)
  then show ?thesis
    by (auto simp: pipeline_inv_def counts_streaks_def drop_take intro: subseq_order.order_trans [OF _ prefix_imp_subseq [OF take_is_prefix]])
qed

section \<open>A dead link\<close>

text \<open>A monitor that does not smooth, and what it reports when no ping can be run.\<close>

definition dead_monitor :: health_monitor where
  "dead_monitor = monitor_new (monitor_config_default\<lparr>mc_ema_alpha := Fin 1\<rparr>) health_weights_default"

definition dead_score :: health_score where
  "dead_score = \<lparr>hs_overall = Fin 10, hs_rtt = Fin 0, hs_jitter = Fin 0, hs_loss = Fin 0, hs_throughput = Fin 0,
     hs_stability = Fin 100, hs_timestamp = 7, hs_failover_candidate = False\<rparr>"

lemma dead_health:
  "compute_health True 7 (Fin 999) (Fin 100) (Fin 100) 0 0 (hm_weights dead_monitor) = Some dead_score"
  by (simp add: dead_monitor_def dead_score_def monitor_new_def health_weights_default_def compute_health_def
      hs_compute_def normalize_rtt_def normalize_jitter_def normalize_loss_def normalize_throughput_def
      normalize_stability_def normalize_linear_def u8_sum5_def weighted_mean_def f_of_u8_def f_clamp_def u8_add_def
      zero_f64_def feq_def f_of_nat_def Let_def)

definition dead_update :: health_update where
  "dead_update = \<lparr>hu_interface = ''eth0'', hu_previous_score = Fin 10, hu_new_score = dead_score,
     hu_smoothed_score = dead_score, hu_failover_candidate = False,
     hu_probe = \<lparr>pb_interface = ''eth0'', pb_rtt_ms = Fin 999, pb_jitter_ms = Fin 100, pb_loss_percent = Fin 100,
       pb_throughput_mbps = 0, pb_state_changes = 0, pb_timestamp = 7\<rparr>\<rparr>"

text \<open>The monitor after \<open>k\<close> probes in a row.\<close>

definition dead_after :: "nat \<Rightarrow> health_monitor" where
  "dead_after k = (if k = 0 then dead_monitor
     else dead_monitor\<lparr>hm_previous_scores := [(''eth0'', dead_score)],
            hm_throughput_tracker := tracker_store 0 ''eth0'' 0 0 tracker_new, hm_sent := replicate k dead_update\<rparr>)"

lemma dead_smooth: "ema_smooth 7 dead_score dead_score (Fin 1) = dead_score"
  by (simp add: ema_smooth_def hs_ema_def ema1_def f_clamp_def dead_score_def f64_simps Let_def)

lemma dead_tracker: "tracker_estimate 0 ''eth0'' 0 0 (hm_throughput_tracker (dead_after k)) = (0, tracker_store 0 ''eth0'' 0 0 tracker_new)"
  by (simp add: dead_after_def dead_monitor_def monitor_new_def tracker_new_def tracker_store_def tracker_estimate_def
      as_secs_f64_def duration_since_def f64_simps f_of_nat_def Let_def)

lemma dead_ping: "ping_target (hm_config (dead_after k)) sample_interface = Some ''8.8.8.8''"
  by (simp add: dead_after_def dead_monitor_def monitor_new_def monitor_config_default_def ping_target_def sample_interface_def)

lemma dead_fields:
  "hm_config (dead_after k) = hm_config dead_monitor" "hm_weights (dead_after k) = hm_weights dead_monitor"
  "mc_ema_alpha (hm_config dead_monitor) = Fin 1" "hm_sent (dead_after k) = replicate k dead_update"
  by (simp_all add: dead_after_def dead_monitor_def monitor_new_def)

lemma dead_smooth_section:
  "smooth_section 7 (Fin 1) ''eth0'' dead_score (hm_previous_scores (dead_after k)) = (dead_score, [(''eth0'', dead_score)])"
  by (simp add: smooth_section_def dead_after_def dead_monitor_def monitor_new_def dead_smooth)

lemma dead_score_overall: "hs_overall dead_score = Fin 10"
  by (simp add: dead_score_def)

lemma dead_after_Suc:
  "dead_after (Suc k) = (dead_after k)\<lparr>hm_throughput_tracker := tracker_store 0 ''eth0'' 0 0 tracker_new,
     hm_previous_scores := [(''eth0'', dead_score)], hm_sent := replicate k dead_update @ [dead_update]\<rparr>"
  by (simp add: dead_after_def replicate_append_same)

lemma dead_hysteresis: "\<not> hysteresis_section t ''eth0'' dead_score [(''eth0'', dead_score)]"
  using hysteresis_after_smoothing [of t "''eth0''" 7 "Fin 1" dead_score "hm_previous_scores (dead_after 0)"]
  by (simp add: dead_smooth_section)

lemma dead_probe:
  "probe_interface True dead_shell 0 7 (dead_after k) sample_interface () = Some (Some dead_update, dead_after (Suc k), ())"
proof -
  have i: "if_name sample_interface = ''eth0''" "if_link_state sample_interface = Up"
    "st_rx_bytes (if_stats sample_interface) = 0" "st_tx_bytes (if_stats sample_interface) = 0"
    by (simp_all add: sample_interface_def interface_stats_default_def)
  have p: "ping_probe dead_shell t d () = (Err ''failed to run ping command: not found'', ())" for t d
    by (simp add: ping_probe_def dead_shell_def)
  have "run_probe dead_shell 0 7 (dead_after k) sample_interface () = (Some (hu_probe dead_update),
      (dead_after k)\<lparr>hm_throughput_tracker := tracker_store 0 ''eth0'' 0 0 tracker_new\<rparr>, ())"
    by (simp add: run_probe_def i dead_ping dead_tracker p dead_update_def)
  then show ?thesis
    by (simp add: probe_interface_def i dead_fields dead_health dead_update_def dead_smooth_section dead_hysteresis
        dead_after_Suc dead_score_overall Let_def)
qed

text \<open>A probe and its reception, over and over.\<close>

definition dead_pipeline :: "nat \<Rightarrow> pipeline" where
  "dead_pipeline k = \<lparr>pl_monitor = dead_after k, pl_position = k,
     pl_engine = (failover_engine_new failover_config_default)\<lparr>fo_bad_readings :=
       (if k = 0 then [] else [(''eth0'', of_nat k)])\<rparr>,
     pl_bonds = sample_bonds, pl_received = replicate k dead_update\<rparr>"

lemma sample_no_failover: "no_failover sample_bonds"
  by (simp add: no_failover_def sample_bonds_eq)

lemma dead_pipeline_step:
  "(pipeline_step dead_shell)\<^sup>*\<^sup>* (dead_pipeline k, ()) (dead_pipeline (Suc k), ())"
proof -
  have "pipeline_step dead_shell (dead_pipeline k, ()) ((dead_pipeline k)\<lparr>pl_monitor := dead_after (Suc k)\<rparr>, ())"
    using dead_probe [of k] by (intro pipeline_step.probed) (simp add: dead_pipeline_def)
  moreover have "receive_update False 7 k ((dead_pipeline k)\<lparr>pl_monitor := dead_after (Suc k)\<rparr>) = Some (dead_pipeline (Suc k))"
    using evaluate_no_failover [OF sample_no_failover]
    by (simp add: receive_update_def process_health_update_def dead_pipeline_def dead_fields track_reading_def
        dead_update_def dead_score_overall failover_engine_new_def failover_config_default_def replicate_append_same Let_def
        nth_append)
  then have "pipeline_step dead_shell ((dead_pipeline k)\<lparr>pl_monitor := dead_after (Suc k)\<rparr>, ()) (dead_pipeline (Suc k), ())"
    by (intro pipeline_step.received) (simp_all add: dead_pipeline_def dead_fields)
  ultimately show ?thesis by (meson r_into_rtranclp rtranclp.rtrancl_into_rtrancl)
qed

lemma dead_pipeline_reached: "(pipeline_step dead_shell)\<^sup>*\<^sup>* (pipeline_new dead_monitor failover_config_default sample_bonds, ()) (dead_pipeline k, ())"
proof (induction k)
  case 0
  have "dead_pipeline 0 = pipeline_new dead_monitor failover_config_default sample_bonds"
    by (simp add: dead_pipeline_def pipeline_new_def dead_after_def dead_monitor_def monitor_new_def failover_engine_new_def)
  then show ?case by simp
next
  case (Suc k)
  then show ?case using dead_pipeline_step [of k] by (rule rtranclp_trans)
qed

text \<open>A hundred bad readings of a dead link, where three are the threshold: nothing happens.\<close>

theorem pipeline_never_fails_over_witness:
  "pl_bonds (dead_pipeline 100) = sample_bonds \<and> fo_sent (pl_engine (dead_pipeline 100)) = []
    \<and> subseq (pl_received (dead_pipeline 100)) (hm_sent (pl_monitor (dead_pipeline 100)))
    \<and> hm_get (fo_bad_readings (pl_engine (dead_pipeline 100))) ''eth0'' = Some 100"
proof -
  have bad: "bad_streak failover_config_default ''eth0'' (pl_received (dead_pipeline 100)) = 100"
    by (simp add: dead_pipeline_def bad_streak_def bad_reading_def dead_update_def dead_score_overall failover_config_default_def)
  have "length (hm_sent dead_monitor) = 0" by (simp add: dead_monitor_def monitor_new_def)
  then show ?thesis
    using pipeline_never_fails_over [OF dead_pipeline_reached [of 100]] sample_no_failover bad by (simp add: no_failover_def)
qed

end
