(* ===== verification/Config_Toml.thy ===== *)
theory Config_Toml
  imports Shared_Config "HOL-Library.Monad_Syntax"
begin

text \<open>
  Reading the configuration of \<^verbatim>\<open>crates/netfusion-shared/src/config.rs\<close> from a TOML document: what
  the field types and the \<^verbatim>\<open>#[serde(...)]\<close> attributes of the schema declare. Parsing the text
  to a tree of values is the \<open>toml\<close> library and a parameter where the text is needed; the decoders
  here start from the tree. \<open>None\<close> is a refused document; which of several mistakes is reported
  is left out.

  A field without an attribute is required unless its type is an \<open>Option\<close>; \<open>default\<close> gives a missing
  field its value; a key that no field has is ignored; an integer must fit the width of its field and
  is also taken for a float. The library also reads a struct from an array, by position, and a unit
  variant from a table; such documents count as refused here. Dates, which no field takes, are left out.
\<close>

datatype toml_value =
    TString string
  | TInteger int
  | TFloat f64
  | TBool bool
  | TArray "toml_value list"
  | TTable "(string \<times> toml_value) list"

type_synonym toml_table = "(string \<times> toml_value) list"

section \<open>Decoders of values\<close>

fun de_string :: "toml_value \<Rightarrow> string option" where
  "de_string (TString s) = Some s"
| "de_string _ = None"

fun de_bool :: "toml_value \<Rightarrow> bool option" where
  "de_bool (TBool b) = Some b"
| "de_bool _ = None"

text \<open>An unsigned integer of a width.\<close>

fun de_uint :: "toml_value \<Rightarrow> 'a :: len word option" where
  "de_uint (TInteger i) = (if 0 \<le> i \<and> i < 2 ^ LENGTH('a) then Some (word_of_int i) else None)"
| "de_uint _ = None"

fun de_f64 :: "toml_value \<Rightarrow> f64 option" where
  "de_f64 (TFloat x) = Some x"
| "de_f64 (TInteger i) = Some (fl (of_int i))"
| "de_f64 _ = None"

fun de_array :: "(toml_value \<Rightarrow> 'a option) \<Rightarrow> toml_value \<Rightarrow> 'a list option" where
  "de_array d (TArray vs) = those (List.map d vs)"
| "de_array d _ = None"

text \<open>A hash map from the keys of a table; the keys of a table are distinct.\<close>

fun de_map :: "(toml_value \<Rightarrow> 'a option) \<Rightarrow> toml_value \<Rightarrow> (string, 'a) hmap option" where
  "de_map d (TTable t) = those (List.map (\<lambda>(k, v). map_option (Pair k) (d v)) t)"
| "de_map d _ = None"

fun de_struct :: "(toml_table \<Rightarrow> 'a option) \<Rightarrow> toml_value \<Rightarrow> 'a option" where
  "de_struct f (TTable t) = f t"
| "de_struct f _ = None"

text \<open>
  \<^verbatim>\<open>rename_all = "snake_case"\<close>: an upper-case letter becomes an underscore and the lower-case letter;
  the first one only the letter.
\<close>

definition is_upper :: "char \<Rightarrow> bool" where
  "is_upper c \<longleftrightarrow> lower c \<noteq> c"

fun snake_case :: "string \<Rightarrow> string" where
  "snake_case [] = []"
| "snake_case (c # cs) = lower c # concat (List.map (\<lambda>d. if is_upper d then [CHR ''_'', lower d] else [d]) cs)"

definition de_enum :: "(string \<times> 'a) list \<Rightarrow> toml_value \<Rightarrow> 'a option" where
  "de_enum variants v = Option.bind (de_string v) (map_of (List.map (\<lambda>(n, x). (snake_case n, x)) variants))"

section \<open>Fields\<close>

definition field :: "string \<Rightarrow> (toml_value \<Rightarrow> 'a option) \<Rightarrow> toml_table \<Rightarrow> 'a option" where
  "field k d t = Option.bind (map_of t k) d"

definition field_or :: "string \<Rightarrow> 'a \<Rightarrow> (toml_value \<Rightarrow> 'a option) \<Rightarrow> toml_table \<Rightarrow> 'a option" where
  "field_or k dflt d t = (case map_of t k of None \<Rightarrow> Some dflt | Some v \<Rightarrow> d v)"

definition field_opt :: "string \<Rightarrow> (toml_value \<Rightarrow> 'a option) \<Rightarrow> toml_table \<Rightarrow> 'a option option" where
  "field_opt k d t = (case map_of t k of None \<Rightarrow> Some None | Some v \<Rightarrow> map_option Some (d v))"

section \<open>Enumerations\<close>

definition interface_types :: "(string \<times> interface_type) list" where
  "interface_types =
     [(''Ethernet'', Ethernet), (''Wireless'', Wireless), (''Vlan'', Vlan), (''Bridge'', Bridge), (''Bond'', Bond),
      (''Tunnel'', Tunnel), (''WireGuard'', WireGuard), (''Tailscale'', Tailscale), (''Ppp'', Ppp),
      (''UsbTether'', UsbTether), (''Cellular'', Cellular), (''Loopback'', Loopback), (''Virtual'', Virtual),
      (''Unknown'', UnknownType)]"

definition bond_modes :: "(string \<times> bond_mode) list" where
  "bond_modes =
     [(''ActiveBackup'', ActiveBackup), (''BalanceRr'', BalanceRr), (''BalanceXor'', BalanceXor),
      (''Broadcast'', Broadcast), (''Lacp'', Lacp), (''AdaptiveTlb'', AdaptiveTlb), (''AdaptiveAlb'', AdaptiveAlb),
      (''Mptcp'', Mptcp), (''Ecmp'', Ecmp), (''Weighted'', Weighted), (''Tunnel'', TunnelMode)]"

definition tunnel_types :: "(string \<times> tunnel_type) list" where
  "tunnel_types =
     [(''WireGuard'', TWireGuard), (''OpenVpn'', TOpenVpn), (''Quic'', TQuic), (''Relay'', TRelay),
      (''Tailscale'', TTailscale)]"

definition profile_modes :: "(string \<times> profile_mode) list" where
  "profile_modes =
     [(''LowLatency'', LowLatency), (''Streaming'', Streaming), (''BulkTransfer'', BulkTransfer), (''Voip'', Voip),
      (''Balanced'', Balanced), (''Custom'', Custom)]"

definition qdisc_types :: "(string \<times> qdisc_type) list" where
  "qdisc_types = [(''FqCodel'', FqCodel), (''Cake'', Cake), (''Htb'', Htb), (''Prio'', Prio), (''PfifoFast'', PfifoFast)]"

text \<open>An action is tagged by its key \<open>type\<close>; the other keys of the table are the fields of the variant.\<close>

definition de_policy_action :: "toml_table \<Rightarrow> policy_action option" where
  "de_policy_action t = do {
     tag \<leftarrow> field ''type'' de_string t;
     (if tag = snake_case ''Route'' then map_option ActRoute (field ''bond'' de_string t)
      else if tag = snake_case ''LowestLatency'' then Some LowestLatency
      else if tag = snake_case ''HighestThroughput'' then Some HighestThroughput
      else if tag = snake_case ''LoadBalance'' then map_option ActLoadBalance (field ''bond'' de_string t)
      else if tag = snake_case ''Drop'' then Some ActDrop
      else if tag = snake_case ''Accept'' then Some ActAccept
      else None)
   }"

section \<open>Structs\<close>

definition de_daemon :: "toml_table \<Rightarrow> daemon_config option" where
  "de_daemon t = do {
     socket_path \<leftarrow> field_or ''socket_path'' default_socket_path de_string t;
     state_path \<leftarrow> field_or ''state_path'' default_state_path de_string t;
     health_interval_ms \<leftarrow> field_or ''health_interval_ms'' default_health_interval de_uint t;
     rollback_timeout_secs \<leftarrow> field_or ''rollback_timeout_secs'' default_rollback_timeout de_uint t;
     dry_run \<leftarrow> field_or ''dry_run'' False de_bool t;
     Some \<lparr>dc_socket_path = socket_path, dc_state_path = state_path, dc_health_interval_ms = health_interval_ms,
           dc_rollback_timeout_secs = rollback_timeout_secs, dc_dry_run = dry_run\<rparr>
   }"

definition de_selector :: "toml_table \<Rightarrow> interface_selector option" where
  "de_selector t = do {
     name \<leftarrow> field ''name'' de_string t;
     name_pattern \<leftarrow> field_opt ''name_pattern'' de_string t;
     if_type \<leftarrow> field_opt ''type'' (de_enum interface_types) t;
     driver \<leftarrow> field_opt ''driver'' de_string t;
     min_speed_mbps \<leftarrow> field_or ''min_speed_mbps'' 0 de_uint t;
     weight \<leftarrow> field_or ''weight'' default_selector_weight de_uint t;
     Some \<lparr>is_name = name, is_name_pattern = name_pattern, is_type = if_type, is_driver = driver,
           is_min_speed_mbps = min_speed_mbps, is_weight = weight\<rparr>
   }"

definition de_interfaces :: "toml_table \<Rightarrow> interface_config option" where
  "de_interfaces t = do {
     selectors \<leftarrow> field ''selectors'' (de_array (de_struct de_selector)) t;
     managed \<leftarrow> field ''managed'' (de_array de_string) t;
     exclude \<leftarrow> field ''exclude'' (de_array de_string) t;
     Some \<lparr>ic_selectors = selectors, ic_managed = managed, ic_exclude = exclude\<rparr>
   }"

definition de_bond :: "toml_table \<Rightarrow> bond_config option" where
  "de_bond t = do {
     name \<leftarrow> field ''name'' de_string t;
     mode \<leftarrow> field ''mode'' (de_enum bond_modes) t;
     members \<leftarrow> field ''members'' (de_array de_string) t;
     weights \<leftarrow> field_or ''weights'' [] (de_array de_uint) t;
     min_active_members \<leftarrow> field_or ''min_active_members'' default_min_members de_uint t;
     health_targets \<leftarrow> field_or ''health_targets'' [] (de_array de_string) t;
     policy \<leftarrow> field_opt ''policy'' de_string t;
     Some \<lparr>bc_name = name, bc_mode = mode, bc_members = members, bc_weights = weights,
           bc_min_active_members = min_active_members, bc_health_targets = health_targets, bc_policy = policy\<rparr>
   }"

definition de_rule :: "toml_table \<Rightarrow> rule_config option" where
  "de_rule t = do {
     src \<leftarrow> field_opt ''src'' de_string t;
     dst \<leftarrow> field_opt ''dst'' de_string t;
     proto \<leftarrow> field_opt ''proto'' de_string t;
     dport \<leftarrow> field_opt ''dport'' de_uint t;
     sport \<leftarrow> field_opt ''sport'' de_uint t;
     dscp \<leftarrow> field_opt ''dscp'' de_uint t;
     fwmark \<leftarrow> field_opt ''fwmark'' de_uint t;
     app \<leftarrow> field_opt ''app'' de_string t;
     Some \<lparr>rc_src = src, rc_dst = dst, rc_proto = proto, rc_dport = dport, rc_sport = sport, rc_dscp = dscp,
           rc_fwmark = fwmark, rc_app = app\<rparr>
   }"

definition de_policy :: "toml_table \<Rightarrow> policy_config option" where
  "de_policy t = do {
     name \<leftarrow> field ''name'' de_string t;
     rules \<leftarrow> field ''rules'' (de_array (de_struct de_rule)) t;
     action \<leftarrow> field ''action'' (de_struct de_policy_action) t;
     priority \<leftarrow> field_or ''priority'' default_policy_priority de_uint t;
     Some \<lparr>pc_name = name, pc_rules = rules, pc_action = action, pc_priority = priority\<rparr>
   }"

definition de_tunnel :: "toml_table \<Rightarrow> tunnel_config option" where
  "de_tunnel t = do {
     name \<leftarrow> field ''name'' de_string t;
     tunnel_type \<leftarrow> field ''type'' (de_enum tunnel_types) t;
     remote \<leftarrow> field ''remote'' de_string t;
     local_bind \<leftarrow> field_opt ''local_bind'' de_string t;
     auth_ref \<leftarrow> field_opt ''auth_ref'' de_string t;
     options \<leftarrow> field_or ''options'' [] (de_map de_string) t;
     auto_connect \<leftarrow> field_or ''auto_connect'' False de_bool t;
     auto_reconnect \<leftarrow> field_or ''auto_reconnect'' default_auto_reconnect de_bool t;
     interval_secs \<leftarrow> field_or ''reconnect_interval_secs'' default_reconnect_interval de_uint t;
     Some \<lparr>tc_name = name, tc_type = tunnel_type, tc_remote = remote, tc_local_bind = local_bind,
           tc_auth_ref = auth_ref, tc_options = options, tc_auto_connect = auto_connect,
           tc_auto_reconnect = auto_reconnect, tc_reconnect_interval_secs = interval_secs\<rparr>
   }"

definition de_weights :: "toml_table \<Rightarrow> health_weights option" where
  "de_weights t = do {
     rtt \<leftarrow> field ''rtt'' de_uint t;
     jitter \<leftarrow> field ''jitter'' de_uint t;
     loss \<leftarrow> field ''loss'' de_uint t;
     throughput \<leftarrow> field ''throughput'' de_uint t;
     stability \<leftarrow> field ''stability'' de_uint t;
     Some \<lparr>hw_rtt = rtt, hw_jitter = jitter, hw_loss = loss, hw_throughput = throughput, hw_stability = stability\<rparr>
   }"

definition de_schedule :: "toml_table \<Rightarrow> schedule_config option" where
  "de_schedule t = do {
     cron \<leftarrow> field ''cron'' de_string t;
     duration_mins \<leftarrow> field_opt ''duration_mins'' de_uint t;
     Some \<lparr>sc_cron = cron, sc_duration_mins = duration_mins\<rparr>
   }"

definition de_profile :: "toml_table \<Rightarrow> profile_config option" where
  "de_profile t = do {
     mode \<leftarrow> field ''mode'' (de_enum profile_modes) t;
     interfaces \<leftarrow> field_or ''interfaces'' [] (de_array de_string) t;
     health_weights \<leftarrow> field_opt ''health_weights'' (de_struct de_weights) t;
     max_jitter_ms \<leftarrow> field_opt ''max_jitter_ms'' de_f64 t;
     max_loss_percent \<leftarrow> field_opt ''max_loss_percent'' de_f64 t;
     prefer_lowest_rtt \<leftarrow> field_or ''prefer_lowest_rtt'' False de_bool t;
     failover_threshold \<leftarrow> field_or ''failover_threshold'' default_failover_threshold de_uint t;
     activate_on_app \<leftarrow> field_or ''activate_on_app'' [] (de_array de_string) t;
     schedule \<leftarrow> field_opt ''schedule'' (de_struct de_schedule) t;
     Some \<lparr>pr_mode = mode, pr_interfaces = interfaces, pr_health_weights = health_weights,
           pr_max_jitter_ms = max_jitter_ms, pr_max_loss_percent = max_loss_percent,
           pr_prefer_lowest_rtt = prefer_lowest_rtt, pr_failover_threshold = failover_threshold,
           pr_activate_on_app = activate_on_app, pr_schedule = schedule\<rparr>
   }"

definition de_qdisc :: "toml_table \<Rightarrow> qdisc_config option" where
  "de_qdisc t = do {
     qdisc \<leftarrow> field_opt ''qdisc'' (de_enum qdisc_types) t;
     target_ms \<leftarrow> field_opt ''target_ms'' de_uint t;
     interval_ms \<leftarrow> field_opt ''interval_ms'' de_uint t;
     limit \<leftarrow> field_opt ''limit'' de_uint t;
     Some \<lparr>qd_qdisc = qdisc, qd_target_ms = target_ms, qd_interval_ms = interval_ms, qd_limit = limit\<rparr>
   }"

definition de_qos :: "toml_table \<Rightarrow> qos_config option" where
  "de_qos t = do {
     enabled \<leftarrow> field_or ''enabled'' False de_bool t;
     qdisc \<leftarrow> field_or ''qdisc'' qdisc_type_default (de_enum qdisc_types) t;
     ecn \<leftarrow> field_or ''ecn'' False de_bool t;
     dscp_tagging \<leftarrow> field_or ''dscp_tagging'' False de_bool t;
     interface_overrides \<leftarrow> field ''interface_overrides'' (de_map (de_struct de_qdisc)) t;
     Some \<lparr>qc_enabled = enabled, qc_qdisc = qdisc, qc_ecn = ecn, qc_dscp_tagging = dscp_tagging,
           qc_interface_overrides = interface_overrides\<rparr>
   }"

definition de_logging :: "toml_table \<Rightarrow> logging_config option" where
  "de_logging t = do {
     level \<leftarrow> field_or ''level'' default_log_level de_string t;
     file \<leftarrow> field_opt ''file'' de_string t;
     journald \<leftarrow> field_or ''journald'' False de_bool t;
     max_size_mb \<leftarrow> field_or ''max_size_mb'' default_max_log_size de_uint t;
     max_files \<leftarrow> field_or ''max_files'' default_max_log_files de_uint t;
     Some \<lparr>lc_level = level, lc_file = file, lc_journald = journald, lc_max_size_mb = max_size_mb,
           lc_max_files = max_files\<rparr>
   }"

definition de_relay :: "toml_table \<Rightarrow> relay_client_config option" where
  "de_relay t = do {
     server \<leftarrow> field ''server'' de_string t;
     port \<leftarrow> field_or ''port'' default_relay_port de_uint t;
     auth_ref \<leftarrow> field_opt ''auth_ref'' de_string t;
     server_name \<leftarrow> field_opt ''server_name'' de_string t;
     enabled \<leftarrow> field_or ''enabled'' False de_bool t;
     Some \<lparr>rl_server = server, rl_port = port, rl_auth_ref = auth_ref, rl_server_name = server_name,
           rl_enabled = enabled\<rparr>
   }"

definition de_config :: "toml_table \<Rightarrow> netfusion_config option" where
  "de_config t = do {
     schema_version \<leftarrow> field ''schema_version'' de_uint t;
     daemon \<leftarrow> field ''daemon'' (de_struct de_daemon) t;
     interfaces \<leftarrow> field ''interfaces'' (de_struct de_interfaces) t;
     bonds \<leftarrow> field ''bonds'' (de_array (de_struct de_bond)) t;
     policies \<leftarrow> field ''policies'' (de_array (de_struct de_policy)) t;
     tunnels \<leftarrow> field ''tunnels'' (de_array (de_struct de_tunnel)) t;
     profiles \<leftarrow> field ''profiles'' (de_map (de_struct de_profile)) t;
     qos \<leftarrow> field_opt ''qos'' (de_struct de_qos) t;
     logging \<leftarrow> field_opt ''logging'' (de_struct de_logging) t;
     relay \<leftarrow> field_opt ''relay'' (de_struct de_relay) t;
     Some \<lparr>nc_schema_version = schema_version, nc_daemon = daemon, nc_interfaces = interfaces, nc_bonds = bonds,
           nc_policies = policies, nc_tunnels = tunnels, nc_profiles = profiles, nc_qos = qos, nc_logging = logging,
           nc_relay = relay\<rparr>
   }"

text \<open>
  \<^verbatim>\<open>toml::from_str\<close>: \<open>parse\<close> is the library's parser, \<open>describe\<close> the text of the error for a tree
  that does not fit the schema.
\<close>

definition config_from_str ::
  "(string \<Rightarrow> (string, toml_table) result) \<Rightarrow> (toml_table \<Rightarrow> string) \<Rightarrow> string \<Rightarrow> (string, netfusion_config) result" where
  "config_from_str parse describe content =
     (case parse content of
        Inl e \<Rightarrow> Err e
      | Inr t \<Rightarrow> (case de_config t of None \<Rightarrow> Err (describe t) | Some c \<Rightarrow> Ok c))"

section \<open>Every configuration can be written\<close>

text \<open>The document that lists every field of a configuration, an absent option as an absent key.\<close>

definition opt_entry :: "string \<Rightarrow> ('a \<Rightarrow> toml_value) \<Rightarrow> 'a option \<Rightarrow> toml_table" where
  "opt_entry k e x = (case x of None \<Rightarrow> [] | Some y \<Rightarrow> [(k, e y)])"

definition en_uint :: "'a :: len word \<Rightarrow> toml_value" where
  "en_uint w = TInteger (uint w)"

definition en_array :: "('a \<Rightarrow> toml_value) \<Rightarrow> 'a list \<Rightarrow> toml_value" where
  "en_array e xs = TArray (List.map e xs)"

definition en_map :: "('a \<Rightarrow> toml_value) \<Rightarrow> (string, 'a) hmap \<Rightarrow> toml_value" where
  "en_map e m = TTable (List.map (\<lambda>(k, x). (k, e x)) m)"

definition en_enum :: "(string \<times> 'a) list \<Rightarrow> 'a \<Rightarrow> toml_value" where
  "en_enum variants x = TString (snake_case (fst (the (find (\<lambda>(_, y). y = x) variants))))"

definition en_daemon :: "daemon_config \<Rightarrow> toml_value" where
  "en_daemon d = TTable
     [(''socket_path'', TString (dc_socket_path d)), (''state_path'', TString (dc_state_path d)),
      (''health_interval_ms'', en_uint (dc_health_interval_ms d)),
      (''rollback_timeout_secs'', en_uint (dc_rollback_timeout_secs d)), (''dry_run'', TBool (dc_dry_run d))]"

definition en_selector :: "interface_selector \<Rightarrow> toml_value" where
  "en_selector s = TTable
     ((''name'', TString (is_name s))
      # opt_entry ''name_pattern'' TString (is_name_pattern s)
      @ opt_entry ''type'' (en_enum interface_types) (is_type s)
      @ opt_entry ''driver'' TString (is_driver s)
      @ [(''min_speed_mbps'', en_uint (is_min_speed_mbps s)), (''weight'', en_uint (is_weight s))])"

definition en_interfaces :: "interface_config \<Rightarrow> toml_value" where
  "en_interfaces i = TTable
     [(''selectors'', en_array en_selector (ic_selectors i)), (''managed'', en_array TString (ic_managed i)),
      (''exclude'', en_array TString (ic_exclude i))]"

definition en_bond :: "bond_config \<Rightarrow> toml_value" where
  "en_bond b = TTable
     ([(''name'', TString (bc_name b)), (''mode'', en_enum bond_modes (bc_mode b)),
       (''members'', en_array TString (bc_members b)), (''weights'', en_array en_uint (bc_weights b)),
       (''min_active_members'', en_uint (bc_min_active_members b)),
       (''health_targets'', en_array TString (bc_health_targets b))]
      @ opt_entry ''policy'' TString (bc_policy b))"

definition en_rule :: "rule_config \<Rightarrow> toml_value" where
  "en_rule r = TTable
     (opt_entry ''src'' TString (rc_src r) @ opt_entry ''dst'' TString (rc_dst r)
      @ opt_entry ''proto'' TString (rc_proto r) @ opt_entry ''dport'' en_uint (rc_dport r)
      @ opt_entry ''sport'' en_uint (rc_sport r) @ opt_entry ''dscp'' en_uint (rc_dscp r)
      @ opt_entry ''fwmark'' en_uint (rc_fwmark r) @ opt_entry ''app'' TString (rc_app r))"

definition en_policy_action :: "policy_action \<Rightarrow> toml_value" where
  "en_policy_action a = TTable (case a of
       ActRoute b \<Rightarrow> [(''type'', TString ''route''), (''bond'', TString b)]
     | LowestLatency \<Rightarrow> [(''type'', TString ''lowest_latency'')]
     | HighestThroughput \<Rightarrow> [(''type'', TString ''highest_throughput'')]
     | ActLoadBalance b \<Rightarrow> [(''type'', TString ''load_balance''), (''bond'', TString b)]
     | ActDrop \<Rightarrow> [(''type'', TString ''drop'')]
     | ActAccept \<Rightarrow> [(''type'', TString ''accept'')])"

definition en_policy :: "policy_config \<Rightarrow> toml_value" where
  "en_policy p = TTable
     [(''name'', TString (pc_name p)), (''rules'', en_array en_rule (pc_rules p)),
      (''action'', en_policy_action (pc_action p)), (''priority'', en_uint (pc_priority p))]"

definition en_tunnel :: "tunnel_config \<Rightarrow> toml_value" where
  "en_tunnel t = TTable
     ([(''name'', TString (tc_name t)), (''type'', en_enum tunnel_types (tc_type t)),
       (''remote'', TString (tc_remote t))]
      @ opt_entry ''local_bind'' TString (tc_local_bind t) @ opt_entry ''auth_ref'' TString (tc_auth_ref t)
      @ [(''options'', en_map TString (tc_options t)), (''auto_connect'', TBool (tc_auto_connect t)),
         (''auto_reconnect'', TBool (tc_auto_reconnect t)),
         (''reconnect_interval_secs'', en_uint (tc_reconnect_interval_secs t))])"

definition en_weights :: "health_weights \<Rightarrow> toml_value" where
  "en_weights w = TTable
     [(''rtt'', en_uint (hw_rtt w)), (''jitter'', en_uint (hw_jitter w)), (''loss'', en_uint (hw_loss w)),
      (''throughput'', en_uint (hw_throughput w)), (''stability'', en_uint (hw_stability w))]"

definition en_schedule :: "schedule_config \<Rightarrow> toml_value" where
  "en_schedule s = TTable ((''cron'', TString (sc_cron s)) # opt_entry ''duration_mins'' en_uint (sc_duration_mins s))"

definition en_profile :: "profile_config \<Rightarrow> toml_value" where
  "en_profile p = TTable
     ([(''mode'', en_enum profile_modes (pr_mode p)), (''interfaces'', en_array TString (pr_interfaces p))]
      @ opt_entry ''health_weights'' en_weights (pr_health_weights p)
      @ opt_entry ''max_jitter_ms'' TFloat (pr_max_jitter_ms p)
      @ opt_entry ''max_loss_percent'' TFloat (pr_max_loss_percent p)
      @ [(''prefer_lowest_rtt'', TBool (pr_prefer_lowest_rtt p)),
         (''failover_threshold'', en_uint (pr_failover_threshold p)),
         (''activate_on_app'', en_array TString (pr_activate_on_app p))]
      @ opt_entry ''schedule'' en_schedule (pr_schedule p))"

definition en_qdisc :: "qdisc_config \<Rightarrow> toml_value" where
  "en_qdisc q = TTable
     (opt_entry ''qdisc'' (en_enum qdisc_types) (qd_qdisc q) @ opt_entry ''target_ms'' en_uint (qd_target_ms q)
      @ opt_entry ''interval_ms'' en_uint (qd_interval_ms q) @ opt_entry ''limit'' en_uint (qd_limit q))"

definition en_qos :: "qos_config \<Rightarrow> toml_value" where
  "en_qos q = TTable
     [(''enabled'', TBool (qc_enabled q)), (''qdisc'', en_enum qdisc_types (qc_qdisc q)), (''ecn'', TBool (qc_ecn q)),
      (''dscp_tagging'', TBool (qc_dscp_tagging q)),
      (''interface_overrides'', en_map en_qdisc (qc_interface_overrides q))]"

definition en_logging :: "logging_config \<Rightarrow> toml_value" where
  "en_logging l = TTable
     ((''level'', TString (lc_level l)) # opt_entry ''file'' TString (lc_file l)
      @ [(''journald'', TBool (lc_journald l)), (''max_size_mb'', en_uint (lc_max_size_mb l)),
         (''max_files'', en_uint (lc_max_files l))])"

definition en_relay :: "relay_client_config \<Rightarrow> toml_value" where
  "en_relay r = TTable
     ([(''server'', TString (rl_server r)), (''port'', en_uint (rl_port r))]
      @ opt_entry ''auth_ref'' TString (rl_auth_ref r) @ opt_entry ''server_name'' TString (rl_server_name r)
      @ [(''enabled'', TBool (rl_enabled r))])"


section \<open>Reading what was written\<close>

text \<open>A decoder reads what an encoder wrote.\<close>

definition reads :: "('b \<Rightarrow> 'a option) \<Rightarrow> ('a \<Rightarrow> 'b) \<Rightarrow> bool" where
  "reads d e \<longleftrightarrow> (\<forall>x. d (e x) = Some x)"

named_theorems reads_intro \<open>decoders that read what an encoder wrote\<close>

lemma readsD: "reads d e \<Longrightarrow> d (e x) = Some x"
  by (simp add: reads_def)

lemma readsI: "(\<And>x. d (e x) = Some x) \<Longrightarrow> reads d e"
  by (simp add: reads_def)

lemma those_reads: "reads d e \<Longrightarrow> those (List.map (\<lambda>x. d (e x)) xs) = Some xs"
  by (induction xs) (simp_all add: reads_def)

lemma reads_string [reads_intro]: "reads de_string TString"
  by (simp add: reads_def)

lemma reads_bool [reads_intro]: "reads de_bool TBool"
  by (simp add: reads_def)

lemma reads_f64 [reads_intro]: "reads de_f64 TFloat"
  by (simp add: reads_def)

lemma reads_uint [reads_intro]: "reads de_uint en_uint"
  by (simp add: reads_def en_uint_def uint_bounded)

lemma reads_array [reads_intro]: "reads d e \<Longrightarrow> reads (de_array d) (en_array e)"
  using those_reads [of d e] by (simp add: reads_def en_array_def comp_def)

lemma reads_map [reads_intro]: "reads d e \<Longrightarrow> reads (de_map d) (en_map e)"
proof -
  assume r: "reads d e"
  have "those (List.map ((\<lambda>(k, v). map_option (Pair k) (d v)) \<circ> (\<lambda>(k, x). (k, e x))) m) = Some m" for m
    using readsD [OF r] by (induction m) auto
  then show ?thesis unfolding reads_def en_map_def de_map.simps map_map by blast
qed

lemmas snake_simps = is_upper_def lower_def

lemma reads_interface_type [reads_intro]: "reads (de_enum interface_types) (en_enum interface_types)"
  unfolding reads_def by (rule allI, rename_tac x, case_tac x)
    (simp_all add: de_enum_def en_enum_def interface_types_def snake_simps)

lemma reads_bond_mode [reads_intro]: "reads (de_enum bond_modes) (en_enum bond_modes)"
  unfolding reads_def by (rule allI, rename_tac x, case_tac x)
    (simp_all add: de_enum_def en_enum_def bond_modes_def snake_simps)

lemma reads_tunnel_type [reads_intro]: "reads (de_enum tunnel_types) (en_enum tunnel_types)"
  unfolding reads_def by (rule allI, rename_tac x, case_tac x)
    (simp_all add: de_enum_def en_enum_def tunnel_types_def snake_simps)

lemma reads_profile_mode [reads_intro]: "reads (de_enum profile_modes) (en_enum profile_modes)"
  unfolding reads_def by (rule allI, rename_tac x, case_tac x)
    (simp_all add: de_enum_def en_enum_def profile_modes_def snake_simps)

lemma reads_qdisc_type [reads_intro]: "reads (de_enum qdisc_types) (en_enum qdisc_types)"
  unfolding reads_def by (rule allI, rename_tac x, case_tac x)
    (simp_all add: de_enum_def en_enum_def qdisc_types_def snake_simps)

lemma snake_case_actions:
  "snake_case ''Route'' = ''route''" "snake_case ''LowestLatency'' = ''lowest_latency''"
  "snake_case ''HighestThroughput'' = ''highest_throughput''" "snake_case ''LoadBalance'' = ''load_balance''"
  "snake_case ''Drop'' = ''drop''" "snake_case ''Accept'' = ''accept''"
  by code_simp+

lemma reads_policy_action [reads_intro]: "reads (de_struct de_policy_action) en_policy_action"
  unfolding reads_def by (rule allI, rename_tac x, case_tac x)
    (simp_all add: de_policy_action_def en_policy_action_def field_def snake_case_actions del: snake_case.simps)

text \<open>The fields of a written table, one entry after the other.\<close>

lemma field_Cons: "field k d ((k', v) # t) = (if k = k' then d v else field k d t)"
  by (simp add: field_def)

lemma field_or_Cons: "field_or k dflt d ((k', v) # t) = (if k = k' then d v else field_or k dflt d t)"
  by (simp add: field_or_def)

lemma field_opt_Cons: "field_opt k d ((k', v) # t) = (if k = k' then map_option Some (d v) else field_opt k d t)"
  by (simp add: field_opt_def)

lemma field_Nil: "field k d [] = None" "field_or k dflt d [] = Some dflt" "field_opt k d [] = Some None"
  by (simp_all add: field_def field_or_def field_opt_def)

lemma field_skip_opt:
  "k \<noteq> k' \<Longrightarrow> field k d (opt_entry k' e x @ t) = field k d t"
  "k \<noteq> k' \<Longrightarrow> field_or k dflt d (opt_entry k' e x @ t) = field_or k dflt d t"
  "k \<noteq> k' \<Longrightarrow> field_opt k d' (opt_entry k' e x @ t) = field_opt k d' t"
  by (simp_all add: field_def field_or_def field_opt_def opt_entry_def split: option.split)

lemma field_opt_entry:
  "reads d e \<Longrightarrow> field_opt k d t = Some None \<Longrightarrow> field_opt k d (opt_entry k e x @ t) = Some x"
  by (cases x) (simp_all add: field_opt_def opt_entry_def readsD)

lemmas table_simps = field_Cons field_or_Cons field_opt_Cons field_Nil field_skip_opt field_opt_entry
  field_skip_opt [where t = "[]", simplified] field_opt_entry [where t = "[]", unfolded append_Nil2]

lemma reads_daemon [reads_intro]: "reads (de_struct de_daemon) en_daemon"
  by (rule readsI) (simp add: en_daemon_def de_daemon_def table_simps reads_intro reads_intro [THEN readsD])

lemma reads_selector [reads_intro]: "reads (de_struct de_selector) en_selector"
  by (rule readsI) (simp add: en_selector_def de_selector_def table_simps reads_intro reads_intro [THEN readsD])

lemma reads_interfaces [reads_intro]: "reads (de_struct de_interfaces) en_interfaces"
  by (rule readsI) (simp add: en_interfaces_def de_interfaces_def table_simps reads_intro reads_intro [THEN readsD])

lemma reads_bond [reads_intro]: "reads (de_struct de_bond) en_bond"
  by (rule readsI) (simp add: en_bond_def de_bond_def table_simps reads_intro reads_intro [THEN readsD])

lemma reads_rule [reads_intro]: "reads (de_struct de_rule) en_rule"
  by (rule readsI) (simp add: en_rule_def de_rule_def table_simps reads_intro reads_intro [THEN readsD])

lemma reads_policy [reads_intro]: "reads (de_struct de_policy) en_policy"
  by (rule readsI) (simp add: en_policy_def de_policy_def table_simps reads_intro reads_intro [THEN readsD])

lemma reads_tunnel [reads_intro]: "reads (de_struct de_tunnel) en_tunnel"
  by (rule readsI) (simp add: en_tunnel_def de_tunnel_def table_simps reads_intro reads_intro [THEN readsD])

lemma reads_weights [reads_intro]: "reads (de_struct de_weights) en_weights"
  by (rule readsI) (simp add: en_weights_def de_weights_def table_simps reads_intro reads_intro [THEN readsD])

lemma reads_schedule [reads_intro]: "reads (de_struct de_schedule) en_schedule"
  by (rule readsI) (simp add: en_schedule_def de_schedule_def table_simps reads_intro reads_intro [THEN readsD])

lemma reads_profile [reads_intro]: "reads (de_struct de_profile) en_profile"
  by (rule readsI) (simp add: en_profile_def de_profile_def table_simps reads_intro reads_intro [THEN readsD])

lemma reads_qdisc [reads_intro]: "reads (de_struct de_qdisc) en_qdisc"
  by (rule readsI) (simp add: en_qdisc_def de_qdisc_def table_simps reads_intro reads_intro [THEN readsD])

lemma reads_qos [reads_intro]: "reads (de_struct de_qos) en_qos"
  by (rule readsI) (simp add: en_qos_def de_qos_def table_simps reads_intro reads_intro [THEN readsD])

lemma reads_logging [reads_intro]: "reads (de_struct de_logging) en_logging"
  by (rule readsI) (simp add: en_logging_def de_logging_def table_simps reads_intro reads_intro [THEN readsD])

lemma reads_relay [reads_intro]: "reads (de_struct de_relay) en_relay"
  by (rule readsI) (simp add: en_relay_def de_relay_def table_simps reads_intro reads_intro [THEN readsD])
















section \<open>What a document must have\<close>

definition required_keys :: "string list" where
  "required_keys = [''schema_version'', ''daemon'', ''interfaces'', ''bonds'', ''policies'', ''tunnels'', ''profiles'']"

lemma required_key_missing: "k \<in> set required_keys \<Longrightarrow> map_of t k = None \<Longrightarrow> de_config t = None"
  by (auto simp: required_keys_def de_config_def field_def Option.bind_eq_None_conv)

text \<open>The smallest document: every required key with nothing in it is the default configuration.\<close>

lemma empty_sections_are_default:
  "de_config
     [(''schema_version'', TInteger 1), (''daemon'', TTable []),
      (''interfaces'', TTable [(''selectors'', TArray []), (''managed'', TArray []), (''exclude'', TArray [])]),
      (''bonds'', TArray []), (''policies'', TArray []), (''tunnels'', TArray []), (''profiles'', TTable [])]
   = Some netfusion_config_default"
  by (simp add: de_config_def de_daemon_def de_interfaces_def table_simps netfusion_config_default_def
      daemon_config_default_def interface_config_default_def SCHEMA_VERSION_def)

text \<open>
  The document that \<^verbatim>\<open>README.md\<close> gives as the configuration. It lacks \<open>schema_version\<close>, \<open>tunnels\<close> and
  \<open>profiles\<close>, the keys of \<open>interfaces\<close>, the members of the bond and the overrides of \<open>qos\<close>, and has a table
  where the list of policies belongs.
\<close>

definition readme_config :: toml_table where
  "readme_config =
     [(''daemon'', TTable [(''socket_path'', TString ''/run/netfusion/netfusion.sock''),
         (''state_path'', TString ''/var/lib/netfusion/state.db''), (''health_interval_ms'', TInteger 1000),
         (''rollback_timeout_secs'', TInteger 30), (''dry_run'', TBool False)]),
      (''interfaces'', TTable []),
      (''bonds'', TArray [TTable [(''name'', TString ''bond0''), (''mode'', TString ''active_backup'')]]),
      (''policies'', TTable []),
      (''qos'', TTable [(''enabled'', TBool True), (''qdisc'', TString ''fq_codel''), (''ecn'', TBool True),
         (''dscp_tagging'', TBool True)]),
      (''logging'', TTable [(''level'', TString ''info'')])]"

lemma readme_config_parts:
  "map_of readme_config ''schema_version'' = None" "de_interfaces [] = None" "de_array (de_struct de_policy) (TTable []) = None"
  "de_bond [(''name'', TString ''bond0''), (''mode'', TString ''active_backup'')] = None"
  "de_qos [(''enabled'', TBool True), (''qdisc'', TString ''fq_codel''), (''ecn'', TBool True), (''dscp_tagging'', TBool True)] = None"
  by (simp_all add: readme_config_def de_interfaces_def de_bond_def de_qos_def table_simps Option.bind_eq_None_conv)

end
