(* ===== verification/Path_Steering.thy ===== *)
theory Path_Steering
  imports Monitoring
begin

text \<open>
  \<^verbatim>\<open>crates/netfusion-core/src/routing/path_steering.rs\<close>: the engine that moves a traffic class to
  the best viable interface. Each call takes one reading \<open>now\<close> of the monotonic clock; the
  decisions broadcast so far are the list \<open>pst_sent\<close>.
\<close>

section \<open>State\<close>

record steering_config =
  sc_min_viable_score :: f64
  sc_switch_hysteresis :: f64
  sc_steering_cooldown :: duration
  sc_bufferbloat_threshold :: f64
  sc_auto_failover :: bool

definition steering_config_default :: steering_config where
  "steering_config_default = \<lparr>sc_min_viable_score = Fin 30, sc_switch_hysteresis = Fin 15,
     sc_steering_cooldown = from_secs 30, sc_bufferbloat_threshold = Fin 20, sc_auto_failover = True\<rparr>"

datatype steering_reason =
  Initial | HealthDegraded | BetterPath | Bufferbloat | SteeringInterfaceDown | CooldownActive | NoViablePath

record steering_decision =
  sd_active_interface :: string
  sd_active_score :: f64
  sd_is_failover :: bool
  sd_reason :: steering_reason

record path_state =
  ps_active_interface :: string
  ps_active_score :: f64
  ps_last_steering :: instant
  ps_consecutive_degraded :: u32

record path_steerer =
  pst_config :: steering_config
  pst_path_states :: "(string, path_state) hmap"
  pst_health_scores :: "(string, health_score) hmap"
  pst_decisions :: "(string, steering_decision) hmap"
  pst_sent :: "steering_decision list"

definition path_steerer_new :: "steering_config \<Rightarrow> path_steerer" where
  "path_steerer_new config =
     \<lparr>pst_config = config, pst_path_states = [], pst_health_scores = [], pst_decisions = [], pst_sent = []\<rparr>"

section \<open>Operations\<close>

definition find_best_interface :: "path_steerer \<Rightarrow> (string \<times> f64) option" where
  "find_best_interface p =
     map_option (\<lambda>(iface, score). (iface, hs_overall score))
       (max_by (\<lambda>a b. f_total_cmp (hs_overall (snd a)) (hs_overall (snd b)))
         (filter (\<lambda>(_, score). sc_min_viable_score (pst_config p) \<le> hs_overall score) (pst_health_scores p)))"

definition make_initial_assignment ::
  "instant \<Rightarrow> string \<Rightarrow> string \<Rightarrow> f64 \<Rightarrow> path_steerer \<Rightarrow> steering_decision \<times> path_steerer" where
  "make_initial_assignment now traffic_class interface score p =
     (\<lparr>sd_active_interface = interface, sd_active_score = score, sd_is_failover = False, sd_reason = Initial\<rparr>,
      p\<lparr>pst_path_states := hm_insert traffic_class
          \<lparr>ps_active_interface = interface, ps_active_score = score, ps_last_steering = now,
            ps_consecutive_degraded = 0\<rparr> (pst_path_states p)\<rparr>)"

text \<open>
  The source updates an existing path state in place and inserts a new one otherwise; both write
  the same four fields.
\<close>

definition steer ::
  "instant \<Rightarrow> string \<Rightarrow> string \<Rightarrow> f64 \<Rightarrow> steering_reason \<Rightarrow> path_steerer
     \<Rightarrow> steering_decision option \<times> path_steerer" where
  "steer now traffic_class interface score reason p =
     (if \<not> sc_auto_failover (pst_config p) \<and> reason \<noteq> Initial then (None, p)
      else
        (let is_failover = reason \<in> {HealthDegraded, SteeringInterfaceDown, Bufferbloat};
             decision = \<lparr>sd_active_interface = interface, sd_active_score = score,
               sd_is_failover = is_failover, sd_reason = reason\<rparr>;
             state = (case hm_get (pst_path_states p) traffic_class of
                Some st \<Rightarrow> st\<lparr>ps_active_interface := interface, ps_active_score := score,
                  ps_last_steering := now, ps_consecutive_degraded := 0\<rparr>
              | None \<Rightarrow> \<lparr>ps_active_interface = interface, ps_active_score = score,
                  ps_last_steering = now, ps_consecutive_degraded = 0\<rparr>)
         in (Some decision,
             p\<lparr>pst_path_states := hm_insert traffic_class state (pst_path_states p),
               pst_decisions := hm_insert traffic_class decision (pst_decisions p),
               pst_sent := pst_sent p @ [decision]\<rparr>)))"

definition set_degraded :: "string \<Rightarrow> path_state \<Rightarrow> u32 \<Rightarrow> path_steerer \<Rightarrow> path_steerer" where
  "set_degraded traffic_class state n p =
     p\<lparr>pst_path_states := hm_insert traffic_class (state\<lparr>ps_consecutive_degraded := n\<rparr>) (pst_path_states p)\<rparr>"

text \<open>The part after the initial assignment and the cooldown. \<open>None\<close> is the overflow panic of the counter.\<close>

definition evaluate_active ::
  "bool \<Rightarrow> instant \<Rightarrow> string \<Rightarrow> string \<Rightarrow> f64 \<Rightarrow> string \<Rightarrow> f64 \<Rightarrow> path_state \<Rightarrow> path_steerer
     \<Rightarrow> (steering_decision option \<times> path_steerer) option" where
  "evaluate_active chk now traffic_class updated_interface updated_score best_iface best_score state p =
     (let current = ps_active_interface state; current_score = ps_active_score state
      in if updated_interface = current \<and> updated_score < sc_min_viable_score (pst_config p) then
           (if chk \<and> ps_consecutive_degraded state = - 1 then None
            else
              (let n = ps_consecutive_degraded state + 1; p = set_degraded traffic_class state n p
               in if 3 \<le> n \<and> best_iface \<noteq> current
                  then Some (steer now traffic_class best_iface best_score HealthDegraded p)
                  else Some (None, p)))
         else
           (let p = (if updated_interface = current \<and> sc_min_viable_score (pst_config p) \<le> updated_score
                     then set_degraded traffic_class state 0 p else p)
            in if best_iface \<noteq> current \<and> sc_switch_hysteresis (pst_config p) < best_score - current_score
               then Some (steer now traffic_class best_iface best_score BetterPath p)
               else if current_score < sc_bufferbloat_threshold (pst_config p) \<and> best_iface \<noteq> current
                       \<and> sc_switch_hysteresis (pst_config p) < best_score - current_score
               then Some (steer now traffic_class best_iface best_score Bufferbloat p)
               else Some (None, p)))"

definition evaluate_steering ::
  "bool \<Rightarrow> instant \<Rightarrow> string \<Rightarrow> string \<Rightarrow> f64 \<Rightarrow> path_steerer
     \<Rightarrow> (steering_decision option \<times> path_steerer) option" where
  "evaluate_steering chk now traffic_class updated_interface updated_score p =
     (case find_best_interface p of
        None \<Rightarrow>
          Some (None,
            (case hm_get (pst_path_states p) traffic_class of
               None \<Rightarrow> p
             | Some state \<Rightarrow>
                 (let decision = \<lparr>sd_active_interface = ps_active_interface state,
                        sd_active_score = ps_active_score state, sd_is_failover = False,
                        sd_reason = NoViablePath\<rparr>
                  in p\<lparr>pst_decisions := hm_insert traffic_class decision (pst_decisions p),
                       pst_sent := pst_sent p @ [decision]\<rparr>)))
      | Some (best_iface, best_score) \<Rightarrow>
          (case hm_get (pst_path_states p) traffic_class of
             None \<Rightarrow>
               (case make_initial_assignment now traffic_class best_iface best_score p of
                  (decision, p') \<Rightarrow>
                    Some (Some decision,
                      p'\<lparr>pst_sent := pst_sent p' @ [decision],
                         pst_decisions := hm_insert traffic_class decision (pst_decisions p')\<rparr>))
           | Some state \<Rightarrow>
               (if duration_since now (ps_last_steering state) < sc_steering_cooldown (pst_config p)
                then Some (None, p)
                else evaluate_active chk now traffic_class updated_interface updated_score
                       best_iface best_score state p)))"

definition on_health_update ::
  "bool \<Rightarrow> instant \<Rightarrow> health_update \<Rightarrow> path_steerer \<Rightarrow> (steering_decision option \<times> path_steerer) option" where
  "on_health_update chk now update p =
     (let iface = hu_interface update; score = hs_overall (hu_smoothed_score update);
          p = p\<lparr>pst_health_scores := hm_insert iface (hu_smoothed_score update) (pst_health_scores p)\<rparr>
      in evaluate_steering chk now ''default'' iface score p)"


definition steerer_reset :: "path_steerer \<Rightarrow> path_steerer" where
  "steerer_reset p = p\<lparr>pst_path_states := [], pst_decisions := []\<rparr>"

text \<open>A sequence of updates, each with its clock reading; the decisions returned, in order.\<close>

fun steer_all ::
  "bool \<Rightarrow> (instant \<times> health_update) list \<Rightarrow> path_steerer
     \<Rightarrow> ((instant \<times> steering_decision option) list \<times> path_steerer) option" where
  "steer_all chk [] p = Some ([], p)"
| "steer_all chk ((now, u) # us) p =
     (case on_health_update chk now u p of
        None \<Rightarrow> None
      | Some (d, p') \<Rightarrow> map_option (\<lambda>(ds, q). ((now, d) # ds, q)) (steer_all chk us p'))"

section \<open>The best viable interface\<close>

lemma f_total_cmp_greater: "x \<noteq> NaN \<Longrightarrow> y \<noteq> NaN \<Longrightarrow> f_total_cmp x y = Greater \<longleftrightarrow> \<not> x \<le> y"
  by (cases x; cases y) (auto simp: f_total_cmp_def)

interpretation viable_cmp: key_comparison
  "\<lambda>a b. f_total_cmp (hs_overall (snd a)) (hs_overall (snd b))"
  "\<lambda>a b. hs_overall (snd a) \<le> hs_overall (snd b)" "\<lambda>a. hs_overall (snd a) \<noteq> NaN"
  by unfold_locales (auto simp: f_total_cmp_greater dest: f64_le_total f64_le_trans)

definition viable :: "steering_config \<Rightarrow> f64 \<Rightarrow> bool" where
  "viable c x \<longleftrightarrow> sc_min_viable_score c \<le> x"

lemma find_best_None:
  "find_best_interface p = None \<longleftrightarrow> (\<forall>(i, s) \<in> set (pst_health_scores p). \<not> viable (pst_config p) (hs_overall s))"
  by (auto simp: find_best_interface_def viable_def filter_empty_conv)

lemma find_best_Some:
  assumes "find_best_interface p = Some (b, sc)"
  shows "\<exists>s. (b, s) \<in> set (pst_health_scores p) \<and> sc = hs_overall s \<and> viable (pst_config p) sc
    \<and> (\<forall>(i, s') \<in> set (pst_health_scores p). viable (pst_config p) (hs_overall s') \<longrightarrow> hs_overall s' \<le> sc)"
proof -
  let ?l = "filter (\<lambda>(_, score). sc_min_viable_score (pst_config p) \<le> hs_overall score) (pst_health_scores p)"
  obtain s where m: "max_by (\<lambda>a b. f_total_cmp (hs_overall (snd a)) (hs_overall (snd b))) ?l = Some (b, s)"
    and sc: "sc = hs_overall s"
    using assms by (auto simp: find_best_interface_def)
  have ok: "\<forall>z \<in> set ?l. hs_overall (snd z) \<noteq> NaN"
    by (auto dest: f64_le_not_nan)
  show ?thesis
    using viable_cmp.max_by_in [OF m ok] viable_cmp.max_by_greatest [OF m ok] sc
    by (fastforce simp: viable_def)
qed

text \<open>The health map after an update.\<close>

definition noted :: "health_update \<Rightarrow> path_steerer \<Rightarrow> path_steerer" where
  "noted u p = p\<lparr>pst_health_scores := hm_insert (hu_interface u) (hu_smoothed_score u) (pst_health_scores p)\<rparr>"

lemma noted_simps [simp]:
  "pst_config (noted u p) = pst_config p" "pst_path_states (noted u p) = pst_path_states p"
  "pst_decisions (noted u p) = pst_decisions p" "pst_sent (noted u p) = pst_sent p"
  "pst_health_scores (noted u p) = hm_insert (hu_interface u) (hu_smoothed_score u) (pst_health_scores p)"
  by (simp_all add: noted_def)

lemma on_health_update_noted:
  "on_health_update chk now u p
    = evaluate_steering chk now ''default'' (hu_interface u) (hs_overall (hu_smoothed_score u)) (noted u p)"
  by (simp add: on_health_update_def noted_def Let_def)

definition best_viable :: "path_steerer \<Rightarrow> string \<Rightarrow> f64 \<Rightarrow> bool" where
  "best_viable p b sc \<longleftrightarrow> (\<exists>s. hm_get (pst_health_scores p) b = Some s \<and> hs_overall s = sc)
    \<and> viable (pst_config p) sc
    \<and> (\<forall>i s'. hm_get (pst_health_scores p) i = Some s' \<longrightarrow> viable (pst_config p) (hs_overall s') \<longrightarrow> hs_overall s' \<le> sc)"

lemma find_best_viable:
  "hm_ok (pst_health_scores p) \<Longrightarrow> find_best_interface p = Some (b, sc) \<Longrightarrow> best_viable p b sc"
  unfolding best_viable_def using find_best_Some [of p b sc] by (fastforce simp: hm_get_iff)

section \<open>Decisions\<close>

lemma steer_cases:
  assumes "steer now tc b sc r p = (d, q)"
  shows "pst_config q = pst_config p \<and> pst_health_scores q = pst_health_scores p
    \<and> (case d of None \<Rightarrow> q = p | Some x \<Rightarrow>
        x = \<lparr>sd_active_interface = b, sd_active_score = sc,
             sd_is_failover = (r \<in> {HealthDegraded, SteeringInterfaceDown, Bufferbloat}), sd_reason = r\<rparr>
        \<and> hm_get (pst_path_states q) tc = Some \<lparr>ps_active_interface = b, ps_active_score = sc,
             ps_last_steering = now, ps_consecutive_degraded = 0\<rparr>
        \<and> hm_get (pst_decisions q) tc = Some x \<and> pst_sent q = pst_sent p @ [x])"
  using assms by (auto simp: steer_def Let_def split: if_splits option.splits)

lemma set_degraded_simps [simp]:
  "pst_config (set_degraded tc st n p) = pst_config p"
  "pst_health_scores (set_degraded tc st n p) = pst_health_scores p"
  "pst_sent (set_degraded tc st n p) = pst_sent p"
  "hm_get (pst_path_states (set_degraded tc st n p)) tc = Some (st\<lparr>ps_consecutive_degraded := n\<rparr>)"
  by (simp_all add: set_degraded_def)


definition same_assignment :: "path_state \<Rightarrow> path_state \<Rightarrow> bool" where
  "same_assignment st st' \<longleftrightarrow> ps_active_interface st' = ps_active_interface st
     \<and> ps_active_score st' = ps_active_score st \<and> ps_last_steering st' = ps_last_steering st"

lemma evaluate_active_keeps:
  assumes "evaluate_active chk now tc ui us b sc st p = Some (None, q)" "hm_get (pst_path_states p) tc = Some st"
  shows "\<exists>st'. hm_get (pst_path_states q) tc = Some st' \<and> same_assignment st st'"
  using assms
  by (auto simp: evaluate_active_def Let_def steer_def set_degraded_def same_assignment_def
      split: if_splits option.splits)




lemma on_health_update_silent:
  assumes "on_health_update chk now u p = Some (None, q)"
  shows "case hm_get (pst_path_states p) ''default'' of
      None \<Rightarrow> hm_get (pst_path_states q) ''default'' = None
    | Some st \<Rightarrow> \<exists>st'. hm_get (pst_path_states q) ''default'' = Some st' \<and> same_assignment st st'"
proof (cases "hm_get (pst_path_states p) ''default''")
  case None
  with assms show ?thesis
    by (auto simp: on_health_update_noted evaluate_steering_def split: option.splits if_splits prod.splits)
next
  case (Some st)
  have "same_assignment st st" by (simp add: same_assignment_def)
  with assms Some show ?thesis
    by (auto simp: on_health_update_noted evaluate_steering_def Let_def
        dest!: evaluate_active_keeps split: option.splits if_splits)
qed

section \<open>Sequences of updates\<close>




lemma degraded_step:
  assumes "hm_ok (pst_health_scores p)" "hm_get (pst_path_states p) ''default'' = Some st"
    and "hu_interface u = ps_active_interface st"
    and "hs_overall (hu_smoothed_score u) < sc_min_viable_score (pst_config p)"
    and "hm_get (pst_health_scores p) other = Some s" "viable (pst_config p) (hs_overall s)"
    and "other \<noteq> ps_active_interface st" "sc_auto_failover (pst_config p)"
    and "sc_steering_cooldown (pst_config p) \<le> now - ps_last_steering st"
    and "ps_consecutive_degraded st \<in> {0, 1, 2}"
  shows "\<exists>d q. on_health_update chk now u p = Some (d, q)
    \<and> (if ps_consecutive_degraded st = 2
       then (\<exists>x. d = Some x \<and> sd_reason x = HealthDegraded \<and> best_viable q (sd_active_interface x) (sd_active_score x))
       else d = None \<and> hm_get (pst_path_states q) ''default''
              = Some (st\<lparr>ps_consecutive_degraded := ps_consecutive_degraded st + 1\<rparr>))
    \<and> hm_ok (pst_health_scores q) \<and> hm_get (pst_health_scores q) other = Some s \<and> pst_config q = pst_config p"
proof -
  have ok: "hm_ok (pst_health_scores (noted u p))" using assms(1) by simp
  have o: "hm_get (pst_health_scores (noted u p)) other = Some s"
    using assms(3,5,7) by (simp add: hm_simps)
  have a: "hm_get (pst_health_scores (noted u p)) (ps_active_interface st) = Some (hu_smoothed_score u)"
    using assms(3) by (simp add: hm_simps)
  have nv: "\<not> viable (pst_config p) (hs_overall (hu_smoothed_score u))"
    using assms(4) by (auto simp: viable_def dest: f64_le_less_trans)
  have "find_best_interface (noted u p) \<noteq> None"
    using o assms(6) by (auto simp: find_best_None dest: map_of_SomeD)
  then obtain b sc where b: "find_best_interface (noted u p) = Some (b, sc)" by auto
  from find_best_viable [OF ok b] a nv have bn: "b \<noteq> ps_active_interface st"
    by (auto simp: best_viable_def)
  have cnt: "ps_consecutive_degraded st \<noteq> - 1" "3 \<le> ps_consecutive_degraded st + 1 \<longleftrightarrow> ps_consecutive_degraded st = 2"
    using assms(10) by (auto simp: word_le_nat_alt)
  have bv: "best_viable q b sc" if "pst_health_scores q = pst_health_scores (noted u p)" "pst_config q = pst_config p" for q
    using find_best_viable [OF ok b] that by (simp add: best_viable_def)
  show ?thesis
    using assms(2,3,4,8,9) b bn cnt bv ok o
    by (auto simp: on_health_update_noted evaluate_steering_def evaluate_active_def Let_def duration_since_def
        steer_def set_degraded_def)
qed

section \<open>Properties\<close>


definition update_of :: "string \<Rightarrow> real \<Rightarrow> health_update" where
  "update_of i x = \<lparr>hu_interface = i, hu_previous_score = Fin x, hu_new_score = uniform_score (Fin x),
     hu_smoothed_score = uniform_score (Fin x), hu_failover_candidate = False,
     hu_probe = \<lparr>pb_interface = i, pb_rtt_ms = Fin 5, pb_jitter_ms = Fin 1, pb_loss_percent = Fin 0,
       pb_throughput_mbps = Fin 100, pb_state_changes = 0, pb_timestamp = 0\<rparr>\<rparr>"

lemma update_of_simps [simp]:
  "hu_interface (update_of i x) = i" "hu_smoothed_score (update_of i x) = uniform_score (Fin x)"
  "hs_overall (uniform_score y) = y"
  by (simp_all add: update_of_def uniform_score_def)





text \<open>A failover needs three degraded readings in a row: from a fresh counter, with another
  viable interface and outside the cooldown, the first two readings of the active interface
  below the threshold change nothing, and the third moves the class to the best viable
  interface.\<close>

theorem failover_on_third_reading:
  assumes "hm_ok (pst_health_scores p)" "hm_get (pst_path_states p) ''default'' = Some st"
    and "ps_consecutive_degraded st = 0" "sc_auto_failover (pst_config p)"
    and "hm_get (pst_health_scores p) other = Some s" "viable (pst_config p) (hs_overall s)"
    and "other \<noteq> ps_active_interface st"
    and "\<forall>(now, u) \<in> {(t1, u1), (t2, u2), (t3, u3)}. hu_interface u = ps_active_interface st
      \<and> hs_overall (hu_smoothed_score u) < sc_min_viable_score (pst_config p)
      \<and> sc_steering_cooldown (pst_config p) \<le> now - ps_last_steering st"
  shows "\<exists>d q. steer_all chk [(t1, u1), (t2, u2), (t3, u3)] p = Some ([(t1, None), (t2, None), (t3, Some d)], q)
    \<and> sd_reason d = HealthDegraded \<and> best_viable q (sd_active_interface d) (sd_active_score d)"
proof -
  obtain q1 where q1: "on_health_update chk t1 u1 p = Some (None, q1)" "hm_ok (pst_health_scores q1)"
    "hm_get (pst_path_states q1) ''default'' = Some (st\<lparr>ps_consecutive_degraded := 1\<rparr>)"
    "hm_get (pst_health_scores q1) other = Some s" "pst_config q1 = pst_config p"
    using degraded_step [OF assms(1,2), of u1 other s t1 chk] assms(3-) by auto
  obtain q2 where q2: "on_health_update chk t2 u2 q1 = Some (None, q2)" "hm_ok (pst_health_scores q2)"
    "hm_get (pst_path_states q2) ''default'' = Some (st\<lparr>ps_consecutive_degraded := 2\<rparr>)"
    "hm_get (pst_health_scores q2) other = Some s" "pst_config q2 = pst_config p"
    using degraded_step [OF q1(2,3), of u2 other s t2 chk] assms(3-) q1(4,5) by auto
  obtain d q3 where "on_health_update chk t3 u3 q2 = Some (Some d, q3)" "sd_reason d = HealthDegraded"
    "best_viable q3 (sd_active_interface d) (sd_active_score d)"
    using degraded_step [OF q2(2,3), of u3 other s t3 chk] assms(3-) q2(4,5) by auto
  with q1(1) q2(1) show ?thesis by auto
qed

definition steered :: path_steerer where
  "steered = path_steerer_new steering_config_default
     \<lparr>pst_health_scores := [(''eth0'', uniform_score (Fin 90)), (''wlan0'', uniform_score (Fin 60))],
      pst_path_states := [(''default'', \<lparr>ps_active_interface = ''eth0'', ps_active_score = Fin 90,
         ps_last_steering = 0, ps_consecutive_degraded = 0\<rparr>)]\<rparr>"

theorem failover_on_third_reading_witness:
  "\<exists>d q. steer_all True [(40000000000, update_of ''eth0'' 10), (50000000000, update_of ''eth0'' 12),
       (60000000000, update_of ''eth0'' 11)] steered
     = Some ([(40000000000, None), (50000000000, None), (60000000000, Some d)], q) \<and> sd_reason d = HealthDegraded"
proof -
  have a: "hm_ok (pst_health_scores steered)" "hm_get (pst_path_states steered) ''default'' = Some
      \<lparr>ps_active_interface = ''eth0'', ps_active_score = Fin 90, ps_last_steering = 0, ps_consecutive_degraded = 0\<rparr>"
    "sc_auto_failover (pst_config steered)" "hm_get (pst_health_scores steered) ''wlan0'' = Some (uniform_score (Fin 60))"
    "viable (pst_config steered) (hs_overall (uniform_score (Fin 60)))"
    by (simp_all add: steered_def path_steerer_new_def steering_config_default_def viable_def hm_ok_def)
  show ?thesis
    using failover_on_third_reading [OF a(1,2) _ a(3,4,5), of 40000000000 "update_of ''eth0'' 10" 50000000000
        "update_of ''eth0'' 12" 60000000000 "update_of ''eth0'' 11" True]
    by (auto simp: steered_def path_steerer_new_def steering_config_default_def from_secs_def)
qed

text \<open>C14: the comparison with a better path uses the score at assignment time. A path assigned at 85
  or more with a hysteresis of at least 15 is therefore never left for a better one while it is
  viable, even when its own score has fallen to the threshold and another path scores 100.\<close>

theorem stale_score_blocks_better_path:
  assumes "hm_ok (pst_health_scores p)" "hm_get (pst_path_states p) ''default'' = Some st"
    and "ps_active_score st = Fin s0" "85 \<le> s0" "s0 \<le> 100" "Fin 15 \<le> sc_switch_hysteresis (pst_config p)"
    and "\<forall>i s. hm_get (pst_health_scores p) i = Some s \<longrightarrow> hs_overall s \<le> Fin 100"
    and "hs_overall (hu_smoothed_score u) \<le> Fin 100" "Fin 0 \<le> sc_min_viable_score (pst_config p)"
    and "\<not> (hu_interface u = ps_active_interface st
           \<and> hs_overall (hu_smoothed_score u) < sc_min_viable_score (pst_config p))"
  shows "\<exists>q st'. on_health_update chk now u p = Some (None, q)
    \<and> hm_get (pst_path_states q) ''default'' = Some st' \<and> ps_active_interface st' = ps_active_interface st"
proof -
  have ok: "hm_ok (pst_health_scores (noted u p))" using assms(1) by simp
  have gap: "\<not> sc_switch_hysteresis (pst_config p) < sc - Fin s0"
    if "find_best_interface (noted u p) = Some (b, sc)" for b sc
  proof -
    from find_best_viable [OF ok that] have "sc \<le> Fin 100" "Fin 0 \<le> sc"
      using assms(7,8,9) by (auto simp: best_viable_def viable_def hm_simps split: if_splits dest: f64_le_trans)
    then obtain r where r: "sc = Fin r" "r \<le> 100" using f64_between by blast
    have "fl (r - s0) \<le> fl 15" using r assms(4) by (intro fl_mono) simp
    then show ?thesis
      using r assms(6) by (auto simp: f64_arith dest: f64_less_le_trans f64_le_trans)
  qed
  have act: "\<exists>q. evaluate_active chk now ''default'' (hu_interface u) (hs_overall (hu_smoothed_score u)) b sc st (noted u p)
      = Some (None, q)" if "find_best_interface (noted u p) = Some (b, sc)" for b sc
    using gap [OF that] assms(3,10) by (auto simp: evaluate_active_def Let_def)
  have "\<exists>q. on_health_update chk now u p = Some (None, q)"
  proof (cases "find_best_interface (noted u p)")
    case None
    then show ?thesis by (simp add: on_health_update_noted evaluate_steering_def)
  next
    case (Some bs)
    with act [of "fst bs" "snd bs"] assms(2) show ?thesis
      by (auto simp: on_health_update_noted evaluate_steering_def split: prod.split)
  qed
  then obtain q where d: "on_health_update chk now u p = Some (None, q)" by blast
  with on_health_update_silent [of chk now u p q] assms(2) show ?thesis
    by (auto simp: same_assignment_def)
qed

theorem stale_score_blocks_better_path_witness:
  "\<exists>q st'. on_health_update True 60000000000 (update_of ''wlan0'' 100)
       (steered\<lparr>pst_health_scores := [(''eth0'', uniform_score (Fin 30))]\<rparr>) = Some (None, q)
    \<and> hm_get (pst_path_states q) ''default'' = Some st' \<and> ps_active_interface st' = ''eth0''"
proof -
  let ?p = "steered\<lparr>pst_health_scores := [(''eth0'', uniform_score (Fin 30))]\<rparr>"
  have st: "hm_get (pst_path_states ?p) ''default'' = Some \<lparr>ps_active_interface = ''eth0'',
      ps_active_score = Fin 90, ps_last_steering = 0, ps_consecutive_degraded = 0\<rparr>"
    by (simp add: steered_def)
  show ?thesis
    using stale_score_blocks_better_path [OF _ st, of 90 "update_of ''wlan0'' 100" True 60000000000]
    by (auto simp: steered_def path_steerer_new_def steering_config_default_def hm_ok_def)
qed

end
