(* ===== verification/Routing.thy ===== *)
theory Routing
  imports Events NF_Process
begin

text \<open>
  \<^verbatim>\<open>crates/netfusion-core/src/routing/engine.rs\<close> and \<^verbatim>\<open>safe_apply.rs\<close>: the routes the program
  has added and the flow that applies changes, verifies connectivity and rolls back.

  The netlink library is the parameter \<open>nl\<close>, a record of the three requests the engine makes;
  the \<open>ip\<close> and \<open>ping\<close> commands go through the shell. Everything acts on a world \<open>'w\<close>.
\<close>

section \<open>The netlink requests\<close>

text \<open>Addresses carry their printed form.\<close>

datatype route_address = Inet string | Inet6 string | OtherAddress

datatype route_attribute = Gateway route_address | Oif nat | Priority nat | OtherAttribute

text \<open>
  A dump answers messages until it ends or fails; a link request answers the index of the first
  match, nothing, or an error; an addition takes the gateway, the interface index and the metric.
\<close>

record 'w netlink =
  nl_dump_routes :: "'w \<Rightarrow> (string, route_attribute list) result list \<times> 'w"
  nl_link_index :: "string \<Rightarrow> 'w \<Rightarrow> (string, nat option) result \<times> 'w"
  nl_route_add :: "string \<Rightarrow> nat \<Rightarrow> nat \<Rightarrow> 'w \<Rightarrow> (string, unit) result \<times> 'w"

section \<open>The routing engine\<close>

record managed_route =
  mr_destination :: "string option"
  mr_gateway :: string
  mr_interface :: string
  mr_metric :: nat
  mr_table :: "nat option"

record routing_engine =
  rg_managed_routes :: "managed_route list"

definition routing_engine_new :: routing_engine where
  "routing_engine_new = \<lparr>rg_managed_routes = []\<rparr>"

definition find_map :: "('a \<Rightarrow> 'b option) \<Rightarrow> 'a list \<Rightarrow> 'b option" where
  "find_map f xs = (case List.map_filter f xs of [] \<Rightarrow> None | y # _ \<Rightarrow> Some y)"

fun attr_gateway :: "route_attribute \<Rightarrow> string option" where
  "attr_gateway (Gateway (Inet a)) = Some a"
| "attr_gateway (Gateway (Inet6 a)) = Some a"
| "attr_gateway _ = None"

fun attr_oif :: "route_attribute \<Rightarrow> nat option" where
  "attr_oif (Oif i) = Some i"
| "attr_oif _ = None"

fun attr_priority :: "route_attribute \<Rightarrow> nat option" where
  "attr_priority (Priority p) = Some p"
| "attr_priority _ = None"

definition route_of_attributes :: "route_attribute list \<Rightarrow> managed_route option" where
  "route_of_attributes attrs =
     map_option
       (\<lambda>gw. \<lparr>mr_destination = None, mr_gateway = gw,
          mr_interface = (case find_map attr_oif attrs of None \<Rightarrow> [] | Some i \<Rightarrow> show_nat i),
          mr_metric = (case find_map attr_priority attrs of None \<Rightarrow> 0 | Some p \<Rightarrow> p), mr_table = None\<rparr>)
       (find_map attr_gateway attrs)"

fun collect_routes :: "(string, route_attribute list) result list \<Rightarrow> (routing_error, managed_route list) result" where
  "collect_routes [] = Ok []"
| "collect_routes (Inl e # _) = Err (TableRead e)"
| "collect_routes (Inr attrs # ms) =
     (case collect_routes ms of
        Inl e \<Rightarrow> Err e
      | Inr rs \<Rightarrow> Ok ((case route_of_attributes attrs of None \<Rightarrow> [] | Some r \<Rightarrow> [r]) @ rs))"

definition list_routes :: "'w netlink \<Rightarrow> 'w \<Rightarrow> (routing_error, managed_route list) result \<times> 'w" where
  "list_routes nl w = (case nl_dump_routes nl w of (ms, w') \<Rightarrow> (collect_routes ms, w'))"

text \<open>\<^verbatim>\<open>parse::<Ipv4Addr>()\<close>: four decimal octets without leading zeros.\<close>

definition is_octet :: "string \<Rightarrow> bool" where
  "is_octet s \<longleftrightarrow> s \<noteq> [] \<and> length s \<le> 3 \<and> list_all is_digit s \<and> digits_val s \<le> 255
     \<and> (hd s = CHR ''0'' \<longrightarrow> s = ''0'')"

definition is_ipv4 :: "string \<Rightarrow> bool" where
  "is_ipv4 s \<longleftrightarrow> length (split_char (CHR ''.'') s) = 4 \<and> list_all is_octet (split_char (CHR ''.'') s)"

definition get_interface_index ::
  "'w netlink \<Rightarrow> string \<Rightarrow> 'w \<Rightarrow> (routing_error, nat) result \<times> 'w" where
  "get_interface_index nl name w =
     (case nl_link_index nl name w of
        (Inr (Some i), w') \<Rightarrow> (Ok i, w')
      | (Inr None, w') \<Rightarrow> (Err (RouteModify (''interface '' @ quoted name @ '' not found'')), w')
      | (Inl e, w') \<Rightarrow> (Err (RouteModify e), w'))"

definition add_default_route ::
  "'w netlink \<Rightarrow> string \<Rightarrow> string \<Rightarrow> nat \<Rightarrow> routing_engine \<Rightarrow> 'w
     \<Rightarrow> (routing_error, unit) result \<times> routing_engine \<times> 'w" where
  "add_default_route nl gateway interface metric g w =
     (if \<not> is_ipv4 gateway then (Err (RouteModify ''invalid IPv4 address syntax''), g, w)
      else case get_interface_index nl interface w of
        (Inl e, w') \<Rightarrow> (Err e, g, w')
      | (Inr if_index, w') \<Rightarrow>
          (case nl_route_add nl gateway if_index metric w' of
             (Inl e, w'') \<Rightarrow> (Err (RouteModify e), g, w'')
           | (Inr _, w'') \<Rightarrow>
               (Ok (),
                g\<lparr>rg_managed_routes := rg_managed_routes g @
                    [\<lparr>mr_destination = Some ''0.0.0.0/0'', mr_gateway = gateway, mr_interface = interface,
                      mr_metric = metric, mr_table = None\<rparr>]\<rparr>, w'')))"

definition same_route :: "managed_route \<Rightarrow> string \<Rightarrow> string \<Rightarrow> nat \<Rightarrow> bool" where
  "same_route r gateway interface metric \<longleftrightarrow>
     mr_gateway r = gateway \<and> mr_interface r = interface \<and> mr_metric r = metric"

definition route_del_argv :: "string \<Rightarrow> string \<Rightarrow> nat \<Rightarrow> cmd" where
  "route_del_argv gateway interface metric =
     [''ip'', ''route'', ''del'', ''default'', ''via'', gateway, ''dev'', interface, ''metric'', show_nat metric]"

definition del_default_route ::
  "'w shell \<Rightarrow> string \<Rightarrow> string \<Rightarrow> nat \<Rightarrow> routing_engine \<Rightarrow> 'w
     \<Rightarrow> (routing_error, unit) result \<times> routing_engine \<times> 'w" where
  "del_default_route sh gateway interface metric g w =
     (case sh (route_del_argv gateway interface metric) w of
        (Inl e, w') \<Rightarrow> (Err (RouteModify e), g, w')
      | (Inr _, w') \<Rightarrow>
          (Ok (), g\<lparr>rg_managed_routes :=
             filter (\<lambda>r. \<not> same_route r gateway interface metric) (rg_managed_routes g)\<rparr>, w'))"

definition rule_add_argv :: "nat \<Rightarrow> nat option \<Rightarrow> nat \<Rightarrow> cmd" where
  "rule_add_argv priority fwmark table =
     ''ip'' # ''rule'' # ''add'' # (case fwmark of None \<Rightarrow> [] | Some mark \<Rightarrow> [''fwmark'', show_nat mark])
       @ [''prio'', show_nat priority, ''table'', show_nat table]"

definition add_rule ::
  "'w shell \<Rightarrow> nat \<Rightarrow> nat option \<Rightarrow> nat \<Rightarrow> 'w \<Rightarrow> (routing_error, unit) result \<times> 'w" where
  "add_rule sh priority fwmark table w =
     (case sh (rule_add_argv priority fwmark table) w of
        (Inl e, w') \<Rightarrow> (Err (RouteModify e), w')
      | (Inr out, w') \<Rightarrow>
          (if \<not> out_success out then Err (RouteModify (''ip rule add failed: '' @ out_stderr out)) else Ok (), w'))"

definition del_rule :: "'w shell \<Rightarrow> nat \<Rightarrow> nat \<Rightarrow> 'w \<Rightarrow> (routing_error, unit) result \<times> 'w" where
  "del_rule sh priority table w =
     (case sh [''ip'', ''rule'', ''del'', ''prio'', show_nat priority, ''table'', show_nat table] w of
        (Inl e, w') \<Rightarrow> (Err (RouteModify e), w')
      | (Inr _, w') \<Rightarrow> (Ok (), w'))"

definition clear_managed_routes :: "routing_engine \<Rightarrow> routing_engine" where
  "clear_managed_routes g = g\<lparr>rg_managed_routes := []\<rparr>"

section \<open>Safe apply\<close>

datatype apply_result =
    ApplySuccess
  | ValidationFailed string
  | VerificationFailed string
  | ApplyFailed string bool

record safe_apply_config =
  sa_verify_timeout :: duration
  sa_verify_target :: string
  sa_dry_run :: bool

definition safe_apply_config_default :: safe_apply_config where
  "safe_apply_config_default =
     \<lparr>sa_verify_timeout = from_secs 10, sa_verify_target = ''8.8.8.8'', sa_dry_run = False\<rparr>"

definition ping_once_argv :: "string \<Rightarrow> cmd" where
  "ping_once_argv target = [''ping'', ''-c'', ''1'', ''-W'', ''3'', target]"

definition ping_once_result :: "string \<Rightarrow> (string, cmd_output) result \<Rightarrow> (string, unit) result" where
  "ping_once_result target r =
     (case r of
        Inl e \<Rightarrow> Err (''failed to run ping: '' @ e)
      | Inr out \<Rightarrow> if out_success out then Ok ()
                   else Err (''ping to '' @ target @ '' failed: '' @ debug_str (out_stderr out)))"

definition ping_once :: "'w shell \<Rightarrow> string \<Rightarrow> 'w \<Rightarrow> (string, unit) result \<times> 'w" where
  "ping_once sh target w = (case sh (ping_once_argv target) w of (r, w') \<Rightarrow> (ping_once_result target r, w'))"

definition sa_validate :: "'w shell \<Rightarrow> safe_apply_config \<Rightarrow> 'w \<Rightarrow> (string, unit) result \<times> 'w" where
  "sa_validate sh c w =
     (if sa_dry_run c then (Ok (), w)
      else case ping_once sh (sa_verify_target c) w of
        (Inr _, w') \<Rightarrow> (Ok (), w')
      | (Inl e, w') \<Rightarrow> (Err (''initial connectivity check failed: '' @ e), w'))"

definition verify_connectivity ::
  "'w timed_shell \<Rightarrow> safe_apply_config \<Rightarrow> 'w \<Rightarrow> (string, unit) result \<times> 'w" where
  "verify_connectivity tsh c w =
     (case tsh (sa_verify_timeout c) (ping_once_argv (sa_verify_target c)) w of
        (None, w') \<Rightarrow> (Err ''connectivity verification timed out'', w')
      | (Some r, w') \<Rightarrow> (ping_once_result (sa_verify_target c) r, w'))"

definition in_routes :: "managed_route list \<Rightarrow> managed_route \<Rightarrow> bool" where
  "in_routes rs route \<longleftrightarrow>
     list_ex (\<lambda>r. same_route r (mr_gateway route) (mr_interface route) (mr_metric route)) rs"

text \<open>The loop of the rollback runs over a copy of the managed routes.\<close>

fun rollback_routes ::
  "'w shell \<Rightarrow> managed_route list \<Rightarrow> managed_route list \<Rightarrow> bool \<Rightarrow> routing_engine \<Rightarrow> 'w
     \<Rightarrow> bool \<times> routing_engine \<times> 'w" where
  "rollback_routes sh previous [] success g w = (success, g, w)"
| "rollback_routes sh previous (route # rs) success g w =
     (if \<not> in_routes previous route then
        (case del_default_route sh (mr_gateway route) (mr_interface route) (mr_metric route) g w of
           (Inl _, g', w') \<Rightarrow> rollback_routes sh previous rs False g' w'
         | (Inr _, g', w') \<Rightarrow> rollback_routes sh previous rs success g' w')
      else rollback_routes sh previous rs success g w)"

definition rollback ::
  "'w shell \<Rightarrow> managed_route list \<Rightarrow> routing_engine \<Rightarrow> 'w \<Rightarrow> bool \<times> routing_engine \<times> 'w" where
  "rollback sh previous g w = rollback_routes sh previous (rg_managed_routes g) True g w"

type_synonym 'w changes = "routing_engine \<Rightarrow> 'w \<Rightarrow> (routing_error, unit) result \<times> routing_engine \<times> 'w"

definition execute ::
  "'w shell \<Rightarrow> 'w timed_shell \<Rightarrow> safe_apply_config \<Rightarrow> 'w changes \<Rightarrow> routing_engine \<Rightarrow> 'w
     \<Rightarrow> apply_result \<times> routing_engine \<times> 'w" where
  "execute sh tsh c changes g w =
     (case sa_validate sh c w of
        (Inl e, w1) \<Rightarrow> (ValidationFailed e, g, w1)
      | (Inr _, w1) \<Rightarrow>
          if sa_dry_run c then (ApplySuccess, g, w1)
          else
            (let previous_routes = rg_managed_routes g
             in case changes g w1 of
                  (Inl e, g2, w2) \<Rightarrow>
                    (case rollback sh previous_routes g2 w2 of
                       (rollback_ok, g3, w3) \<Rightarrow> (ApplyFailed (show_routing_error e) rollback_ok, g3, w3))
                | (Inr _, g2, w2) \<Rightarrow>
                    (case verify_connectivity tsh c w2 of
                       (Inl e, w3) \<Rightarrow>
                         (case rollback sh previous_routes g2 w3 of
                            (rollback_ok, g4, w4) \<Rightarrow>
                              (VerificationFailed (''connectivity check failed: '' @ e @ '', rollback: ''
                                 @ (if rollback_ok then ''success'' else ''FAILED'')), g4, w4))
                     | (Inr _, w3) \<Rightarrow> (ApplySuccess, clear_managed_routes g2, w3))))"

section \<open>The rollback\<close>

definition key_of :: "managed_route \<Rightarrow> string \<times> string \<times> nat" where
  "key_of r = (mr_gateway r, mr_interface r, mr_metric r)"

lemma same_route_key: "same_route r (mr_gateway q) (mr_interface q) (mr_metric q) \<longleftrightarrow> key_of r = key_of q"
  by (auto simp: same_route_def key_of_def)

lemma in_routes_key: "in_routes rs q \<longleftrightarrow> key_of q \<in> key_of ` set rs"
  by (auto simp: in_routes_def same_route_key list_ex_iff intro: rev_image_eqI)

lemma rollback_routes_log:
  "snd (snd (rollback_routes (recording f) prev rs ok g lg))
    = lg @ List.map (\<lambda>r. route_del_argv (mr_gateway r) (mr_interface r) (mr_metric r))
        (filter (\<lambda>r. \<not> in_routes prev r) rs)"
  by (induction rs arbitrary: ok g lg)
    (auto simp: del_default_route_def cmd_simps split: sum.split prod.split)

lemma rollback_routes_subset:
  "set (rg_managed_routes (fst (snd (rollback_routes sh prev rs ok g w)))) \<subseteq> set (rg_managed_routes g)"
proof (induction rs arbitrary: ok g w)
  case Nil
  then show ?case by simp
next
  case (Cons r rs)
  have "set (rg_managed_routes (fst (snd (del_default_route sh a b c g w)))) \<subseteq> set (rg_managed_routes g)" for a b c
    by (auto simp: del_default_route_def split: sum.split prod.split)
  with Cons show ?case
    by (auto split: sum.split prod.split dest!: subsetD) (metis fst_conv snd_conv subsetD)+
qed

lemma rollback_routes_flag: "fst (rollback_routes sh prev rs False g w) = False"
  by (induction rs arbitrary: g w) (auto split: sum.split prod.split)

lemma rollback_routes_ok:
  assumes "rollback_routes sh prev rs ok g w = (True, g', w')"
  shows "rg_managed_routes g' = filter (\<lambda>q. in_routes prev q \<or> key_of q \<notin> key_of ` set rs) (rg_managed_routes g)"
  using assms
proof (induction rs arbitrary: ok g w)
  case Nil
  then show ?case by simp
next
  case (Cons r rs)
  show ?case
  proof (cases "in_routes prev r")
    case True
    with Cons.prems have "rollback_routes sh prev rs ok g w = (True, g', w')" by simp
    from Cons.IH [OF this] True show ?thesis
      by (auto simp: in_routes_key intro!: filter_cong)
  next
    case False
    obtain res g1 w1 where d: "del_default_route sh (mr_gateway r) (mr_interface r) (mr_metric r) g w = (res, g1, w1)"
      by (metis prod_cases3)
    with Cons.prems False have "is_ok res" "rollback_routes sh prev rs ok g1 w1 = (True, g', w')"
      using rollback_routes_flag [of sh prev rs g1 w1]
      by (auto simp: is_ok_def split: sum.splits)
    moreover from this(1) d have "rg_managed_routes g1 = filter (\<lambda>q. key_of q \<noteq> key_of r) (rg_managed_routes g)"
      by (auto simp: del_default_route_def is_ok_def same_route_key split: sum.splits prod.splits)
    ultimately show ?thesis
      using Cons.IH False by (auto simp: in_routes_key intro!: filter_cong)
  qed
qed

text \<open>A shell that can start every command, whatever the command then answers.\<close>

definition starts_all :: "'w shell \<Rightarrow> bool" where
  "starts_all sh \<longleftrightarrow> (\<forall>argv w. \<exists>out w'. sh argv w = (Inr out, w'))"

lemma rollback_routes_starts:
  assumes "starts_all sh"
  shows "fst (rollback_routes sh prev rs True g w)"
proof (induction rs arbitrary: g w)
  case Nil
  then show ?case by simp
next
  case (Cons r rs)
  obtain out w1 where "sh (route_del_argv (mr_gateway r) (mr_interface r) (mr_metric r)) w = (Inr out, w1)"
    using assms unfolding starts_all_def by blast
  with Cons show ?case by (simp add: del_default_route_def)
qed

lemma rollback_restores:
  assumes "starts_all sh" "rg_managed_routes g = prev @ new" "\<forall>r \<in> set new. \<not> in_routes prev r"
  shows "fst (rollback sh prev g w) \<and> rg_managed_routes (fst (snd (rollback sh prev g w))) = prev"
proof -
  obtain ok g' w' where r: "rollback sh prev g w = (ok, g', w')" by (metis prod_cases3)
  have ok: "ok" using rollback_routes_starts [OF assms(1)] r unfolding rollback_def by (metis fst_conv)
  with r have "rg_managed_routes g' = filter (\<lambda>q. in_routes prev q \<or> key_of q \<notin> key_of ` set (prev @ new)) (prev @ new)"
    using rollback_routes_ok [of sh prev "prev @ new" True g w g' w'] assms(2) by (simp add: rollback_def)
  also have "\<dots> = prev"
    using assms(3) by (auto simp: in_routes_key filter_empty_conv)
  finally show ?thesis using r ok by simp
qed

section \<open>Properties\<close>

text \<open>The safe apply flow. When the changes only add routes that were not there and the
  deletions can be started, then every outcome other than success leaves the managed routes
  exactly as they were, with the rollback reported as successful. Success without dry run means
  that the connectivity check after the changes passed, and it empties the list; a dry run
  changes nothing and runs no command.\<close>

theorem execute_restores_or_verified:
  assumes "starts_all sh"
    and "\<forall>w1. \<exists>new. rg_managed_routes (fst (snd (changes g w1))) = rg_managed_routes g @ new
           \<and> (\<forall>r \<in> set new. \<not> in_routes (rg_managed_routes g) r)"
    and "execute sh tsh c changes g w = (res, g', w')"
  shows "case res of
      ApplySuccess \<Rightarrow>
        if sa_dry_run c then g' = g \<and> w' = w
        else rg_managed_routes g' = []
          \<and> (\<exists>w1 g2 w2. changes g w1 = (Ok (), g2, w2) \<and> verify_connectivity tsh c w2 = (Ok (), w'))
    | ValidationFailed e \<Rightarrow> g' = g
    | VerificationFailed e \<Rightarrow> rg_managed_routes g' = rg_managed_routes g
    | ApplyFailed e ok \<Rightarrow> ok \<and> rg_managed_routes g' = rg_managed_routes g"
proof -
  obtain v w1 where v: "sa_validate sh c w = (v, w1)" by fastforce
  obtain r2 g2 w2 where ch: "changes g w1 = (r2, g2, w2)" by (metis prod_cases3)
  obtain v3 w3 where ver: "verify_connectivity tsh c w2 = (v3, w3)" by fastforce
  obtain extra where extra: "rg_managed_routes g2 = rg_managed_routes g @ extra"
      "\<forall>r \<in> set extra. \<not> in_routes (rg_managed_routes g) r"
    using assms(2) ch by (metis fst_conv snd_conv)
  note restored = rollback_restores [OF assms(1) extra]
  have dry: "sa_dry_run c \<Longrightarrow> w1 = w" using v by (simp add: sa_validate_def)
  show ?thesis
    using assms(3) v ch ver dry restored [of w2] restored [of w3]
    by (cases v; cases "sa_dry_run c"; cases r2; cases v3)
      (auto simp: execute_def clear_managed_routes_def split: prod.splits)
qed

text \<open>C16: the rollback runs nothing but deletions, one for each managed route that was not managed
  before the changes, and never enlarges the list: a route that the changes removed is not
  added again, although the rollback reports success.\<close>

theorem rollback_only_deletes:
  "snd (snd (rollback (recording f) prev g lg))
     = lg @ List.map (\<lambda>r. route_del_argv (mr_gateway r) (mr_interface r) (mr_metric r))
         (filter (\<lambda>r. \<not> in_routes prev r) (rg_managed_routes g))
   \<and> set (rg_managed_routes (fst (snd (rollback (recording f) prev g lg)))) \<subseteq> set (rg_managed_routes g)"
  by (simp add: rollback_def rollback_routes_log rollback_routes_subset)

text \<open>A default route is added only for a well-formed IPv4 gateway on an interface that exists
  and when the kernel accepts it; then deleting it restores the list of managed routes, unless
  the deletion cannot be started.\<close>

theorem add_then_delete_route:
  assumes "add_default_route nl gateway interface metric g w = (Ok (), g1, w1)"
    and "\<not> in_routes (rg_managed_routes g) (last (rg_managed_routes g1))" "starts_all sh"
  shows "is_ipv4 gateway
    \<and> (\<exists>i w0 w'. nl_link_index nl interface w = (Ok (Some i), w0) \<and> nl_route_add nl gateway i metric w0 = (Ok (), w'))
    \<and> (\<exists>w2. del_default_route sh gateway interface metric g1 w1 = (Ok (), g, w2))"
proof -
  let ?r = "\<lparr>mr_destination = Some ''0.0.0.0/0'', mr_gateway = gateway, mr_interface = interface,
      mr_metric = metric, mr_table = None\<rparr>"
  have g1: "g1 = g\<lparr>rg_managed_routes := rg_managed_routes g @ [?r]\<rparr>" "is_ipv4 gateway"
    and nl: "\<exists>i w0 w'. nl_link_index nl interface w = (Ok (Some i), w0) \<and> nl_route_add nl gateway i metric w0 = (Ok (), w')"
    using assms(1)
    by (auto simp: add_default_route_def get_interface_index_def split: if_splits sum.splits prod.splits option.splits)
  obtain out w2 where sh: "sh (route_del_argv gateway interface metric) w1 = (Inr out, w2)"
    using assms(3) unfolding starts_all_def by blast
  have "filter (\<lambda>r. \<not> same_route r gateway interface metric) (rg_managed_routes g) = rg_managed_routes g"
    using assms(2) by (auto simp: g1 in_routes_def list_ex_iff filter_id_conv)
  then have "del_default_route sh gateway interface metric g1 w1 = (Ok (), g, w2)"
    by (simp add: del_default_route_def sh g1) (simp add: same_route_def)
  with g1 nl show ?thesis by blast
qed

text \<open>A world that is the log of requests and commands, in which everything is accepted.\<close>

definition sample_netlink :: "cmd list netlink" where
  "sample_netlink = \<lparr>nl_dump_routes = \<lambda>w. ([], w), nl_link_index = \<lambda>i w. (Ok (Some 2), w),
     nl_route_add = \<lambda>gw i m w. (Ok (), w @ [[''route add'', gw, show_nat i, show_nat m]])\<rparr>"

definition sample_changes :: "cmd list changes" where
  "sample_changes g w = add_default_route sample_netlink ''10.0.0.1'' ''eth1'' 50 g w"

definition sample_routes :: routing_engine where
  "sample_routes = \<lparr>rg_managed_routes = [\<lparr>mr_destination = Some ''0.0.0.0/0'', mr_gateway = ''10.0.0.2'',
     mr_interface = ''eth0'', mr_metric = 100, mr_table = None\<rparr>]\<rparr>"

lemma recording_starts: "starts_all (recording all_ok)"
  by (simp add: starts_all_def recording_def all_ok_def)

lemma sample_ipv4: "is_ipv4 ''10.0.0.1''"
  by (simp add: is_ipv4_def split_char_def is_octet_def is_digit_def digits_val_def digit_val_def)

lemma sample_changes_eq:
  "sample_changes g w = (Ok (), g\<lparr>rg_managed_routes := rg_managed_routes g @
      [\<lparr>mr_destination = Some ''0.0.0.0/0'', mr_gateway = ''10.0.0.1'', mr_interface = ''eth1'',
        mr_metric = 50, mr_table = None\<rparr>]\<rparr>, w @ [[''route add'', ''10.0.0.1'', show_nat 2, show_nat 50]])"
  by (simp add: sample_changes_def add_default_route_def sample_ipv4 get_interface_index_def sample_netlink_def)

text \<open>The connectivity check times out after the change.\<close>

definition silent_timed :: "cmd list timed_shell" where
  "silent_timed d argv w = (None, w)"

theorem execute_restores_or_verified_witness:
  "\<exists>e g' w'. execute (recording all_ok) silent_timed safe_apply_config_default sample_changes sample_routes []
      = (VerificationFailed e, g', w') \<and> rg_managed_routes g' = rg_managed_routes sample_routes"
proof -
  obtain res g' w' where e: "execute (recording all_ok) silent_timed safe_apply_config_default sample_changes
      sample_routes [] = (res, g', w')" by (metis prod_cases3)
  have 1: "\<forall>w1. \<exists>extra. rg_managed_routes (fst (snd (sample_changes sample_routes w1)))
        = rg_managed_routes sample_routes @ extra
      \<and> (\<forall>r \<in> set extra. \<not> in_routes (rg_managed_routes sample_routes) r)"
    by (simp add: sample_changes_eq sample_routes_def in_routes_def same_route_def)
  have 2: "\<exists>m. res = VerificationFailed m"
    using e by (auto simp: execute_def sa_validate_def ping_once_def ping_once_result_def recording_def all_ok_def
        safe_apply_config_default_def sample_changes_eq verify_connectivity_def silent_timed_def
        split: prod.splits)
  from execute_restores_or_verified [OF recording_starts 1 e] 2 e show ?thesis by auto
qed

theorem add_then_delete_route_witness:
  "\<exists>w2. del_default_route (recording all_ok) ''10.0.0.1'' ''eth1'' 50
      (fst (snd (sample_changes sample_routes []))) (snd (snd (sample_changes sample_routes []))) = (Ok (), sample_routes, w2)"
proof -
  have a: "add_default_route sample_netlink ''10.0.0.1'' ''eth1'' 50 sample_routes []
      = (Ok (), fst (snd (sample_changes sample_routes [])), snd (snd (sample_changes sample_routes [])))"
    using sample_changes_eq [of sample_routes "[]"] unfolding sample_changes_def by simp
  have "\<not> in_routes (rg_managed_routes sample_routes)
      (last (rg_managed_routes (fst (snd (sample_changes sample_routes [])))))"
    by (simp add: sample_changes_eq sample_routes_def in_routes_def same_route_def)
  from add_then_delete_route [OF a this recording_starts] show ?thesis by blast
qed

section \<open>The routing table of the kernel\<close>

text \<open>
  What \<^verbatim>\<open>ip route del\<close>, \<^verbatim>\<open>ping\<close> and the requests of the netlink library do to the default routes
  \<open>kt w\<close> of the kernel, given the rights to change them: a deletion takes the named route out
  (a route that is not there is an error of the command and no change; for a metric of 0 nothing
  is said, since the kernel takes it for any metric), the probes and the
  request for an interface change nothing, and an addition either fails without effect or adds
  a route that was not there (it asks for an exclusive creation).
\<close>

type_synonym route_key = "string \<times> string \<times> nat"

definition obeys_routes ::
  "'w netlink \<Rightarrow> 'w shell \<Rightarrow> 'w timed_shell \<Rightarrow> ('w \<Rightarrow> route_key set) \<Rightarrow> bool" where
  "obeys_routes nl sh tsh kt \<longleftrightarrow>
     (\<forall>gw i m w. 0 < m \<longrightarrow> (\<exists>out w'. sh (route_del_argv gw i m) w = (Inr out, w') \<and> kt w' = kt w - {(gw, i, m)}))
   \<and> (\<forall>t w. kt (snd (sh (ping_once_argv t) w)) = kt w)
   \<and> (\<forall>d t w. kt (snd (tsh d (ping_once_argv t) w)) = kt w)
   \<and> (\<forall>i w. kt (snd (nl_link_index nl i w)) = kt w)
   \<and> (\<forall>gw i m w ix w1. nl_link_index nl i w = (Inr (Some ix), w1) \<longrightarrow>
        (case nl_route_add nl gw ix m w1 of
           (Inl e, w2) \<Rightarrow> kt w2 = kt w1
         | (Inr _, w2) \<Rightarrow> (gw, i, m) \<notin> kt w1 \<and> kt w2 = insert (gw, i, m) (kt w1)))"

text \<open>Changes that add default routes one after the other, up to the first that fails.\<close>

fun add_routes :: "'w netlink \<Rightarrow> route_key list \<Rightarrow> 'w changes" where
  "add_routes nl [] g w = (Ok (), g, w)"
| "add_routes nl ((gw, i, m) # ks) g w =
     (case add_default_route nl gw i m g w of
        (Inl e, g', w') \<Rightarrow> (Err e, g', w')
      | (Inr _, g', w') \<Rightarrow> add_routes nl ks g' w')"

lemma add_default_route_kernel:
  assumes "obeys_routes nl sh tsh kt" "add_default_route nl gw i m g w = (res, g', w')"
  shows "case res of
      Inl e \<Rightarrow> g' = g \<and> kt w' = kt w
    | Inr _ \<Rightarrow> (\<exists>r. key_of r = (gw, i, m) \<and> rg_managed_routes g' = rg_managed_routes g @ [r])
        \<and> (gw, i, m) \<notin> kt w \<and> kt w' = insert (gw, i, m) (kt w)"
proof -
  obtain v w1 where v: "nl_link_index nl i w = (v, w1)" by fastforce
  then have k1: "kt w1 = kt w" using assms(1) unfolding obeys_routes_def by (metis snd_conv)
  show ?thesis
  proof (cases "\<exists>ix. v = Inr (Some ix)")
    case True
    then obtain ix where ix: "v = Inr (Some ix)" by blast
    obtain a w2 where a: "nl_route_add nl gw ix m w1 = (a, w2)" by fastforce
    note added = assms(1) [unfolded obeys_routes_def, THEN conjunct2, THEN conjunct2, THEN conjunct2, THEN conjunct2,
        rule_format, OF v [unfolded ix], of gw m, unfolded a]
    from assms(2) v ix a k1 added show ?thesis
      by (cases a) (auto simp: add_default_route_def get_interface_index_def key_of_def split: if_splits)
  next
    case False
    with assms(2) v k1 show ?thesis
      by (auto simp: add_default_route_def get_interface_index_def split: if_splits sum.splits option.splits)
  qed
qed

lemma add_routes_kernel:
  assumes "obeys_routes nl sh tsh kt" "add_routes nl ks g w = (res, g', w')"
  shows "\<exists>new. rg_managed_routes g' = rg_managed_routes g @ new \<and> key_of ` set new \<subseteq> set ks
    \<and> key_of ` set new \<inter> kt w = {} \<and> kt w' = kt w \<union> key_of ` set new
    \<and> (is_ok res \<longrightarrow> key_of ` set new = set ks)"
  using assms(2)
proof (induction ks arbitrary: g w)
  case (Cons k ks)
  obtain gw i m where k: "k = (gw, i, m)" by (cases k)
  obtain a g1 w1 where a: "add_default_route nl gw i m g w = (a, g1, w1)" by (metis prod_cases3)
  note ka = add_default_route_kernel [OF assms(1) a]
  show ?case
  proof (cases a)
    case (Inl e)
    with ka have "rg_managed_routes g1 = rg_managed_routes g" "kt w1 = kt w" by simp_all
    moreover from Inl Cons.prems a k have "res = Inl e" "g' = g1" "w' = w1" by simp_all
    ultimately show ?thesis by (intro exI [of _ "[]"]) (simp add: is_ok_def)
  next
    case (Inr u)
    with Cons.prems a k have "add_routes nl ks g1 w1 = (res, g', w')" by simp
    from Cons.IH [OF this] obtain new where new: "rg_managed_routes g' = rg_managed_routes g1 @ new"
      "key_of ` set new \<subseteq> set ks" "key_of ` set new \<inter> kt w1 = {}" "kt w' = kt w1 \<union> key_of ` set new"
      "is_ok res \<longrightarrow> key_of ` set new = set ks" by (elim exE conjE) (rule that)
    from ka Inr obtain r where r: "key_of r = (gw, i, m)" "rg_managed_routes g1 = rg_managed_routes g @ [r]"
      "(gw, i, m) \<notin> kt w" "kt w1 = insert (gw, i, m) (kt w)"
      by (simp only: sum.case) blast
    have keys: "key_of ` set (r # new) = insert k (key_of ` set new)" using r(1) k by simp
    have "rg_managed_routes g' = rg_managed_routes g @ r # new" using new(1) r(2) by simp
    moreover have "key_of ` set (r # new) \<subseteq> set (k # ks)" unfolding keys using new(2) by auto
    moreover have "key_of ` set (r # new) \<inter> kt w = {}" unfolding keys using new(3) r(3,4) k by blast
    moreover have "kt w' = kt w \<union> key_of ` set (r # new)" unfolding keys using new(4) r(4) k by blast
    moreover have "is_ok res \<longrightarrow> key_of ` set (r # new) = set (k # ks)" unfolding keys using new(5) by simp
    ultimately show ?thesis by blast
  qed
qed simp

lemma rollback_routes_kernel:
  assumes "obeys_routes nl sh tsh kt" "\<forall>r \<in> set rs. \<not> in_routes prev r \<longrightarrow> 0 < mr_metric r"
  shows "fst (rollback_routes sh prev rs True g w)
    \<and> kt (snd (snd (rollback_routes sh prev rs True g w))) = kt w - key_of ` {r \<in> set rs. \<not> in_routes prev r}"
  using assms(2)
proof (induction rs arbitrary: g w)
  case (Cons r rs)
  show ?case
  proof (cases "in_routes prev r")
    case False
    then have "0 < mr_metric r" using Cons.prems by simp
    then obtain out w1 where "sh (route_del_argv (mr_gateway r) (mr_interface r) (mr_metric r)) w = (Inr out, w1)"
        "kt w1 = kt w - {key_of r}"
      using assms(1) unfolding obeys_routes_def key_of_def by meson
    with Cons False show ?thesis by (auto simp: del_default_route_def)
  qed (use Cons in auto)
qed simp

lemma rollback_kernel:
  assumes "obeys_routes nl sh tsh kt" "rg_managed_routes g = prev @ new"
    and "key_of ` set new \<inter> key_of ` set prev = {}" "\<forall>(gw, i, m) \<in> key_of ` set new. 0 < m"
  shows "fst (rollback sh prev g w) \<and> rg_managed_routes (fst (snd (rollback sh prev g w))) = prev
    \<and> kt (snd (snd (rollback sh prev g w))) = kt w - key_of ` set new"
proof -
  obtain ok g' w' where r: "rollback sh prev g w = (ok, g', w')" by (metis prod_cases3)
  have nw: "{r \<in> set (prev @ new). \<not> in_routes prev r} = set new"
    using assms(3) by (auto simp: in_routes_key)
  have "\<forall>r \<in> set (prev @ new). \<not> in_routes prev r \<longrightarrow> 0 < mr_metric r"
    using assms(4) nw by (auto simp: key_of_def)
  from rollback_routes_kernel [OF assms(1) this, of g w] r assms(2) nw
  have ok: "ok" and kt: "kt w' = kt w - key_of ` set new" by (simp_all add: rollback_def)
  with r have "rg_managed_routes g' = filter (\<lambda>q. in_routes prev q \<or> key_of q \<notin> key_of ` set (prev @ new)) (prev @ new)"
    using rollback_routes_ok [of sh prev "prev @ new" True g w g' w'] assms(2) by (simp add: rollback_def)
  also have "\<dots> = prev"
    using assms(3) by (auto simp: in_routes_key filter_empty_conv)
  finally show ?thesis using r ok kt by simp
qed

lemma probes_keep_routes:
  assumes "obeys_routes nl sh tsh kt"
  shows "kt (snd (sa_validate sh c w)) = kt w" "kt (snd (verify_connectivity tsh c w)) = kt w"
proof -
  have "kt (snd (sh (ping_once_argv t) w)) = kt w" "kt (snd (tsh d (ping_once_argv t) w)) = kt w" for t d w
    using assms unfolding obeys_routes_def by blast+
  from this(1) [of "sa_verify_target c" w] this(2) [of "sa_verify_timeout c" "sa_verify_target c" w]
  show "kt (snd (sa_validate sh c w)) = kt w" "kt (snd (verify_connectivity tsh c w)) = kt w"
    by (auto simp: sa_validate_def ping_once_def verify_connectivity_def split: prod.splits sum.splits option.splits)
qed

lemma keys_apart:
  assumes "K \<subseteq> A" "\<forall>(gw, i, m) \<in> A. 0 < m \<and> (gw, i, m) \<notin> M"
  shows "K \<inter> M = {}" "\<forall>(gw, i, m) \<in> K. 0 < (m :: nat)"
  using assms by (fast, fast)

text \<open>C15: safe apply on the routing table of the kernel. Let the changes add any list of default
  routes with positive metrics, none of which the engine manages already, under the documented behaviour of \<^verbatim>\<open>ip\<close>, \<^verbatim>\<open>ping\<close>
  and netlink. Then every outcome other than success leaves the kernel with exactly the default
  routes it had before, also when the changes fail halfway through the list, with the list of
  managed routes restored and the rollback reported as successful; success means that all the
  routes were new and are there, or, in a dry run, that nothing has changed.\<close>

theorem safe_apply_restores_kernel:
  assumes "obeys_routes nl sh tsh kt"
    and "\<forall>(gw, i, m) \<in> set ks. 0 < m \<and> (gw, i, m) \<notin> key_of ` set (rg_managed_routes g)"
    and "execute sh tsh c (add_routes nl ks) g w = (res, g', w')"
  shows "case res of
      ApplySuccess \<Rightarrow>
        if sa_dry_run c then kt w' = kt w \<and> g' = g
        else kt w' = kt w \<union> set ks \<and> set ks \<inter> kt w = {} \<and> rg_managed_routes g' = []
    | ValidationFailed e \<Rightarrow> kt w' = kt w \<and> g' = g
    | VerificationFailed e \<Rightarrow> kt w' = kt w \<and> rg_managed_routes g' = rg_managed_routes g
    | ApplyFailed e ok \<Rightarrow> ok \<and> kt w' = kt w \<and> rg_managed_routes g' = rg_managed_routes g"
proof -
  obtain v w1 where v: "sa_validate sh c w = (v, w1)" by fastforce
  obtain r2 g2 w2 where ch: "add_routes nl ks g w1 = (r2, g2, w2)" by (metis prod_cases3)
  obtain v3 w3 where ver: "verify_connectivity tsh c w2 = (v3, w3)" by fastforce
  have k1: "kt w1 = kt w" using v probes_keep_routes(1) [OF assms(1)] by (metis snd_conv)
  have k3: "kt w3 = kt w2" using ver probes_keep_routes(2) [OF assms(1)] by (metis snd_conv)
  obtain new where new: "rg_managed_routes g2 = rg_managed_routes g @ new" "key_of ` set new \<subseteq> set ks"
      "key_of ` set new \<inter> kt w1 = {}" "kt w2 = kt w1 \<union> key_of ` set new" "is_ok r2 \<longrightarrow> key_of ` set new = set ks"
    using add_routes_kernel [OF assms(1) ch] by (elim exE conjE) (rule that)
  note disj = keys_apart(1) [OF new(2) assms(2)] and pos = keys_apart(2) [OF new(2) assms(2)]
  have undone: "kt w2 - key_of ` set new = kt w" using new(3) unfolding new(4) k1 by auto
  have restored: "fst (rollback sh (rg_managed_routes g) g2 u)
      \<and> rg_managed_routes (fst (snd (rollback sh (rg_managed_routes g) g2 u))) = rg_managed_routes g
      \<and> kt (snd (snd (rollback sh (rg_managed_routes g) g2 u))) = kt w" if "kt u = kt w2" for u
    using rollback_kernel [OF assms(1) new(1) disj pos, of u] unfolding that undone .
  show ?thesis
    using assms(3) v ch ver k1 k3 new(3-5) restored [of w2] restored [of w3]
    by (cases v; cases "sa_dry_run c"; cases r2; cases v3)
      (auto simp: execute_def clear_managed_routes_def is_ok_def split: prod.splits)
qed

text \<open>A kernel whose world is the list of its default routes; probes are answered before the
  change and get no answer after it, as when the added route leads nowhere.\<close>

definition demo_ip :: "route_key list shell" where
  "demo_ip c w = (Ok ok_output, filter (\<lambda>(gw, i, m). route_del_argv gw i m \<noteq> c) w)"

definition demo_timed :: "route_key list timed_shell" where
  "demo_timed d c w = (None, w)"

definition demo_netlink :: "route_key list netlink" where
  "demo_netlink = \<lparr>nl_dump_routes = \<lambda>w. ([], w), nl_link_index = \<lambda>i w. (Ok (if i = ''eth1'' then Some 2 else None), w),
     nl_route_add = \<lambda>gw ix m w. if (gw, ''eth1'', m) \<in> set w then (Err ''File exists'', w) else (Ok (), (gw, ''eth1'', m) # w)\<rparr>"

lemma demo_obeys: "obeys_routes demo_netlink demo_ip demo_timed set"
proof -
  have del: "route_del_argv gw i m = route_del_argv gw' i' m' \<longleftrightarrow> gw = gw' \<and> i = i' \<and> m = m'" for gw i m gw' i' m'
    unfolding route_del_argv_def using digits_val_show by (metis list.inject)
  have ping: "route_del_argv gw i m \<noteq> ping_once_argv t" for gw i m t
    by (simp add: route_del_argv_def ping_once_argv_def)
  have "set (snd (demo_ip (route_del_argv gw i m) w)) = set w - {(gw, i, m)}" for gw i m w
    by (auto simp: demo_ip_def del)
  then have "\<exists>out w'. demo_ip (route_del_argv gw i m) w = (Inr out, w') \<and> set w' = set w - {(gw, i, m)}" for gw i m w
    by (simp add: demo_ip_def)
  moreover have "snd (demo_ip (ping_once_argv t) w) = w" for t w
    by (auto simp: demo_ip_def ping filter_id_conv)
  ultimately show ?thesis
    unfolding obeys_routes_def by (simp add: demo_timed_def demo_netlink_def split: if_splits)
qed

theorem safe_apply_restores_kernel_witness:
  "\<exists>e g' w'. execute demo_ip demo_timed safe_apply_config_default (add_routes demo_netlink [(''10.0.0.1'', ''eth1'', 50)])
       sample_routes [(''10.0.0.2'', ''eth0'', 100)] = (VerificationFailed e, g', w')
     \<and> set w' = {(''10.0.0.2'', ''eth0'', 100)} \<and> rg_managed_routes g' = rg_managed_routes sample_routes"
proof -
  let ?ks = "[(''10.0.0.1'', ''eth1'', 50)] :: route_key list"
  obtain res g' w' where e: "execute demo_ip demo_timed safe_apply_config_default (add_routes demo_netlink ?ks)
      sample_routes [(''10.0.0.2'', ''eth0'', 100)] = (res, g', w')" by (metis prod_cases3)
  have 1: "\<forall>(gw, i, m) \<in> set ?ks. 0 < m \<and> (gw, i, m) \<notin> key_of ` set (rg_managed_routes sample_routes)"
    by (simp add: sample_routes_def key_of_def)
  obtain m where 2: "res = VerificationFailed m"
    using e by (auto simp: execute_def Let_def sa_validate_def ping_once_def ping_once_result_def demo_ip_def
        safe_apply_config_default_def route_del_argv_def ping_once_argv_def add_default_route_def sample_ipv4
        get_interface_index_def demo_netlink_def verify_connectivity_def demo_timed_def split: prod.splits)
  have "set w' = set [(''10.0.0.2'', ''eth0'', 100)] \<and> rg_managed_routes g' = rg_managed_routes sample_routes"
    using safe_apply_restores_kernel [OF demo_obeys 1 e] unfolding 2 by simp
  with e 2 show ?thesis unfolding list.set by blast
qed

end
