(* ===== verification/Balancer.thy ===== *)
theory Balancer
  imports Health Events NF_Process
begin

text \<open>
  \<^verbatim>\<open>crates/netfusion-core/src/routing/balancer/\<close>: multipath default routes (\<open>ecmp.rs\<close>), weights
  from health scores (\<open>weighted.rs\<close>) and flow marking with nftables (\<open>nftables.rs\<close>). The
  commands go through the shell, the temporary rule file through the file system.
\<close>

section \<open>Equal-cost multipath\<close>

record ecmp_route =
  er_gateway :: string
  er_interface :: string
  er_metric :: nat
  er_weight :: u8

definition nexthop_args :: "ecmp_route \<Rightarrow> string list" where
  "nexthop_args route = [''nexthop'', ''via'', er_gateway route, ''dev'', er_interface route]
     @ (if 1 < er_weight route then [''weight'', show_nat (unat (er_weight route))] else [])"

definition ecmp_args :: "ecmp_route list \<Rightarrow> string list" where
  "ecmp_args routes = [''route'', ''replace'', ''default''] @
     (case routes of
        [r] \<Rightarrow> [''via'', er_gateway r, ''dev'', er_interface r]
                 @ (if 0 < er_metric r then [''metric'', show_nat (er_metric r)] else [])
      | _ \<Rightarrow> concat (List.map nexthop_args routes))"

definition setup_ecmp :: "'w shell \<Rightarrow> ecmp_route list \<Rightarrow> 'w \<Rightarrow> (routing_error, unit) result \<times> 'w" where
  "setup_ecmp sh routes w =
     (if routes = [] then (Err (RouteModify ''no routes provided for ECMP''), w)
      else case sh (''ip'' # ecmp_args routes) w of
        (Inl e, w') \<Rightarrow> (Err (RouteModify e), w')
      | (Inr out, w') \<Rightarrow>
          (if \<not> out_success out then Err (RouteModify (''ip route failed: '' @ out_stderr out)) else Ok (), w'))"

fun teardown_ecmp :: "'w shell \<Rightarrow> ecmp_route list \<Rightarrow> 'w \<Rightarrow> (routing_error, unit) result \<times> 'w" where
  "teardown_ecmp sh [] w = (Ok (), w)"
| "teardown_ecmp sh (route # rs) w =
     (case sh [''ip'', ''route'', ''del'', ''default'', ''via'', er_gateway route, ''dev'', er_interface route] w of
        (Inl e, w') \<Rightarrow> (Err (RouteModify e), w')
      | (Inr _, w') \<Rightarrow> teardown_ecmp sh rs w')"

section \<open>Weights\<close>

record weighted_balancer =
  wb_min_health :: f64
  wb_weights :: "(string, u8) hmap"

definition weighted_balancer_new :: "f64 \<Rightarrow> weighted_balancer" where
  "weighted_balancer_new min_health = \<lparr>wb_min_health = min_health, wb_weights = []\<rparr>"

definition weight_of :: "f64 \<Rightarrow> f64 \<Rightarrow> u8" where
  "weight_of score total_health =
     (let ratio = divide score total_health
      in of_nat (f_as_uint 255 (f_clamp (f_round (ratio * Fin 255)) (Fin 1) (Fin 255))))"

definition viable_scores :: "f64 \<Rightarrow> (string, health_score) hmap \<Rightarrow> (string \<times> health_score) list" where
  "viable_scores min_health health = filter (\<lambda>(_, score). min_health \<le> hs_overall score) health"

definition compute_weights ::
  "(string, health_score) hmap \<Rightarrow> weighted_balancer \<Rightarrow> (string, u8) hmap \<times> weighted_balancer" where
  "compute_weights health b =
     (let viable = viable_scores (wb_min_health b) health
      in if viable = [] then ([], b\<lparr>wb_weights := []\<rparr>)
         else
           (let total_health = f_sum (List.map (\<lambda>(_, s). hs_overall s) viable)
            in if feq total_health 0 then ([], b\<lparr>wb_weights := []\<rparr>)
               else
                 (let new_weights = fold (\<lambda>(name, score) ws.
                        hm_insert name (weight_of (hs_overall score) total_health) ws) viable []
                  in (new_weights, b\<lparr>wb_weights := new_weights\<rparr>))))"

definition generate_routes :: "(string, string) hmap \<Rightarrow> weighted_balancer \<Rightarrow> ecmp_route list" where
  "generate_routes gateways b =
     List.map_filter (\<lambda>(name, weight). map_option (\<lambda>gw.
        \<lparr>er_gateway = gw, er_interface = name, er_metric = 100, er_weight = weight\<rparr>) (hm_get gateways name))
       (wb_weights b)"

section \<open>Flow marks\<close>

definition nft_is_available :: "'w shell \<Rightarrow> 'w \<Rightarrow> bool \<times> 'w" where
  "nft_is_available sh w = (case sh [''nft'', ''--version''] w of (r, w') \<Rightarrow> (is_ok r, w'))"

definition nft_marks :: "(string, string) hmap \<Rightarrow> (string, u8) hmap \<Rightarrow> (string \<times> nat) list" where
  "nft_marks gateways weights =
     List.map_filter (\<lambda>(i, name, _). if hm_contains gateways name then Some (name, i + 1) else None)
       (enumerate 0 weights)"

definition jhash_line :: "nat \<Rightarrow> string" where
  "jhash_line num_ifaces =
     ''ct mark set jhash ip saddr ip daddr ip protocol mod '' @ show_nat num_ifaces @ '' offset 1''"

definition nft_ruleset :: "nat \<Rightarrow> string" where
  "nft_ruleset num_ifaces = unlines
     [''# NetFusion flow-based balancing'', ''table inet netfusion {'', ''chain prerouting {'',
      ''type filter hook prerouting priority mangle; policy accept;'', [],
      ''# Hash-based flow distribution'', jhash_line num_ifaces, ''}'', [],
      ''chain output {'', ''type filter hook output priority mangle; policy accept;'', [],
      jhash_line num_ifaces, ''}'', ''}'']"

definition nft_tmp_path :: string where
  "nft_tmp_path = ''/tmp/netfusion_nftables.conf''"

definition mark_rule :: "string \<Rightarrow> nat \<Rightarrow> cmd" where
  "mark_rule verb mark = [''ip'', ''rule'', verb, ''fwmark'', show_nat mark, ''table'', show_nat mark]"

definition setup_weighted_balancing ::
  "'w shell \<Rightarrow> 'w files \<Rightarrow> (string, string) hmap \<Rightarrow> (string, u8) hmap \<Rightarrow> 'w \<Rightarrow> (string, unit) result \<times> 'w" where
  "setup_weighted_balancing sh fs gateways weights w =
     (if length gateways < 2 then (Ok (), w)
      else
        (let marks = nft_marks gateways weights
         in if length marks < 2 then (Ok (), w)
            else
              and_then (fs_write fs nft_tmp_path (nft_ruleset (length marks)) w) (\<lambda>_ w.
              and_then (sh [''nft'', ''-f'', nft_tmp_path] w) (\<lambda>_ w.
                (let w = fold (\<lambda>(_, mark) w. snd (sh (mark_rule ''add'' mark) w)) marks w
                 in (Ok (), snd (fs_remove fs nft_tmp_path w)))))))"

definition teardown_balancing :: "'w shell \<Rightarrow> 'w \<Rightarrow> (string, unit) result \<times> 'w" where
  "teardown_balancing sh w =
     and_then (sh [''nft'', ''delete'', ''table'', ''inet'', ''netfusion''] w) (\<lambda>_ w.
       (Ok (), fold (\<lambda>mark w. snd (sh (mark_rule ''del'' mark) w)) [1..<17] w))"

definition list_rules :: "'w shell \<Rightarrow> 'w \<Rightarrow> (string, string) result \<times> 'w" where
  "list_rules sh w = and_then (sh [''nft'', ''list'', ''ruleset''] w) (\<lambda>out w. (Ok (out_stdout out), w))"

definition setup_nftables_balancing ::
  "'w shell \<Rightarrow> 'w files \<Rightarrow> (string, string) hmap \<Rightarrow> weighted_balancer \<Rightarrow> 'w \<Rightarrow> (string, unit) result \<times> 'w" where
  "setup_nftables_balancing sh fs gateways b w = setup_weighted_balancing sh fs gateways (wb_weights b) w"

definition teardown_nftables_balancing :: "'w shell \<Rightarrow> 'w \<Rightarrow> (string, unit) result \<times> 'w" where
  "teardown_nftables_balancing sh w = teardown_balancing sh w"

section \<open>Facts about the weights\<close>

lemma fold_insert_get:
  "hm_ok v \<Longrightarrow> hm_get (fold (\<lambda>(n, s) ws. hm_insert n (f s) ws) v ws0) k
     = (case hm_get v k of Some s \<Rightarrow> Some (f s) | None \<Rightarrow> hm_get ws0 k)"
proof (induction v arbitrary: ws0)
  case Nil
  then show ?case by simp
next
  case (Cons p v)
  obtain n s where p: "p = (n, s)" by (cases p)
  have "hm_ok v" "hm_get v n = None" using Cons.prems by (auto simp: hm_ok_def p map_of_eq_None_iff)
  with Cons.IH [of "hm_insert n (f s) ws0"] show ?case
    by (auto simp: p hm_simps split: option.split)
qed

lemma hm_ok_filter: "hm_ok m \<Longrightarrow> hm_ok (filter P m)"
  by (induction m) (auto simp: hm_ok_def)

lemma option_eqI: "(\<And>x. a = Some x \<longleftrightarrow> b = Some x) \<Longrightarrow> a = b"
  by (cases a; cases b) auto

lemma viable_get:
  assumes "hm_ok health"
  shows "hm_get (viable_scores mh health) n
    = (case hm_get health n of Some s \<Rightarrow> if mh \<le> hs_overall s then Some s else None | None \<Rightarrow> None)"
proof -
  have "hm_ok (viable_scores mh health)" using assms by (simp add: viable_scores_def hm_ok_filter)
  then have "hm_get (viable_scores mh health) n = Some s
      \<longleftrightarrow> hm_get health n = Some s \<and> mh \<le> hs_overall s" for s
    using assms by (simp add: hm_get_iff viable_scores_def)
  then have eq: "\<And>s. hm_get (viable_scores mh health) n = Some s
      \<longleftrightarrow> (case hm_get health n of Some s \<Rightarrow> if mh \<le> hs_overall s then Some s else None | None \<Rightarrow> None) = Some s"
    by (auto split: option.split)
  show ?thesis by (rule option_eqI) (rule eq)
qed

lemma compute_weights_get:
  assumes "hm_ok health" "compute_weights health b = (ws, b')"
    and "Fin 0 < f_sum (List.map (\<lambda>(_, s). hs_overall s) (viable_scores (wb_min_health b) health))"
  shows "wb_weights b' = ws \<and> hm_get ws n = (case hm_get health n of
      Some s \<Rightarrow> if wb_min_health b \<le> hs_overall s
                then Some (weight_of (hs_overall s)
                       (f_sum (List.map (\<lambda>(_, s). hs_overall s) (viable_scores (wb_min_health b) health))))
                else None
    | None \<Rightarrow> None)"
proof -
  let ?v = "viable_scores (wb_min_health b) health"
  have ok: "hm_ok ?v" using assms(1) by (simp add: viable_scores_def hm_ok_filter)
  have ne: "?v \<noteq> []"
  proof
    assume "?v = []"
    with assms(3) show False by (simp add: f_sum_def f64_consts)
  qed
  have nz: "\<not> feq (f_sum (List.map (\<lambda>(_, s). hs_overall s) ?v)) 0"
    using assms(3) by (cases "f_sum (List.map (\<lambda>(_, s). hs_overall s) ?v)") (auto simp: feq_def f64_consts)
  from fold_insert_get [OF ok, of "\<lambda>s. weight_of (hs_overall s) (f_sum (List.map (\<lambda>(_, s). hs_overall s) ?v))" "[]" n]
  show ?thesis
    using assms(2) ne nz viable_get [OF assms(1), of "wb_min_health b" n]
    by (auto simp: compute_weights_def Let_def case_prod_unfold split: option.splits)
qed

lemma ratio_not_nan:
  assumes "is_score s" "Fin 0 < t"
  shows "divide s t * Fin 255 \<noteq> NaN"
proof -
  obtain r where r: "s = Fin r" "0 \<le> r" using is_scoreE [OF assms(1)] by auto
  show ?thesis
  proof (cases t)
    case (Fin a)
    with assms(2) have "divide s t = fl (r / a)" by (simp add: r f64_arith)
    then show ?thesis using fl_cases [of "r / a"] by (auto simp: f64_arith)
  qed (use assms(2) in \<open>auto simp: r f64_arith\<close>)
qed

lemma fl_infinities [simp]: "fl x \<le> PInf" "NInf \<le> fl x"
  using fl_not_nan [of x] by (cases "fl x"; simp)+

lemma f_round_not_nan: "x \<noteq> NaN \<Longrightarrow> f_round x \<noteq> NaN"
  by (cases x) auto

lemma f_round_mono: "x \<le> y \<Longrightarrow> f_round x \<le> f_round y"
proof (cases x; cases y)
  fix a b
  assume le: "x \<le> y" and x: "x = Fin a" and y: "y = Fin b"
  have "(if 0 \<le> a then \<lfloor>a + 1 / 2\<rfloor> else - \<lfloor>- a + 1 / 2\<rfloor>) \<le> (if 0 \<le> b then \<lfloor>b + 1 / 2\<rfloor> else - \<lfloor>- b + 1 / 2\<rfloor>)"
    using le x y by (auto intro: floor_mono simp: not_le) linarith
  then show "f_round x \<le> f_round y" by (simp add: x y)
qed (auto)

text \<open>What the clamping and the conversion leave of a number.\<close>

definition weight_real :: "f64 \<Rightarrow> nat" where
  "weight_real x = f_as_uint 255 (f_clamp (f_round x) (Fin 1) (Fin 255))"

lemma weight_real_bounds: "x \<noteq> NaN \<Longrightarrow> 1 \<le> weight_real x \<and> weight_real x \<le> 255"
proof -
  assume "x \<noteq> NaN"
  then obtain r where r: "f_clamp (f_round x) (Fin 1) (Fin 255) = Fin r" "1 \<le> r" "r \<le> 255"
    using f_clamp_range [OF f_round_not_nan, of x 1 255] by auto
  then have "1 \<le> \<lfloor>r\<rfloor>" "\<lfloor>r\<rfloor> \<le> 255" by linarith+
  then have "1 \<le> nat \<lfloor>r\<rfloor>" "nat \<lfloor>r\<rfloor> \<le> 255" by linarith+
  then show ?thesis by (simp add: weight_real_def r(1))
qed

lemma weight_real_mono: "x \<le> y \<Longrightarrow> weight_real x \<le> weight_real y"
proof -
  assume le: "x \<le> y"
  then have n: "x \<noteq> NaN" "y \<noteq> NaN" using f64_le_not_nan by blast+
  obtain r where r: "f_clamp (f_round x) (Fin 1) (Fin 255) = Fin r"
    using f_clamp_range [OF f_round_not_nan [OF n(1)], of 1 255] by auto
  obtain q where q: "f_clamp (f_round y) (Fin 1) (Fin 255) = Fin q"
    using f_clamp_range [OF f_round_not_nan [OF n(2)], of 1 255] by auto
  have "r \<le> q" using f_clamp_mono [OF f_round_mono [OF le], of 1 255] r q by simp
  then have "\<lfloor>r\<rfloor> \<le> \<lfloor>q\<rfloor>" by (rule floor_mono)
  then have "nat \<lfloor>r\<rfloor> \<le> nat \<lfloor>q\<rfloor>" by (rule nat_mono)
  then show ?thesis by (simp add: weight_real_def r q min_def)
qed

lemma weight_of_real:
  "divide s t * Fin 255 \<noteq> NaN \<Longrightarrow> unat (weight_of s t) = weight_real (divide s t * Fin 255)"
  using weight_real_bounds [of "divide s t * Fin 255"]
  by (simp add: weight_of_def weight_real_def Let_def unat_of_nat)

lemma weight_real_near:
  assumes "0 \<le> x" "x \<le> 255"
  shows "\<bar>real (weight_real (Fin x)) - x\<bar> \<le> 1 / 2 \<or> weight_real (Fin x) = 1"
proof (cases "x < 1 / 2")
  case True
  with assms have "\<lfloor>x + 1 / 2\<rfloor> = 0" by linarith
  with assms have "weight_real (Fin x) = 1" by (simp add: weight_real_def f_clamp_def)
  then show ?thesis by simp
next
  case False
  then have f: "1 \<le> \<lfloor>x + 1 / 2\<rfloor>" "\<lfloor>x + 1 / 2\<rfloor> \<le> 255" using assms by linarith+
  then have "f_clamp (f_round (Fin x)) (Fin 1) (Fin 255) = Fin (of_int \<lfloor>x + 1 / 2\<rfloor>)"
    using assms by (simp add: f_clamp_def)
  moreover have "nat \<lfloor>x + 1 / 2\<rfloor> \<le> 255" using f(2) by linarith
  ultimately have "weight_real (Fin x) = nat \<lfloor>x + 1 / 2\<rfloor>" by (simp add: weight_real_def min_def)
  then show ?thesis using f by linarith
qed

lemma rnd_error_256: "\<bar>x\<bar> < 256 \<Longrightarrow> \<bar>rnd x - x\<bar> \<le> 1 / 2 ^ 46"
  using rnd_abs_error [of x 7] by (simp add: power_int_minus divide_simps)

lemma ratio_near:
  assumes "0 \<le> s" "s \<le> t" "0 < t"
  shows "\<exists>x. divide (Fin s) (Fin t) * Fin 255 = Fin x \<and> 0 \<le> x \<and> x \<le> 255 \<and> \<bar>x - 255 * (s / t)\<bar> \<le> 1 / 2 ^ 44"
proof -
  have q: "0 \<le> s / t" "s / t \<le> 1" using assms by simp_all
  let ?r = "rnd (s / t)"
  have r: "fl (s / t) = Fin ?r" "0 \<le> ?r" "?r \<le> 1" "\<bar>?r - s / t\<bar> \<le> 1 / 2 ^ 53"
    using fl_in_range [of 0 "s / t" 1] q rnd_error_1 [of "s / t"] by auto
  have m: "0 \<le> ?r * 255" "?r * 255 \<le> 255" using r by auto
  then have x: "fl (?r * 255) = Fin (rnd (?r * 255))" "0 \<le> rnd (?r * 255)" "rnd (?r * 255) \<le> 255"
    "\<bar>rnd (?r * 255) - ?r * 255\<bar> \<le> 1 / 2 ^ 46"
    using fl_in_range [of 0 "?r * 255" 255] rnd_error_256 [of "?r * 255"] by auto
  have "divide (Fin s) (Fin t) * Fin 255 = Fin (rnd (?r * 255))"
    using assms(3) by (simp add: f64_arith r(1) x(1))
  moreover have "\<bar>rnd (?r * 255) - 255 * (s / t)\<bar> \<le> 1 / 2 ^ 44"
  proof -
    have "?r * 255 - 255 * (s / t) = 255 * (?r - s / t)" by (simp add: algebra_simps)
    then have "\<bar>?r * 255 - 255 * (s / t)\<bar> = 255 * \<bar>?r - s / t\<bar>" by (simp only: abs_mult abs_numeral)
    also have "\<dots> \<le> 255 * (1 / 2 ^ 53)" using r(4) by (intro mult_left_mono) auto
    finally have d: "\<bar>?r * 255 - 255 * (s / t)\<bar> \<le> 255 / 2 ^ 53" by simp
    have "\<bar>rnd (?r * 255) - 255 * (s / t)\<bar>
        \<le> \<bar>rnd (?r * 255) - ?r * 255\<bar> + \<bar>?r * 255 - 255 * (s / t)\<bar>" by linarith
    also have "\<dots> \<le> 1 / 2 ^ 46 + 255 / 2 ^ 53" using x(4) d by (rule add_mono)
    finally show ?thesis by simp
  qed
  ultimately show ?thesis using x by auto
qed

section \<open>Facts about the marks\<close>

definition gatewayed :: "(string, string) hmap \<Rightarrow> string \<times> u8 \<Rightarrow> bool" where
  "gatewayed gateways p \<longleftrightarrow> hm_contains gateways (fst p)"

lemma marks_from:
  "List.map snd (List.map_filter (\<lambda>(i, name, _). if hm_contains gateways name then Some (name, i + 1) else None)
      (enumerate n ws))
    = List.map (\<lambda>i. n + i + 1) (filter (\<lambda>i. gatewayed gateways (ws ! i)) [0..<length ws])"
proof (induction ws arbitrary: n)
  case Nil
  then show ?case by (simp add: map_filter_simps)
next
  case (Cons p ws)
  have up: "[0..<length (p # ws)] = 0 # List.map Suc [0..<length ws]"
    by (metis length_Cons map_Suc_upt upt_conv_Cons zero_less_Suc)
  from Cons show ?case
    unfolding up by (cases p) (simp add: map_filter_simps gatewayed_def filter_map comp_def)
qed

lemma nft_marks_positions:
  "List.map snd (nft_marks gateways ws)
    = List.map Suc (filter (\<lambda>i. gatewayed gateways (ws ! i)) [0..<length ws])"
  using marks_from [of gateways 0 ws] by (simp add: nft_marks_def)

lemma filter_upt_prefix:
  assumes "\<forall>j < n. \<forall>i < j. P j \<longrightarrow> P i" "m \<in> set (filter P [0..<n])"
  shows "m < length (filter P [0..<n])"
proof -
  have "[0..<Suc m] = filter P [0..<Suc m]"
    using assms by (auto simp: filter_id_conv less_Suc_eq)
  moreover have "Suc m \<le> n" using assms(2) by simp
  then have "[0..<n] = [0..<Suc m] @ [Suc m..<n]"
    using upt_add_eq_append [of 0 "Suc m" "n - Suc m"] by simp
  then have "length (filter P [0..<Suc m]) \<le> length (filter P [0..<n])" by (simp del: upt_Suc)
  ultimately show ?thesis by (metis Suc_le_lessD diff_zero length_upt)
qed

lemma sorted_le_last: "sorted xs \<Longrightarrow> (x :: nat) \<in> set xs \<Longrightarrow> x \<le> last xs"
  by (induction xs) (auto split: if_splits)

lemma filter_upt_gap:
  assumes "P j" "j < n" "i < j" "\<not> P i"
  shows "\<exists>m \<in> set (filter P [0..<n]). length (filter P [0..<n]) \<le> m"
proof -
  let ?l = "filter P [0..<n]"
  have ne: "?l \<noteq> []" using assms by (auto simp: filter_empty_conv)
  have sl: "x \<le> last ?l" if "x \<in> set ?l" for x
    using sorted_le_last [OF _ that] by (simp add: sorted_wrt_filter)
  then have jl: "j \<le> last ?l" using assms(1,2) by simp
  let ?M = "last ?l"
  have "x \<in> {0..?M} - {i}" if "x \<in> set ?l" for x
    using sl [OF that] assms(4) that by auto
  then have "set ?l \<subseteq> {0..?M} - {i}" by blast
  moreover have "i \<in> {0..?M}" using assms(3) jl by simp
  ultimately have "card (set ?l) \<le> card {0..?M} - 1"
    by (metis card_Diff_singleton card_mono finite_Diff finite_atLeastAtMost)
  moreover have "length ?l = card (set ?l)" by (metis distinct_card distinct_filter distinct_upt)
  ultimately have "length ?l \<le> ?M" by simp
  then show ?thesis using ne by (metis last_in_set)
qed

lemma weight_of_score:
  assumes "is_score x" "Fin 0 < t"
  shows "unat (weight_of x t) = weight_real (divide x t * Fin 255)" "divide x t * Fin 255 \<noteq> NaN"
  using ratio_not_nan [OF assms] weight_of_real by blast+

lemma weight_of_near:
  assumes "is_score (Fin r)" "Fin 0 < Fin t" "r \<le> t"
  shows "unat (weight_of (Fin r) (Fin t)) = 1 \<or> \<bar>real (unat (weight_of (Fin r) (Fin t))) - 255 * (r / t)\<bar> \<le> 1 / 2 + 1 / 2 ^ 44"
proof -
  obtain x where x: "divide (Fin r) (Fin t) * Fin 255 = Fin x" "0 \<le> x" "x \<le> 255"
    "\<bar>x - 255 * (r / t)\<bar> \<le> 1 / 2 ^ 44" using ratio_near assms by auto
  have "unat (weight_of (Fin r) (Fin t)) = weight_real (Fin x)"
    using weight_of_score(1) [OF assms(1,2)] x(1) by simp
  moreover have "\<bar>real (weight_real (Fin x)) - 255 * (r / t)\<bar>
      \<le> \<bar>real (weight_real (Fin x)) - x\<bar> + \<bar>x - 255 * (r / t)\<bar>" by linarith
  moreover have "\<bar>real (weight_real (Fin x)) - x\<bar> + \<bar>x - 255 * (r / t)\<bar> \<le> 1 / 2 + 1 / 2 ^ 44"
    if "\<bar>real (weight_real (Fin x)) - x\<bar> \<le> 1 / 2" using that x(4) by (rule add_mono)
  ultimately show ?thesis using weight_real_near [OF x(2,3)] by force
qed

lemma weight_of_mono:
  assumes "is_score x" "is_score y" "x \<le> y" "Fin 0 < t"
  shows "weight_of x t \<le> weight_of y t"
proof -
  obtain r r' where r: "x = Fin r" "y = Fin r'" "r \<le> r'"
    using assms(1-3) by (metis is_scoreE less_eq_f64.simps(1))
  have "divide (Fin r) t * Fin 255 \<le> divide (Fin r') t * Fin 255"
  proof (cases t)
    case (Fin u)
    with assms(4) r(3) have "fl (r / u) \<le> fl (r' / u)" by (intro fl_mono divide_right_mono) auto
    with Fin assms(4) fl_cases [of "r / u"] fl_cases [of "r' / u"] show ?thesis
      by (auto simp: f64_arith intro!: fl_mono)
  qed (use assms(4) in \<open>auto simp: f64_arith f64_le_refl\<close>)
  from weight_real_mono [OF this] show ?thesis
    using weight_of_score(1) [OF assms(1,4)] weight_of_score(1) [OF assms(2,4)] r by (simp add: word_le_nat_alt)
qed

section \<open>Properties\<close>

text \<open>C17: the weights from health scores between 0 and 100. Exactly the interfaces at or above
  the threshold get a weight; every weight is between 1 and 255, it is 255 times the share of
  the total up to the rounding to an integer (a share below one half counts as 1), and a
  healthier interface never gets a smaller weight.\<close>

theorem compute_weights_proportional:
  assumes "hm_ok health" "\<forall>n s. hm_get health n = Some s \<longrightarrow> is_score (hs_overall s)"
    and "total_health = f_sum (List.map (\<lambda>(_, s). hs_overall s) (viable_scores (wb_min_health b) health))"
    and "Fin 0 < total_health" "compute_weights health b = (ws, b')"
  shows "wb_weights b' = ws
    \<and> (\<forall>n. hm_get ws n \<noteq> None \<longleftrightarrow> (\<exists>s. hm_get health n = Some s \<and> wb_min_health b \<le> hs_overall s))
    \<and> (\<forall>n w s. hm_get ws n = Some w \<longrightarrow> hm_get health n = Some s \<longrightarrow>
         1 \<le> unat w \<and> (\<forall>r t. hs_overall s = Fin r \<longrightarrow> total_health = Fin t \<longrightarrow> r \<le> t \<longrightarrow>
            unat w = 1 \<or> \<bar>real (unat w) - 255 * (r / t)\<bar> \<le> 1 / 2 + 1 / 2 ^ 44))
    \<and> (\<forall>n n' w w' s s'. hm_get ws n = Some w \<longrightarrow> hm_get ws n' = Some w' \<longrightarrow>
         hm_get health n = Some s \<longrightarrow> hm_get health n' = Some s' \<longrightarrow> hs_overall s \<le> hs_overall s' \<longrightarrow> w \<le> w')"
proof -
  have get: "wb_weights b' = ws" "\<And>n. hm_get ws n = (case hm_get health n of
      Some s \<Rightarrow> if wb_min_health b \<le> hs_overall s then Some (weight_of (hs_overall s) total_health) else None
    | None \<Rightarrow> None)"
    using compute_weights_get [OF assms(1,5)] assms(3,4) by auto
  have score: "is_score (hs_overall s)" if "hm_get health n = Some s" for n s
    using assms(2) that by blast
  have near: "unat (weight_of (hs_overall s) total_health) = 1
      \<or> \<bar>real (unat (weight_of (hs_overall s) total_health)) - 255 * (r / t)\<bar> \<le> 1 / 2 + 1 / 2 ^ 44"
    if "hm_get health n = Some s" "hs_overall s = Fin r" "total_health = Fin t" "r \<le> t" for n s r t
    using weight_of_near [of r t] score [OF that(1)] assms(4) that(2-4) by simp
  have mono: "weight_of (hs_overall s) total_health \<le> weight_of (hs_overall s') total_health"
    if "hm_get health n = Some s" "hm_get health n' = Some s'" "hs_overall s \<le> hs_overall s'" for n n' s s'
    using weight_of_mono [OF score [OF that(1)] score [OF that(2)] that(3) assms(4)] .
  have pos: "1 \<le> unat (weight_of (hs_overall s) total_health)" if "hm_get health n = Some s" for n s
    using weight_of_score [OF score [OF that] assms(4)] weight_real_bounds by simp
  show ?thesis
    using get(1) pos near mono by (auto simp: get(2) split: option.splits if_splits)
qed

definition sample_scores :: "(string, health_score) hmap" where
  "sample_scores = [(''eth0'', uniform_score (Fin 75)), (''wlan0'', uniform_score (Fin 25)),
     (''ppp0'', uniform_score (Fin 5))]"

theorem compute_weights_proportional_witness:
  "\<exists>ws b' w w'. compute_weights sample_scores (weighted_balancer_new (Fin 20)) = (ws, b')
    \<and> hm_get ws ''eth0'' = Some w \<and> hm_get ws ''wlan0'' = Some w' \<and> w' \<le> w \<and> hm_get ws ''ppp0'' = None"
proof -
  obtain ws b' where c: "compute_weights sample_scores (weighted_balancer_new (Fin 20)) = (ws, b')"
    by (metis surj_pair)
  have v: "viable_scores (wb_min_health (weighted_balancer_new (Fin 20))) sample_scores
      = [(''eth0'', uniform_score (Fin 75)), (''wlan0'', uniform_score (Fin 25))]"
    by (simp add: viable_scores_def sample_scores_def uniform_score_def weighted_balancer_new_def)
  have t: "f_sum (List.map (\<lambda>(_, s). hs_overall s)
      (viable_scores (wb_min_health (weighted_balancer_new (Fin 20))) sample_scores)) = Fin 100"
    unfolding v by (simp add: f_sum_def uniform_score_def f64_simps)
  have ok: "hm_ok sample_scores" "\<forall>n s. hm_get sample_scores n = Some s \<longrightarrow> is_score (hs_overall s)"
    by (auto simp: sample_scores_def hm_ok_def uniform_score_def split: if_splits)
  have g: "hm_get sample_scores ''eth0'' = Some (uniform_score (Fin 75))"
    "hm_get sample_scores ''wlan0'' = Some (uniform_score (Fin 25))"
    "hm_get sample_scores ''ppp0'' = Some (uniform_score (Fin 5))"
    by (simp_all add: sample_scores_def)
  have "Fin 0 < f_sum (List.map (\<lambda>(_, s). hs_overall s)
      (viable_scores (wb_min_health (weighted_balancer_new (Fin 20))) sample_scores))"
    unfolding t by simp
  note p = compute_weights_proportional [OF ok refl this c]
  then have d: "hm_get ws n \<noteq> None \<longleftrightarrow> (\<exists>s. hm_get sample_scores n = Some s \<and> Fin 20 \<le> hs_overall s)" for n
    by (simp add: weighted_balancer_new_def)
  obtain w w' where w: "hm_get ws ''eth0'' = Some w" "hm_get ws ''wlan0'' = Some w'" "hm_get ws ''ppp0'' = None"
    using d [of "''eth0''"] d [of "''wlan0''"] d [of "''ppp0''"] g by (auto simp: uniform_score_def)
  moreover have "w' \<le> w" using p w g by (auto simp: uniform_score_def)
  ultimately show ?thesis using c by blast
qed

text \<open>C18: the flows are hashed to the marks 1 to the number of marked interfaces. Every mark that got
  a routing rule is one of these exactly when no interface without a gateway comes before one
  with a gateway in the iteration order of the weights; otherwise some rule's mark is never set
  and some flows have no rule.\<close>

theorem nft_marks_in_range_iff:
  "(\<forall>mark \<in> set (List.map snd (nft_marks gateways ws)). mark \<le> length (nft_marks gateways ws))
    \<longleftrightarrow> (\<forall>j < length ws. \<forall>i < j. hm_contains gateways (fst (ws ! j)) \<longrightarrow> hm_contains gateways (fst (ws ! i)))"
proof -
  let ?P = "\<lambda>i. gatewayed gateways (ws ! i)"
  have len: "length (nft_marks gateways ws) = length (filter ?P [0..<length ws])"
    using arg_cong [OF nft_marks_positions, of length gateways ws] by simp
  have "(\<forall>m \<in> set (filter ?P [0..<length ws]). m < length (filter ?P [0..<length ws]))
      \<longleftrightarrow> (\<forall>j < length ws. \<forall>i < j. ?P j \<longrightarrow> ?P i)"
    using filter_upt_prefix [of "length ws" ?P] filter_upt_gap [of ?P _ "length ws"] by (meson linorder_not_le)
  then show ?thesis
    unfolding nft_marks_positions len by (simp add: gatewayed_def less_eq_Suc_le)
qed

theorem nft_marks_in_range_iff_witness:
  "\<not> list_all (\<lambda>mark. mark \<le> length (nft_marks [(''eth0'', ''10.0.0.1'')] [(''wlan0'', 30), (''eth0'', 70)]))
     (List.map snd (nft_marks [(''eth0'', ''10.0.0.1'')] [(''wlan0'', 30), (''eth0'', 70)]))"
  using nft_marks_in_range_iff [of "[(''eth0'', ''10.0.0.1'')]" "[(''wlan0'', 30), (''eth0'', 70)]"]
  by (auto simp: list_all_iff hm_contains_def hm_simps less_Suc_eq dest: spec [of _ 1])

end
