(* ===== verification/Analytics.thy ===== *)
theory Analytics
  imports Shared_Types NF_Process
begin

text \<open>
  \<^verbatim>\<open>crates/netfusion-core/src/intelligence/analytics.rs\<close>: statistics over windows of health
  samples, reliability ratings and the rolling windows per interface. \<open>None\<close> is the panic of an
  index out of bounds.
\<close>

section \<open>Statistics of a metric\<close>

record health_sample =
  sm_timestamp :: timestamp
  sm_overall :: f64
  sm_rtt :: f64
  sm_jitter :: f64
  sm_loss :: f64
  sm_throughput :: f64
  sm_stability :: f64

record metric_stats =
  st_mean :: f64
  st_stddev :: f64
  st_min :: f64
  st_max :: f64
  st_p50 :: f64
  st_p95 :: f64
  st_p99 :: f64
  st_sample_count :: nat

definition nth_checked :: "'a list \<Rightarrow> nat \<Rightarrow> 'a option" where
  "nth_checked xs i = (if i < length xs then Some (xs ! i) else None)"

text \<open>The largest \<open>usize\<close>, at which the cast of a double saturates.\<close>

abbreviation usize_max :: nat where
  "usize_max \<equiv> 18446744073709551615"

definition percentile :: "f64 list \<Rightarrow> f64 \<Rightarrow> f64 option" where
  "percentile sorted_values pct =
     (if sorted_values = [] then Some 0
      else
        (let idx = divide pct (Fin 100) * (f_of_nat (length sorted_values) - 1);
             lower = f_as_uint usize_max (f_floor idx);
             upper = f_as_uint usize_max (f_ceil idx)
         in if lower = upper then nth_checked sorted_values lower
            else
              (let frac = idx - f_of_nat lower
               in Option.bind (nth_checked sorted_values lower) (\<lambda>a.
                  map_option (\<lambda>b. a * (1 - frac) + b * frac) (nth_checked sorted_values upper)))))"

definition metric_stats_empty :: metric_stats where
  "metric_stats_empty = \<lparr>st_mean = 0, st_stddev = 0, st_min = 0, st_max = 0, st_p50 = 0, st_p95 = 0,
     st_p99 = 0, st_sample_count = 0\<rparr>"

definition metric_compute :: "f64 list \<Rightarrow> metric_stats option" where
  "metric_compute vals =
     (if vals = [] then Some metric_stats_empty
      else
        (let count = f_of_nat (length vals);
             mean = divide (f_sum vals) count;
             variance = divide (f_sum (List.map (\<lambda>v. f_square (v - mean)) vals)) count;
             stddev = f_sqrt variance;
             sorted_values = sort_by f_partial_cmp vals
         in Option.bind (nth_checked sorted_values 0) (\<lambda>mn.
            Option.bind (nth_checked sorted_values (length sorted_values - 1)) (\<lambda>mx.
            Option.bind (percentile sorted_values (Fin 50)) (\<lambda>p50.
            Option.bind (percentile sorted_values (Fin 95)) (\<lambda>p95.
            map_option (\<lambda>p99.
              \<lparr>st_mean = mean, st_stddev = stddev, st_min = mn, st_max = mx, st_p50 = p50, st_p95 = p95,
               st_p99 = p99, st_sample_count = length sorted_values\<rparr>)
              (percentile sorted_values (Fin 99))))))))"

section \<open>Analytics of an interface\<close>

record interface_analytics =
  an_interface :: string
  an_window_start :: timestamp
  an_window_end :: timestamp
  an_sample_count :: nat
  an_health :: metric_stats
  an_rtt :: metric_stats
  an_jitter :: metric_stats
  an_loss :: metric_stats
  an_throughput :: metric_stats
  an_stability :: metric_stats
  an_degraded_periods :: nat
  an_outage_periods :: nat
  an_mean_time_between_changes :: "f64 option"

fun sample_intervals :: "health_sample list \<Rightarrow> f64 list" where
  "sample_intervals (a # b # ss) = f_of_int (num_seconds (sm_timestamp b - sm_timestamp a)) # sample_intervals (b # ss)"
| "sample_intervals _ = []"

definition mean_time_between_changes :: "health_sample list \<Rightarrow> f64 option" where
  "mean_time_between_changes samples =
     (if 1 < length samples then
        (let intervals = sample_intervals samples
         in if intervals \<noteq> [] then Some (divide (f_sum intervals) (f_of_nat (length intervals))) else None)
      else None)"

definition count_below :: "real \<Rightarrow> health_sample list \<Rightarrow> nat" where
  "count_below x samples = length (filter (\<lambda>s. sm_overall s < Fin x) samples)"

definition from_samples :: "timestamp \<Rightarrow> string \<Rightarrow> health_sample list \<Rightarrow> interface_analytics option" where
  "from_samples now interface samples =
     (if samples = [] then
        Some \<lparr>an_interface = interface, an_window_start = now, an_window_end = now, an_sample_count = 0,
          an_health = metric_stats_empty, an_rtt = metric_stats_empty, an_jitter = metric_stats_empty,
          an_loss = metric_stats_empty, an_throughput = metric_stats_empty, an_stability = metric_stats_empty,
          an_degraded_periods = 0, an_outage_periods = 0, an_mean_time_between_changes = None\<rparr>
      else
        Option.bind (metric_compute (List.map sm_overall samples)) (\<lambda>health.
        Option.bind (metric_compute (List.map sm_rtt samples)) (\<lambda>rtt.
        Option.bind (metric_compute (List.map sm_jitter samples)) (\<lambda>jitter.
        Option.bind (metric_compute (List.map sm_loss samples)) (\<lambda>loss.
        Option.bind (metric_compute (List.map sm_throughput samples)) (\<lambda>throughput.
        map_option (\<lambda>stability.
          \<lparr>an_interface = interface, an_window_start = sm_timestamp (hd samples),
           an_window_end = sm_timestamp (last samples), an_sample_count = length samples,
           an_health = health, an_rtt = rtt, an_jitter = jitter, an_loss = loss,
           an_throughput = throughput, an_stability = stability,
           an_degraded_periods = count_below 50 samples, an_outage_periods = count_below 10 samples,
           an_mean_time_between_changes = mean_time_between_changes samples\<rparr>)
          (metric_compute (List.map sm_stability samples))))))))"

datatype reliability_rating = Excellent | Good | Fair | Poor | Unrated

definition reliability_rating :: "interface_analytics \<Rightarrow> reliability_rating" where
  "reliability_rating a =
     (if an_sample_count a = 0 then Unrated
      else
        (let n = f_of_nat (an_sample_count a);
             uptime_pct = Fin 100 - divide (f_of_nat (an_degraded_periods a)) n * Fin 100;
             outage_pct = divide (f_of_nat (an_outage_periods a)) n * Fin 100
         in if Fin 99 \<le> uptime_pct \<and> feq outage_pct 0 then Excellent
            else if Fin 95 \<le> uptime_pct \<and> outage_pct < Fin 2 then Good
            else if Fin 80 \<le> uptime_pct then Fair
            else Poor))"

section \<open>Reports and rolling windows\<close>

record performance_report =
  pr_interfaces :: "interface_analytics list"
  pr_generated_at :: timestamp

fun rating_rank :: "reliability_rating \<Rightarrow> nat" where
  "rating_rank Excellent = 5"
| "rating_rank Good = 4"
| "rating_rank Fair = 3"
| "rating_rank Poor = 2"
| "rating_rank Unrated = 1"

definition nat_cmp :: "nat \<Rightarrow> nat \<Rightarrow> ordering" where
  "nat_cmp a b = (if a < b then Less else if b < a then Greater else Equal)"

definition best_interface :: "performance_report \<Rightarrow> interface_analytics option" where
  "best_interface r =
     max_by (\<lambda>a b. nat_cmp (rating_rank (reliability_rating a)) (rating_rank (reliability_rating b)))
       (pr_interfaces r)"

definition problematic_interfaces :: "performance_report \<Rightarrow> interface_analytics list" where
  "problematic_interfaces r = filter (\<lambda>i. reliability_rating i \<in> {Poor, Fair}) (pr_interfaces r)"

record analytics_tracker =
  at_max_samples :: nat
  at_samples :: "(string, health_sample list) hmap"

definition analytics_tracker_new :: "nat \<Rightarrow> analytics_tracker" where
  "analytics_tracker_new max_samples = \<lparr>at_max_samples = max_samples, at_samples = []\<rparr>"

definition analytics_tracker_default :: analytics_tracker where
  "analytics_tracker_default = analytics_tracker_new 1000"

definition sample_queue :: "string \<Rightarrow> analytics_tracker \<Rightarrow> health_sample list" where
  "sample_queue interface t = (case hm_get (at_samples t) interface of None \<Rightarrow> [] | Some q \<Rightarrow> q)"

definition add_sample :: "string \<Rightarrow> health_sample \<Rightarrow> analytics_tracker \<Rightarrow> analytics_tracker" where
  "add_sample interface sample t =
     t\<lparr>at_samples := hm_insert interface (push_bounded (at_max_samples t) sample (sample_queue interface t))
         (at_samples t)\<rparr>"

text \<open>The outer \<open>option\<close> is a panic, the inner one an interface without samples.\<close>

definition analyze :: "timestamp \<Rightarrow> string \<Rightarrow> analytics_tracker \<Rightarrow> interface_analytics option option" where
  "analyze now interface t =
     (case hm_get (at_samples t) interface of
        None \<Rightarrow> Some None
      | Some samples \<Rightarrow> map_option Some (from_samples now interface samples))"

definition generate_report :: "timestamp \<Rightarrow> analytics_tracker \<Rightarrow> performance_report option" where
  "generate_report now t =
     map_option (\<lambda>as. \<lparr>pr_interfaces = List.map_filter (\<lambda>a. a) as, pr_generated_at = now\<rparr>)
       (those (List.map (\<lambda>i. analyze now i t) (hm_keys (at_samples t))))"

section \<open>Percentiles stay in bounds\<close>

lemma fl_nat_in_range:
  assumes "0 \<le> x" "x \<le> real n" "n \<le> 2 ^ 53"
  shows "fl x = Fin (rnd x)" "0 \<le> rnd x" "rnd x \<le> real n"
proof -
  have "int n \<le> 2 ^ 53" using assms(3) by (metis of_nat_le_iff of_nat_numeral of_nat_power)
  with fl_in_range [of 0 x "int n"] assms show "fl x = Fin (rnd x)" "0 \<le> rnd x" "rnd x \<le> real n" by auto
qed

lemma percentile_defined:
  assumes "xs \<noteq> []" "length xs \<le> 2 ^ 53" "0 \<le> p" "p \<le> 100"
  shows "percentile xs (Fin p) \<noteq> None"
proof -
  let ?n = "length xs"
  have n: "1 \<le> ?n" using assms(1) by (simp add: Suc_leI)
  have c: "fl (p / 100) = Fin (rnd (p / 100))" "0 \<le> rnd (p / 100)" "rnd (p / 100) \<le> 1"
    using fl_nat_in_range [of "p / 100" 1] assms(3,4) by auto
  have m: "f_of_nat ?n - 1 = Fin (real (?n - 1))"
  proof -
    have "f_of_nat ?n - 1 = fl (real (?n - 1))"
      using assms(2) n by (simp add: f_of_nat_small f64_consts f64_arith of_nat_diff)
    also have "\<dots> = Fin (real (?n - 1))" using assms(2) by (intro fl_of_nat) simp
    finally show ?thesis .
  qed
  let ?x = "rnd (p / 100) * real (?n - 1)"
  have x: "0 \<le> ?x" "?x \<le> real (?n - 1)"
    using c mult_right_mono [of "rnd (p / 100)" 1 "real (?n - 1)"] by simp_all
  let ?r = "rnd ?x"
  have r: "fl ?x = Fin ?r" "0 \<le> ?r" "?r \<le> real (?n - 1)"
    using fl_nat_in_range [OF x] assms(2) by auto
  have "\<lfloor>?r\<rfloor> \<le> int (?n - 1)" "\<lceil>?r\<rceil> \<le> int (?n - 1)" "0 \<le> \<lfloor>?r\<rfloor>" "0 \<le> \<lceil>?r\<rceil>"
    using r(2,3) by (auto simp: ceiling_le_iff floor_le_iff le_floor_iff)
  then have i: "nat \<lfloor>?r\<rfloor> < ?n" "nat \<lceil>?r\<rceil> < ?n" using n by linarith+
  have "divide (Fin p) (Fin 100) * (f_of_nat ?n - 1) = Fin ?r"
    using r(1) by (simp add: m f64_arith c(1))
  with i assms(1) show ?thesis
    by (auto simp: percentile_def Let_def nth_checked_def min_def split: if_splits)
qed

lemma sort_partial_sorted:
  "\<forall>x \<in> set xs. x \<noteq> NaN \<Longrightarrow> sorted_wrt (\<le>) (sort_by f_partial_cmp xs)"
  by (rule f_cmp.sort_by_sorted) simp

lemma sorted_wrt_ends:
  assumes "sorted_wrt (\<le>) xs" "(x :: f64) \<in> set xs" "\<forall>y \<in> set xs. y \<noteq> NaN"
  shows "hd xs \<le> x \<and> x \<le> last xs"
proof -
  obtain ys zs where xs: "xs = ys @ x # zs" using split_list [OF assms(2)] by blast
  have "x \<le> x" using assms(2,3) by (intro f64_le_refl) auto
  moreover have "\<forall>y \<in> set ys. y \<le> x" "\<forall>z \<in> set zs. x \<le> z"
    using assms(1) by (auto simp: xs sorted_wrt_append)
  ultimately show ?thesis
    by (cases ys; cases zs rule: rev_cases) (auto simp: xs)
qed

section \<open>Windows\<close>

interpretation window: bounded_history "sample_queue i" "add_sample i" at_max_samples for i
  by unfold_locales (simp_all add: sample_queue_def add_sample_def)

lemma sample_queue_other: "j \<noteq> i \<Longrightarrow> hm_get (at_samples (add_sample i x t)) j = hm_get (at_samples t) j"
  by (simp add: add_sample_def hm_simps)

lemma add_samples_present:
  "xs \<noteq> [] \<Longrightarrow> hm_get (at_samples (fold (add_sample i) xs t)) i = Some (sample_queue i (fold (add_sample i) xs t))"
proof (induction xs arbitrary: t)
  case (Cons x xs)
  then show ?case by (cases "xs = []") (simp_all add: add_sample_def sample_queue_def)
qed simp

interpretation rating_cmp: key_comparison
  "\<lambda>a b. nat_cmp (rating_rank (reliability_rating a)) (rating_rank (reliability_rating b))"
  "\<lambda>a b. rating_rank (reliability_rating a) \<le> rating_rank (reliability_rating b)" "\<lambda>_. True"
  by unfold_locales (auto simp: nat_cmp_def)

section \<open>Properties\<close>

text \<open>The statistics of a non-empty list of numbers never panic (every percentile index is in
  bounds); the minimum and the maximum are values of the list and bound all of them, and the
  count is the length.\<close>

theorem metric_compute_extremes:
  assumes "vals \<noteq> []" "\<forall>x \<in> set vals. x \<noteq> NaN" "length vals \<le> 2 ^ 53"
  shows "\<exists>st. metric_compute vals = Some st \<and> st_sample_count st = length vals
    \<and> st_min st \<in> set vals \<and> st_max st \<in> set vals \<and> (\<forall>x \<in> set vals. st_min st \<le> x \<and> x \<le> st_max st)"
proof -
  let ?s = "sort_by f_partial_cmp vals"
  have ne: "?s \<noteq> []" using assms(1) by simp
  have p: "\<exists>x. percentile ?s (Fin 50) = Some x" "\<exists>x. percentile ?s (Fin 95) = Some x"
    "\<exists>x. percentile ?s (Fin 99) = Some x"
    using percentile_defined [OF ne] assms(3) by auto
  have ends: "nth_checked ?s 0 = Some (hd ?s)" "nth_checked ?s (length ?s - 1) = Some (last ?s)"
    using ne by (simp_all add: nth_checked_def hd_conv_nth last_conv_nth)
  have "hd ?s \<in> set vals" "last ?s \<in> set vals"
    using hd_in_set [OF ne] last_in_set [OF ne] by simp_all
  moreover have "\<forall>x \<in> set vals. hd ?s \<le> x \<and> x \<le> last ?s"
    using sorted_wrt_ends [OF sort_partial_sorted [OF assms(2)]] assms(2) by simp
  ultimately show ?thesis
    using p ends assms(1) by (auto simp: metric_compute_def Let_def)
qed

theorem metric_compute_extremes_witness:
  "\<exists>st. metric_compute [Fin 3, Fin 1, Fin 2] = Some st \<and> st_sample_count st = 3
     \<and> st_min st \<le> Fin 1 \<and> Fin 3 \<le> st_max st"
  using metric_compute_extremes [of "[Fin 3, Fin 1, Fin 2]"] by auto

text \<open>The tracker keeps exactly the newest samples: after any sequence of readings of one
  interface, starting without samples of it, its analysis is the analysis of the last
  \<open>max_samples\<close> readings, and the other interfaces are untouched.\<close>

theorem tracker_analyzes_window:
  assumes "hm_get (at_samples t) i = None" "xs \<noteq> []"
  shows "analyze now j (fold (add_sample i) xs t)
      = (if j = i then map_option Some (from_samples now i (drop (length xs - at_max_samples t) xs))
         else analyze now j t)"
proof (cases "j = i")
  case True
  have "sample_queue i t = []" using assms(1) by (simp add: sample_queue_def)
  with window.fold_push_view [of i t xs]
  have "sample_queue i (fold (add_sample i) xs t) = drop (length xs - at_max_samples t) xs" by simp
  then show ?thesis using True by (simp add: analyze_def add_samples_present [OF assms(2)])
next
  case False
  then have "hm_get (at_samples (fold (add_sample i) xs t)) j = hm_get (at_samples t) j"
    by (induction xs arbitrary: t) (simp_all add: sample_queue_other)
  then show ?thesis using False by (simp add: analyze_def)
qed

definition sample_at :: "int \<Rightarrow> real \<Rightarrow> health_sample" where
  "sample_at t x = \<lparr>sm_timestamp = t, sm_overall = Fin x, sm_rtt = Fin x, sm_jitter = Fin x, sm_loss = Fin x,
     sm_throughput = Fin x, sm_stability = Fin x\<rparr>"

theorem tracker_analyzes_window_witness:
  "analyze 9 ''eth0'' (fold (add_sample ''eth0'') [sample_at 1 90, sample_at 2 80, sample_at 3 70] (analytics_tracker_new 2))
    = map_option Some (from_samples 9 ''eth0'' [sample_at 2 80, sample_at 3 70])"
  using tracker_analyzes_window [of "analytics_tracker_new 2" "''eth0''"
      "[sample_at 1 90, sample_at 2 80, sample_at 3 70]" 9 "''eth0''"]
  by (simp add: analytics_tracker_new_def)

text \<open>The best interface of a report has the highest rating, in the order excellent, good,
  fair, poor, unknown, and there is one unless the report is empty.\<close>

theorem best_interface_highest:
  "case best_interface r of
     None \<Rightarrow> pr_interfaces r = []
   | Some a \<Rightarrow> a \<in> set (pr_interfaces r)
       \<and> (\<forall>b \<in> set (pr_interfaces r). rating_rank (reliability_rating b) \<le> rating_rank (reliability_rating a))"
  using rating_cmp.max_by_in rating_cmp.max_by_greatest
  by (auto simp: best_interface_def split: option.split)

section \<open>Reports of interleaved samples\<close>

text \<open>The readings arrive interleaved, each under the name of its interface.\<close>

definition add_samples :: "(string \<times> health_sample) list \<Rightarrow> analytics_tracker \<Rightarrow> analytics_tracker" where
  "add_samples evs t = fold (\<lambda>(i, s). add_sample i s) evs t"

definition samples_of :: "string \<Rightarrow> (string \<times> health_sample) list \<Rightarrow> health_sample list" where
  "samples_of i evs = List.map snd (filter (\<lambda>e. fst e = i) evs)"

lemma add_samples_snoc: "add_samples (evs @ [(j, s)]) t = add_sample j s (add_samples evs t)"
  by (simp add: add_samples_def)

lemma add_samples_max [simp]: "at_max_samples (add_samples evs t) = at_max_samples t"
  by (induction evs rule: rev_induct) (auto simp: add_samples_snoc add_sample_def, simp add: add_samples_def)

lemma sample_queue_push:
  "sample_queue i (add_sample j s t) = (if j = i then push_bounded (at_max_samples t) s (sample_queue i t) else sample_queue i t)"
  by (simp add: sample_queue_def add_sample_def hm_simps)

lemma add_samples_queue: "sample_queue i (add_samples evs t) = sample_queue i (fold (add_sample i) (samples_of i evs) t)"
proof (induction evs rule: rev_induct)
  case (snoc e evs)
  show ?case
    using snoc window.fold_push_cap [of i "samples_of i evs" t]
    by (cases e) (auto simp: add_samples_snoc sample_queue_push samples_of_def)
qed (simp add: add_samples_def samples_of_def)

lemma add_samples_window:
  "sample_queue i (add_samples evs (analytics_tracker_new n)) = drop (length (samples_of i evs) - n) (samples_of i evs)"
proof -
  have "sample_queue i (analytics_tracker_new n) = []" by (simp add: analytics_tracker_new_def sample_queue_def)
  then show ?thesis
    using window.fold_push_view [of i "analytics_tracker_new n" "samples_of i evs"]
    by (simp add: add_samples_queue analytics_tracker_new_def)
qed

lemma add_samples_keys:
  "hm_ok (at_samples (add_samples evs (analytics_tracker_new n)))
    \<and> set (hm_keys (at_samples (add_samples evs (analytics_tracker_new n)))) = fst ` set evs"
proof (induction evs rule: rev_induct)
  case (snoc e evs)
  then show ?case by (cases e) (simp add: add_samples_snoc add_sample_def hm_ok_insert hm_keys_insert del: set_map)
qed (simp add: add_samples_def analytics_tracker_new_def hm_ok_def)

lemma metric_compute_defined: "length vals \<le> 2 ^ 53 \<Longrightarrow> metric_compute vals \<noteq> None"
proof (cases "vals = []")
  case False
  assume "length vals \<le> 2 ^ 53"
  with False have "percentile (sort_by f_partial_cmp vals) (Fin p) \<noteq> None" if "0 \<le> p" "p \<le> 100" for p
    using percentile_defined [of "sort_by f_partial_cmp vals" p] that by simp
  from this [of 50] this [of 95] this [of 99] False show ?thesis
    by (auto simp: metric_compute_def Let_def nth_checked_def)
qed (simp add: metric_compute_def)

lemma from_samples_defined:
  assumes "length ss \<le> 2 ^ 53"
  shows "\<exists>a. from_samples now i ss = Some a \<and> an_interface a = i \<and> an_sample_count a = length ss"
proof -
  have "\<exists>st. metric_compute (List.map f ss) = Some st" for f
    using metric_compute_defined [of "List.map f ss"] assms by auto
  then obtain st where "\<And>f. metric_compute (List.map f ss) = Some (st f)" by metis
  then show ?thesis by (simp add: from_samples_def)
qed

lemma those_Some: "those (List.map (\<lambda>x. Some (f x)) xs) = Some (List.map f xs)"
  by (induction xs) simp_all

lemma from_samples_health:
  assumes "from_samples now i ss = Some a" "\<forall>s \<in> set ss. sm_overall s \<noteq> NaN" "length ss \<le> 2 ^ 53"
  shows "\<forall>s \<in> set ss. st_min (an_health a) \<le> sm_overall s \<and> sm_overall s \<le> st_max (an_health a)"
proof (cases "ss = []")
  case False
  then have "metric_compute (List.map sm_overall ss) = Some (an_health a)"
    using assms(1) by (auto simp: from_samples_def split: Option.bind_splits)
  with metric_compute_extremes [of "List.map sm_overall ss"] False assms(2,3) show ?thesis by auto
qed simp

text \<open>None of the values is not-a-number. (With one the comparison that \<^verbatim>\<open>sort_by\<close> is given is no total
  order, on which the library is free to panic.)\<close>

definition sample_numbers :: "health_sample \<Rightarrow> bool" where
  "sample_numbers s \<longleftrightarrow> sm_overall s \<noteq> NaN \<and> sm_rtt s \<noteq> NaN \<and> sm_jitter s \<noteq> NaN \<and> sm_loss s \<noteq> NaN
     \<and> sm_throughput s \<noteq> NaN \<and> sm_stability s \<noteq> NaN"

text \<open>C19: a report after any interleaving of samples. From an empty tracker whose windows hold at
  most 2^53 samples, fed with values that are numbers, the report never panics; it
  has exactly one entry for every interface that was sampled and none for another one. Each
  entry is the analysis of the newest \<open>n\<close> samples of its own interface, in their order, with
  their number as its count, and its minimum and maximum bound the health of each of them.\<close>

theorem report_covers_windows:
  assumes "n \<le> 2 ^ 53" "list_all (\<lambda>e. sample_numbers (snd e)) evs"
  shows "\<exists>r. generate_report now (add_samples evs (analytics_tracker_new n)) = Some r
    \<and> pr_generated_at r = now
    \<and> distinct (List.map an_interface (pr_interfaces r))
    \<and> an_interface ` set (pr_interfaces r) = fst ` set evs
    \<and> (\<forall>a. a \<in> set (pr_interfaces r) \<longrightarrow>
         (let window = drop (length (samples_of (an_interface a) evs) - n) (samples_of (an_interface a) evs)
          in an_sample_count a = length window \<and> from_samples now (an_interface a) window = Some a
             \<and> list_all (\<lambda>s. st_min (an_health a) \<le> sm_overall s \<and> sm_overall s \<le> st_max (an_health a)) window))"
proof -
  let ?t = "add_samples evs (analytics_tracker_new n)"
  let ?win = "\<lambda>i. drop (length (samples_of i evs) - n) (samples_of i evs)"
  have win_len: "length (?win i) \<le> 2 ^ 53" for i using assms(1) by simp
  then have an_ex: "\<exists>a. from_samples now i (?win i) = Some a \<and> an_interface a = i \<and> an_sample_count a = length (?win i)" for i
    by (rule from_samples_defined)
  define an where "an i = the (from_samples now i (?win i))" for i
  have an: "from_samples now i (?win i) = Some (an i)" "an_interface (an i) = i" "an_sample_count (an i) = length (?win i)" for i
    using an_ex [of i] by (auto simp: an_def)
  have "analyze now i ?t = Some (Some (an i))" if "i \<in> set (hm_keys (at_samples ?t))" for i
  proof -
    have "hm_get (at_samples ?t) i \<noteq> None" using that by (simp only: map_of_eq_None_iff) simp
    then obtain q where q: "hm_get (at_samples ?t) i = Some q" by blast
    then have "q = ?win i" using add_samples_window [of i evs n] by (simp add: sample_queue_def)
    with q an show ?thesis by (simp add: analyze_def)
  qed
  then have "List.map (\<lambda>i. analyze now i ?t) (hm_keys (at_samples ?t)) = List.map (\<lambda>i. Some (Some (an i))) (hm_keys (at_samples ?t))"
    by (simp only: map_eq_conv) simp
  then have rep: "generate_report now ?t = Some \<lparr>pr_interfaces = List.map an (hm_keys (at_samples ?t)), pr_generated_at = now\<rparr>"
    unfolding generate_report_def by (simp only: those_Some) (simp add: List.map_filter_def comp_def)
  define ks where "ks = hm_keys (at_samples ?t)"
  have ks: "distinct ks" "set ks = fst ` set evs" using add_samples_keys [of evs n] by (simp_all add: ks_def hm_ok_def)
  have "List.map an_interface (List.map an ks) = ks" by (simp add: an(2) comp_def)
  then have names: "distinct (List.map an_interface (List.map an ks))" "an_interface ` set (List.map an ks) = fst ` set evs"
    using ks by (simp_all only: set_map [symmetric])
  have nums: "\<forall>s \<in> set (?win i). sm_overall s \<noteq> NaN" for i
    using assms(2) by (auto simp: samples_of_def list_all_iff sample_numbers_def dest!: in_set_dropD)
  have "an_sample_count a = length (?win (an_interface a)) \<and> from_samples now (an_interface a) (?win (an_interface a)) = Some a"
    if "a \<in> set (List.map an ks)" for a
    using that an by auto
  moreover from this have "\<forall>s \<in> set (?win (an_interface a)). st_min (an_health a) \<le> sm_overall s \<and> sm_overall s \<le> st_max (an_health a)"
    if "a \<in> set (List.map an ks)" for a
    using from_samples_health [OF _ nums win_len] that by blast
  ultimately show ?thesis
    using names rep [folded ks_def] by (simp add: list_all_iff Let_def)
qed

theorem report_covers_windows_witness:
  "\<exists>r. generate_report 9 (add_samples [(''eth0'', sample_at 1 90), (''wlan0'', sample_at 2 40), (''eth0'', sample_at 3 80),
        (''eth0'', sample_at 4 70)] (analytics_tracker_new 2)) = Some r
     \<and> an_interface ` set (pr_interfaces r) = {''eth0'', ''wlan0''}"
  using report_covers_windows [of 2 "[(''eth0'', sample_at 1 90), (''wlan0'', sample_at 2 40), (''eth0'', sample_at 3 80),
        (''eth0'', sample_at 4 70)]" 9]
  by (auto simp: sample_numbers_def sample_at_def)

end
