(* ===== verification/Predictive.thy ===== *)
theory Predictive
  imports Shared_Types NF_Process
begin

text \<open>
  \<^verbatim>\<open>crates/netfusion-core/src/intelligence/predictive.rs\<close>: trend analysis of health scores by
  linear regression, acceleration and z-score, combined into a failure prediction. The
  product \<^verbatim>\<open>recent_window * 4\<close> is taken without bound: it exceeds \<open>usize\<close> only for windows of
  \<open>2^62\<close> samples.
\<close>

section \<open>Predictions\<close>

datatype severity = SevNone | SevLow | SevMedium | SevHigh | SevCritical

fun severity_rank :: "severity \<Rightarrow> nat" where
  "severity_rank SevNone = 0"
| "severity_rank SevLow = 1"
| "severity_rank SevMedium = 2"
| "severity_rank SevHigh = 3"
| "severity_rank SevCritical = 4"

text \<open>The derived order of the enumeration.\<close>

instantiation severity :: linorder
begin

definition less_eq_severity :: "severity \<Rightarrow> severity \<Rightarrow> bool" where
  "less_eq_severity a b \<longleftrightarrow> severity_rank a \<le> severity_rank b"

definition less_severity :: "severity \<Rightarrow> severity \<Rightarrow> bool" where
  "less_severity a b \<longleftrightarrow> severity_rank a < severity_rank b"

instance
proof
  fix x y z :: severity
  show "x < y \<longleftrightarrow> x \<le> y \<and> \<not> y \<le> x" by (auto simp: less_severity_def less_eq_severity_def)
  show "x \<le> x" by (simp add: less_eq_severity_def)
  show "x \<le> y \<Longrightarrow> y \<le> z \<Longrightarrow> x \<le> z" by (simp add: less_eq_severity_def)
  show "x \<le> y \<Longrightarrow> y \<le> x \<Longrightarrow> x = y"
    by (cases x; cases y) (simp_all add: less_eq_severity_def)
  show "x \<le> y \<or> y \<le> x" by (auto simp: less_eq_severity_def)
qed

end

datatype prediction_reason = Stable | DownwardTrend | AcceleratingDegradation | Anomaly | MultiIndicator

record failure_prediction =
  fp_interface :: string
  fp_time_to_failure :: "f64 option"
  fp_confidence :: f64
  fp_severity :: severity
  fp_reason :: prediction_reason

definition should_act :: "f64 \<Rightarrow> failure_prediction \<Rightarrow> bool" where
  "should_act threshold p \<longleftrightarrow> threshold \<le> fp_confidence p \<and> fp_severity p \<noteq> SevNone"

section \<open>Regression\<close>

record data_point =
  dp_time :: f64
  dp_value :: f64

record regression_result =
  rr_slope :: f64
  rr_intercept :: f64
  rr_r_squared :: f64

definition tiny :: f64 where
  "tiny = fl (1 / 10 ^ 10)"

definition linear_regression :: "data_point list \<Rightarrow> regression_result option" where
  "linear_regression points =
     (if length points < 3 then None
      else
        (let n = f_of_nat (length points);
             sum_x = f_sum (List.map dp_time points);
             sum_y = f_sum (List.map dp_value points);
             sum_xy = f_sum (List.map (\<lambda>p. dp_time p * dp_value p) points);
             sum_x2 = f_sum (List.map (\<lambda>p. dp_time p * dp_time p) points);
             denom = n * sum_x2 - sum_x * sum_x
         in if f_abs denom < tiny then None
            else
              (let slope = divide (n * sum_xy - sum_x * sum_y) denom;
                   intercept = divide (sum_y - slope * sum_x) n;
                   mean_y = divide sum_y n;
                   ss_tot = f_sum (List.map (\<lambda>p. f_square (dp_value p - mean_y)) points);
                   ss_res = f_sum (List.map (\<lambda>p. f_square (dp_value p - (slope * dp_time p + intercept))) points);
                   r_squared = (if f_abs ss_tot < tiny then 1 else 1 - divide ss_res ss_tot)
               in Some \<lparr>rr_slope = slope, rr_intercept = intercept, rr_r_squared = r_squared\<rparr>)))"

definition z_score :: "f64 \<Rightarrow> f64 \<Rightarrow> f64 \<Rightarrow> f64" where
  "z_score value mean stddev = (if stddev < tiny then 0 else divide (value - mean) stddev)"

section \<open>The engine\<close>

record predictive_engine =
  pe_min_samples :: nat
  pe_action_threshold :: f64
  pe_recent_window :: nat
  pe_history :: "(string, data_point list) hmap"

definition predictive_engine_new :: "nat \<Rightarrow> f64 \<Rightarrow> nat \<Rightarrow> predictive_engine" where
  "predictive_engine_new min_samples action_threshold recent_window =
     \<lparr>pe_min_samples = min_samples, pe_action_threshold = action_threshold,
      pe_recent_window = recent_window, pe_history = []\<rparr>"

definition predictive_engine_default :: predictive_engine where
  "predictive_engine_default = predictive_engine_new 10 (fl (6 / 10)) 30"

definition point_queue :: "string \<Rightarrow> predictive_engine \<Rightarrow> data_point list" where
  "point_queue interface e = (case hm_get (pe_history e) interface of None \<Rightarrow> [] | Some q \<Rightarrow> q)"

definition next_time :: "data_point list \<Rightarrow> f64" where
  "next_time entry = (if entry = [] then 0 else dp_time (last entry) + Fin 5)"

definition add_reading :: "string \<Rightarrow> f64 \<Rightarrow> predictive_engine \<Rightarrow> predictive_engine" where
  "add_reading interface score e =
     (let entry = point_queue interface e
      in e\<lparr>pe_history := hm_insert interface
             (push_bounded (pe_recent_window e * 4) \<lparr>dp_time = next_time entry, dp_value = score\<rparr> entry)
             (pe_history e)\<rparr>)"

record trend_analysis =
  ta_slope :: f64
  ta_r_squared :: f64
  ta_current_value :: f64
  ta_time_to_critical :: "f64 option"
  ta_is_degrading :: bool

definition trend_default :: trend_analysis where
  "trend_default = \<lparr>ta_slope = 0, ta_r_squared = 0, ta_current_value = 0, ta_time_to_critical = None,
     ta_is_degrading = False\<rparr>"

definition analyze_trend :: "data_point list \<Rightarrow> trend_analysis" where
  "analyze_trend points =
     (case linear_regression points of
        None \<Rightarrow> trend_default
      | Some reg \<Rightarrow>
          (let current_time = (if points = [] then 0 else dp_time (last points));
               current_value = (if points = [] then 0 else dp_value (last points));
               time_to_critical =
                 (if rr_slope reg < fl (- 1 / 100) then
                    (let t = divide (Fin 20 - rr_intercept reg) (rr_slope reg);
                         seconds_from_now = t - current_time
                     in if 0 < seconds_from_now then Some seconds_from_now else Some 0)
                  else None)
           in \<lparr>ta_slope = rr_slope reg, ta_r_squared = rr_r_squared reg, ta_current_value = current_value,
               ta_time_to_critical = time_to_critical,
               ta_is_degrading = (rr_slope reg < fl (- 1 / 100) \<and> Fin (1 / 2) < rr_r_squared reg)\<rparr>))"

definition detect_acceleration :: "data_point list \<Rightarrow> bool" where
  "detect_acceleration points =
     (if length points < 10 then False
      else
        (let mid = length points div 2
         in case (linear_regression (take mid points), linear_regression (drop mid points)) of
              (Some r1, Some r2) \<Rightarrow> rr_slope r2 < rr_slope r1 \<and> rr_slope r2 < fl (- 2 / 100)
            | _ \<Rightarrow> False))"

definition detect_anomalies :: "data_point list \<Rightarrow> f64" where
  "detect_anomalies points =
     (if length points < 10 then 0
      else
        (let vals = List.map dp_value points;
             mean = divide (f_sum vals) (f_of_nat (length vals));
             stddev = f_sqrt (divide (f_sum (List.map (\<lambda>v. f_square (v - mean)) vals)) (f_of_nat (length vals)));
             z = f_abs (z_score (last vals) mean stddev)
         in if Fin 2 < z then z else 0))"

text \<open>The accumulated confidence, severity and reason, indicator by indicator.\<close>

definition trend_indicator ::
  "trend_analysis \<Rightarrow> f64 \<times> severity \<times> prediction_reason" where
  "trend_indicator trend =
     (if ta_is_degrading trend then
        (0 + ta_r_squared trend * Fin (1 / 2),
         if ta_slope trend < fl (- 1 / 10) then SevHigh else SevMedium, DownwardTrend)
      else (0, SevNone, Stable))"

text \<open>A further indicator, when it holds, adds its confidence, raises the severity and gives its reason.\<close>

definition add_indicator ::
  "bool \<Rightarrow> f64 \<Rightarrow> severity \<Rightarrow> prediction_reason \<Rightarrow> f64 \<times> severity \<times> prediction_reason
     \<Rightarrow> f64 \<times> severity \<times> prediction_reason" where
  "add_indicator holds weight level why acc =
     (case acc of (confidence, severity, reason) \<Rightarrow>
        if holds then (confidence + weight, max severity level, why) else (confidence, severity, reason))"

definition combine_indicators ::
  "string \<Rightarrow> trend_analysis \<Rightarrow> bool \<Rightarrow> f64 \<Rightarrow> failure_prediction" where
  "combine_indicators interface trend accelerating anomaly_score =
     (let acc = trend_indicator trend;
          acc = add_indicator accelerating (fl (3 / 10)) SevHigh AcceleratingDegradation acc;
          (confidence, severity, reason) =
            add_indicator (Fin 3 < anomaly_score) (fl (4 / 10)) SevMedium Anomaly acc;
          (severity, reason) =
            (if fl (6 / 10) < confidence \<and> (ta_is_degrading trend \<or> accelerating) \<and> Fin 2 < anomaly_score
             then (max severity SevCritical, MultiIndicator) else (severity, reason))
      in \<lparr>fp_interface = interface, fp_time_to_failure = ta_time_to_critical trend,
          fp_confidence = f_min confidence 1, fp_severity = severity, fp_reason = reason\<rparr>)"

definition stable_prediction :: "string \<Rightarrow> failure_prediction" where
  "stable_prediction interface = \<lparr>fp_interface = interface, fp_time_to_failure = None, fp_confidence = 0,
     fp_severity = SevNone, fp_reason = Stable\<rparr>"

definition predict :: "string \<Rightarrow> predictive_engine \<Rightarrow> failure_prediction" where
  "predict interface e =
     (case hm_get (pe_history e) interface of
        None \<Rightarrow> stable_prediction interface
      | Some points \<Rightarrow>
          (if length points < pe_min_samples e then stable_prediction interface
           else
             (let recent = drop (length points - pe_recent_window e) points
              in combine_indicators interface (analyze_trend recent) (detect_acceleration recent)
                   (detect_anomalies points))))"

definition analyze_all :: "predictive_engine \<Rightarrow> failure_prediction list" where
  "analyze_all e = List.map (\<lambda>iface. predict iface e) (hm_keys (pe_history e))"

definition clear_history :: "string \<Rightarrow> predictive_engine \<Rightarrow> predictive_engine" where
  "clear_history interface e = e\<lparr>pe_history := hm_remove interface (pe_history e)\<rparr>"

definition clear_all_history :: "predictive_engine \<Rightarrow> predictive_engine" where
  "clear_all_history e = e\<lparr>pe_history := []\<rparr>"

section \<open>The history\<close>

lemma map_push_bounded: "List.map f (push_bounded cap x q) = push_bounded cap (f x) (List.map f q)"
  by (simp add: push_bounded_def pop_until_eq_drop drop_map drop_Cons')

interpretation history: bounded_history
  "\<lambda>e. List.map dp_value (point_queue i e)" "add_reading i" "\<lambda>e. pe_recent_window e * 4" for i
  by unfold_locales (simp_all add: point_queue_def add_reading_def Let_def map_push_bounded)

lemma add_reading_queue:
  "point_queue i (add_reading i x e) =
     push_bounded (pe_recent_window e * 4) \<lparr>dp_time = next_time (point_queue i e), dp_value = x\<rparr> (point_queue i e)"
  by (simp add: add_reading_def point_queue_def Let_def)

lemma add_reading_other: "j \<noteq> i \<Longrightarrow> hm_get (pe_history (add_reading i x e)) j = hm_get (pe_history e) j"
  by (simp add: add_reading_def Let_def hm_simps)

lemma add_readings_present:
  "xs \<noteq> [] \<Longrightarrow> hm_get (pe_history (fold (add_reading i) xs e)) i = Some (point_queue i (fold (add_reading i) xs e))"
proof (induction xs arbitrary: e)
  case (Cons x xs)
  then show ?case by (cases "xs = []") (simp_all add: add_reading_def point_queue_def Let_def)
qed simp

lemma fold_window: "pe_recent_window (fold (add_reading i) xs e) = pe_recent_window e
    \<and> pe_min_samples (fold (add_reading i) xs e) = pe_min_samples e"
  by (induction xs arbitrary: e) (simp_all add: add_reading_def Let_def)

text \<open>The points of a sequence of readings, five seconds apart from zero.\<close>

definition points_of :: "f64 list \<Rightarrow> data_point list" where
  "points_of xs = List.map (\<lambda>i. \<lparr>dp_time = Fin (real (5 * i)), dp_value = xs ! i\<rparr>) [0..<length xs]"

lemma length_points_of [simp]: "length (points_of xs) = length xs"
  by (simp add: points_of_def)

lemma points_of_snoc:
  "points_of (xs @ [x]) = points_of xs @ [\<lparr>dp_time = Fin (real (5 * length xs)), dp_value = x\<rparr>]"
  by (simp add: points_of_def nth_append)

lemma queue_of_readings:
  assumes "point_queue i e = []" "length xs \<le> 2 ^ 50" "0 < pe_recent_window e"
  shows "point_queue i (fold (add_reading i) xs e) = drop (length xs - pe_recent_window e * 4) (points_of xs)"
  using assms(2)
proof (induction xs rule: rev_induct)
  case Nil
  then show ?case using assms(1) by (simp add: points_of_def)
next
  case (snoc x xs)
  let ?c = "pe_recent_window e * 4" and ?q = "drop (length xs - pe_recent_window e * 4) (points_of xs)"
  have q: "point_queue i (fold (add_reading i) xs e) = ?q" using snoc by simp
  have t: "next_time ?q = Fin (real (5 * length xs))"
  proof (cases xs rule: rev_cases)
    case Nil
    then show ?thesis by (simp add: next_time_def points_of_def f64_consts)
  next
    case (snoc ys y)
    have "?q \<noteq> []" "last ?q = \<lparr>dp_time = Fin (real (5 * length ys)), dp_value = y\<rparr>"
      using assms(3) by (simp_all add: snoc last_drop points_of_snoc)
    moreover have "fl (real (5 * length ys) + 5) = Fin (real (5 * length xs))"
      using fl_of_nat [of "5 * length xs"] snoc.prems \<open>length (xs @ [x]) \<le> 2 ^ 50\<close> by (simp add: snoc add.commute)
    ultimately show ?thesis by (simp add: next_time_def f64_arith)
  qed
  have "point_queue i (fold (add_reading i) (xs @ [x]) e)
      = push_bounded ?c \<lparr>dp_time = next_time ?q, dp_value = x\<rparr> ?q"
    using add_reading_queue [of i x "fold (add_reading i) xs e"] q fold_window [of i xs e] by simp
  also have "\<dots> = drop (length (xs @ [x]) - ?c) (points_of (xs @ [x]))"
    unfolding t by (cases "length xs \<le> ?c")
      (simp_all add: push_bounded_def pop_until_eq_drop points_of_snoc Suc_diff_le)
  finally show ?case .
qed

section \<open>Flat data\<close>

lemma f_sum_nat:
  "sum_list (List.map g is) \<le> 2 ^ 53 \<Longrightarrow> f_sum (List.map (\<lambda>i. Fin (real (g i))) is) = Fin (real (sum_list (List.map g is)))"
proof (induction "is" rule: rev_induct)
  case Nil
  then show ?case by (simp add: f_sum_def f64_consts)
next
  case (snoc x xs)
  then have "f_sum (List.map (\<lambda>i. Fin (real (g i))) xs) = Fin (real (sum_list (List.map g xs)))" by simp
  with snoc.prems fl_of_nat [of "sum_list (List.map g xs) + g x"] show ?case
    by (simp add: f_sum_def f64_arith)
qed

definition flat :: "nat \<Rightarrow> nat list \<Rightarrow> data_point list" where
  "flat c is = List.map (\<lambda>i. \<lparr>dp_time = Fin (real (5 * i)), dp_value = Fin (real c)\<rparr>) is"

lemma sum_list_le: "\<forall>i \<in> set is. g i \<le> (b :: nat) \<Longrightarrow> sum_list (List.map g is) \<le> length is * b"
  by (induction "is") auto

definition small_times :: "nat list \<Rightarrow> bool" where
  "small_times is \<longleftrightarrow> length is \<le> 120 \<and> (\<forall>i \<in> set is. i \<le> 10 ^ 8)"

lemma flat_sums:
  fixes c :: nat and "is" :: "nat list"
  assumes "c \<le> 100" "small_times is"
  shows "f_of_nat (length (flat c is)) = Fin (real (length is))"
    "f_sum (List.map dp_time (flat c is)) = Fin (real (sum_list (List.map (\<lambda>i. 5 * i) is)))"
    "f_sum (List.map dp_value (flat c is)) = Fin (real (length is * c))"
    "f_sum (List.map (\<lambda>p. dp_time p * dp_value p) (flat c is)) = Fin (real (sum_list (List.map (\<lambda>i. 5 * i) is) * c))"
    "length is * (sum_list (List.map (\<lambda>i. 5 * i) is) * c) \<le> 2 ^ 53"
proof -
  let ?X = "sum_list (List.map (\<lambda>i. 5 * i) is)" and ?m = "length is"
  have m: "?m \<le> 120" and X: "?X \<le> 120 * (5 * 10 ^ 8)"
    using assms(2) sum_list_le [of "is" "\<lambda>i. 5 * i" "5 * 10 ^ 8"]
    by (auto simp: small_times_def intro: order_trans [OF _ mult_right_mono])
  have mc: "?m * c \<le> 120 * 100" using m assms(1) by (intro mult_mono) auto
  have xc: "?X * c \<le> 120 * (5 * 10 ^ 8) * 100" using X assms(1) by (intro mult_mono) auto
  have mxc: "?m * (?X * c) \<le> 120 * (120 * (5 * 10 ^ 8) * 100)" using mult_le_mono [OF m xc] by simp
  have sx: "f_sum (List.map dp_time (flat c is)) = Fin (real ?X)"
    using f_sum_nat [of "\<lambda>i. 5 * i" "is"] X by (simp add: flat_def comp_def)
  have cs: "sum_list (List.map (\<lambda>i. c) is) = ?m * c" by (induction "is") auto
  have sy: "f_sum (List.map dp_value (flat c is)) = Fin (real (?m * c))"
    using f_sum_nat [of "\<lambda>i. c" "is"] mc unfolding cs by (simp add: flat_def comp_def)
  have p: "Fin (real (5 * i)) * Fin (real c) = Fin (real (5 * i * c))" if "i \<in> set is" for i
  proof -
    have "5 * i * c \<le> 5 * 10 ^ 8 * 100"
      using assms(1,2) that by (intro mult_mono) (auto simp: small_times_def)
    then have "5 * i * c \<le> 2 ^ 53" by (rule order_trans) simp
    from fl_of_nat [OF this] show ?thesis by (simp add: f64_arith)
  qed
  have "sum_list (List.map (\<lambda>i. 5 * i * c) is) = ?X * c"
    by (induction "is") (auto simp: algebra_simps)
  moreover have "List.map (\<lambda>p. dp_time p * dp_value p) (flat c is) = List.map (\<lambda>i. Fin (real (5 * i * c))) is"
    using p by (simp add: flat_def)
  ultimately have sxy: "f_sum (List.map (\<lambda>p. dp_time p * dp_value p) (flat c is)) = Fin (real (?X * c))"
    using f_sum_nat [of "\<lambda>i. 5 * i * c" "is"] xc by simp
  have n: "f_of_nat (length (flat c is)) = Fin (real ?m)"
    using m by (simp add: flat_def f_of_nat_small)
  show "f_of_nat (length (flat c is)) = Fin (real ?m)" "f_sum (List.map dp_time (flat c is)) = Fin (real ?X)"
    "f_sum (List.map dp_value (flat c is)) = Fin (real (?m * c))"
    "f_sum (List.map (\<lambda>p. dp_time p * dp_value p) (flat c is)) = Fin (real (?X * c))"
    by (fact n sx sy sxy)+
  show "?m * (?X * c) \<le> 2 ^ 53" using mxc by simp
qed

lemma flat_regression:
  assumes "c \<le> 100" "small_times is" "linear_regression (flat c is) = Some r"
  shows "\<not> rr_slope r < fl (- 1 / 100) \<and> \<not> rr_slope r < fl (- 2 / 100)"
proof -
  let ?X = "sum_list (List.map (\<lambda>i. 5 * i) is)" and ?m = "length is"
  note sums = flat_sums [OF assms(1,2)]
  have "Fin (real ?m) * Fin (real (?X * c)) = Fin (real (?m * (?X * c)))"
    using fl_of_nat [of "?m * (?X * c)"] sums(5) by (simp add: f64_arith)
  moreover have "Fin (real ?X) * Fin (real (?m * c)) = Fin (real (?m * (?X * c)))"
    using fl_of_nat [of "?m * (?X * c)"] sums(5) by (simp add: f64_arith algebra_simps)
  ultimately have num: "f_of_nat (length (flat c is)) * f_sum (List.map (\<lambda>p. dp_time p * dp_value p) (flat c is))
      - f_sum (List.map dp_time (flat c is)) * f_sum (List.map dp_value (flat c is)) = Fin 0"
    unfolding sums(1-4) by (simp add: f64_arith)
  then obtain d where "rr_slope r = divide (Fin 0) d"
    using assms(3) by (auto simp: linear_regression_def Let_def split: if_splits)
  moreover have "divide (Fin 0) d \<in> {Fin 0, NaN}"
    by (cases d) (auto simp: f64_arith)
  moreover have "Fin 0 < fl (- 1 / 100) \<longleftrightarrow> False" "Fin 0 < fl (- 2 / 100) \<longleftrightarrow> False"
    using fl_mono [of "- 1 / 100" 0] fl_mono [of "- 2 / 100" 0] by (auto dest: f64_less_le_trans)
  ultimately show ?thesis by auto
qed

lemma analyze_trend_flat:
  assumes "c \<le> 100" "small_times is"
  shows "\<not> ta_is_degrading (analyze_trend (flat c is)) \<and> ta_time_to_critical (analyze_trend (flat c is)) = None"
  using flat_regression [OF assms]
  by (auto simp: analyze_trend_def trend_default_def Let_def split: option.split)

lemma flat_split:
  "take n (flat c is) = flat c (take n is)" "drop n (flat c is) = flat c (drop n is)"
  by (simp_all add: flat_def take_map drop_map)

lemma small_times_part:
  assumes "small_times is"
  shows "small_times (take n is)" "small_times (drop n is)"
  using assms by (auto simp: small_times_def dest: in_set_takeD in_set_dropD)

lemma detect_acceleration_flat:
  "c \<le> 100 \<Longrightarrow> small_times is \<Longrightarrow> \<not> detect_acceleration (flat c is)"
  using flat_regression [OF _ small_times_part(2)]
  by (auto simp: detect_acceleration_def Let_def flat_split split: option.split)

lemma f_sum_zeros: "f_sum (replicate n (Fin 0)) = Fin 0"
  by (induction n) (simp_all add: f_sum_def f64_consts f64_arith)

lemma detect_anomalies_flat:
  assumes "c \<le> 100" "small_times is"
  shows "detect_anomalies (flat c is) = Fin 0"
proof (cases "length is < 10")
  case True
  then show ?thesis by (simp add: detect_anomalies_def flat_def f64_consts)
next
  case False
  let ?m = "length is"
  have m: "0 < ?m" "?m \<le> 120" using False assms(2) by (auto simp: small_times_def)
  have vals: "List.map dp_value (flat c is) = replicate ?m (Fin (real c))"
    by (simp add: flat_def comp_def map_replicate_const)
  have mc: "?m * c \<le> 120 * 100" using m assms(1) by (intro mult_mono) auto
  have cs: "sum_list (List.map (\<lambda>i. c) is) = ?m * c" by (induction "is") auto
  have "f_sum (replicate ?m (Fin (real c))) = Fin (real (?m * c))"
    using f_sum_nat [of "\<lambda>i. c" "is"] mc unfolding cs by (simp add: map_replicate_const)
  moreover have "f_of_nat ?m = Fin (real ?m)" using m by (simp add: f_of_nat_small)
  moreover have "divide (Fin (real (?m * c))) (Fin (real ?m)) = Fin (real c)"
    using m fl_of_nat [of c] assms(1) by (simp add: f64_arith)
  moreover have "f_sum (replicate ?m (Fin 0)) = Fin 0" by (rule f_sum_zeros)
  ultimately show ?thesis
    using False m by (simp add: detect_anomalies_def Let_def vals f_square_def f64_arith f64_consts
        z_score_def map_replicate_const comp_def)
qed

section \<open>Confidence\<close>

lemma nonneg_add: "Fin 0 \<le> x \<Longrightarrow> Fin 0 \<le> y \<Longrightarrow> Fin 0 \<le> x + (y :: f64)"
  using fl_mono [of 0] by (cases x; cases y) (auto simp: f64_arith)

lemma fl_nonneg: "0 \<le> x \<Longrightarrow> Fin 0 \<le> fl x"
  using fl_mono [of 0 x] by simp

lemma half_nonneg: "Fin (1 / 2) < r \<Longrightarrow> Fin 0 \<le> r * Fin (1 / 2)"
  using fl_nonneg by (cases r) (auto simp: f64_arith)

lemma f_min_one: "Fin 0 \<le> x \<Longrightarrow> Fin 0 \<le> f_min x 1 \<and> f_min x 1 \<le> Fin 1"
  by (cases x) (auto simp: f_min_def f64_consts)

lemma trend_degrading:
  "ta_is_degrading (analyze_trend ps) \<Longrightarrow> Fin (1 / 2) < ta_r_squared (analyze_trend ps)"
  by (auto simp: analyze_trend_def trend_default_def Let_def split: option.splits)

lemma trend_time: "ta_time_to_critical (analyze_trend ps) = Some t \<Longrightarrow> Fin 0 \<le> t"
  by (auto simp: analyze_trend_def trend_default_def Let_def f64_consts f64_less_imp_le split: option.splits if_splits)

lemma severity_max_pos: "SevNone < s \<Longrightarrow> max a s \<noteq> SevNone"
  by (metis max.cobounded2 order.strict_trans2 less_irrefl)

lemma severities [simp]: "SevNone < SevMedium" "SevNone < SevHigh" "SevNone < SevCritical"
  by (simp_all add: less_severity_def)

text \<open>What the accumulated indicators keep.\<close>

definition sane :: "f64 \<times> severity \<times> prediction_reason \<Rightarrow> bool" where
  "sane acc = (case acc of (c, s, r) \<Rightarrow> Fin 0 \<le> c \<and> (s = SevNone \<longleftrightarrow> r = Stable) \<and> (r = Stable \<longrightarrow> c = 0))"

lemma sane_add:
  assumes "sane acc" "Fin 0 \<le> d" "SevNone < l" "why \<noteq> Stable"
  shows "sane (add_indicator h d l why acc)
    \<and> (snd (snd (add_indicator h d l why acc)) = Stable \<longleftrightarrow> \<not> h \<and> snd (snd acc) = Stable)"
  using assms by (auto simp: sane_def add_indicator_def severity_max_pos nonneg_add split: prod.splits)

lemma combine_sane:
  assumes "ta_is_degrading trend \<Longrightarrow> Fin (1 / 2) < ta_r_squared trend"
  shows "let p = combine_indicators i trend acc an in
    Fin 0 \<le> fp_confidence p \<and> fp_confidence p \<le> Fin 1
    \<and> (fp_reason p = Stable \<longleftrightarrow> \<not> ta_is_degrading trend \<and> \<not> acc \<and> \<not> Fin 3 < an)
    \<and> (fp_severity p = SevNone \<longleftrightarrow> fp_reason p = Stable)
    \<and> (fp_reason p = Stable \<longrightarrow> fp_confidence p = 0)
    \<and> fp_time_to_failure p = ta_time_to_critical trend"
proof -
  let ?t = "trend_indicator trend"
  have t: "sane ?t" "snd (snd ?t) = Stable \<longleftrightarrow> \<not> ta_is_degrading trend"
    using assms nonneg_add [OF _ half_nonneg, of "Fin 0"] by (auto simp: trend_indicator_def sane_def f64_consts)
  let ?a = "add_indicator acc (fl (3 / 10)) SevHigh AcceleratingDegradation ?t"
  have a: "sane ?a" "snd (snd ?a) = Stable \<longleftrightarrow> \<not> acc \<and> \<not> ta_is_degrading trend"
    using sane_add [OF t(1), of "fl (3 / 10)" SevHigh AcceleratingDegradation acc] t(2) by (auto simp: fl_nonneg)
  obtain c s r where b: "add_indicator (Fin 3 < an) (fl (4 / 10)) SevMedium Anomaly ?a = (c, s, r)"
    by (metis prod_cases3)
  then have c: "sane (c, s, r)" "r = Stable \<longleftrightarrow> \<not> Fin 3 < an \<and> \<not> acc \<and> \<not> ta_is_degrading trend"
    using sane_add [OF a(1), of "fl (4 / 10)" SevMedium Anomaly "Fin 3 < an"] a(2) by (auto simp: fl_nonneg)
  from c(1) f_min_one [of c] have "Fin 0 \<le> f_min c 1 \<and> f_min c 1 \<le> Fin 1" by (simp add: sane_def)
  with b c show ?thesis
    by (auto simp: combine_indicators_def Let_def sane_def severity_max_pos f_min_def f64_consts split: if_splits)
qed

section \<open>Properties\<close>

text \<open>C20: every prediction is well-formed, whatever the history holds: the confidence is a number
  between 0 and 1, a predicted time is not negative, and the severity is none exactly when the
  reason is that the interface is stable, in which case the confidence is 0 and no positive
  threshold acts on it.\<close>

theorem prediction_well_formed:
  "let p = predict i e in
    Fin 0 \<le> fp_confidence p \<and> fp_confidence p \<le> Fin 1
    \<and> (fp_severity p = SevNone \<longleftrightarrow> fp_reason p = Stable)
    \<and> (fp_severity p = SevNone \<longrightarrow> fp_confidence p = 0 \<and> \<not> should_act threshold p)
    \<and> (case fp_time_to_failure p of None \<Rightarrow> True | Some t \<Rightarrow> Fin 0 \<le> t)"
proof -
  have s: "?thesis" if "predict i e = stable_prediction i"
    by (simp add: that stable_prediction_def f64_consts should_act_def)
  have "?thesis" if "predict i e = combine_indicators i (analyze_trend ps) acc an" for ps acc an
    using combine_sane [OF trend_degrading, of ps i acc an] trend_time [of ps]
    unfolding that should_act_def Let_def by (auto split: option.split)
  with s show ?thesis
    by (cases "hm_get (pe_history e) i") (auto simp: predict_def Let_def split: if_splits)
qed

theorem prediction_well_formed_witness:
  "let p = predict ''eth0'' predictive_engine_default
   in fp_severity p = SevNone \<and> fp_confidence p = 0 \<and> \<not> should_act (Fin 0) p"
proof -
  have "fp_severity (predict ''eth0'' predictive_engine_default) = SevNone"
    by (simp add: predict_def predictive_engine_default_def predictive_engine_new_def stable_prediction_def hm_simps)
  then show ?thesis
    using prediction_well_formed [of "''eth0''" predictive_engine_default "Fin 0"] by (simp add: Let_def)
qed

text \<open>An interface whose score never changes is never predicted to fail: after any number of
  readings of the same whole score up to 100 (at most \<open>10^8\<close> of them, with a window of at most
  30) the prediction is stable with confidence 0; no rounding of the regression or of the
  z-score raises an alarm.\<close>

theorem constant_score_is_stable:
  assumes "hm_get (pe_history e) i = None" "c \<le> 100" "n \<le> 10 ^ 8"
    and "0 < pe_recent_window e" "pe_recent_window e \<le> 30"
  shows "predict i (fold (add_reading i) (replicate n (Fin (real c))) e) = stable_prediction i"
proof (cases "n = 0")
  case True
  with assms(1) show ?thesis by (simp add: predict_def)
next
  case False
  let ?xs = "replicate n (Fin (real c))" and ?e = "fold (add_reading i) (replicate n (Fin (real c))) e"
  let ?k = "n - pe_recent_window e * 4"
  have "point_queue i e = []" using assms(1) by (simp add: point_queue_def)
  then have q: "point_queue i ?e = drop ?k (points_of ?xs)"
    using queue_of_readings [of i e ?xs] assms(3,4) by simp
  have f: "points_of ?xs = flat c [0..<n]"
    by (simp add: points_of_def flat_def)
  have pts: "hm_get (pe_history ?e) i = Some (flat c [?k..<n])"
    using add_readings_present [of ?xs i e] q False by (simp add: f flat_split)
  have st: "small_times [?k..<n]"
    using assms(3,5) by (auto simp: small_times_def)
  have w: "pe_recent_window ?e = pe_recent_window e" using fold_window [of i ?xs e] by simp
  let ?r = "drop (length (flat c [?k..<n]) - pe_recent_window e) (flat c [?k..<n])"
  have r: "?r = flat c (drop (length (flat c [?k..<n]) - pe_recent_window e) [?k..<n])"
    by (simp only: flat_split)
  note sr = small_times_part(2) [OF st, of "length (flat c [?k..<n]) - pe_recent_window e"]
  have "\<not> ta_is_degrading (analyze_trend ?r)" "ta_time_to_critical (analyze_trend ?r) = None"
    "\<not> detect_acceleration ?r" "detect_anomalies (flat c [?k..<n]) = Fin 0"
    using analyze_trend_flat [OF assms(2) sr] detect_acceleration_flat [OF assms(2) sr]
      detect_anomalies_flat [OF assms(2) st] unfolding r by auto
  then show ?thesis
    unfolding predict_def pts w
    by (simp add: combine_indicators_def trend_indicator_def add_indicator_def stable_prediction_def
        f_min_def f64_consts Let_def)
qed

theorem constant_score_is_stable_witness:
  "predict ''eth0'' (fold (add_reading ''eth0'') (replicate 200 (Fin 73)) predictive_engine_default)
     = stable_prediction ''eth0''"
  using constant_score_is_stable [of predictive_engine_default "''eth0''" 73 200]
  by (simp add: predictive_engine_default_def predictive_engine_new_def)

text \<open>The history of an interface is exactly its newest readings, at most four times the window,
  in order and with time stamps five seconds apart.\<close>

theorem history_is_newest_readings:
  assumes "hm_get (pe_history e) i = None" "length xs \<le> 2 ^ 50" "0 < pe_recent_window e"
  shows "point_queue i (fold (add_reading i) xs e) = drop (length xs - pe_recent_window e * 4)
      (List.map (\<lambda>k. \<lparr>dp_time = Fin (real (5 * k)), dp_value = xs ! k\<rparr>) [0..<length xs])
    \<and> length (point_queue i (fold (add_reading i) xs e)) \<le> pe_recent_window e * 4"
  using queue_of_readings [of i e xs] assms by (simp add: point_queue_def points_of_def)

theorem history_is_newest_readings_witness:
  "point_queue ''eth0'' (fold (add_reading ''eth0'') [Fin 1, Fin 2, Fin 3, Fin 4, Fin 5]
      (predictive_engine_new 3 (Fin 1) 1))
    = [\<lparr>dp_time = Fin 5, dp_value = Fin 2\<rparr>, \<lparr>dp_time = Fin 10, dp_value = Fin 3\<rparr>,
       \<lparr>dp_time = Fin 15, dp_value = Fin 4\<rparr>, \<lparr>dp_time = Fin 20, dp_value = Fin 5\<rparr>]"
  using history_is_newest_readings [of "predictive_engine_new 3 (Fin 1) 1" "''eth0''" "[Fin 1, Fin 2, Fin 3, Fin 4, Fin 5]"]
  by (simp add: predictive_engine_new_def upt_rec)

end
