(* ===== verification/Adaptive.thy ===== *)
theory Adaptive
  imports Health NF_Process
begin

text \<open>
  \<^verbatim>\<open>crates/netfusion-core/src/intelligence/adaptive.rs\<close>: learning the health weights from the
  metrics seen at failovers. As in the health score, the sum of the base weights is \<open>u8\<close>
  arithmetic, and so is the \<open>i8\<close> difference of the recommendations: \<open>None\<close> is their overflow
  panic in a build with checks (\<open>chk\<close>).
\<close>

record weight_adjustment =
  wa_metric :: string
  wa_current_weight :: u8
  wa_recommended_weight :: u8
  wa_reason :: string

record adaptive_weights =
  aw_base_weights :: health_weights_config
  aw_adjustments :: "(string, f64) hmap"
  aw_metric_correlations :: "(string, f64) hmap"
  aw_observed_failovers :: nat
  aw_false_positives :: nat

definition adaptive_weights_new :: "health_weights_config \<Rightarrow> adaptive_weights" where
  "adaptive_weights_new base_weights = \<lparr>aw_base_weights = base_weights, aw_adjustments = [],
     aw_metric_correlations = [], aw_observed_failovers = 0, aw_false_positives = 0\<rparr>"

section \<open>The normalisations of this module\<close>

definition ad_normalize_rtt :: "f64 \<Rightarrow> f64" where
  "ad_normalize_rtt rtt_ms =
     (if rtt_ms \<le> Fin 5 then Fin 100 else if Fin 500 \<le> rtt_ms then 0
      else Fin 100 * (1 - divide (rtt_ms - Fin 5) (Fin 495)))"

definition ad_normalize_jitter :: "f64 \<Rightarrow> f64" where
  "ad_normalize_jitter jitter_ms =
     (if jitter_ms \<le> Fin 1 then Fin 100 else if Fin 100 \<le> jitter_ms then 0
      else Fin 100 * (1 - divide (jitter_ms - Fin 1) (Fin 99)))"

definition ad_normalize_loss :: "f64 \<Rightarrow> f64" where
  "ad_normalize_loss loss_pct =
     (if loss_pct \<le> Fin 0 then Fin 100 else if Fin 20 \<le> loss_pct then 0
      else Fin 100 * (1 - divide loss_pct (Fin 20)))"

definition ad_normalize_throughput :: "f64 \<Rightarrow> f64" where
  "ad_normalize_throughput mbps = f_min (divide mbps (Fin 1000) * Fin 100) (Fin 100)"

definition ad_normalize_stability :: "f64 \<Rightarrow> f64" where
  "ad_normalize_stability state_changes =
     (if state_changes \<le> Fin 0 then Fin 100 else if Fin 10 \<le> state_changes then 0
      else Fin 100 * (1 - divide state_changes (Fin 10)))"

section \<open>Observing\<close>

definition add_correlation :: "nat \<Rightarrow> string \<times> f64 \<Rightarrow> (string, f64) hmap \<Rightarrow> (string, f64) hmap" where
  "add_correlation failovers m cs =
     (case m of (name, value) \<Rightarrow>
        (let entry = (case hm_get cs name of None \<Rightarrow> 0 | Some x \<Rightarrow> x)
         in hm_insert name (entry + divide (1 - value) (f_of_nat failovers)) cs))"

definition failover_metrics :: "f64 \<Rightarrow> f64 \<Rightarrow> f64 \<Rightarrow> f64 \<Rightarrow> f64 \<Rightarrow> (string \<times> f64) list" where
  "failover_metrics rtt jitter loss throughput stability =
     [(''rtt'', ad_normalize_rtt rtt), (''jitter'', ad_normalize_jitter jitter),
      (''loss'', ad_normalize_loss loss), (''throughput'', ad_normalize_throughput throughput),
      (''stability'', ad_normalize_stability stability)]"

definition record_failover :: "f64 \<Rightarrow> f64 \<Rightarrow> f64 \<Rightarrow> f64 \<Rightarrow> f64 \<Rightarrow> adaptive_weights \<Rightarrow> adaptive_weights" where
  "record_failover rtt jitter loss throughput stability a =
     (let n = aw_observed_failovers a + 1
      in a\<lparr>aw_observed_failovers := n,
           aw_metric_correlations := fold (add_correlation n)
             (failover_metrics rtt jitter loss throughput stability) (aw_metric_correlations a)\<rparr>)"

definition record_false_positive :: "adaptive_weights \<Rightarrow> adaptive_weights" where
  "record_false_positive a = a\<lparr>aw_false_positives := aw_false_positives a + 1\<rparr>"

section \<open>The learned weights\<close>

definition learned_factor :: "adaptive_weights \<Rightarrow> f64 \<Rightarrow> string \<Rightarrow> f64" where
  "learned_factor a total_correlation name =
     divide (case hm_get (aw_metric_correlations a) name of None \<Rightarrow> fl (2 / 10) | Some x \<Rightarrow> x) total_correlation"

definition blend_weight :: "f64 \<Rightarrow> u8 \<Rightarrow> f64 \<Rightarrow> u8" where
  "blend_weight total_base base learned =
     (let blend = fl (3 / 10); base_frac = divide (f_of_u8 base) total_base;
          blended = base_frac * (1 - blend) + learned * blend
      in of_nat (f_as_uint 255 (f_round (blended * Fin 100))))"

definition adaptive_compute_weights :: "bool \<Rightarrow> adaptive_weights \<Rightarrow> health_weights_config option" where
  "adaptive_compute_weights chk a =
     (let base = aw_base_weights a
      in if aw_observed_failovers a < 3 then Some base
         else
           (let total_correlation = f_sum (List.map snd (aw_metric_correlations a))
            in if total_correlation < fl (1 / 100) then Some base
               else
                 (case u8_sum5 chk (wc_rtt base) (wc_jitter base) (wc_loss base) (wc_throughput base)
                         (wc_stability base) of
                    None \<Rightarrow> None
                  | Some s \<Rightarrow>
                      (let total_base = f_of_u8 s
                       in if feq total_base 0 then Some base
                          else
                            Some \<lparr>wc_rtt = blend_weight total_base (wc_rtt base) (learned_factor a total_correlation ''rtt''),
                              wc_jitter = blend_weight total_base (wc_jitter base) (learned_factor a total_correlation ''jitter''),
                              wc_loss = blend_weight total_base (wc_loss base) (learned_factor a total_correlation ''loss''),
                              wc_throughput = blend_weight total_base (wc_throughput base) (learned_factor a total_correlation ''throughput''),
                              wc_stability = blend_weight total_base (wc_stability base) (learned_factor a total_correlation ''stability'')\<rparr>))))"

section \<open>Recommendations\<close>

text \<open>An \<open>i8\<close> result: wrapped, or a panic with checks.\<close>

definition to_i8 :: "bool \<Rightarrow> int \<Rightarrow> int option" where
  "to_i8 chk x = (if chk \<and> (x < - 128 \<or> 127 < x) then None else Some (sint (of_int x :: u8)))"

definition i8_distance :: "bool \<Rightarrow> u8 \<Rightarrow> u8 \<Rightarrow> int option" where
  "i8_distance chk recommended current =
     Option.bind (to_i8 chk (sint recommended - sint current)) (\<lambda>d. to_i8 chk \<bar>d\<bar>)"

definition add_rec ::
  "bool \<Rightarrow> string \<Rightarrow> string \<times> u8 \<times> u8 \<Rightarrow> weight_adjustment list \<Rightarrow> weight_adjustment list option" where
  "add_rec chk reason m recs =
     (case m of (name, current, recommended) \<Rightarrow>
        map_option (\<lambda>d. if 3 < d then recs @ [\<lparr>wa_metric = name, wa_current_weight = current,
            wa_recommended_weight = recommended, wa_reason = reason\<rparr>] else recs)
          (i8_distance chk recommended current))"

fun add_recs ::
  "bool \<Rightarrow> string \<Rightarrow> (string \<times> u8 \<times> u8) list \<Rightarrow> weight_adjustment list \<Rightarrow> weight_adjustment list option" where
  "add_recs chk reason [] recs = Some recs"
| "add_recs chk reason (m # ms) recs = Option.bind (add_rec chk reason m recs) (add_recs chk reason ms)"

definition weight_pairs :: "health_weights_config \<Rightarrow> health_weights_config \<Rightarrow> (string \<times> u8 \<times> u8) list" where
  "weight_pairs base current =
     [(''rtt'', wc_rtt base, wc_rtt current), (''jitter'', wc_jitter base, wc_jitter current),
      (''loss'', wc_loss base, wc_loss current), (''throughput'', wc_throughput base, wc_throughput current),
      (''stability'', wc_stability base, wc_stability current)]"

definition recommendations :: "bool \<Rightarrow> adaptive_weights \<Rightarrow> weight_adjustment list option" where
  "recommendations chk a =
     (if aw_observed_failovers a < 3 then Some []
      else
        Option.bind (adaptive_compute_weights chk a) (\<lambda>current.
          add_recs chk (''Based on '' @ show_nat (aw_observed_failovers a) @ '' observed failovers'')
            (weight_pairs (aw_base_weights a) current) []))"

definition false_positive_rate :: "adaptive_weights \<Rightarrow> f64" where
  "false_positive_rate a =
     (let total_predictions = aw_observed_failovers a + aw_false_positives a
      in if total_predictions = 0 then 0
         else divide (f_of_nat (aw_false_positives a)) (f_of_nat total_predictions))"

record adaptive_summary =
  as_observed_failovers :: nat
  as_false_positives :: nat
  as_false_positive_rate :: f64
  as_active_weights :: health_weights_config
  as_recommendations :: nat

definition summary :: "bool \<Rightarrow> adaptive_weights \<Rightarrow> adaptive_summary option" where
  "summary chk a =
     Option.bind (adaptive_compute_weights chk a) (\<lambda>w.
       map_option (\<lambda>recs. \<lparr>as_observed_failovers = aw_observed_failovers a, as_false_positives = aw_false_positives a,
           as_false_positive_rate = false_positive_rate a, as_active_weights = w,
           as_recommendations = length recs\<rparr>)
         (recommendations chk a))"

section \<open>Correlations that stay negative\<close>

definition nonpositive :: "(string, f64) hmap \<Rightarrow> bool" where
  "nonpositive cs \<longleftrightarrow> (\<forall>(n, x) \<in> set cs. x \<le> Fin 0)"

lemma nonpos_add: "x \<le> Fin 0 \<Longrightarrow> y \<le> Fin 0 \<Longrightarrow> x + (y :: f64) \<le> Fin 0"
  using fl_mono [of _ 0] by (cases x; cases y) (auto simp: f64_arith)

lemma nonpos_sum: "\<forall>x \<in> set xs. x \<le> Fin 0 \<Longrightarrow> f_sum xs \<le> Fin 0"
  by (induction xs rule: rev_induct) (auto simp: f_sum_def f64_consts nonpos_add)

lemma set_update: "(a, b) \<in> set (AList.update k v m) \<Longrightarrow> (a, b) = (k, v) \<or> (a, b) \<in> set m"
  by (induction m) (auto split: if_splits)

lemma contribution_nonpos:
  assumes "Fin 1 \<le> v" "Suc n \<le> 2 ^ 53"
  shows "divide (1 - v) (f_of_nat (Suc n)) \<le> Fin 0"
proof -
  have d: "1 - v \<le> Fin 0"
    using assms fl_mono [of "1 - _" 0] by (cases v) (auto simp: f64_consts f64_arith minus_f64_def)
  have f: "f_of_nat (Suc n) = Fin (real (Suc n))" by (rule f_of_nat_small [OF assms(2)])
  show ?thesis
  proof (cases "1 - v")
    case (Fin r)
    with d have "fl (r / real (Suc n)) \<le> fl 0" by (intro fl_mono) (simp add: divide_nonpos_pos)
    with Fin show ?thesis by (simp add: f f64_arith)
  qed (use d in \<open>auto simp: f\<close>)
qed

lemma add_correlation_nonpos:
  assumes "nonpositive cs" "Fin 1 \<le> snd m" "Suc n \<le> 2 ^ 53"
  shows "nonpositive (add_correlation (Suc n) m cs)"
proof -
  obtain name v where m: "m = (name, v)" by (cases m)
  have e: "(case hm_get cs name of None \<Rightarrow> 0 | Some x \<Rightarrow> x) \<le> Fin 0"
    using assms(1) by (auto simp: nonpositive_def f64_consts split: option.split dest!: map_of_SomeD)
  have "x \<le> Fin 0" if "(k, x) \<in> set (add_correlation (Suc n) m cs)" for k x
    using set_update [of k x name _ cs] that assms nonpos_add [OF e contribution_nonpos [of v n]]
    by (auto simp: add_correlation_def m Let_def nonpositive_def)
  then show ?thesis by (auto simp: nonpositive_def)
qed

lemma fold_correlation_nonpos:
  "nonpositive cs \<Longrightarrow> \<forall>m \<in> set ms. Fin 1 \<le> snd m \<Longrightarrow> Suc n \<le> 2 ^ 53 \<Longrightarrow> nonpositive (fold (add_correlation (Suc n)) ms cs)"
  by (induction ms arbitrary: cs) (simp_all add: add_correlation_nonpos)

text \<open>The metrics of a failover, in the order of the arguments.\<close>

definition record_one :: "f64 \<times> f64 \<times> f64 \<times> f64 \<times> f64 \<Rightarrow> adaptive_weights \<Rightarrow> adaptive_weights" where
  "record_one m a = (case m of (r, j, l, t, s) \<Rightarrow> record_failover r j l t s a)"

definition above_one :: "f64 \<times> f64 \<times> f64 \<times> f64 \<times> f64 \<Rightarrow> bool" where
  "above_one m = (case m of (r, j, l, t, s) \<Rightarrow> \<forall>x \<in> set (failover_metrics r j l t s). Fin 1 \<le> snd x)"

lemma record_nonpos:
  "nonpositive (aw_metric_correlations a) \<Longrightarrow> \<forall>m \<in> set ms. above_one m \<Longrightarrow>
    aw_observed_failovers a + length ms \<le> 2 ^ 53 \<Longrightarrow> nonpositive (aw_metric_correlations (fold record_one ms a))"
  by (induction ms arbitrary: a)
    (auto simp: record_one_def record_failover_def above_one_def Let_def fold_correlation_nonpos)

lemma record_base: "aw_base_weights (fold record_one ms a) = aw_base_weights a"
  by (induction ms arbitrary: a) (auto simp: record_one_def record_failover_def Let_def)

lemma hundredth_pos: "Fin 0 < fl (1 / 100)"
proof -
  have "fl (1 / 128) \<le> fl (1 / 100)" by (rule fl_mono) simp
  moreover have "fl (1 / 128) = Fin (1 / 128)"
    by (rule fl_exact [of _ 1 "- 7"]) (simp_all add: power_int_minus)
  ultimately show ?thesis using f64_less_le_trans [of "Fin 0" "Fin (1 / 128)"] by simp
qed

section \<open>Distances\<close>

lemma sint_small: "unat (w :: u8) < 128 \<Longrightarrow> sint w = int (unat w)"
proof -
  assume "unat w < 128"
  then have "uint w < 128" by (metis of_nat_less_iff of_nat_numeral uint_nat)
  moreover have "- 128 \<le> uint w" using uint_nonnegative [of w] by linarith
  ultimately have "signed_take_bit 7 (uint w) = uint w" using signed_take_bit_int_eq_self [of 7 "uint w"] by simp
  then show ?thesis by (simp add: sint_uint)
qed

lemma i8_distance_small:
  assumes "unat r < 128" "unat c < 128"
  shows "i8_distance chk r c = Some \<bar>int (unat r) - int (unat c)\<bar>"
proof -
  let ?d = "int (unat r) - int (unat c)"
  have d: "- 128 < ?d" "?d < 128" using assms by linarith+
  have s: "sint (of_int x :: u8) = x" if "- 128 \<le> x" "x < 128" for x
    using that signed_take_bit_int_eq_self [of 7 x] by (simp add: sint_uint uint_word_of_int_eq signed_take_bit_take_bit)
  have i: "to_i8 chk x = Some x" if "- 128 \<le> x" "x < 128" for x
    using that s [OF that] by (auto simp: to_i8_def)
  have "to_i8 chk ?d = Some ?d" using d by (intro i) linarith+
  moreover have "to_i8 chk \<bar>?d\<bar> = Some \<bar>?d\<bar>" using d by (intro i) linarith+
  ultimately show ?thesis by (simp only: i8_distance_def sint_small assms bind.bind_lunit)
qed

lemma i8_distance_self: "i8_distance chk w w = Some 0"
  by (simp add: i8_distance_def to_i8_def)

lemma add_recs_filter:
  assumes "\<forall>(n, c, r) \<in> set ms. i8_distance chk r c = Some (d c r)"
  shows "add_recs chk reason ms recs = Some (recs @ List.map (\<lambda>(n, c, r).
      \<lparr>wa_metric = n, wa_current_weight = c, wa_recommended_weight = r, wa_reason = reason\<rparr>)
      (filter (\<lambda>(n, c, r). 3 < d c r) ms))"
  using assms by (induction ms arbitrary: recs) (auto simp: add_rec_def)

section \<open>Properties\<close>

text \<open>C21: nothing is ever learned from ordinary failovers. The normalisations of this module give 0
  to 100, not 0 to 1, so a metric counts as correlated with the failure only when its
  normalised value is below 1. If in every recorded failover each metric is at 1 or above, then
  the base weights are returned and no change is recommended, however many failovers were
  seen.\<close>

theorem no_learning_above_one:
  assumes "\<forall>m \<in> set ms. above_one m" "length ms \<le> 2 ^ 53"
  shows "adaptive_compute_weights chk (fold record_one ms (adaptive_weights_new base)) = Some base
    \<and> recommendations chk (fold record_one ms (adaptive_weights_new base)) = Some []"
proof -
  let ?a = "fold record_one ms (adaptive_weights_new base)"
  have "nonpositive (aw_metric_correlations ?a)"
    using record_nonpos [of "adaptive_weights_new base" ms] assms
    by (simp add: adaptive_weights_new_def nonpositive_def)
  then have "f_sum (List.map snd (aw_metric_correlations ?a)) \<le> Fin 0"
    by (intro nonpos_sum) (auto simp: nonpositive_def)
  moreover note hundredth_pos
  ultimately have "f_sum (List.map snd (aw_metric_correlations ?a)) < fl (1 / 100)"
    by (rule f64_le_less_trans)
  then have w: "adaptive_compute_weights chk ?a = Some base"
    by (simp add: adaptive_compute_weights_def Let_def record_base adaptive_weights_new_def)
  have "\<forall>(n, c, r) \<in> set (weight_pairs base base). i8_distance chk r c = Some 0"
    by (simp add: weight_pairs_def i8_distance_self)
  from add_recs_filter [OF this, of _ "[]"] w show ?thesis
    by (simp add: recommendations_def record_base adaptive_weights_new_def)
qed

text \<open>Three failovers of a link that only its nine state changes make bad.\<close>

theorem no_learning_above_one_witness:
  "adaptive_compute_weights True (fold record_one (replicate 3 (Fin 5, Fin 1, Fin 0, Fin 1000, Fin 9))
     (adaptive_weights_new wc_default)) = Some wc_default"
proof -
  have "above_one (Fin 5, Fin 1, Fin 0, Fin 1000, Fin 9)"
  proof -
    have n: "Fin 1 \<le> ad_normalize_stability (Fin 9)"
    proof -
      have "fl (9 / 10) \<le> fl (15 / 16)" by (rule fl_mono) simp
      moreover have "fl (15 / 16) = Fin (15 / 16)"
        by (rule fl_exact [of _ 15 "- 4"]) (simp_all add: power_int_minus)
      moreover have "fl 0 \<le> fl (9 / 10)" by (rule fl_mono) simp
      ultimately obtain q where q: "fl (9 / 10) = Fin q" "q \<le> 15 / 16"
        using f64_between [of 0 "fl (9 / 10)" "15 / 16"] by auto
      have "fl (1 / 16) \<le> fl (1 - q)" using q by (intro fl_mono) simp
      moreover have "fl (1 / 16) = Fin (1 / 16)"
        by (rule fl_exact [of _ 1 "- 4"]) (simp_all add: power_int_minus)
      ultimately have g: "Fin (1 / 16) \<le> fl (1 - q)" by simp
      have "Fin 1 \<le> Fin 100 * fl (1 - q)"
      proof (cases "fl (1 - q)")
        case (Fin x)
        with g have "fl 1 \<le> fl (100 * x)" by (intro fl_mono) simp
        with Fin show ?thesis by (simp add: f64_arith)
      qed (use g in auto)
      with q show ?thesis by (simp add: ad_normalize_stability_def f64_arith f64_consts)
    qed
    have t: "Fin 1 \<le> ad_normalize_throughput (Fin 1000)"
      by (simp add: ad_normalize_throughput_def f64_arith f_min_def)
    show ?thesis
      using n t by (simp add: above_one_def failover_metrics_def ad_normalize_rtt_def ad_normalize_jitter_def
          ad_normalize_loss_def)
  qed
  with no_learning_above_one [of "replicate 3 (Fin 5, Fin 1, Fin 0, Fin 1000, Fin 9)" True wc_default]
  show ?thesis by simp
qed

text \<open>With base and learned weights below 128 the recommendations never panic; before the third
  observed failover there are none, and from then on they list exactly the metrics whose weight
  would change by more than 3, in the fixed order, each with its current and its recommended
  weight.\<close>

theorem recommendations_exact:
  assumes "adaptive_compute_weights chk a = Some cur"
    and "\<forall>(n, c, r) \<in> set (weight_pairs (aw_base_weights a) cur). unat c < 128 \<and> unat r < 128"
  shows "\<exists>recs. recommendations chk a = Some recs
    \<and> List.map (\<lambda>x. (wa_metric x, wa_current_weight x, wa_recommended_weight x)) recs
      = (if aw_observed_failovers a < 3 then []
         else filter (\<lambda>(n, c, r). 3 < \<bar>int (unat r) - int (unat c)\<bar>) (weight_pairs (aw_base_weights a) cur))"
proof -
  have "\<forall>(n, c, r) \<in> set (weight_pairs (aw_base_weights a) cur).
      i8_distance chk r c = Some \<bar>int (unat r) - int (unat c)\<bar>"
    using assms(2) i8_distance_small by blast
  from add_recs_filter [OF this, of _ "[]"] assms(1) show ?thesis
    by (auto simp: recommendations_def comp_def case_prod_unfold)
qed

theorem recommendations_exact_witness:
  "\<exists>recs. recommendations True (adaptive_weights_new wc_gaming\<lparr>aw_observed_failovers := 5\<rparr>) = Some recs \<and> recs = []"
proof -
  let ?a = "adaptive_weights_new wc_gaming\<lparr>aw_observed_failovers := 5\<rparr>"
  have w: "adaptive_compute_weights True ?a = Some wc_gaming"
    using hundredth_pos by (simp add: adaptive_compute_weights_def adaptive_weights_new_def f_sum_def f64_consts)
  have "\<forall>(n, c, r) \<in> set (weight_pairs (aw_base_weights ?a) wc_gaming). unat c < 128 \<and> unat r < 128"
    by (simp add: adaptive_weights_new_def weight_pairs_def wc_gaming_def)
  from recommendations_exact [OF w this] show ?thesis
    by (auto simp: adaptive_weights_new_def weight_pairs_def)
qed

end
