(* ===== verification/NF_Commands.thy ===== *)
theory NF_Commands
  imports Events NF_Process
begin

text \<open>
  The pattern the components share when they run a command: an i/o error of starting it becomes a
  core error through the operator \<^verbatim>\<open>?\<close>, and a bad exit status an internal error with the
  text of standard error.
\<close>

definition io_core :: "(string, 'a) result \<times> 'w \<Rightarrow> (core_error, 'a) result \<times> 'w" where
  "io_core rw = (case rw of (Inl e, w) \<Rightarrow> (Err (core_error_from_io e), w) | (Inr a, w) \<Rightarrow> (Ok a, w))"

lemma io_core_simps [simp, cmd_simps]:
  "io_core (Inl e, w) = (Err (core_error_from_io e), w)"
  "io_core (Inr a, w) = (Ok a, w)"
  by (simp_all add: io_core_def)

text \<open>\<open>failure\<close> is the text in front of standard error.\<close>

definition run_checked :: "'w shell \<Rightarrow> cmd \<Rightarrow> string \<Rightarrow> 'w \<Rightarrow> (core_error, cmd_output) result \<times> 'w" where
  "run_checked sh argv failure w =
     (case sh argv w of
        (Inl e, w') \<Rightarrow> (Err (core_error_from_io e), w')
      | (Inr out, w') \<Rightarrow>
          (if \<not> out_success out then Err (InternalErr (failure @ '': '' @ out_stderr out)) else Ok out, w'))"

definition discard :: "(core_error, cmd_output) result \<times> 'w \<Rightarrow> (core_error, unit) result \<times> 'w" where
  "discard rw = and_then rw (\<lambda>_ w. (Ok (), w))"

text \<open>
  A sequence of commands as a table: each step has the command, what is written to its standard
  input, the statuses it accepts and the text of its error. The steps run in order up to the
  first one that cannot be started or is not accepted.
\<close>

record plan_step =
  st_argv :: cmd
  st_input :: "string option"
  st_accepts :: "cmd_output \<Rightarrow> bool"
  st_failure :: string

type_synonym 'w feeder = "cmd \<Rightarrow> string \<Rightarrow> 'w \<Rightarrow> (string, cmd_output) result \<times> 'w"

definition run_step :: "'w shell \<Rightarrow> 'w feeder \<Rightarrow> plan_step \<Rightarrow> 'w \<Rightarrow> (core_error, unit) result \<times> 'w" where
  "run_step sh feed s w =
     and_then (io_core (case st_input s of None \<Rightarrow> sh (st_argv s) w | Some i \<Rightarrow> feed (st_argv s) i w)) (\<lambda>out w.
       if st_accepts s out then (Ok (), w) else (Err (InternalErr (st_failure s @ '': '' @ out_stderr out)), w))"

fun run_plan :: "'w shell \<Rightarrow> 'w feeder \<Rightarrow> plan_step list \<Rightarrow> 'w \<Rightarrow> (core_error, unit) result \<times> 'w" where
  "run_plan sh feed [] w = (Ok (), w)"
| "run_plan sh feed (s # ss) w = and_then (run_step sh feed s w) (\<lambda>_ w. run_plan sh feed ss w)"

lemma run_plan_Nil_fun: "run_plan sh feed [] = (\<lambda>w. (Ok (), w))"
  by (simp add: fun_eq_iff)

lemma run_plan_Cons_fun:
  "run_plan sh feed (s # ss) = (\<lambda>w. and_then (run_step sh feed s w) (\<lambda>_ w. run_plan sh feed ss w))"
  by (simp add: fun_eq_iff)

text \<open>An invariant of the state that every step of a loop over a list keeps.\<close>

lemma fold_fst_inv:
  assumes "\<And>x m w. x \<in> set xs \<Longrightarrow> P m \<Longrightarrow> P (fst (f x (m, w)))" and "P m"
  shows "P (fst (fold f xs (m, w)))"
  using assms
proof (induction xs arbitrary: m w)
  case (Cons x xs)
  then have "P (fst (f x (m, w)))" by simp
  then show ?case
    using Cons.IH [of "fst (f x (m, w))" "snd (f x (m, w))"] Cons.prems(1) by simp
qed simp

end
