(* ===== verification/Qos.thy ===== *)
theory Qos
  imports Shared_Config NF_Commands
begin

text \<open>
  \<^verbatim>\<open>crates/netfusion-core/src/qos/qdisc.rs\<close> and \<^verbatim>\<open>dscp.rs\<close>: queue disciplines through \<open>tc\<close>, DSCP
  tagging through a generated nftables script, ECN through \<open>sysctl\<close>.
\<close>

section \<open>Queue disciplines\<close>

definition qdisc_remove :: "'w shell \<Rightarrow> string \<Rightarrow> 'w \<Rightarrow> (core_error, unit) result \<times> 'w" where
  "qdisc_remove sh interface w =
     (case sh [''tc'', ''qdisc'', ''del'', ''dev'', interface, ''root''] w of
        (Inl e, w') \<Rightarrow> (Err (core_error_from_io e), w')
      | (Inr _, w') \<Rightarrow> (Ok (), w'))"

definition show_ms :: "nat \<Rightarrow> string" where
  "show_ms n = show_nat n @ ''ms''"

definition fq_codel_argv :: "string \<Rightarrow> qdisc_config \<Rightarrow> cmd" where
  "fq_codel_argv interface config =
     (let target_ms = (case qd_target_ms config of None \<Rightarrow> 5 | Some t \<Rightarrow> unat t);
          interval_ms = (case qd_interval_ms config of None \<Rightarrow> 100 | Some t \<Rightarrow> unat t);
          limit = (case qd_limit config of None \<Rightarrow> 10240 | Some l \<Rightarrow> unat l)
      in [''tc'', ''qdisc'', ''add'', ''dev'', interface, ''root'', ''fq_codel'', ''limit'', show_nat limit,
          ''target'', show_ms target_ms, ''interval'', show_ms interval_ms, ''ecn''])"

definition cake_argv :: "string \<Rightarrow> qdisc_config \<Rightarrow> cmd" where
  "cake_argv interface config =
     [''tc'', ''qdisc'', ''add'', ''dev'', interface, ''root'', ''cake'', ''autorate-ingress'', ''diffserv4'', ''nat'']
       @ (case qd_limit config of None \<Rightarrow> [] | Some limit \<Rightarrow> [''limit'', show_nat (unat limit)])"

definition htb_argv :: "string \<Rightarrow> cmd" where
  "htb_argv interface = [''tc'', ''qdisc'', ''add'', ''dev'', interface, ''root'', ''handle'', ''1:'', ''htb'',
     ''default'', ''30'']"

definition prio_argv :: "string \<Rightarrow> cmd" where
  "prio_argv interface = [''tc'', ''qdisc'', ''add'', ''dev'', interface, ''root'', ''handle'', ''1:'', ''prio'',
     ''bands'', ''3'', ''priomap''] @ replicate 16 ''0''"

definition pfifo_fast_argv :: "string \<Rightarrow> cmd" where
  "pfifo_fast_argv interface = [''tc'', ''qdisc'', ''add'', ''dev'', interface, ''root'', ''handle'', ''1:'', ''pfifo_fast'']"

definition apply_fq_codel :: "'w shell \<Rightarrow> string \<Rightarrow> qdisc_config \<Rightarrow> 'w \<Rightarrow> (core_error, unit) result \<times> 'w" where
  "apply_fq_codel sh interface config w =
     discard (run_checked sh (fq_codel_argv interface config) (''Failed to apply fq_codel on '' @ interface) w)"

definition apply_cake :: "'w shell \<Rightarrow> string \<Rightarrow> qdisc_config \<Rightarrow> 'w \<Rightarrow> (core_error, unit) result \<times> 'w" where
  "apply_cake sh interface config w =
     discard (run_checked sh (cake_argv interface config) (''Failed to apply CAKE on '' @ interface) w)"

definition apply_htb :: "'w shell \<Rightarrow> string \<Rightarrow> qdisc_config \<Rightarrow> 'w \<Rightarrow> (core_error, unit) result \<times> 'w" where
  "apply_htb sh interface config w =
     discard (run_checked sh (htb_argv interface) (''Failed to apply HTB root on '' @ interface) w)"

definition apply_prio :: "'w shell \<Rightarrow> string \<Rightarrow> 'w \<Rightarrow> (core_error, unit) result \<times> 'w" where
  "apply_prio sh interface w =
     discard (run_checked sh (prio_argv interface) (''Failed to apply prio on '' @ interface) w)"

definition apply_pfifo_fast :: "'w shell \<Rightarrow> string \<Rightarrow> 'w \<Rightarrow> (core_error, unit) result \<times> 'w" where
  "apply_pfifo_fast sh interface w =
     discard (run_checked sh (pfifo_fast_argv interface) (''Failed to apply pfifo_fast on '' @ interface) w)"

definition apply_qdisc :: "'w shell \<Rightarrow> string \<Rightarrow> qdisc_config \<Rightarrow> 'w \<Rightarrow> (core_error, unit) result \<times> 'w" where
  "apply_qdisc sh interface config w =
     (let qdisc_type = (case qd_qdisc config of None \<Rightarrow> FqCodel | Some t \<Rightarrow> t)
      in and_then (qdisc_remove sh interface w) (\<lambda>_ w.
           case qdisc_type of
             FqCodel \<Rightarrow> apply_fq_codel sh interface config w
           | Cake \<Rightarrow> apply_cake sh interface config w
           | Htb \<Rightarrow> apply_htb sh interface config w
           | Prio \<Rightarrow> apply_prio sh interface w
           | PfifoFast \<Rightarrow> apply_pfifo_fast sh interface w))"

definition qdisc_query :: "'w shell \<Rightarrow> string \<Rightarrow> 'w \<Rightarrow> (core_error, string) result \<times> 'w" where
  "qdisc_query sh interface w =
     and_then (run_checked sh [''tc'', ''qdisc'', ''show'', ''dev'', interface]
         (''Failed to query qdisc on '' @ interface) w)
       (\<lambda>out w. (Ok (trim (out_stdout out)), w))"

section \<open>DSCP tagging\<close>

datatype dscp_class = Realtime | Interactive | StreamingClass | Bulk | BestEffort | Background

fun dscp_value :: "dscp_class \<Rightarrow> u8" where
  "dscp_value Realtime = 46"
| "dscp_value Interactive = 34"
| "dscp_value StreamingClass = 26"
| "dscp_value Bulk = 18"
| "dscp_value BestEffort = 0"
| "dscp_value Background = 8"

fun dscp_name :: "dscp_class \<Rightarrow> string" where
  "dscp_name Realtime = ''EF''"
| "dscp_name Interactive = ''AF41''"
| "dscp_name StreamingClass = ''AF31''"
| "dscp_name Bulk = ''AF21''"
| "dscp_name BestEffort = ''CS0''"
| "dscp_name Background = ''CS1''"

record traffic_rule =
  tr_protocol :: string
  tr_dport :: "u16 option"
  tr_dport_range :: "(u16 \<times> u16) option"
  tr_class :: dscp_class
  tr_description :: string

definition default_classification_rules :: "traffic_rule list" where
  "default_classification_rules =
     [\<lparr>tr_protocol = ''udp'', tr_dport = Some 5060, tr_dport_range = None, tr_class = Realtime,
       tr_description = ''SIP signaling''\<rparr>,
      \<lparr>tr_protocol = ''udp'', tr_dport = None, tr_dport_range = Some (16384, 32768), tr_class = Realtime,
       tr_description = ''RTP media''\<rparr>,
      \<lparr>tr_protocol = ''udp'', tr_dport = None, tr_dport_range = Some (27000, 27100), tr_class = Interactive,
       tr_description = ''Steam gaming''\<rparr>,
      \<lparr>tr_protocol = ''tcp'', tr_dport = None, tr_dport_range = Some (1935, 1935), tr_class = StreamingClass,
       tr_description = ''RTMP streaming''\<rparr>,
      \<lparr>tr_protocol = ''udp'', tr_dport = Some 53, tr_dport_range = None, tr_class = Interactive,
       tr_description = ''DNS resolution''\<rparr>,
      \<lparr>tr_protocol = ''tcp'', tr_dport = Some 53, tr_dport_range = None, tr_class = Interactive,
       tr_description = ''DNS over TCP''\<rparr>,
      \<lparr>tr_protocol = ''tcp'', tr_dport = Some 443, tr_dport_range = None, tr_class = BestEffort,
       tr_description = ''HTTPS traffic''\<rparr>,
      \<lparr>tr_protocol = ''tcp'', tr_dport = Some 80, tr_dport_range = None, tr_class = Bulk,
       tr_description = ''HTTP traffic''\<rparr>]"

definition nft_rule_line :: "traffic_rule \<Rightarrow> string" where
  "nft_rule_line rule =
     ''    '' @ tr_protocol rule @ '' ''
     @ (case tr_dport rule of
          Some port \<Rightarrow> ''dport '' @ show_nat (unat port) @ '' ''
        | None \<Rightarrow>
            (case tr_dport_range rule of
               Some (from_port, to_port) \<Rightarrow> ''dport '' @ show_nat (unat from_port) @ ''-'' @ show_nat (unat to_port) @ '' ''
             | None \<Rightarrow> []))
     @ ''meta l4proto '' @ tr_protocol rule @ '' tcp dport set meta l4proto '' @ tr_protocol rule
     @ '' ip dscp set '' @ show_nat (unat (dscp_value (tr_class rule))) @ '' # '' @ tr_description rule"

definition generate_nftables_rules :: "string \<Rightarrow> traffic_rule list \<Rightarrow> string" where
  "generate_nftables_rules interface rules = unlines
     ([''#!/usr/sbin/nft -f'', ''# NetFusion DSCP tagging rules'', [], ''table inet netfusion {'',
       ''  chain dscp_tagger {'', ''    type filter hook output priority 0; policy accept;'', []]
      @ List.map nft_rule_line rules @ [''  }'', ''}''])"

definition dscp_tmp_path :: "string \<Rightarrow> string" where
  "dscp_tmp_path interface = ''/tmp/netfusion_dscp_'' @ interface @ ''.nft''"

definition apply_dscp ::
  "'w shell \<Rightarrow> 'w files \<Rightarrow> string \<Rightarrow> traffic_rule list \<Rightarrow> 'w \<Rightarrow> (core_error, unit) result \<times> 'w" where
  "apply_dscp sh fs interface rules w =
     and_then (io_core (fs_write fs (dscp_tmp_path interface) (generate_nftables_rules interface rules) w)) (\<lambda>_ w.
     and_then (io_core (sh [''nft'', ''-f'', dscp_tmp_path interface] w)) (\<lambda>out w.
       (let w = snd (fs_remove fs (dscp_tmp_path interface) w)
        in if \<not> out_success out
           then (Err (InternalErr (''Failed to apply DSCP rules on '' @ interface @ '': '' @ out_stderr out)), w)
           else (Ok (), w))))"

definition remove_dscp :: "'w shell \<Rightarrow> 'w \<Rightarrow> (core_error, unit) result \<times> 'w" where
  "remove_dscp sh w =
     and_then (io_core (sh [''nft'', ''delete'', ''table'', ''inet'', ''netfusion''] w)) (\<lambda>_ w. (Ok (), w))"

definition enable_ecn :: "'w shell \<Rightarrow> string \<Rightarrow> 'w \<Rightarrow> (core_error, unit) result \<times> 'w" where
  "enable_ecn sh interface w =
     discard (run_checked sh [''sysctl'', ''-w'', ''net.ipv4.tcp_ecn=2''] ''Failed to enable ECN'' w)"

section \<open>Properties\<close>

text \<open>The command that installs the configured discipline.\<close>

definition qdisc_argv :: "string \<Rightarrow> qdisc_config \<Rightarrow> cmd" where
  "qdisc_argv interface config =
     (case qd_qdisc config of
        None \<Rightarrow> fq_codel_argv interface config
      | Some FqCodel \<Rightarrow> fq_codel_argv interface config
      | Some Cake \<Rightarrow> cake_argv interface config
      | Some Htb \<Rightarrow> htb_argv interface
      | Some Prio \<Rightarrow> prio_argv interface
      | Some PfifoFast \<Rightarrow> pfifo_fast_argv interface)"

lemma qdisc_argv_split:
  "qdisc_argv i config = [''tc'', ''qdisc'', ''add'', ''dev'', i, ''root''] @ drop 6 (qdisc_argv i config)"
  by (cases "qd_qdisc config"; cases "the (qd_qdisc config)")
    (simp_all add: qdisc_argv_def fq_codel_argv_def cake_argv_def htb_argv_def prio_argv_def pfifo_fast_argv_def Let_def)

lemma apply_qdisc_steps:
  "apply_qdisc sh i config w =
     (case sh [''tc'', ''qdisc'', ''del'', ''dev'', i, ''root''] w of
        (Inl e, w1) \<Rightarrow> (Err (core_error_from_io e), w1)
      | (Inr d, w1) \<Rightarrow>
          (case sh (qdisc_argv i config) w1 of
             (Inl e, w2) \<Rightarrow> (Err (core_error_from_io e), w2)
           | (Inr out, w2) \<Rightarrow>
               (if out_success out then Ok () else Err (InternalErr
                  ((case qd_qdisc config of
                      None \<Rightarrow> ''Failed to apply fq_codel on ''
                    | Some FqCodel \<Rightarrow> ''Failed to apply fq_codel on ''
                    | Some Cake \<Rightarrow> ''Failed to apply CAKE on ''
                    | Some Htb \<Rightarrow> ''Failed to apply HTB root on ''
                    | Some Prio \<Rightarrow> ''Failed to apply prio on ''
                    | Some PfifoFast \<Rightarrow> ''Failed to apply pfifo_fast on '') @ i @ '': '' @ out_stderr out)), w2)))"
  by (simp add: apply_qdisc_def qdisc_remove_def qdisc_argv_def apply_fq_codel_def apply_cake_def apply_htb_def
      apply_prio_def apply_pfifo_fast_def discard_def run_checked_def and_then_def
      split: sum.split prod.split option.split qdisc_type.split)

text \<open>Applying a discipline first deletes the root discipline of the interface, ignoring how
  that ends as long as it can be started, and then runs exactly one command, which adds the
  configured one (fq_codel by default) at the root of the same interface; the result is
  success exactly when both could be started and the second one succeeded. If the deletion
  cannot be started nothing is added.\<close>

theorem apply_qdisc_commands:
  "snd (apply_qdisc (recording f) interface config lg)
     = lg @ [[''tc'', ''qdisc'', ''del'', ''dev'', interface, ''root'']]
         @ (if is_ok (f [''tc'', ''qdisc'', ''del'', ''dev'', interface, ''root'']) then [qdisc_argv interface config] else [])
   \<and> (is_ok (fst (apply_qdisc (recording f) interface config lg)) \<longleftrightarrow>
        (\<exists>d a. f [''tc'', ''qdisc'', ''del'', ''dev'', interface, ''root''] = Ok d
               \<and> f (qdisc_argv interface config) = Ok a \<and> out_success a))
   \<and> take 6 (qdisc_argv interface config) = [''tc'', ''qdisc'', ''add'', ''dev'', interface, ''root'']"
proof -
  have "take 6 (qdisc_argv interface config) = [''tc'', ''qdisc'', ''add'', ''dev'', interface, ''root'']"
    by (subst qdisc_argv_split) simp
  then show ?thesis
    by (simp add: apply_qdisc_steps recording_def split: sum.split)
qed

text \<open>Every generated tagging rule, also for another protocol than TCP, contains the words
  \<^verbatim>\<open>tcp dport set meta l4proto\<close>, and each line of the script is one line.\<close>

theorem every_rule_mentions_tcp_dport:
  assumes "rule \<in> set rules"
  shows "contains_str (nft_rule_line rule) '' tcp dport set meta l4proto ''
    \<and> contains_str (generate_nftables_rules interface rules) (nft_rule_line rule)"
proof
  show "contains_str (nft_rule_line rule) '' tcp dport set meta l4proto ''"
    unfolding contains_str_iff nft_rule_line_def
    by (metis append.assoc)
  obtain rs rs' where r: "rules = rs @ rule # rs'" using split_list [OF assms] by blast
  show "contains_str (generate_nftables_rules interface rules) (nft_rule_line rule)"
    unfolding contains_str_iff generate_nftables_rules_def unlines_def r
    by (simp only: map_append list.map concat_append concat.simps append.assoc) (metis append.assoc)
qed

lemma every_rule_mentions_tcp_dport_witness:
  "contains_str (nft_rule_line (hd default_classification_rules)) '' tcp dport set meta l4proto ''
   \<and> contains_str (generate_nftables_rules ''eth0'' default_classification_rules)
        (nft_rule_line (hd default_classification_rules))"
  by (rule every_rule_mentions_tcp_dport) (simp add: default_classification_rules_def)

section \<open>The root discipline of an interface\<close>

text \<open>
  What \<^verbatim>\<open>tc\<close> does to the root discipline \<open>disc w i\<close> of an interface (\<open>None\<close> is the default the
  kernel gives it; otherwise the words that described the discipline): a deletion that succeeds
  leaves the default, an addition that succeeds found the default and installs what it was
  asked for, and a command that cannot be started or fails changes nothing.
\<close>

definition started_ok :: "(string, cmd_output) result \<Rightarrow> bool" where
  "started_ok r = (case r of Inl e \<Rightarrow> False | Inr out \<Rightarrow> out_success out)"

definition obeys_tc :: "'w shell \<Rightarrow> ('w \<Rightarrow> string \<Rightarrow> string list option) \<Rightarrow> bool" where
  "obeys_tc sh disc \<longleftrightarrow>
     (\<forall>i w r w'. sh [''tc'', ''qdisc'', ''del'', ''dev'', i, ''root''] w = (r, w') \<longrightarrow>
        disc w' = (if started_ok r then (disc w)(i := None) else disc w))
   \<and> (\<forall>i args w r w'. sh ([''tc'', ''qdisc'', ''add'', ''dev'', i, ''root''] @ args) w = (r, w') \<longrightarrow>
        (if started_ok r then disc w i = None \<and> disc w' = (disc w)(i \<mapsto> args) else disc w' = disc w))"

text \<open>C22: the effect of applying a discipline, under the documented behaviour of \<^verbatim>\<open>tc\<close>. Success
  means that the interface has the configured discipline (fq_codel by default) with its
  parameters, whatever it had before. After an error the old discipline is gone if its deletion
  succeeded, so an addition that is refused leaves the interface with the kernel's default, and
  it is still there otherwise; a discipline that cannot be deleted is never reported as
  replaced. No other interface is touched in any case.\<close>

theorem apply_qdisc_replaces_root:
  assumes "obeys_tc sh disc"
    and "apply_qdisc sh i config w = (res, w')"
    and "sh [''tc'', ''qdisc'', ''del'', ''dev'', i, ''root''] w = (d, w1)"
  shows "case res of
      Inr _ \<Rightarrow> disc w' = (disc w)(i \<mapsto> drop 6 (qdisc_argv i config)) \<and> (started_ok d \<or> disc w i = None)
    | Inl _ \<Rightarrow> disc w' = (if started_ok d then (disc w)(i := None) else disc w)"
proof -
  have del: "disc w1 = (if started_ok d then (disc w)(i := None) else disc w)"
    using assms(1,3) unfolding obeys_tc_def by blast
  obtain a w2 where a: "sh (qdisc_argv i config) w1 = (a, w2)" by fastforce
  then have add: "if started_ok a then disc w1 i = None \<and> disc w2 = (disc w1)(i \<mapsto> drop 6 (qdisc_argv i config))
      else disc w2 = disc w1"
    using assms(1) qdisc_argv_split [of i config] unfolding obeys_tc_def by metis
  show ?thesis
    using assms(2,3) a del add
    by (cases d; cases a) (auto simp: apply_qdisc_steps started_ok_def split: if_splits)
qed

text \<open>A kernel without the module of CAKE, its world the root disciplines as a list of pairs.\<close>

definition demo_tc :: "(string \<times> string list) list shell" where
  "demo_tc c w =
     (if take 4 c = [''tc'', ''qdisc'', ''del'', ''dev''] then
        (if map_of w (c ! 4) = None then (Ok (ok_output\<lparr>out_success := False\<rparr>), w)
         else (Ok ok_output, filter (\<lambda>p. fst p \<noteq> c ! 4) w))
      else if take 4 c = [''tc'', ''qdisc'', ''add'', ''dev''] then
        (if map_of w (c ! 4) \<noteq> None \<or> take 1 (drop 6 c) = [''cake''] then (Ok (ok_output\<lparr>out_success := False\<rparr>), w)
         else (Ok ok_output, (c ! 4, drop 6 c) # w))
      else (Err ''No such file or directory'', w))"

lemma map_of_removed: "map_of (filter (\<lambda>p. fst p \<noteq> i) w) = (map_of w)(i := None)"
  by (induction w) (auto simp: fun_eq_iff)

lemma demo_tc_obeys: "obeys_tc demo_tc map_of"
  unfolding obeys_tc_def
  by (auto simp: demo_tc_def started_ok_def map_of_removed fun_upd_idem split: if_splits)

theorem apply_qdisc_replaces_root_witness:
  "\<exists>e w'. apply_qdisc demo_tc ''eth0'' \<lparr>qd_qdisc = Some Cake, qd_target_ms = None, qd_interval_ms = None, qd_limit = None\<rparr>
        [(''eth0'', [''htb'']), (''wlan0'', [''fq_codel''])] = (Err e, w')
     \<and> map_of w' = [''wlan0'' \<mapsto> [''fq_codel'']]"
proof -
  let ?c = "\<lparr>qd_qdisc = Some Cake, qd_target_ms = None, qd_interval_ms = None, qd_limit = None\<rparr>"
  let ?w = "[(''eth0'', [''htb'']), (''wlan0'', [''fq_codel''])] :: (string \<times> string list) list"
  obtain e w' where r: "apply_qdisc demo_tc ''eth0'' ?c ?w = (Inl e, w')"
    by (simp add: apply_qdisc_steps demo_tc_def qdisc_argv_def cake_argv_def)
  have d: "demo_tc [''tc'', ''qdisc'', ''del'', ''dev'', ''eth0'', ''root''] ?w = (Inr ok_output, [(''wlan0'', [''fq_codel''])])"
    by (simp add: demo_tc_def)
  have "map_of w' = (map_of ?w)(''eth0'' := None)"
    using apply_qdisc_replaces_root [OF demo_tc_obeys r d] by (simp add: started_ok_def)
  then have "map_of w' = [''wlan0'' \<mapsto> [''fq_codel'']]" by (auto simp: fun_eq_iff)
  with r show ?thesis by blast
qed

end
