(* ===== verification/Wireguard.thy ===== *)
theory Wireguard
  imports NF_Commands
begin

text \<open>
  \<^verbatim>\<open>crates/netfusion-core/src/tunnels/wireguard.rs\<close>: one WireGuard tunnel, driven through \<open>ip\<close>
  and \<open>wg\<close>. The private key is written to the standard input of \<open>wg\<close>: the parameter \<open>feed\<close>
  starts the command, writes and waits, and fails as the first of the three that does. The
  exit status it gives is not read by the code.
\<close>

record wireguard_config =
  wc_interface :: string
  wc_private_key :: string
  wc_listen_port :: "u16 option"
  wc_endpoint :: string
  wc_public_key :: string
  wc_preshared_key :: "string option"
  wc_allowed_ips :: "string list"
  wc_persistent_keepalive :: "u16 option"
  wc_tunnel_address :: string
  wc_dns_servers :: "string list"

record wireguard_tunnel =
  wt_config :: wireguard_config
  wt_is_up :: bool

definition wireguard_tunnel_new :: "wireguard_config \<Rightarrow> wireguard_tunnel" where
  "wireguard_tunnel_new config = \<lparr>wt_config = config, wt_is_up = False\<rparr>"

section \<open>Creating a tunnel\<close>

definition wg_link_add :: "'w shell \<Rightarrow> wireguard_config \<Rightarrow> 'w \<Rightarrow> (core_error, unit) result \<times> 'w" where
  "wg_link_add sh c w =
     and_then (io_core (sh [''ip'', ''link'', ''add'', ''dev'', wc_interface c, ''type'', ''wireguard''] w)) (\<lambda>out w.
       if \<not> out_success out \<and> \<not> contains_str (out_stderr out) ''exists''
       then (Err (InternalErr (''Failed to create WireGuard interface '' @ wc_interface c @ '': '' @ out_stderr out)), w)
       else (Ok (), w))"

definition set_private_key :: "'w feeder \<Rightarrow> wireguard_config \<Rightarrow> 'w \<Rightarrow> (core_error, unit) result \<times> 'w" where
  "set_private_key feed c w =
     and_then (io_core (feed [''wg'', ''set'', wc_interface c, ''private-key'', ''/dev/stdin''] (wc_private_key c) w))
       (\<lambda>_ w. (Ok (), w))"

definition set_listen_port :: "'w shell \<Rightarrow> wireguard_config \<Rightarrow> u16 \<Rightarrow> 'w \<Rightarrow> (core_error, unit) result \<times> 'w" where
  "set_listen_port sh c port w =
     discard (run_checked sh [''wg'', ''set'', wc_interface c, ''listen-port'', show_nat (unat port)]
       (''Failed to set listen port on '' @ wc_interface c) w)"

definition assign_address :: "'w shell \<Rightarrow> wireguard_config \<Rightarrow> 'w \<Rightarrow> (core_error, unit) result \<times> 'w" where
  "assign_address sh c w =
     and_then (io_core (sh [''ip'', ''addr'', ''add'', wc_tunnel_address c, ''dev'', wc_interface c] w)) (\<lambda>out w.
       if \<not> out_success out \<and> \<not> contains_str (out_stderr out) ''exists''
       then (Err (InternalErr (''Failed to assign address '' @ wc_tunnel_address c @ '' to '' @ wc_interface c
               @ '': '' @ out_stderr out)), w)
       else (Ok (), w))"

definition peer_argv :: "wireguard_config \<Rightarrow> cmd" where
  "peer_argv c =
     [''wg'', ''set'', wc_interface c, ''peer'', wc_public_key c, ''endpoint'', wc_endpoint c]
     @ concat (List.map (\<lambda>ip. [''allowed-ips'', ip]) (wc_allowed_ips c))
     @ (case wc_preshared_key c of None \<Rightarrow> [] | Some psk \<Rightarrow> [''preshared-key'', psk])
     @ (case wc_persistent_keepalive c of None \<Rightarrow> []
        | Some keepalive \<Rightarrow> [''persistent-keepalive'', show_nat (unat keepalive)])"

definition add_peer :: "'w shell \<Rightarrow> wireguard_config \<Rightarrow> 'w \<Rightarrow> (core_error, unit) result \<times> 'w" where
  "add_peer sh c w = discard (run_checked sh (peer_argv c) (''Failed to add peer to '' @ wc_interface c) w)"

definition bring_up :: "'w shell \<Rightarrow> wireguard_config \<Rightarrow> 'w \<Rightarrow> (core_error, unit) result \<times> 'w" where
  "bring_up sh c w =
     discard (run_checked sh [''ip'', ''link'', ''set'', ''dev'', wc_interface c, ''up'']
       (''Failed to bring up WireGuard interface '' @ wc_interface c) w)"

text \<open>\<open>set_dns\<close> only writes a log message.\<close>

definition set_dns :: "wireguard_config \<Rightarrow> 'w \<Rightarrow> (core_error, unit) result \<times> 'w" where
  "set_dns c w = (Ok (), w)"

definition wg_create ::
  "'w shell \<Rightarrow> 'w feeder \<Rightarrow> wireguard_tunnel \<Rightarrow> 'w \<Rightarrow> (core_error, unit) result \<times> wireguard_tunnel \<times> 'w" where
  "wg_create sh feed t w =
     (let c = wt_config t;
          (r, w) =
            and_then (wg_link_add sh c w) (\<lambda>_ w.
            and_then (set_private_key feed c w) (\<lambda>_ w.
            and_then (case wc_listen_port c of None \<Rightarrow> (Ok (), w) | Some port \<Rightarrow> set_listen_port sh c port w) (\<lambda>_ w.
            and_then (assign_address sh c w) (\<lambda>_ w.
            and_then (add_peer sh c w) (\<lambda>_ w.
            and_then (bring_up sh c w) (\<lambda>_ w.
            if wc_dns_servers c \<noteq> [] then set_dns c w else (Ok (), w)))))))
      in (case r of
            Inl e \<Rightarrow> (Err e, t, w)
          | Inr _ \<Rightarrow> (Ok (), t\<lparr>wt_is_up := True\<rparr>, w)))"

section \<open>Tearing down and observing\<close>

definition wg_teardown ::
  "'w shell \<Rightarrow> wireguard_tunnel \<Rightarrow> 'w \<Rightarrow> (core_error, unit) result \<times> wireguard_tunnel \<times> 'w" where
  "wg_teardown sh t w =
     (case sh [''ip'', ''link'', ''del'', ''dev'', wc_interface (wt_config t)] w of
        (Inl e, w') \<Rightarrow> (Err (core_error_from_io e), t, w')
      | (Inr _, w') \<Rightarrow> (Ok (), t\<lparr>wt_is_up := False\<rparr>, w'))"

definition is_operational :: "'w shell \<Rightarrow> wireguard_tunnel \<Rightarrow> 'w \<Rightarrow> bool \<times> 'w" where
  "is_operational sh t w =
     (if \<not> wt_is_up t then (False, w)
      else (case sh [''ip'', ''link'', ''show'', ''dev'', wc_interface (wt_config t)] w of
              (Inl _, w') \<Rightarrow> (False, w')
            | (Inr out, w') \<Rightarrow>
                (contains_str (out_stdout out) ''state UP'' \<or> contains_str (out_stdout out) ''UNKNOWN'', w')))"

definition wg_get_stats :: "'w shell \<Rightarrow> wireguard_tunnel \<Rightarrow> 'w \<Rightarrow> (core_error, string) result \<times> 'w" where
  "wg_get_stats sh t w =
     and_then (run_checked sh [''wg'', ''show'', wc_interface (wt_config t)]
         (''Failed to get WireGuard stats for '' @ wc_interface (wt_config t)) w)
       (\<lambda>out w. (Ok (out_stdout out), w))"

text \<open>One line of the transfer counters; a line that does not parse leaves the pair unchanged.\<close>

definition transfer_line :: "string \<Rightarrow> nat \<times> nat \<Rightarrow> nat \<times> nat" where
  "transfer_line line acc =
     (let parts = split_whitespace line
      in if 3 \<le> length parts
         then (case (parse_uint (2 ^ 64 - 1) (parts ! 1), parse_uint (2 ^ 64 - 1) (parts ! 2)) of
                 (Some rx, Some tx) \<Rightarrow> (rx, tx)
               | _ \<Rightarrow> acc)
         else acc)"

definition get_transfer_bytes :: "'w shell \<Rightarrow> wireguard_tunnel \<Rightarrow> 'w \<Rightarrow> (core_error, nat \<times> nat) result \<times> 'w" where
  "get_transfer_bytes sh t w =
     and_then (run_checked sh [''wg'', ''show'', wc_interface (wt_config t), ''transfer'']
         ''Failed to get WireGuard transfer stats'' w)
       (\<lambda>out w. (Ok (fold transfer_line (str_lines (out_stdout out)) (0, 0)), w))"

text \<open>The first line with a time above zero; \<open>Duration::from_secs\<close> of the epoch time.\<close>

fun handshake_of_lines :: "string list \<Rightarrow> duration option" where
  "handshake_of_lines [] = None"
| "handshake_of_lines (line # rest) =
     (let parts = split_whitespace line
      in if length parts = 2
         then (case parse_uint (2 ^ 64 - 1) (parts ! 1) of
                 Some epoch_secs \<Rightarrow> if 0 < epoch_secs then Some (from_secs epoch_secs) else handshake_of_lines rest
               | None \<Rightarrow> handshake_of_lines rest)
         else handshake_of_lines rest)"

definition check_handshake ::
  "'w shell \<Rightarrow> wireguard_tunnel \<Rightarrow> 'w \<Rightarrow> (core_error, duration option) result \<times> 'w" where
  "check_handshake sh t w =
     and_then (run_checked sh [''wg'', ''show'', wc_interface (wt_config t), ''latest-handshakes'']
         ''Failed to get WireGuard handshake times'' w)
       (\<lambda>out w. (Ok (handshake_of_lines (str_lines (out_stdout out))), w))"

section \<open>Properties\<close>

text \<open>The steps of creating a tunnel as a table.\<close>

definition tolerates_existing :: "cmd_output \<Rightarrow> bool" where
  "tolerates_existing out \<longleftrightarrow> out_success out \<or> contains_str (out_stderr out) ''exists''"

definition create_plan :: "wireguard_config \<Rightarrow> plan_step list" where
  "create_plan c =
     [\<lparr>st_argv = [''ip'', ''link'', ''add'', ''dev'', wc_interface c, ''type'', ''wireguard''], st_input = None,
       st_accepts = tolerates_existing, st_failure = ''Failed to create WireGuard interface '' @ wc_interface c\<rparr>,
      \<lparr>st_argv = [''wg'', ''set'', wc_interface c, ''private-key'', ''/dev/stdin''],
       st_input = Some (wc_private_key c), st_accepts = (\<lambda>_. True), st_failure = []\<rparr>]
     @ (case wc_listen_port c of None \<Rightarrow> []
        | Some port \<Rightarrow> [\<lparr>st_argv = [''wg'', ''set'', wc_interface c, ''listen-port'', show_nat (unat port)],
            st_input = None, st_accepts = out_success,
            st_failure = ''Failed to set listen port on '' @ wc_interface c\<rparr>])
     @ [\<lparr>st_argv = [''ip'', ''addr'', ''add'', wc_tunnel_address c, ''dev'', wc_interface c], st_input = None,
         st_accepts = tolerates_existing,
         st_failure = ''Failed to assign address '' @ wc_tunnel_address c @ '' to '' @ wc_interface c\<rparr>,
        \<lparr>st_argv = peer_argv c, st_input = None, st_accepts = out_success,
         st_failure = ''Failed to add peer to '' @ wc_interface c\<rparr>,
        \<lparr>st_argv = [''ip'', ''link'', ''set'', ''dev'', wc_interface c, ''up''], st_input = None,
         st_accepts = out_success, st_failure = ''Failed to bring up WireGuard interface '' @ wc_interface c\<rparr>]"

lemma checked_is_step:
  "discard (run_checked sh argv failure w)
     = run_step sh feed \<lparr>st_argv = argv, st_input = None, st_accepts = out_success, st_failure = failure\<rparr> w"
  by (cases "sh argv w"; cases "fst (sh argv w)")
    (auto simp: discard_def run_checked_def run_step_def)

lemma link_add_is_step:
  "wg_link_add sh c w
   = run_step sh feed \<lparr>st_argv = [''ip'', ''link'', ''add'', ''dev'', wc_interface c, ''type'', ''wireguard''],
       st_input = None, st_accepts = tolerates_existing,
       st_failure = ''Failed to create WireGuard interface '' @ wc_interface c\<rparr> w"
  unfolding wg_link_add_def run_step_def tolerates_existing_def
  by (cases "sh [''ip'', ''link'', ''add'', ''dev'', wc_interface c, ''type'', ''wireguard''] w";
      cases "fst (sh [''ip'', ''link'', ''add'', ''dev'', wc_interface c, ''type'', ''wireguard''] w)") auto

lemma address_is_step:
  "assign_address sh c w
   = run_step sh feed \<lparr>st_argv = [''ip'', ''addr'', ''add'', wc_tunnel_address c, ''dev'', wc_interface c],
       st_input = None, st_accepts = tolerates_existing,
       st_failure = ''Failed to assign address '' @ wc_tunnel_address c @ '' to '' @ wc_interface c\<rparr> w"
  unfolding assign_address_def run_step_def tolerates_existing_def
  by (cases "sh [''ip'', ''addr'', ''add'', wc_tunnel_address c, ''dev'', wc_interface c] w";
      cases "fst (sh [''ip'', ''addr'', ''add'', wc_tunnel_address c, ''dev'', wc_interface c] w)") auto

lemma dns_is_no_step: "(if b then set_dns c w else (Ok (), w)) = (Ok (), w)"
  by (simp add: set_dns_def)

lemma key_is_step:
  "set_private_key feed c w
     = run_step sh feed \<lparr>st_argv = [''wg'', ''set'', wc_interface c, ''private-key'', ''/dev/stdin''],
         st_input = Some (wc_private_key c), st_accepts = (\<lambda>_. True), st_failure = []\<rparr> w"
  by (simp add: set_private_key_def run_step_def)

text \<open>C23: creating a tunnel refines its table of steps: for every behaviour of the commands the
  result, the world left behind and the point where a failure stops the sequence are those of
  running the table; the tunnel counts as up exactly after a complete run (or when it already
  was). The private-key step is accepted whatever status \<open>wg\<close> exits with, and an existing
  interface or address is accepted.\<close>

theorem wg_create_refines_plan:
  "wg_create sh feed t w =
     (let (r, w') = run_plan sh feed (create_plan (wt_config t)) w
      in (r, t\<lparr>wt_is_up := wt_is_up t \<or> is_ok r\<rparr>, w'))"
proof -
  let ?c = "wt_config t"
  have "and_then (wg_link_add sh ?c w) (\<lambda>_ w.
            and_then (set_private_key feed ?c w) (\<lambda>_ w.
            and_then (case wc_listen_port ?c of None \<Rightarrow> (Ok (), w) | Some port \<Rightarrow> set_listen_port sh ?c port w) (\<lambda>_ w.
            and_then (assign_address sh ?c w) (\<lambda>_ w.
            and_then (add_peer sh ?c w) (\<lambda>_ w.
            and_then (bring_up sh ?c w) (\<lambda>_ w.
            if wc_dns_servers ?c \<noteq> [] then set_dns ?c w else (Ok (), w)))))))
        = run_plan sh feed (create_plan ?c) w"
    by (cases "wc_listen_port ?c")
      (simp_all add: run_plan_Cons_fun run_plan_Nil_fun dns_is_no_step create_plan_def set_listen_port_def add_peer_def bring_up_def
        checked_is_step [where feed = feed] key_is_step [where sh = sh]
        link_add_is_step [where feed = feed] address_is_step [where feed = feed])
  then show ?thesis
    by (cases "run_plan sh feed (create_plan ?c) w"; cases "fst (run_plan sh feed (create_plan ?c) w)")
      (auto simp: wg_create_def Let_def)
qed

end
