(* ===== verification/Tunnels.thy ===== *)
theory Tunnels
  imports Wireguard Shared_Config Shared_Types
begin

text \<open>
  \<^verbatim>\<open>crates/netfusion-core/src/tunnels/manager.rs\<close>: several tunnels, their health and their
  reconnection with exponential backoff. \<open>clk\<close> reads the monotonic clock of the world the
  commands leave behind, \<open>sh\<close> and \<open>feed\<close> run the commands.
\<close>

definition MAX_RECONNECT_DELAY_SECS :: nat where
  "MAX_RECONNECT_DELAY_SECS = 300"

section \<open>Backoff\<close>

record reconnect_info =
  ri_attempts :: nat
  ri_last_attempt :: "instant option"
  ri_current_delay :: duration

definition reconnect_info_new :: reconnect_info where
  "reconnect_info_new = \<lparr>ri_attempts = 0, ri_last_attempt = None, ri_current_delay = from_secs 1\<rparr>"

definition next_delay :: "reconnect_info \<Rightarrow> reconnect_info" where
  "next_delay r = r\<lparr>ri_attempts := ri_attempts r + 1,
     ri_current_delay := min (ri_current_delay r * 2) (from_secs MAX_RECONNECT_DELAY_SECS)\<rparr>"

definition reconnect_reset :: "instant \<Rightarrow> reconnect_info \<Rightarrow> reconnect_info" where
  "reconnect_reset inst r =
     r\<lparr>ri_attempts := 0, ri_current_delay := from_secs 1, ri_last_attempt := Some inst\<rparr>"

definition should_reconnect :: "instant \<Rightarrow> reconnect_info \<Rightarrow> bool" where
  "should_reconnect inst r =
     (case ri_last_attempt r of
        Some prev \<Rightarrow> ri_current_delay r \<le> duration_since inst prev
      | None \<Rightarrow> True)"

section \<open>The manager\<close>

record tunnel_manager =
  tm_wg_tunnels :: "(string, wireguard_tunnel) hmap"
  tm_configs :: "(string, tunnel_config) hmap"
  tm_reconnect_state :: "(string, reconnect_info) hmap"
  tm_health_scores :: "(string, f64) hmap"

definition tunnel_manager_new :: tunnel_manager where
  "tunnel_manager_new =
     \<lparr>tm_wg_tunnels = [], tm_configs = [], tm_reconnect_state = [], tm_health_scores = []\<rparr>"

definition add_config :: "tunnel_config \<Rightarrow> tunnel_manager \<Rightarrow> tunnel_manager" where
  "add_config config m = m\<lparr>tm_configs := hm_insert (tc_name config) config (tm_configs m)\<rparr>"

text \<open>The tunnel leaves the map before its teardown, whose failure ends the removal early.\<close>

definition remove_tunnel ::
  "'w shell \<Rightarrow> string \<Rightarrow> tunnel_manager \<Rightarrow> 'w \<Rightarrow> (core_error, unit) result \<times> tunnel_manager \<times> 'w" where
  "remove_tunnel sh name m w =
     (let (r, w) = (case hm_get (tm_wg_tunnels m) name of
                      Some tunnel \<Rightarrow> (let (r, _, w) = wg_teardown sh tunnel w in (r, w))
                    | None \<Rightarrow> (Ok (), w));
          m = m\<lparr>tm_wg_tunnels := hm_remove name (tm_wg_tunnels m)\<rparr>
      in (case r of
            Inl e \<Rightarrow> (Err e, m, w)
          | Inr _ \<Rightarrow> (Ok (), m\<lparr>tm_configs := hm_remove name (tm_configs m),
               tm_reconnect_state := hm_remove name (tm_reconnect_state m),
               tm_health_scores := hm_remove name (tm_health_scores m)\<rparr>, w)))"

text \<open>The options of a WireGuard tunnel; the two starting routines have the same code for it.\<close>

definition required_option :: "string \<Rightarrow> tunnel_config \<Rightarrow> (core_error, string) result" where
  "required_option key config =
     (case hm_get (tc_options config) key of
        None \<Rightarrow> Err (QosErr (''Missing '' @ key @ '' for tunnel '' @ tc_name config))
      | Some v \<Rightarrow> Ok v)"

definition port_option :: "string \<Rightarrow> tunnel_config \<Rightarrow> u16 option" where
  "port_option key config =
     Option.bind (hm_get (tc_options config) key) (\<lambda>s. map_option of_nat (parse_uint 65535 s))"

definition list_option :: "string \<Rightarrow> string list \<Rightarrow> tunnel_config \<Rightarrow> string list" where
  "list_option key dflt config =
     (case hm_get (tc_options config) key of
        Some s \<Rightarrow> List.map trim (split_char (CHR '','') s)
      | None \<Rightarrow> dflt)"

definition wg_config_of :: "tunnel_config \<Rightarrow> (core_error, wireguard_config) result" where
  "wg_config_of config =
     (case required_option ''private_key'' config of Inl e \<Rightarrow> Err e | Inr private_key \<Rightarrow>
     (case required_option ''public_key'' config of Inl e \<Rightarrow> Err e | Inr public_key \<Rightarrow>
     (case required_option ''tunnel_address'' config of Inl e \<Rightarrow> Err e | Inr tunnel_address \<Rightarrow>
       Ok \<lparr>wc_interface = tc_name config, wc_private_key = private_key,
           wc_listen_port = port_option ''listen_port'' config,
           wc_endpoint = tc_remote config, wc_public_key = public_key,
           wc_preshared_key = hm_get (tc_options config) ''preshared_key'',
           wc_allowed_ips = list_option ''allowed_ips'' [''0.0.0.0/0''] config,
           wc_persistent_keepalive = port_option ''persistent_keepalive'' config,
           wc_tunnel_address = tunnel_address,
           wc_dns_servers = list_option ''dns_servers'' [] config\<rparr>)))"

definition start_wireguard ::
  "'w shell \<Rightarrow> 'w feeder \<Rightarrow> tunnel_config \<Rightarrow> tunnel_manager \<Rightarrow> 'w
   \<Rightarrow> (core_error, unit) result \<times> tunnel_manager \<times> 'w" where
  "start_wireguard sh feed config m w =
     (case wg_config_of config of
        Inl e \<Rightarrow> (Err e, m, w)
      | Inr wg_config \<Rightarrow>
          (case wg_create sh feed (wireguard_tunnel_new wg_config) w of
             (Inl e, _, w) \<Rightarrow> (Err e, m, w)
           | (Inr _, tunnel, w) \<Rightarrow>
               (Ok (), m\<lparr>tm_wg_tunnels := hm_insert (tc_name config) tunnel (tm_wg_tunnels m),
                         tm_reconnect_state := hm_insert (tc_name config) reconnect_info_new (tm_reconnect_state m)\<rparr>, w)))"

definition start_tunnel ::
  "'w shell \<Rightarrow> 'w feeder \<Rightarrow> tunnel_config \<Rightarrow> tunnel_manager \<Rightarrow> 'w
   \<Rightarrow> (core_error, unit) result \<times> tunnel_manager \<times> 'w" where
  "start_tunnel sh feed config m w =
     (case tc_type config of
        TWireGuard \<Rightarrow> start_wireguard sh feed config m w
      | TQuic \<Rightarrow> (Ok (), m, w)
      | TRelay \<Rightarrow> (Ok (), m, w)
      | TOpenVpn \<Rightarrow> (Ok (), m, w)
      | TTailscale \<Rightarrow> (Ok (), m, w))"

definition start_auto_connect ::
  "'w shell \<Rightarrow> 'w feeder \<Rightarrow> tunnel_manager \<Rightarrow> 'w \<Rightarrow> tunnel_manager \<times> 'w" where
  "start_auto_connect sh feed m w =
     fold (\<lambda>config (m, w). snd (start_tunnel sh feed config m w))
       (filter tc_auto_connect (List.map snd (tm_configs m))) (m, w)"

fun debug_tunnel_type :: "tunnel_type \<Rightarrow> string" where
  "debug_tunnel_type TWireGuard = ''WireGuard''"
| "debug_tunnel_type TOpenVpn = ''OpenVpn''"
| "debug_tunnel_type TQuic = ''Quic''"
| "debug_tunnel_type TRelay = ''Relay''"
| "debug_tunnel_type TTailscale = ''Tailscale''"

definition start_tunnel_blocking ::
  "'w shell \<Rightarrow> 'w feeder \<Rightarrow> tunnel_config \<Rightarrow> tunnel_manager \<Rightarrow> 'w
   \<Rightarrow> (core_error, unit) result \<times> tunnel_manager \<times> 'w" where
  "start_tunnel_blocking sh feed config m w =
     (case tc_type config of
        TWireGuard \<Rightarrow>
          (case wg_config_of config of
             Inl e \<Rightarrow> (Err e, m, w)
           | Inr wg_config \<Rightarrow>
               (case wg_create sh feed (wireguard_tunnel_new wg_config) w of
                  (Inl e, _, w) \<Rightarrow> (Err e, m, w)
                | (Inr _, tunnel, w) \<Rightarrow>
                    (Ok (), m\<lparr>tm_wg_tunnels := hm_insert (tc_name config) tunnel (tm_wg_tunnels m)\<rparr>, w)))
      | _ \<Rightarrow> (Err (QosErr (''Tunnel type '' @ debug_tunnel_type (tc_type config) @ '' not supported for reconnect'')), m, w))"

section \<open>Health and reconnection\<close>

text \<open>The score of one tunnel, with whether it is up for reconnection.\<close>

definition assess_tunnel :: "'w shell \<Rightarrow> wireguard_tunnel \<Rightarrow> 'w \<Rightarrow> (f64 \<times> bool) \<times> 'w" where
  "assess_tunnel sh tunnel w =
     (case is_operational sh tunnel w of
        (True, w) \<Rightarrow>
          (case check_handshake sh tunnel w of
             (Inr (Some _), w) \<Rightarrow> ((Fin 100, False), w)
           | (Inr None, w) \<Rightarrow> ((Fin 0, True), w)
           | (Inl _, w) \<Rightarrow> ((Fin 0, True), w))
      | (False, w) \<Rightarrow> ((Fin 0, True), w))"

fun assess_all ::
  "'w shell \<Rightarrow> (string \<times> wireguard_tunnel) list \<Rightarrow> (string, f64) hmap \<Rightarrow> 'w
   \<Rightarrow> string list \<times> (string, f64) hmap \<times> 'w" where
  "assess_all sh [] scores w = ([], scores, w)"
| "assess_all sh ((name, tunnel) # rest) scores w =
     (let ((score, unhealthy), w) = assess_tunnel sh tunnel w;
          (names, scores, w) = assess_all sh rest (hm_insert name score scores) w
      in (if unhealthy then name # names else names, scores, w))"

definition try_reconnect ::
  "'w shell \<Rightarrow> 'w feeder \<Rightarrow> ('w \<Rightarrow> instant) \<Rightarrow> string \<Rightarrow> tunnel_manager \<Rightarrow> 'w \<Rightarrow> tunnel_manager \<times> 'w" where
  "try_reconnect sh feed clk name m w =
     (let reconnect = (case hm_get (tm_reconnect_state m) name of None \<Rightarrow> reconnect_info_new | Some r \<Rightarrow> r);
          m = m\<lparr>tm_reconnect_state := hm_insert name reconnect (tm_reconnect_state m)\<rparr>
      in if \<not> should_reconnect (clk w) reconnect then (m, w)
         else if \<not> (case hm_get (tm_configs m) name of None \<Rightarrow> False | Some c \<Rightarrow> tc_auto_reconnect c) then (m, w)
         else
           (let m = m\<lparr>tm_reconnect_state :=
                  hm_insert name (next_delay (reconnect\<lparr>ri_last_attempt := Some (clk w)\<rparr>)) (tm_reconnect_state m)\<rparr>
            in (case hm_get (tm_configs m) name of
                  None \<Rightarrow> (m, w)
                | Some config \<Rightarrow>
                    (let w = (case hm_get (tm_wg_tunnels m) name of
                                Some tunnel \<Rightarrow> snd (snd (wg_teardown sh tunnel w))
                              | None \<Rightarrow> w);
                         m = m\<lparr>tm_wg_tunnels := hm_remove name (tm_wg_tunnels m)\<rparr>
                     in (case start_tunnel_blocking sh feed config m w of
                           (Inr _, m, w) \<Rightarrow>
                             (m\<lparr>tm_reconnect_state :=
                                  (case hm_get (tm_reconnect_state m) name of
                                     Some r \<Rightarrow> hm_insert name (reconnect_reset (clk w) r) (tm_reconnect_state m)
                                   | None \<Rightarrow> tm_reconnect_state m)\<rparr>, w)
                         | (Inl _, m, w) \<Rightarrow> (m, w))))))"

definition check_health ::
  "'w shell \<Rightarrow> 'w feeder \<Rightarrow> ('w \<Rightarrow> instant) \<Rightarrow> tunnel_manager \<Rightarrow> 'w \<Rightarrow> tunnel_manager \<times> 'w" where
  "check_health sh feed clk m w =
     (let (unhealthy, scores, w) = assess_all sh (tm_wg_tunnels m) (tm_health_scores m) w
      in fold (\<lambda>name (m, w). try_reconnect sh feed clk name m w) unhealthy
           (m\<lparr>tm_health_scores := scores\<rparr>, w))"

text \<open>\<open>run_health_loop\<close> after a number of ticks.\<close>

definition health_ticks ::
  "nat \<Rightarrow> 'w shell \<Rightarrow> 'w feeder \<Rightarrow> ('w \<Rightarrow> instant) \<Rightarrow> tunnel_manager \<Rightarrow> 'w \<Rightarrow> tunnel_manager \<times> 'w" where
  "health_ticks n sh feed clk m w = ((\<lambda>(m, w). check_health sh feed clk m w) ^^ n) (m, w)"

definition get_health :: "string \<Rightarrow> tunnel_manager \<Rightarrow> f64 option" where
  "get_health name m = hm_get (tm_health_scores m) name"

definition state_of_tunnel ::
  "'w shell \<Rightarrow> timestamp \<Rightarrow> tunnel_manager \<Rightarrow> string \<Rightarrow> tunnel_config \<Rightarrow> 'w \<Rightarrow> tunnel_state \<times> 'w" where
  "state_of_tunnel sh now m name config w =
     (let tunnel = hm_get (tm_wg_tunnels m) name;
          (connected, w) = (case tunnel of None \<Rightarrow> (False, w) | Some t \<Rightarrow> is_operational sh t w);
          ((rx, tx), w) = (case tunnel of
                             None \<Rightarrow> ((0, 0), w)
                           | Some t \<Rightarrow> (case get_transfer_bytes sh t w of
                                          (Inr b, w) \<Rightarrow> (b, w)
                                        | (Inl _, w) \<Rightarrow> ((0, 0), w)))
      in (\<lparr>ts_name = name, ts_connected = connected, ts_remote = tc_remote config,
           ts_interface = map_option (\<lambda>_. name) tunnel,
           ts_connected_since = (if connected then Some now else None),
           ts_tx_bytes = tx, ts_rx_bytes = rx,
           ts_reconnect_count = (case hm_get (tm_reconnect_state m) name of None \<Rightarrow> 0 | Some r \<Rightarrow> ri_attempts r),
           ts_last_error = None\<rparr>, w))"

fun tunnel_states_of ::
  "'w shell \<Rightarrow> timestamp \<Rightarrow> tunnel_manager \<Rightarrow> (string \<times> tunnel_config) list \<Rightarrow> 'w \<Rightarrow> tunnel_state list \<times> 'w" where
  "tunnel_states_of sh now m [] w = ([], w)"
| "tunnel_states_of sh now m ((name, config) # rest) w =
     (let (s, w) = state_of_tunnel sh now m name config w;
          (ss, w) = tunnel_states_of sh now m rest w
      in (s # ss, w))"

definition get_states :: "'w shell \<Rightarrow> timestamp \<Rightarrow> tunnel_manager \<Rightarrow> 'w \<Rightarrow> tunnel_state list \<times> 'w" where
  "get_states sh now m w = tunnel_states_of sh now m (tm_configs m) w"

section \<open>Properties of the backoff\<close>

lemma next_delay_power:
  "ri_current_delay r = from_secs 1 \<Longrightarrow> ri_attempts r = 0 \<Longrightarrow>
   ri_attempts ((next_delay ^^ n) r) = n
   \<and> ri_current_delay ((next_delay ^^ n) r) = from_secs (min (2 ^ n) MAX_RECONNECT_DELAY_SECS)"
  by (induction n) (auto simp: next_delay_def from_secs_def MAX_RECONNECT_DELAY_SECS_def min_def)

text \<open>After \<open>n\<close> failed attempts since the start or the last success the delay is \<open>2 ^ n\<close>
  seconds, at most 300, and the counter says \<open>n\<close>.\<close>

theorem backoff_delay:
  "ri_current_delay ((next_delay ^^ n) reconnect_info_new) = from_secs (min (2 ^ n) MAX_RECONNECT_DELAY_SECS)
   \<and> ri_current_delay ((next_delay ^^ n) (reconnect_reset inst r)) = from_secs (min (2 ^ n) MAX_RECONNECT_DELAY_SECS)
   \<and> ri_attempts ((next_delay ^^ n) reconnect_info_new) = n
   \<and> ri_attempts ((next_delay ^^ n) (reconnect_reset inst r)) = n"
  by (simp add: next_delay_power reconnect_info_new_def reconnect_reset_def)

section \<open>Properties of the manager\<close>

text \<open>The keys are the names: a configuration and a tunnel are filed under their own name.\<close>

definition tm_ok :: "tunnel_manager \<Rightarrow> bool" where
  "tm_ok m \<longleftrightarrow> hm_ok (tm_wg_tunnels m) \<and> hm_ok (tm_configs m)
     \<and> hm_ok (tm_reconnect_state m) \<and> hm_ok (tm_health_scores m)
     \<and> (\<forall>k c. hm_get (tm_configs m) k = Some c \<longrightarrow> tc_name c = k)
     \<and> (\<forall>k t. hm_get (tm_wg_tunnels m) k = Some t \<longrightarrow> wc_interface (wt_config t) = k \<and> wt_is_up t)"

lemma tm_ok_new: "tm_ok tunnel_manager_new"
  by (simp add: tm_ok_def tunnel_manager_new_def)

lemma tm_ok_add_config: "tm_ok m \<Longrightarrow> tm_ok (add_config config m)"
  by (auto simp: tm_ok_def add_config_def hm_other split: if_splits)

lemma tm_ok_remove_tunnel: "tm_ok m \<Longrightarrow> tm_ok (fst (snd (remove_tunnel sh name m w)))"
  by (cases "fst (case hm_get (tm_wg_tunnels m) name of
                      Some tunnel \<Rightarrow> (let (r, _, w) = wg_teardown sh tunnel w in (r, w))
                    | None \<Rightarrow> (Ok (), w))")
    (auto simp: tm_ok_def remove_tunnel_def hm_other Let_def split: prod.splits if_splits sum.splits)

lemma wg_config_of_interface: "wg_config_of config = Ok c \<Longrightarrow> wc_interface c = tc_name config"
  by (auto simp: wg_config_of_def split: sum.splits)

lemma wg_create_tunnel:
  "wg_create sh feed t w = (r, t', w') \<Longrightarrow> wt_config t' = wt_config t \<and> (wt_is_up t' \<longleftrightarrow> wt_is_up t \<or> is_ok r)"
  by (auto simp: wg_create_def Let_def split: prod.splits sum.splits)

text \<open>What either starting routine does to the map of tunnels.\<close>

lemma started_tunnel:
  assumes "wg_config_of config = Ok c" and "wg_create sh feed (wireguard_tunnel_new c) w = (Ok (), t, w')"
  shows "wc_interface (wt_config t) = tc_name config \<and> wt_is_up t"
  using wg_create_tunnel [OF assms(2)] wg_config_of_interface [OF assms(1)]
  by (simp add: wireguard_tunnel_new_def)

lemma start_blocking_cases:
  assumes "start_tunnel_blocking sh feed config m w = (r, m', w')"
  obtains (err) e where "r = Err e" "m' = m"
  | (ok) t where "r = Ok ()" "m' = m\<lparr>tm_wg_tunnels := hm_insert (tc_name config) t (tm_wg_tunnels m)\<rparr>"
      "wc_interface (wt_config t) = tc_name config" "wt_is_up t"
  using assms
  by (auto simp: start_tunnel_blocking_def started_tunnel
      split: tunnel_type.splits sum.splits prod.splits)

lemma start_wireguard_cases:
  assumes "start_wireguard sh feed config m w = (r, m', w')"
  obtains (err) e where "r = Err e" "m' = m"
  | (ok) t where "r = Ok ()" "m' = m\<lparr>tm_wg_tunnels := hm_insert (tc_name config) t (tm_wg_tunnels m),
        tm_reconnect_state := hm_insert (tc_name config) reconnect_info_new (tm_reconnect_state m)\<rparr>"
      "wc_interface (wt_config t) = tc_name config" "wt_is_up t"
  using assms
  by (auto simp: start_wireguard_def started_tunnel split: sum.splits prod.splits)

lemma tm_ok_start_tunnel: "tm_ok m \<Longrightarrow> tm_ok (fst (snd (start_tunnel sh feed config m w)))"
proof (cases "tc_type config = TWireGuard")
  case True
  assume ok: "tm_ok m"
  obtain r m' w' where s: "start_wireguard sh feed config m w = (r, m', w')" by (metis prod_cases3)
  then show ?thesis
    using True ok by (cases rule: start_wireguard_cases) (auto simp: s start_tunnel_def tm_ok_def hm_other split: if_splits)
qed (auto simp: start_tunnel_def split: tunnel_type.splits)

lemma tm_ok_start_auto: "tm_ok m \<Longrightarrow> tm_ok (fst (start_auto_connect sh feed m w))"
  unfolding start_auto_connect_def by (rule fold_fst_inv) (simp_all add: tm_ok_start_tunnel)

lemma try_reconnect_cases:
  fixes m name w
  defines "r0 \<equiv> (case hm_get (tm_reconnect_state m) name of None \<Rightarrow> reconnect_info_new | Some r \<Rightarrow> r)"
  assumes ok: "tm_ok m" and t: "try_reconnect sh feed clk name m w = (m', w')"
  obtains (skipped) "m' = m\<lparr>tm_reconnect_state := hm_insert name r0 (tm_reconnect_state m)\<rparr>" "w' = w"
      "should_reconnect (clk w) r0 \<Longrightarrow>
        (case hm_get (tm_configs m) name of None \<Rightarrow> True | Some c \<Rightarrow> \<not> tc_auto_reconnect c)"
  | (failed) c where "should_reconnect (clk w) r0" "hm_get (tm_configs m) name = Some c" "tc_auto_reconnect c"
      "tm_wg_tunnels m' = hm_remove name (tm_wg_tunnels m)" "tm_configs m' = tm_configs m"
      "tm_health_scores m' = tm_health_scores m"
      "tm_reconnect_state m' = hm_insert name (next_delay (r0\<lparr>ri_last_attempt := Some (clk w)\<rparr>))
         (hm_insert name r0 (tm_reconnect_state m))"
  | (connected) c t where "should_reconnect (clk w) r0" "hm_get (tm_configs m) name = Some c" "tc_auto_reconnect c"
      "tm_wg_tunnels m' = hm_insert name t (hm_remove name (tm_wg_tunnels m))" "tm_configs m' = tm_configs m"
      "tm_health_scores m' = tm_health_scores m" "wc_interface (wt_config t) = name" "wt_is_up t"
      "tm_reconnect_state m' = hm_insert name
         (reconnect_reset (clk w') (next_delay (r0\<lparr>ri_last_attempt := Some (clk w)\<rparr>)))
         (hm_insert name (next_delay (r0\<lparr>ri_last_attempt := Some (clk w)\<rparr>))
           (hm_insert name r0 (tm_reconnect_state m)))"
proof (cases "should_reconnect (clk w) r0 \<and> (\<exists>c. hm_get (tm_configs m) name = Some c \<and> tc_auto_reconnect c)")
  case False
  then have "m' = m\<lparr>tm_reconnect_state := hm_insert name r0 (tm_reconnect_state m)\<rparr> \<and> w' = w"
    using t by (auto simp: try_reconnect_def Let_def r0_def split: if_splits option.splits)
  with False show ?thesis
    by (intro skipped) (auto split: option.splits)
next
  case True
  then obtain c where c: "hm_get (tm_configs m) name = Some c" "tc_auto_reconnect c"
    and s: "should_reconnect (clk w) r0" by blast
  have n: "tc_name c = name" using ok c(1) by (simp add: tm_ok_def)
  define r1 where "r1 = next_delay (r0\<lparr>ri_last_attempt := Some (clk w)\<rparr>)"
  define m1 where "m1 = m\<lparr>tm_reconnect_state := hm_insert name r1 (hm_insert name r0 (tm_reconnect_state m)),
    tm_wg_tunnels := hm_remove name (tm_wg_tunnels m)\<rparr>"
  define w1 where "w1 = (case hm_get (tm_wg_tunnels m) name of
      Some tunnel \<Rightarrow> snd (snd (wg_teardown sh tunnel w)) | None \<Rightarrow> w)"
  obtain r m2 w2 where st: "start_tunnel_blocking sh feed c m1 w1 = (r, m2, w2)" by (metis prod_cases3)
  have eq: "(m', w') = (case (r, m2, w2) of
      (Inr _, m, w) \<Rightarrow> (m\<lparr>tm_reconnect_state := (case hm_get (tm_reconnect_state m) name of
             Some r \<Rightarrow> hm_insert name (reconnect_reset (clk w) r) (tm_reconnect_state m)
           | None \<Rightarrow> tm_reconnect_state m)\<rparr>, w)
    | (Inl _, m, w) \<Rightarrow> (m, w))"
    using t c s st by (cases r) (auto simp: try_reconnect_def Let_def r0_def [symmetric] m1_def w1_def r1_def)
  from st show ?thesis
  proof (cases rule: start_blocking_cases)
    case (err e)
    then show ?thesis
      using eq by (intro failed [OF s c]) (simp_all add: m1_def r1_def)
  next
    case (ok t)
    then show ?thesis
      using eq n by (intro connected [OF s c, of t]) (simp_all add: m1_def r1_def)
  qed
qed

lemma tm_ok_try_reconnect:
  assumes "tm_ok m" shows "tm_ok (fst (try_reconnect sh feed clk name m w))"
proof -
  obtain m' w' where t: "try_reconnect sh feed clk name m w = (m', w')" by fastforce
  from assms t show ?thesis
    by (cases rule: try_reconnect_cases) (use assms t in \<open>auto simp: tm_ok_def hm_other split: if_splits\<close>)
qed

lemma try_reconnect_other:
  assumes "tm_ok m" and "name' \<noteq> name"
  shows "hm_get (tm_wg_tunnels (fst (try_reconnect sh feed clk name m w))) name' = hm_get (tm_wg_tunnels m) name'
    \<and> hm_get (tm_reconnect_state (fst (try_reconnect sh feed clk name m w))) name' = hm_get (tm_reconnect_state m) name'
    \<and> tm_health_scores (fst (try_reconnect sh feed clk name m w)) = tm_health_scores m"
proof -
  obtain m' w' where t: "try_reconnect sh feed clk name m w = (m', w')" by fastforce
  from assms(1) t show ?thesis
    by (cases rule: try_reconnect_cases) (use assms t in \<open>auto simp: hm_other\<close>)
qed

lemma assess_all_names: "assess_all sh ts scores w = (names, scores', w') \<Longrightarrow> set names \<subseteq> fst ` set ts"
  by (induction ts arbitrary: scores w names scores' w')
    (force simp: Let_def split: prod.splits if_splits)+

lemma assess_all_scores:
  "assess_all sh ts scores w = (names, scores', w') \<Longrightarrow> hm_ok scores \<Longrightarrow>
   hm_ok scores' \<and> (\<forall>k. k \<notin> fst ` set ts \<longrightarrow> hm_get scores' k = hm_get scores k)"
proof (induction ts arbitrary: scores w names scores' w')
  case (Cons p ts)
  obtain n t where p: "p = (n, t)" by fastforce
  obtain s b w1 where a: "assess_tunnel sh t w = ((s, b), w1)" by (metis prod.exhaust)
  obtain ns sc w2 where r: "assess_all sh ts (hm_insert n s scores) w1 = (ns, sc, w2)" by (metis prod_cases3)
  show ?case
    using Cons.IH [OF r] Cons.prems by (auto simp: p a r Let_def hm_other split: if_splits)
qed simp

lemma tm_ok_check_health:
  assumes "tm_ok m" shows "tm_ok (fst (check_health sh feed clk m w))"
proof -
  obtain names scores w' where a: "assess_all sh (tm_wg_tunnels m) (tm_health_scores m) w = (names, scores, w')"
    by (metis prod_cases3)
  have "tm_ok (m\<lparr>tm_health_scores := scores\<rparr>)"
    using assess_all_scores [OF a] assms by (simp add: tm_ok_def)
  then show ?thesis
    unfolding check_health_def a Let_def prod.case by (rule fold_fst_inv [rotated]) (simp add: tm_ok_try_reconnect)
qed

definition tunnel_view :: "string \<Rightarrow> tunnel_manager \<Rightarrow> wireguard_tunnel option \<times> reconnect_info option \<times> f64 option" where
  "tunnel_view name m =
     (hm_get (tm_wg_tunnels m) name, hm_get (tm_reconnect_state m) name, hm_get (tm_health_scores m) name)"

lemma check_health_absent:
  assumes ok: "tm_ok m" and gone: "hm_get (tm_wg_tunnels m) name = None"
  shows "tunnel_view name (fst (check_health sh feed clk m w)) = tunnel_view name m"
proof -
  obtain names scores w' where a: "assess_all sh (tm_wg_tunnels m) (tm_health_scores m) w = (names, scores, w')"
    by (metis prod_cases3)
  have keys: "name \<notin> fst ` set (tm_wg_tunnels m)" using gone by (simp add: map_of_eq_None_iff)
  then have n: "name \<notin> set names" using assess_all_names [OF a] by auto
  let ?m = "m\<lparr>tm_health_scores := scores\<rparr>"
  have start: "tm_ok ?m \<and> tunnel_view name ?m = tunnel_view name m"
    using assess_all_scores [OF a] ok keys by (simp add: tm_ok_def tunnel_view_def)
  let ?P = "\<lambda>x. tm_ok x \<and> tunnel_view name x = tunnel_view name m"
  have "?P (fst (case (mx, wx) of (m, w) \<Rightarrow> try_reconnect sh feed clk x m w))"
    if "x \<in> set names" and "?P mx" for x mx wx
  proof -
    have "name \<noteq> x" using that(1) n by blast
    then show ?thesis
      using that(2) try_reconnect_other [of mx name x sh feed clk wx] tm_ok_try_reconnect [of mx sh feed clk x wx] by (auto simp: tunnel_view_def)
  qed
  then have "?P (fst (fold (\<lambda>n (m, w). try_reconnect sh feed clk n m w) names (?m, w')))"
    using start by (rule fold_fst_inv)
  then show ?thesis by (simp add: check_health_def a)
qed

text \<open>A manager with one configured tunnel, on a system where no command can be started.\<close>

definition sample_tunnel_config :: tunnel_config where
  "sample_tunnel_config =
     \<lparr>tc_name = ''wg0'', tc_type = TWireGuard, tc_remote = ''example.com:51820'', tc_local_bind = None,
      tc_auth_ref = None,
      tc_options = [(''private_key'', ''k''), (''public_key'', ''p''), (''tunnel_address'', ''10.0.0.1/24'')],
      tc_auto_connect = True, tc_auto_reconnect = True, tc_reconnect_interval_secs = 10\<rparr>"

definition sample_manager :: tunnel_manager where
  "sample_manager = (add_config sample_tunnel_config tunnel_manager_new)
     \<lparr>tm_reconnect_state := [(''wg0'', reconnect_info_new\<lparr>ri_last_attempt := Some 5\<rparr>)]\<rparr>"

definition no_shell :: "nat shell" where
  "no_shell argv w = (Inl ''not found'', w + 1)"

definition no_feeder :: "nat feeder" where
  "no_feeder argv i w = (Inl ''not found'', w + 1)"

lemma sample_manager_facts:
  "tm_ok sample_manager" "hm_get (tm_wg_tunnels sample_manager) ''wg0'' = None"
  "hm_get (tm_reconnect_state sample_manager) ''wg0'' = Some (reconnect_info_new\<lparr>ri_last_attempt := Some 5\<rparr>)"
  "hm_get (tm_configs sample_manager) ''wg0'' = Some sample_tunnel_config"
  "tc_auto_reconnect sample_tunnel_config" "hm_ok (tm_reconnect_state sample_manager)"
  by (simp_all add: sample_manager_def add_config_def tunnel_manager_new_def tm_ok_def hm_ok_def
      sample_tunnel_config_def)



text \<open>C25: a tunnel that is no longer among the active ones, as after a failed reconnection, is never
  looked at again: however many health checks follow, and whatever the commands answer, it
  stays away, its health score is not updated and no further attempt is counted, so a lasting
  automatic reconnection is not what the loop does.\<close>

theorem lost_tunnel_never_retried:
  assumes "tm_ok m" and "hm_get (tm_wg_tunnels m) name = None"
  shows "tunnel_view name (fst (health_ticks n sh feed clk m w)) = tunnel_view name m"
proof -
  have "tm_ok (fst (health_ticks n sh feed clk m w))
    \<and> tunnel_view name (fst (health_ticks n sh feed clk m w)) = tunnel_view name m"
  proof (induction n)
    case 0
    then show ?case using assms by (simp add: health_ticks_def)
  next
    case (Suc n)
    obtain m1 w1 where s: "health_ticks n sh feed clk m w = (m1, w1)" by fastforce
    have "health_ticks (Suc n) sh feed clk m w = check_health sh feed clk m1 w1"
      using s by (simp add: health_ticks_def)
    moreover have "hm_get (tm_wg_tunnels m1) name = None"
      using Suc s assms(2) by (simp add: tunnel_view_def)
    ultimately show ?case
      using Suc s tm_ok_check_health [of m1 sh feed clk w1] check_health_absent [of m1 name sh feed clk w1] by simp
  qed
  then show ?thesis by simp
qed

lemma lost_tunnel_never_retried_witness:
  "tunnel_view ''wg0'' (fst (health_ticks 100 no_shell no_feeder id sample_manager 0)) = tunnel_view ''wg0'' sample_manager"
  by (rule lost_tunnel_never_retried [OF sample_manager_facts(1,2)])

text \<open>While the delay since the last attempt has not passed, asking for a reconnection runs no
  command and changes nothing.\<close>

theorem cooldown_blocks:
  assumes "hm_get (tm_reconnect_state m) name = Some r" and "ri_last_attempt r = Some prev"
    and "duration_since (clk w) prev < ri_current_delay r" and "hm_ok (tm_reconnect_state m)"
  shows "snd (try_reconnect sh feed clk name m w) = w
    \<and> tunnel_view k (fst (try_reconnect sh feed clk name m w)) = tunnel_view k m"
  using assms
  by (auto simp: try_reconnect_def should_reconnect_def Let_def tunnel_view_def hm_other)

lemma cooldown_blocks_witness:
  "snd (try_reconnect no_shell no_feeder id ''wg0'' sample_manager 7) = 7
   \<and> tunnel_view ''wg0'' (fst (try_reconnect no_shell no_feeder id ''wg0'' sample_manager 7)) = tunnel_view ''wg0'' sample_manager"
  by (rule cooldown_blocks [OF sample_manager_facts(3) _ _ sample_manager_facts(6), where prev = 5])
    (simp_all add: duration_since_def reconnect_info_new_def from_secs_def)

end
