(* ===== verification/Relay.thy ===== *)
theory Relay
  imports NF_Process Config_Toml
begin

text \<open>
  \<^verbatim>\<open>crates/netfusion-relay/src/\<close>: the configuration, the accept loop with its connection limit
  and the echo of a connection. The QUIC and TLS libraries and the parser of TOML are
  parameters; the accept loop and the connection tasks it starts are a step relation.
\<close>

section \<open>Configuration\<close>

record relay_config =
  rc_bind_addr :: string
  rc_cert_path :: string
  rc_key_path :: string
  rc_max_connections :: nat
  rc_upstream :: "string option"

definition DEFAULT_BIND_ADDR :: string where
  "DEFAULT_BIND_ADDR = ''0.0.0.0:4433''"

definition DEFAULT_MAX_CONNECTIONS :: nat where
  "DEFAULT_MAX_CONNECTIONS = 100"

definition relay_config_default :: relay_config where
  "relay_config_default =
     \<lparr>rc_bind_addr = DEFAULT_BIND_ADDR, rc_cert_path = ''/etc/netfusion/relay/cert.pem'',
      rc_key_path = ''/etc/netfusion/relay/key.pem'', rc_max_connections = DEFAULT_MAX_CONNECTIONS,
      rc_upstream = None\<rparr>"

text \<open>No field of the file has a default; \<open>upstream\<close> may be absent.\<close>

definition de_relay_config :: "toml_table \<Rightarrow> relay_config option" where
  "de_relay_config t = do {
     bind_addr \<leftarrow> field ''bind_addr'' de_string t;
     cert_path \<leftarrow> field ''cert_path'' de_string t;
     key_path \<leftarrow> field ''key_path'' de_string t;
     max_connections \<leftarrow> field ''max_connections'' de_uint t;
     upstream \<leftarrow> field_opt ''upstream'' de_string t;
     Some \<lparr>rc_bind_addr = bind_addr, rc_cert_path = cert_path, rc_key_path = key_path,
           rc_max_connections = unat (max_connections :: 64 word), rc_upstream = upstream\<rparr>
   }"

definition relay_config_from_str ::
  "(string \<Rightarrow> (string, toml_table) result) \<Rightarrow> (toml_table \<Rightarrow> string) \<Rightarrow> string \<Rightarrow> (string, relay_config) result" where
  "relay_config_from_str parse describe content =
     (case parse content of
        Inl e \<Rightarrow> Err e
      | Inr t \<Rightarrow> (case de_relay_config t of None \<Rightarrow> Err (describe t) | Some c \<Rightarrow> Ok c))"

definition relay_config_load ::
  "'w files \<Rightarrow> (string \<Rightarrow> (string, relay_config) result) \<Rightarrow> 'w \<Rightarrow> (string, relay_config) result \<times> 'w" where
  "relay_config_load fs toml w =
     (let config_path = ''/etc/netfusion/relay.toml''
      in (case fs_exists fs config_path w of
            (False, w) \<Rightarrow> (Err (''Config file not found: '' @ config_path), w)
          | (True, w) \<Rightarrow>
              (case fs_read fs config_path w of
                 (Inl e, w) \<Rightarrow> (Err e, w)
               | (Inr content, w) \<Rightarrow> (toml content, w))))"

text \<open>\<open>main\<close> takes the defaults when loading fails, also when the file is there and does not parse.\<close>

definition relay_config_or_default ::
  "'w files \<Rightarrow> (string \<Rightarrow> (string, relay_config) result) \<Rightarrow> 'w \<Rightarrow> relay_config \<times> 'w" where
  "relay_config_or_default fs toml w =
     (case relay_config_load fs toml w of
        (Inr c, w) \<Rightarrow> (c, w)
      | (Inl _, w) \<Rightarrow> (relay_config_default, w))"

section \<open>Certificates\<close>

text \<open>
  The TLS libraries: \<open>tl_generate\<close> makes a self-signed certificate and its key, both as PEM,
  \<open>tl_accepts\<close> builds the development configuration from them. \<open>tl_certs\<close> and \<open>tl_private_key\<close>
  read PEM texts, \<open>tl_single_cert\<close> makes the TLS configuration of a certificate chain, a key and the
  protocols offered, \<open>tl_quic\<close> the QUIC configuration with the limits of bidirectional and
  unidirectional streams. \<open>tl_create_parent\<close> creates the directory of a path.
\<close>

record ('w, 'c, 'd, 'k, 't) tls =
  tl_generate :: "'w \<Rightarrow> (string, string \<times> string) result \<times> 'w"
  tl_create_parent :: "string \<Rightarrow> 'w \<Rightarrow> (string, unit) result \<times> 'w"
  tl_accepts :: "string \<times> string \<Rightarrow> (string, unit) result"
  tl_certs :: "string \<Rightarrow> (string, 'd list) result"
  tl_private_key :: "string \<Rightarrow> (string, 'k option) result"
  tl_single_cert :: "'d list \<Rightarrow> 'k \<Rightarrow> string list \<Rightarrow> (string, 't) result"
  tl_quic :: "'t \<Rightarrow> nat \<Rightarrow> nat \<Rightarrow> (string, 'c) result"

definition generate_self_signed_cert ::
  "'w files \<Rightarrow> ('w, 'c, 'd, 'k, 't) tls \<Rightarrow> string \<Rightarrow> string \<Rightarrow> 'w \<Rightarrow> (string, unit) result \<times> 'w" where
  "generate_self_signed_cert fs lib cert_path key_path w =
     and_then (tl_generate lib w) (\<lambda>(cert_pem, key_pem) w.
     and_then (tl_create_parent lib cert_path w) (\<lambda>_ w.
     and_then (fs_write fs cert_path cert_pem w) (\<lambda>_ w.
     and_then (fs_write fs key_path key_pem w) (\<lambda>_ w.
       (tl_accepts lib (cert_pem, key_pem), w)))))"

definition build_tls_config :: "('w, 'c, 'd, 'k, 't) tls \<Rightarrow> string \<Rightarrow> string \<Rightarrow> (string, 'c) result" where
  "build_tls_config lib cert_pem key_pem =
     (case tl_certs lib cert_pem of
        Inl e \<Rightarrow> Err e
      | Inr cert \<Rightarrow>
          (case tl_private_key lib key_pem of
             Inl e \<Rightarrow> Err e
           | Inr None \<Rightarrow> Err ''No private key found''
           | Inr (Some key) \<Rightarrow>
               (case tl_single_cert lib cert key [''netfusion-relay''] of
                  Inl e \<Rightarrow> Err e
                | Inr tls_config \<Rightarrow> tl_quic lib tls_config 100 100)))"

definition build_server_config ::
  "'w files \<Rightarrow> ('w, 'c, 'd, 'k, 't) tls \<Rightarrow> relay_config \<Rightarrow> 'w \<Rightarrow> (string, 'c) result \<times> 'w" where
  "build_server_config fs lib c w =
     (let (cert_there, w) = fs_exists fs (rc_cert_path c) w;
          (key_there, w) = (if cert_there then fs_exists fs (rc_key_path c) w else (False, w))
      in and_then (if cert_there \<and> key_there then (Ok (), w)
                   else generate_self_signed_cert fs lib (rc_cert_path c) (rc_key_path c) w) (\<lambda>_ w.
         and_then (fs_read fs (rc_cert_path c) w) (\<lambda>cert_pem w.
         and_then (fs_read fs (rc_key_path c) w) (\<lambda>key_pem w.
           (build_tls_config lib cert_pem key_pem, w)))))"

section \<open>The accept loop\<close>

text \<open>
  \<open>rs_tasks\<close> are the running connection tasks and \<open>rs_next\<close> numbers the incoming connections; both
  only serve to speak about them. The code keeps \<open>rs_active\<close>.
\<close>

record relay_server =
  rs_config :: relay_config
  rs_active_connections :: nat
  rs_tasks :: "nat list"
  rs_next :: nat

definition relay_server_new :: "relay_config \<Rightarrow> relay_server" where
  "relay_server_new config = \<lparr>rs_config = config, rs_active_connections = 0, rs_tasks = [], rs_next = 0\<rparr>"

text \<open>
  \<open>main\<close> and \<open>run\<close> up to the accept loop. The endpoint is a parameter: \<open>ep_addr\<close> reads a socket address,
  \<open>ep_server\<close> binds it with a configuration.
\<close>

record ('w, 'c, 'a) endpoint =
  ep_addr :: "string \<Rightarrow> (string, 'a) result"
  ep_server :: "'c \<Rightarrow> 'a \<Rightarrow> 'w \<Rightarrow> (string, unit) result \<times> 'w"

definition relay_listen ::
  "'w files \<Rightarrow> ('w, 'c, 'd, 'k, 't) tls \<Rightarrow> ('w, 'c, 'a) endpoint \<Rightarrow> relay_server \<Rightarrow> 'w
     \<Rightarrow> (string, relay_server) result \<times> 'w" where
  "relay_listen fs lib ep s w =
     and_then (build_server_config fs lib (rs_config s) w) (\<lambda>server_config w.
     and_then (ep_addr ep (rc_bind_addr (rs_config s)), w) (\<lambda>addr w.
     and_then (ep_server ep server_config addr w) (\<lambda>_ w. (Ok s, w))))"

definition relay_main ::
  "'w files \<Rightarrow> (string \<Rightarrow> (string, relay_config) result) \<Rightarrow> ('w, 'c, 'd, 'k, 't) tls \<Rightarrow> ('w, 'c, 'a) endpoint \<Rightarrow> 'w
     \<Rightarrow> (string, relay_server) result \<times> 'w" where
  "relay_main fs toml lib ep w =
     (let (config, w) = relay_config_or_default fs toml w
      in relay_listen fs lib ep (relay_server_new config) w)"

text \<open>One incoming connection: rejected at the limit, else counted and given a task.\<close>

definition relay_accept :: "relay_server \<Rightarrow> relay_server" where
  "relay_accept s =
     (if rc_max_connections (rs_config s) \<le> rs_active_connections s then s\<lparr>rs_next := rs_next s + 1\<rparr>
      else s\<lparr>rs_active_connections := rs_active_connections s + 1,
             rs_tasks := rs_next s # rs_tasks s, rs_next := rs_next s + 1\<rparr>)"

text \<open>A connection task ends; nothing is counted.\<close>

definition relay_finish :: "nat \<Rightarrow> relay_server \<Rightarrow> relay_server" where
  "relay_finish i s = s\<lparr>rs_tasks := filter (\<lambda>j. j \<noteq> i) (rs_tasks s)\<rparr>"

inductive relay_step :: "relay_server \<Rightarrow> relay_server \<Rightarrow> bool" where
  incoming: "relay_step s (relay_accept s)"
| finished: "i \<in> set (rs_tasks s) \<Longrightarrow> relay_step s (relay_finish i s)"

inductive_cases relay_stepE: "relay_step s t"

section \<open>A connection\<close>

text \<open>
  What \<open>accept_bi\<close> gives: a stream with the bytes the client sends on it (or a failure of
  reading) and whether the answer can be written, the client closing, or another error.
\<close>

datatype bi_event = BiStream "8 word list option" bool | ApplicationClosed | AcceptError

definition READ_LIMIT :: nat where
  "READ_LIMIT = 1024 * 1024"

definition read_to_end :: "nat \<Rightarrow> 'a list option \<Rightarrow> 'a list option" where
  "read_to_end limit received = (case received of None \<Rightarrow> None | Some bs \<Rightarrow> if limit < length bs then None else Some bs)"

text \<open>The bytes written on each stream, in order, up to the end of the loop.\<close>

fun relay_handle_connection :: "bi_event list \<Rightarrow> 8 word list option list" where
  "relay_handle_connection [] = []"
| "relay_handle_connection (BiStream received writable # rest) =
     (case read_to_end READ_LIMIT received of
        Some buf \<Rightarrow> (if writable then Some buf else None) # relay_handle_connection rest
      | None \<Rightarrow> [])"
| "relay_handle_connection (ApplicationClosed # rest) = []"
| "relay_handle_connection (AcceptError # rest) = []"

section \<open>Properties\<close>

lemma relay_reach_step: "relay_step\<^sup>*\<^sup>* s t \<Longrightarrow> relay_step t u \<Longrightarrow> relay_step\<^sup>*\<^sup>* s u"
  by (rule rtranclp.rtrancl_into_rtrancl)

lemma relay_step_facts:
  "relay_step s t \<Longrightarrow> rs_config t = rs_config s \<and> rs_active_connections s \<le> rs_active_connections t
   \<and> (rc_max_connections (rs_config s) \<le> rs_active_connections s \<longrightarrow>
        rs_active_connections t = rs_active_connections s \<and> set (rs_tasks t) \<subseteq> set (rs_tasks s))"
  by (erule relay_stepE) (auto simp: relay_accept_def relay_finish_def)

definition relay_inv :: "relay_server \<Rightarrow> bool" where
  "relay_inv s \<longleftrightarrow> distinct (rs_tasks s) \<and> (\<forall>i \<in> set (rs_tasks s). i < rs_next s)
     \<and> length (rs_tasks s) \<le> rs_active_connections s
     \<and> rs_active_connections s \<le> rc_max_connections (rs_config s)"

lemma relay_inv_step: "relay_step s t \<Longrightarrow> relay_inv s \<Longrightarrow> relay_inv t"
proof (erule relay_stepE)
  fix i
  assume "relay_inv s" "t = relay_finish i s"
  moreover have "length (filter (\<lambda>j. j \<noteq> i) (rs_tasks s)) \<le> rs_active_connections s"
    using \<open>relay_inv s\<close> length_filter_le [of "\<lambda>j. j \<noteq> i" "rs_tasks s"] unfolding relay_inv_def by linarith
  ultimately show "relay_inv t"
    by (auto simp: relay_inv_def relay_finish_def)
qed (auto simp: relay_inv_def relay_accept_def)

interpretation limited: step_invariant relay_step "\<lambda>s. relay_inv s \<and> rs_config s = config" for config
  by unfold_locales (use relay_inv_step relay_step_facts in blast)

text \<open>A relay that has counted up to its limit, with at most the tasks of a set running.\<close>

definition exhausted :: "relay_config \<Rightarrow> nat set \<Rightarrow> relay_server \<Rightarrow> bool" where
  "exhausted config tasks s \<longleftrightarrow> rs_config s = config \<and> rc_max_connections config \<le> rs_active_connections s
     \<and> set (rs_tasks s) \<subseteq> tasks"

interpretation exhausted: step_invariant relay_step "exhausted config tasks" for config tasks
  by unfold_locales (use relay_step_facts in \<open>fastforce simp: exhausted_def\<close>)

text \<open>In every state the relay reaches, no more connections are served at a time than the limit.\<close>

theorem relay_limit_respected:
  assumes "relay_step\<^sup>*\<^sup>* (relay_server_new config) s"
  shows "length (rs_tasks s) \<le> rc_max_connections config \<and> distinct (rs_tasks s)"
  using limited.reached_keeps [OF assms, of config] by (auto simp: relay_inv_def relay_server_new_def)

text \<open>The run in which the clients come and leave one after the other.\<close>

fun come_and_go :: "nat \<Rightarrow> relay_server \<Rightarrow> relay_server" where
  "come_and_go 0 s = s"
| "come_and_go (Suc n) s = (let t = come_and_go n s in relay_finish (rs_next t) (relay_accept t))"

lemma come_and_go_state:
  "n \<le> rc_max_connections config \<Longrightarrow>
   relay_step\<^sup>*\<^sup>* (relay_server_new config) (come_and_go n (relay_server_new config))
   \<and> come_and_go n (relay_server_new config)
       = \<lparr>rs_config = config, rs_active_connections = n, rs_tasks = [], rs_next = n\<rparr>"
proof (induction n)
  case 0
  then show ?case by (simp add: relay_server_new_def)
next
  case (Suc n)
  let ?t = "come_and_go n (relay_server_new config)"
  have t: "?t = \<lparr>rs_config = config, rs_active_connections = n, rs_tasks = [], rs_next = n\<rparr>"
    using Suc by simp
  have "relay_step\<^sup>*\<^sup>* (relay_server_new config) (relay_accept ?t)"
    using Suc.IH Suc.prems relay_reach_step [OF _ relay_step.incoming] Suc_leD by blast
  moreover have "rs_next ?t \<in> set (rs_tasks (relay_accept ?t))"
    using t Suc.prems by (simp add: relay_accept_def)
  ultimately have "relay_step\<^sup>*\<^sup>* (relay_server_new config) (relay_finish (rs_next ?t) (relay_accept ?t))"
    using relay_reach_step [OF _ relay_step.finished] by blast
  then show ?case
    using t Suc.prems by (simp add: Let_def relay_accept_def relay_finish_def)
qed

text \<open>C32: the number of active connections is never taken back: after as many clients as the limit have
  come and gone, a state the relay does reach, no connection is running and yet no connection
  is ever served again, whatever happens.\<close>

theorem relay_stops_serving:
  "relay_step\<^sup>*\<^sup>* (relay_server_new config) (come_and_go (rc_max_connections config) (relay_server_new config))
   \<and> rs_tasks (come_and_go (rc_max_connections config) (relay_server_new config)) = []
   \<and> (\<forall>t. relay_step\<^sup>*\<^sup>* (come_and_go (rc_max_connections config) (relay_server_new config)) t \<longrightarrow> rs_tasks t = [])"
  using come_and_go_state [of "rc_max_connections config" config] exhausted.reached_keeps [of _ _ config "{}"]
  by (auto simp: exhausted_def)

lemma relay_stops_serving_witness:
  "relay_step\<^sup>*\<^sup>* (relay_server_new relay_config_default) (come_and_go 100 (relay_server_new relay_config_default))
   \<and> rs_tasks (relay_accept (come_and_go 100 (relay_server_new relay_config_default))) = []"
proof -
  have limit: "rc_max_connections relay_config_default = 100"
    by (simp add: relay_config_default_def DEFAULT_MAX_CONNECTIONS_def)
  have "relay_step\<^sup>*\<^sup>* s (relay_accept s)" for s
    by (rule relay_reach_step [OF rtranclp.rtrancl_refl relay_step.incoming])
  then show ?thesis
    using relay_stops_serving [of relay_config_default] unfolding limit by blast
qed

lemma relay_limit_respected_witness:
  "length (rs_tasks (relay_accept (relay_server_new relay_config_default))) \<le> rc_max_connections relay_config_default
   \<and> distinct (rs_tasks (relay_accept (relay_server_new relay_config_default)))"
  by (rule relay_limit_respected [OF relay_reach_step [OF rtranclp.rtrancl_refl relay_step.incoming]])

text \<open>Every stream of at most a mebibyte is echoed, as long as no error comes before it.\<close>

lemma relay_echoes:
  "\<forall>b \<in> set bss. length b \<le> READ_LIMIT \<Longrightarrow>
   relay_handle_connection (List.map (\<lambda>b. BiStream (Some b) True) bss @ [ApplicationClosed]) = List.map Some bss"
  by (induction bss) (auto simp: read_to_end_def)

end
