(* ===== verification/Ipc.thy ===== *)
theory Ipc
  imports Shared_Types Events NF_Process
begin

text \<open>
  The protocol between the daemon and its clients: the messages of
  \<^verbatim>\<open>crates/netfusion-shared/src/ipc.rs\<close>, the server of \<^verbatim>\<open>netfusion-daemon/src/ipc/server.rs\<close> and
  the client of \<^verbatim>\<open>client.rs\<close>. A connection is the bytes that arrive on it and the bytes written
  to it. The \<open>bincode\<close> library, the clocks, the message identifiers, the other tasks that
  share the server's state and the failures of writing are the fields of \<open>ipc_env\<close>.
\<close>

type_synonym byte = "8 word"

section \<open>Messages\<close>

datatype daemon_request =
    GetStatus
  | GetInterfaces
  | GetInterface string
  | GetBonds
  | GetBond string
  | GetTunnels
  | GetEvents nat
  | SubscribeEvents
  | UnsubscribeEvents
  | GetConfig
  | ApplyConfig netfusion_config
  | DryRunConfig netfusion_config
  | ActivateProfile string
  | DeactivateProfile
  | GetActiveProfile
  | GetHealth string
  | GetAllHealth
  | RescanInterfaces
  | CreateBond bond_config
  | DeleteBond string
  | EmergencyRollback
  | Shutdown

datatype response_data =
    StatusData system_status
  | InterfacesData "interface_info list"
  | InterfaceData interface_info
  | BondsData "bond_state list"
  | BondData bond_state
  | TunnelsData "tunnel_state list"
  | EventsData "netfusion_event list"
  | EventStreamData netfusion_event
  | ConfigData netfusion_config
  | ProfileData "string option"
  | HealthData health_score
  | AllHealthData "(string \<times> health_score) list"
  | BondCreatedData string
  | BondDeletedData string
  | EmptyData

datatype daemon_response = OkResponse "response_data option" | ErrorResponse string bool

record daemon_push =
  dp_id :: string
  dp_timestamp :: timestamp
  dp_event :: netfusion_event

record 'p wire_message =
  wm_version :: "32 word"
  wm_id :: string
  wm_timestamp :: timestamp
  wm_payload :: 'p

definition IPC_PROTOCOL_VERSION :: "32 word" where
  "IPC_PROTOCOL_VERSION = 1"

definition wire_message_new :: "string \<Rightarrow> timestamp \<Rightarrow> 'p \<Rightarrow> 'p wire_message" where
  "wire_message_new uuid now payload =
     \<lparr>wm_version = IPC_PROTOCOL_VERSION, wm_id = uuid, wm_timestamp = now, wm_payload = payload\<rparr>"

section \<open>Frames\<close>

definition from_be_bytes :: "byte list \<Rightarrow> nat" where
  "from_be_bytes bs = foldl (\<lambda>n b. 256 * n + unat b) 0 bs"

definition to_be_bytes :: "nat \<Rightarrow> byte list" where
  "to_be_bytes n = [of_nat (n div 16777216), of_nat (n div 65536), of_nat (n div 256), of_nat n]"

definition MAX_FRAME :: nat where
  "MAX_FRAME = 10 * 1024 * 1024"

text \<open>A length as \<open>u32\<close> in front of the bytes; a longer message would be cut to 32 bits.\<close>

definition frame_header :: "byte list \<Rightarrow> byte list" where
  "frame_header bs = to_be_bytes (length bs mod 2 ^ 32)"

definition frame :: "byte list \<Rightarrow> byte list" where
  "frame bs = frame_header bs @ bs"

section \<open>The server\<close>

record ipc_server =
  sv_socket_path :: string
  sv_interfaces :: "interface_info list"
  sv_config :: netfusion_config
  sv_uptime_start :: instant

text \<open>
  \<open>ie_clocks k\<close> are the wall clock and the monotonic clock while request \<open>k\<close> of the connection is
  processed, \<open>ie_others k\<close> what other tasks did to the shared state before it.
  \<open>ie_write out bs\<close> is the error of writing \<open>bs\<close> after \<open>out\<close>, if there is one.
\<close>

record ipc_env =
  ie_decode :: "byte list \<Rightarrow> (string, daemon_request wire_message) result"
  ie_encode :: "daemon_response wire_message \<Rightarrow> (string, byte list) result"
  ie_clocks :: "nat \<Rightarrow> timestamp \<times> instant"
  ie_uuid :: "nat \<Rightarrow> string"
  ie_others :: "nat \<Rightarrow> ipc_server \<Rightarrow> ipc_server"
  ie_write :: "byte list \<Rightarrow> byte list \<Rightarrow> string option"
  ie_invalid :: "daemon_config \<Rightarrow> string"

definition success :: "response_data option \<Rightarrow> daemon_response" where
  "success d = OkResponse d"

definition error_response :: "string \<Rightarrow> bool \<Rightarrow> daemon_response" where
  "error_response message recoverable = ErrorResponse message recoverable"

definition status_of :: "timestamp \<times> instant \<Rightarrow> ipc_server \<Rightarrow> system_status" where
  "status_of clocks s =
     \<lparr>ss_total_interfaces = length (sv_interfaces s), ss_active_bonds = 0, ss_connected_tunnels = 0,
      ss_active_profile = None, ss_health = None, ss_failover_active = False, ss_dry_run = False,
      ss_uptime_secs = as_secs (duration_since (snd clocks) (sv_uptime_start s)), ss_timestamp = fst clocks\<rparr>"

fun process_request ::
  "(daemon_config \<Rightarrow> string) \<Rightarrow> timestamp \<times> instant \<Rightarrow> daemon_request \<Rightarrow> ipc_server \<Rightarrow> daemon_response \<times> ipc_server" where
  "process_request invalid clocks GetStatus s = (success (Some (StatusData (status_of clocks s))), s)"
| "process_request invalid clocks GetInterfaces s = (success (Some (InterfacesData (sv_interfaces s))), s)"
| "process_request invalid clocks (GetInterface name) s =
     (case find (\<lambda>i. if_name i = name) (sv_interfaces s) of
        Some iface \<Rightarrow> (success (Some (InterfaceData iface)), s)
      | None \<Rightarrow> (error_response (''Interface '' @ quoted name @ '' not found'') False, s))"
| "process_request invalid clocks GetConfig s = (success (Some (ConfigData (sv_config s))), s)"
| "process_request invalid clocks (ApplyConfig config) s =
     (if \<not> validate_daemon (nc_daemon config)
      then (error_response (''Invalid config: '' @ invalid (nc_daemon config)) True, s)
      else (success (Some EmptyData), s\<lparr>sv_config := config\<rparr>))"
| "process_request invalid clocks (DryRunConfig config) s =
     (if validate_daemon (nc_daemon config) then (success (Some EmptyData), s)
      else (error_response (''Invalid config: '' @ invalid (nc_daemon config)) True, s))"
| "process_request invalid clocks RescanInterfaces s = (success (Some EmptyData), s)"
| "process_request invalid clocks (GetEvents _) s = (success (Some (EventsData [])), s)"
| "process_request invalid clocks GetBonds s = (success (Some (BondsData [])), s)"
| "process_request invalid clocks (GetBond _) s = (success None, s)"
| "process_request invalid clocks GetTunnels s = (success (Some (TunnelsData [])), s)"
| "process_request invalid clocks SubscribeEvents s = (success (Some EmptyData), s)"
| "process_request invalid clocks UnsubscribeEvents s = (success (Some EmptyData), s)"
| "process_request invalid clocks (ActivateProfile name) s = (success (Some (ProfileData (Some name))), s)"
| "process_request invalid clocks DeactivateProfile s = (success (Some (ProfileData None)), s)"
| "process_request invalid clocks GetActiveProfile s = (success (Some (ProfileData None)), s)"
| "process_request invalid clocks (GetHealth interface) s =
     (case find (\<lambda>i. if_name i = interface) (sv_interfaces s) of
        Some iface \<Rightarrow>
          (case if_health iface of
             Some health \<Rightarrow> (success (Some (HealthData health)), s)
           | None \<Rightarrow> (error_response ''No health data available'' False, s))
      | None \<Rightarrow> (error_response (''Interface '' @ quoted interface @ '' not found'') False, s))"
| "process_request invalid clocks GetAllHealth s =
     (success (Some (AllHealthData
        (List.map_filter (\<lambda>i. map_option (\<lambda>h. (if_name i, h)) (if_health i)) (sv_interfaces s)))), s)"
| "process_request invalid clocks (CreateBond _) s = (error_response ''Bond creation not yet implemented'' True, s)"
| "process_request invalid clocks (DeleteBond _) s = (error_response ''Bond deletion not yet implemented'' True, s)"
| "process_request invalid clocks EmergencyRollback s = (success (Some EmptyData), s)"
| "process_request invalid clocks Shutdown s = (success (Some EmptyData), s)"

definition wire_response :: "ipc_env \<Rightarrow> nat \<Rightarrow> daemon_response \<Rightarrow> daemon_response wire_message" where
  "wire_response env k r = wire_message_new (ie_uuid env k) (fst (ie_clocks env k)) r"

text \<open>Writing the length and then the bytes.\<close>

definition send_frame :: "(byte list \<Rightarrow> byte list \<Rightarrow> string option) \<Rightarrow> byte list \<Rightarrow> byte list \<Rightarrow> (string, byte list) result" where
  "send_frame wr out bs =
     (case wr out (frame_header bs) of
        Some e \<Rightarrow> Err e
      | None \<Rightarrow>
          (case wr (out @ frame_header bs) bs of
             Some e \<Rightarrow> Err e
           | None \<Rightarrow> Ok (out @ frame_header bs @ bs)))"

text \<open>
  The loop of a connection; \<open>inp\<close> is what the client sends before it closes the connection, \<open>k\<close>
  counts the requests answered. Too few bytes for a length end the loop well, too few for a
  message end it with an error, an oversized length ends it well.
\<close>

function handle_connection ::
  "ipc_env \<Rightarrow> nat \<Rightarrow> ipc_server \<Rightarrow> byte list \<Rightarrow> byte list \<Rightarrow> (string, unit) result \<times> ipc_server \<times> byte list" where
  "handle_connection env k s inp out =
     (if length inp < 4 then (Ok (), s, out)
      else
        let frame_size = from_be_bytes (take 4 inp); rest = drop 4 inp
        in if MAX_FRAME < frame_size then (Ok (), s, out)
           else if length rest < frame_size then (Err ''unexpected end of file'', s, out)
           else
             (case ie_decode env (take frame_size rest) of
                Inl _ \<Rightarrow> handle_connection env k s (drop frame_size rest) out
              | Inr request \<Rightarrow>
                  let (response, s') = process_request (ie_invalid env) (ie_clocks env k) (wm_payload request) (ie_others env k s)
                  in (case ie_encode env (wire_response env k response) of
                        Inl e \<Rightarrow> (Err e, s', out)
                      | Inr bytes \<Rightarrow>
                          (case send_frame (ie_write env) out bytes of
                             Inl e \<Rightarrow> (Err e, s', out)
                           | Inr out' \<Rightarrow> handle_connection env (Suc k) s' (drop frame_size rest) out'))))"
  by pat_completeness auto

termination by (relation "measure (\<lambda>(env, k, s, inp, out). length inp)") auto

declare handle_connection.simps [simp del]

section \<open>Listening\<close>

definition ipc_server_new :: "string \<Rightarrow> interface_info list \<Rightarrow> netfusion_config \<Rightarrow> instant \<Rightarrow> ipc_server" where
  "ipc_server_new path interfaces config started =
     \<lparr>sv_socket_path = path, sv_interfaces = interfaces, sv_config = config, sv_uptime_start = started\<rparr>"

text \<open>
  What \<open>run\<close> asks of the system: to create the directories above a path, whose failure is not
  looked at, and to bind the socket.
\<close>

record 'w listener =
  ls_make_parent :: "string \<Rightarrow> 'w \<Rightarrow> 'w"
  ls_bind :: "string \<Rightarrow> 'w \<Rightarrow> (string, unit) result \<times> 'w"

definition ipc_listen :: "'w files \<Rightarrow> 'w listener \<Rightarrow> ipc_server \<Rightarrow> 'w \<Rightarrow> (string, unit) result \<times> 'w" where
  "ipc_listen fs ls s w =
     (let path = sv_socket_path s;
          w = (case fs_exists fs path w of (there, w) \<Rightarrow> if there then snd (fs_remove fs path w) else w)
      in ls_bind ls path (ls_make_parent ls path w))"

text \<open>
  The clients that come, up to an error of accepting, which ends the server: the streams for
  which a task was started, and the error. Without an error the server waits for the next client.
\<close>

fun ipc_accept_loop :: "(string, 'c) result list \<Rightarrow> 'c list \<times> string option" where
  "ipc_accept_loop [] = ([], None)"
| "ipc_accept_loop (Inl e # rest) = ([], Some e)"
| "ipc_accept_loop (Inr stream # rest) = (case ipc_accept_loop rest of (streams, e) \<Rightarrow> (stream # streams, e))"

definition ipc_run ::
  "'w files \<Rightarrow> 'w listener \<Rightarrow> (string, 'c) result list \<Rightarrow> ipc_server \<Rightarrow> 'w \<Rightarrow> ('c list \<times> string option) \<times> 'w" where
  "ipc_run fs ls clients s w =
     (case ipc_listen fs ls s w of
        (Inl e, w) \<Rightarrow> (([], Some e), w)
      | (Inr _, w) \<Rightarrow> (ipc_accept_loop clients, w))"

text \<open>One failure to accept a client stops the service for all later ones.\<close>

lemma accept_error_ends_service: "ipc_accept_loop (List.map Inr cs @ Inl e # rest) = (cs, Some e)"
  by (induction cs) simp_all

section \<open>The client\<close>

datatype ipc_error = ConnectErr string | IoErr string | EncodeErr string | ServerErr string

definition client_connect :: "'w files \<Rightarrow> (string \<Rightarrow> 'w \<Rightarrow> (string, unit) result \<times> 'w) \<Rightarrow> string \<Rightarrow> 'w
    \<Rightarrow> (ipc_error, unit) result \<times> 'w" where
  "client_connect fs connect socket_path w =
     (case fs_exists fs socket_path w of
        (False, w) \<Rightarrow> (Err (ConnectErr (''daemon socket not found at '' @ socket_path)), w)
      | (True, w) \<Rightarrow>
          (case connect socket_path w of
             (Inl e, w) \<Rightarrow> (Err (ConnectErr e), w)
           | (Inr _, w) \<Rightarrow> (Ok (), w)))"

text \<open>
  Reading the answer: \<open>inp\<close> is what the daemon has sent; if it is too short the client gets an
  error when the daemon has closed the connection and waits for ever, which is \<open>None\<close>,
  otherwise.
\<close>

definition read_response ::
  "(byte list \<Rightarrow> (string, daemon_response wire_message) result) \<Rightarrow> bool \<Rightarrow> byte list
     \<Rightarrow> (ipc_error, daemon_response) result option" where
  "read_response decr eof inp =
     (let short = (if eof then Some (Err (IoErr ''unexpected end of file'')) else None)
      in if length inp < 4 then short
         else
           let frame_size = from_be_bytes (take 4 inp)
           in if length (drop 4 inp) < frame_size then short
              else
                (case decr (take frame_size (drop 4 inp)) of
                   Inl e \<Rightarrow> Some (Err (EncodeErr e))
                 | Inr wire_resp \<Rightarrow> Some (Ok (wm_payload wire_resp))))"

text \<open>A whole request: \<open>peer\<close> is what the daemon answers to the bytes it is sent.\<close>

definition client_request ::
  "(daemon_request wire_message \<Rightarrow> (string, byte list) result) \<Rightarrow>
   (byte list \<Rightarrow> (string, daemon_response wire_message) result) \<Rightarrow>
   (byte list \<Rightarrow> byte list \<Rightarrow> string option) \<Rightarrow> (byte list \<Rightarrow> bool \<times> byte list) \<Rightarrow> string \<Rightarrow> timestamp \<Rightarrow>
   daemon_request \<Rightarrow> (ipc_error, daemon_response) result option" where
  "client_request encq decr wr peer uuid now req =
     (case encq (wire_message_new uuid now req) of
        Inl e \<Rightarrow> Some (Err (EncodeErr e))
      | Inr bytes \<Rightarrow>
          (case send_frame wr [] bytes of
             Inl e \<Rightarrow> Some (Err (IoErr e))
           | Inr sent \<Rightarrow> (case peer sent of (eof, inp) \<Rightarrow> read_response decr eof inp)))"

definition status_of_response :: "daemon_response \<Rightarrow> (ipc_error, system_status) result" where
  "status_of_response r = (case r of
      OkResponse (Some (StatusData s)) \<Rightarrow> Ok s
    | OkResponse _ \<Rightarrow> Err (ServerErr ''unexpected response type for GetStatus'')
    | ErrorResponse message _ \<Rightarrow> Err (ServerErr message))"

definition interfaces_of_response :: "daemon_response \<Rightarrow> (ipc_error, interface_info list) result" where
  "interfaces_of_response r = (case r of
      OkResponse (Some (InterfacesData is)) \<Rightarrow> Ok is
    | OkResponse _ \<Rightarrow> Err (ServerErr ''unexpected response type for GetInterfaces'')
    | ErrorResponse message _ \<Rightarrow> Err (ServerErr message))"

definition bonds_of_response :: "daemon_response \<Rightarrow> (ipc_error, bond_state list) result" where
  "bonds_of_response r = (case r of
      OkResponse (Some (BondsData bs)) \<Rightarrow> Ok bs
    | OkResponse _ \<Rightarrow> Err (ServerErr ''unexpected response type for GetBonds'')
    | ErrorResponse message _ \<Rightarrow> Err (ServerErr message))"

definition tunnels_of_response :: "daemon_response \<Rightarrow> (ipc_error, tunnel_state list) result" where
  "tunnels_of_response r = (case r of
      OkResponse (Some (TunnelsData ts)) \<Rightarrow> Ok ts
    | OkResponse _ \<Rightarrow> Err (ServerErr ''unexpected response type for GetTunnels'')
    | ErrorResponse message _ \<Rightarrow> Err (ServerErr message))"

section \<open>Facts on frames\<close>

lemma length_to_be_bytes [simp]: "length (to_be_bytes n) = 4"
  by (simp add: to_be_bytes_def)

lemma from_to_be_bytes:
  assumes "n < 2 ^ 32" shows "from_be_bytes (to_be_bytes n) = n"
proof -
  have u: "unat (of_nat x :: byte) = x mod 256" for x by (simp add: unat_of_nat)
  have top: "n div 16777216 mod 256 = n div 16777216" using assms by (simp add: less_mult_imp_div_less)
  have "256 * (n div 16777216) + n div 65536 mod 256 = n div 65536"
    using div_mult2_eq [of n 65536 256] mult_div_mod_eq [of 256 "n div 65536"] by simp
  moreover have "256 * (n div 65536) + n div 256 mod 256 = n div 256"
    using div_mult2_eq [of n 256 256] mult_div_mod_eq [of 256 "n div 256"] by simp
  moreover have "256 * (n div 256) + n mod 256 = n" by simp
  ultimately show ?thesis
    by (simp add: from_be_bytes_def to_be_bytes_def u top)
qed

lemma length_frame_header [simp]: "length (frame_header bs) = 4"
  by (simp add: frame_header_def)

lemma from_frame_header: "length bs < 2 ^ 32 \<Longrightarrow> from_be_bytes (frame_header bs) = length bs"
  by (simp add: frame_header_def from_to_be_bytes)

lemma send_frame_ok: "(\<And>a b. wr a b = None) \<Longrightarrow> send_frame wr out bs = Ok (out @ frame bs)"
  by (simp add: send_frame_def frame_def)

text \<open>One well-formed frame at the front of the input.\<close>

lemma handle_connection_frame:
  assumes "length bs \<le> MAX_FRAME"
  shows "handle_connection env k s (frame bs @ rest) out =
     (case ie_decode env bs of
        Inl _ \<Rightarrow> handle_connection env k s rest out
      | Inr request \<Rightarrow>
          let (response, s') = process_request (ie_invalid env) (ie_clocks env k) (wm_payload request) (ie_others env k s)
          in (case ie_encode env (wire_response env k response) of
                Inl e \<Rightarrow> (Err e, s', out)
              | Inr bytes \<Rightarrow>
                  (case send_frame (ie_write env) out bytes of
                     Inl e \<Rightarrow> (Err e, s', out)
                   | Inr out' \<Rightarrow> handle_connection env (Suc k) s' rest out')))"
proof -
  have "length bs < 2 ^ 32" using assms by (simp add: MAX_FRAME_def)
  then have "from_be_bytes (frame_header bs) = length bs" by (rule from_frame_header)
  with assms show ?thesis
    by (subst handle_connection.simps)
      (cases "ie_decode env bs"; simp add: frame_def Let_def split: sum.split prod.split)
qed

lemma handle_connection_end: "handle_connection env k s [] out = (Ok (), s, out)"
  by (subst handle_connection.simps) simp

section \<open>Properties\<close>




text \<open>A client that asks a server which decodes its request gets the answer of that request: through
  the framing of both directions, with the messages passed through the codec.\<close>

theorem client_gets_its_answer:
  assumes "encq (wire_message_new uuid now req) = Ok b" and "ie_decode env b = Ok (wire_message_new uuid now req)"
    and "length b \<le> MAX_FRAME"
    and "w = wire_response env 0 (fst (process_request (ie_invalid env) (ie_clocks env 0) req (ie_others env 0 s)))"
    and "ie_encode env w = Ok c" and "decr c = Ok w" and "length c < 2 ^ 32"
    and "\<And>x y. ie_write env x y = None" and "\<And>x y. wr x y = None"
  shows "client_request encq decr wr (\<lambda>sent. (False, snd (snd (handle_connection env 0 s sent [])))) uuid now req
    = Some (Ok (fst (process_request (ie_invalid env) (ie_clocks env 0) req (ie_others env 0 s))))"
proof -
  obtain r s' where pr: "process_request (ie_invalid env) (ie_clocks env 0) req (ie_others env 0 s) = (r, s')" by fastforce
  have w: "w = wire_response env 0 r" using assms(4) by (simp add: pr)
  have "handle_connection env 0 s (frame b) [] = (Ok (), s', frame c)"
    using handle_connection_frame [OF assms(3), of env 0 s "[]" "[]"] assms(2,5)
    by (simp add: wire_message_new_def pr w [symmetric] send_frame_ok [OF assms(8)] handle_connection_end)
  then show ?thesis
    using assms(1,6) from_frame_header [OF assms(7)]
    by (simp add: client_request_def send_frame_ok [OF assms(9)] read_response_def Let_def pr frame_def w
        wire_response_def wire_message_new_def)
qed

text \<open>A codec that knows one request and one answer, to instantiate the parameters with.\<close>

definition sample_request :: "daemon_request wire_message" where
  "sample_request = wire_message_new ''id'' 0 Shutdown"

definition sample_env :: ipc_env where
  "sample_env = \<lparr>ie_decode = \<lambda>b. if b = [1] then Ok sample_request else Err ''unknown'', ie_encode = \<lambda>_. Ok [2],
     ie_clocks = \<lambda>_. (0, 0), ie_uuid = \<lambda>_. ''answer'', ie_others = \<lambda>_ s. s, ie_write = \<lambda>_ _. None,
     ie_invalid = \<lambda>_. []\<rparr>"

definition sample_server :: ipc_server where
  "sample_server = \<lparr>sv_socket_path = ''/run/netfusion.sock'', sv_interfaces = [],
     sv_config = netfusion_config_default, sv_uptime_start = 0\<rparr>"


lemma client_gets_its_answer_witness:
  "client_request (\<lambda>_. Ok [1]) (\<lambda>_. Ok (wire_response sample_env 0 (OkResponse (Some EmptyData)))) (\<lambda>_ _. None)
     (\<lambda>sent. (False, snd (snd (handle_connection sample_env 0 sample_server sent [])))) ''id'' 0 Shutdown
   = Some (Ok (fst (process_request (ie_invalid sample_env) (ie_clocks sample_env 0) Shutdown
       (ie_others sample_env 0 sample_server))))"
  by (rule client_gets_its_answer [where b = "[1]" and c = "[2]"
        and w = "wire_response sample_env 0 (OkResponse (Some EmptyData))"])
    (simp_all add: sample_env_def sample_request_def MAX_FRAME_def success_def)

text \<open>Requests that cannot be decoded, however many, are not answered and change nothing.\<close>

lemma undecodable_ignored:
  assumes "\<And>b. \<not> is_ok (ie_decode env b)"
  shows "snd (snd (handle_connection env k s inp out)) = out \<and> fst (snd (handle_connection env k s inp out)) = s"
proof (induction inp arbitrary: rule: length_induct)
  case (1 inp)
  let ?n = "from_be_bytes (take 4 inp)"
  have IH: "snd (snd (handle_connection env k s (drop ?n (drop 4 inp)) out)) = out
      \<and> fst (snd (handle_connection env k s (drop ?n (drop 4 inp)) out)) = s" if "4 \<le> length inp"
    using 1 [rule_format, of "drop ?n (drop 4 inp)"] that by simp
  obtain e where "ie_decode env (take ?n (drop 4 inp)) = Inl e"
    using assms [of "take ?n (drop 4 inp)"] by (cases "ie_decode env (take ?n (drop 4 inp))") auto
  with IH show ?case
    by (subst (1 2) handle_connection.simps) (auto simp: Let_def)
qed

lemma process_request_state:
  "snd (process_request invalid clocks req s) = (case req of ApplyConfig c \<Rightarrow> s\<lparr>sv_config := c\<rparr> | _ \<Rightarrow> s)"
  by (cases req) (simp_all add: validate_daemon_def split: option.split)

text \<open>Every configuration is applied, also one that the validation rules reject: what is asked for
  next is the configuration that was sent, and no other request changes the configuration or
  the interfaces.\<close>

theorem apply_config_takes_any:
  "fst (process_request invalid clocks (ApplyConfig c) s) = OkResponse (Some EmptyData)
   \<and> fst (process_request invalid' clocks' GetConfig (snd (process_request invalid clocks (ApplyConfig c) s)))
       = OkResponse (Some (ConfigData c))
   \<and> ((\<forall>d. req \<noteq> ApplyConfig d) \<longrightarrow> snd (process_request invalid clocks req s) = s)"
  by (auto simp: process_request_state validate_daemon_def success_def split: daemon_request.split)

lemma apply_config_takes_any_witness:
  "fst (process_request (\<lambda>_. []) (0, 0) (ApplyConfig netfusion_config_default) sample_server) = OkResponse (Some EmptyData)
   \<and> fst (process_request (\<lambda>_. []) (1, 1) GetConfig (snd (process_request (\<lambda>_. []) (0, 0) (ApplyConfig netfusion_config_default) sample_server)))
       = OkResponse (Some (ConfigData netfusion_config_default))
   \<and> snd (process_request (\<lambda>_. []) (0, 0) Shutdown sample_server) = sample_server"
  using apply_config_takes_any [where invalid = "\<lambda>_. []" and clocks = "(0, 0)" and c = netfusion_config_default and s = sample_server
      and invalid' = "\<lambda>_. []" and clocks' = "(1, 1)" and req = Shutdown]
  by simp

section \<open>When a request returns\<close>

text \<open>
  What a client that sends and then keeps the connection open gets to see of the server: the
  bytes it wrote, and whether it hung up, which it does after an error and on an oversized frame.
\<close>

definition server_side :: "ipc_env \<Rightarrow> ipc_server \<Rightarrow> byte list \<Rightarrow> bool \<times> byte list" where
  "server_side env s sent =
     (case handle_connection env 0 s sent [] of
        (r, _, out) \<Rightarrow> (\<not> is_ok r \<or> MAX_FRAME < from_be_bytes (take 4 sent), out))"

lemma read_response_eof: "(read_response decr True inp = None) = False"
  by (simp add: read_response_def Let_def split: sum.split)

text \<open>Whatever its length, a written frame announces no more bytes than follow.\<close>

lemma read_response_frame: "(read_response decr eof (frame bs) = None) = False"
proof -
  have "from_be_bytes (frame_header bs) = length bs mod 2 ^ 32"
    by (simp add: frame_header_def from_to_be_bytes)
  then show ?thesis by (simp add: read_response_def frame_def Let_def not_less split: sum.split)
qed

lemma read_response_silence: "read_response decr False [] = None"
  by (simp add: read_response_def)

lemma server_side_frame:
  assumes "length b \<le> MAX_FRAME"
  shows "server_side env s (frame b) = (False, []) \<and> \<not> is_ok (ie_decode env b)
    \<or> fst (server_side env s (frame b)) \<and> is_ok (ie_decode env b)
    \<or> (\<exists>c. server_side env s (frame b) = (False, frame c)) \<and> is_ok (ie_decode env b)"
proof -
  have small: "\<not> MAX_FRAME < from_be_bytes (take 4 (frame b))"
    using assms from_frame_header [of b] by (simp add: frame_def MAX_FRAME_def)
  show ?thesis
  proof (cases "ie_decode env b")
    case (Inl e)
    with small show ?thesis
      using handle_connection_frame [OF assms, of env 0 s "[]" "[]"]
      by (simp add: server_side_def handle_connection_end)
  next
    case (Inr request)
    obtain r s' where pr: "process_request (ie_invalid env) (ie_clocks env 0) (wm_payload request) (ie_others env 0 s) = (r, s')"
      by fastforce
    have "(\<exists>e. handle_connection env 0 s (frame b) [] = (Err e, s', []))
        \<or> (\<exists>c. handle_connection env 0 s (frame b) [] = (Ok (), s', frame c))"
      using handle_connection_frame [OF assms, of env 0 s "[]" "[]"] Inr
      by (auto simp: pr handle_connection_end send_frame_def frame_def split: sum.split option.split)
    with small Inr show ?thesis by (auto simp: server_side_def)
  qed
qed

text \<open>C31: a request whose bytes reach the server returns, with an answer or an error, whatever the
  two sides make of the bytes, except in one case: a frame of acceptable size that the server
  cannot decode leaves the client waiting for ever.\<close>

theorem client_returns_iff:
  assumes "encq (wire_message_new uuid now req) = Ok b" "length b < 2 ^ 32" "\<And>x y. wr x y = None"
  shows "client_request encq decr wr (server_side env s) uuid now req = None
    \<longleftrightarrow> length b \<le> MAX_FRAME \<and> \<not> is_ok (ie_decode env b)"
proof (cases "length b \<le> MAX_FRAME")
  case True
  then show ?thesis
    using server_side_frame [OF True, of env s]
    by (auto simp: client_request_def assms(1) send_frame_ok [OF assms(3)] read_response_silence
        read_response_eof read_response_frame split: prod.splits)
next
  case False
  then have "fst (server_side env s (frame b))"
    using from_frame_header [OF assms(2)] by (auto simp: server_side_def frame_def split: prod.split)
  then show ?thesis
    using False read_response_eof [of decr "snd (server_side env s (frame b))"]
    by (cases "server_side env s (frame b)") (simp add: client_request_def assms(1) send_frame_ok [OF assms(3)])
qed

text \<open>With a codec that decodes nothing a client waits; with one that knows the request it does not.\<close>

theorem client_returns_iff_witness:
  "client_request (\<lambda>_. Ok [1]) (\<lambda>_. Err ''any'') (\<lambda>_ _. None) (server_side (sample_env\<lparr>ie_decode := \<lambda>_. Err ''any''\<rparr>) sample_server) ''id'' 0 Shutdown = None
   \<and> client_request (\<lambda>_. Ok [1]) (\<lambda>_. Err ''any'') (\<lambda>_ _. None) (server_side sample_env sample_server) ''id'' 0 Shutdown \<noteq> None"
  using client_returns_iff [of "\<lambda>_. Ok [1]" "''id''" 0 Shutdown "[1]" "\<lambda>_ _. None" "\<lambda>_. Err ''any''" "sample_env\<lparr>ie_decode := \<lambda>_. Err ''any''\<rparr>" sample_server]
    client_returns_iff [of "\<lambda>_. Ok [1]" "''id''" 0 Shutdown "[1]" "\<lambda>_ _. None" "\<lambda>_. Err ''any''" sample_env sample_server]
  by (simp add: MAX_FRAME_def sample_env_def)

end
