(* ===== verification/Discovery.thy ===== *)
theory Discovery
  imports Shared_Types Routing
begin

text \<open>
  \<^verbatim>\<open>crates/netfusion-core/src/discovery/\<close>: \<open>scanner.rs\<close> (enumeration of the interfaces through
  netlink and \<^verbatim>\<open>/proc/net/dev\<close>), \<open>type_detection.rs\<close> and \<open>metadata.rs\<close> (ethtool and wireless
  data). The netlink and ethtool libraries are parameters: a request answers messages, whose
  attributes are those the code looks at, until it ends or fails. An interface kind carries the
  text its \<open>Debug\<close> instance prints, an address the text its \<open>Display\<close> instance prints.
\<close>

section \<open>Messages and entries\<close>

datatype oper_state = OperUp | OperDown | OperLowerLayerDown | OperDormant | OperOther

datatype link_info = Kind string | OtherInfo

datatype link_attribute =
    IfName string
  | Address "nat list"
  | Mtu nat
  | OperState oper_state
  | LinkInfo "link_info list"
  | OtherLinkAttribute

datatype link_flag = FlagUp | OtherFlag

record link_message =
  lm_index :: nat
  lm_flags :: "link_flag list"
  lm_attributes :: "link_attribute list"

record address_message =
  am_index :: nat
  am_prefix_len :: nat
  am_addresses :: "string list"

record route_message =
  rm_destination_prefix_length :: nat
  rm_attributes :: "route_attribute list"

record link_entry =
  le_index :: nat
  le_name :: string
  le_mac :: "string option"
  le_mtu :: nat
  le_state :: link_state
  le_link_type :: "string option"

record address_entry =
  ae_index :: nat
  ae_address :: string
  ae_prefix_len :: nat

record route_entry =
  re_gateway :: "string option"
  re_dst_prefix_len :: nat
  re_if_index :: "nat option"

datatype scan_error =
    NetlinkError string
  | EnumerateLinksError string
  | EnumerateAddressesError string
  | EnumerateRoutesError string

record 'w scan_netlink =
  sn_links :: "'w \<Rightarrow> (string, link_message) result list \<times> 'w"
  sn_addresses :: "'w \<Rightarrow> (string, address_message) result list \<times> 'w"
  sn_routes :: "'w \<Rightarrow> (string, route_message) result list \<times> 'w"

section \<open>Type detection\<close>

definition detect_interface_type :: "link_entry \<Rightarrow> interface_type" where
  "detect_interface_type link =
     (case le_link_type link of
        Some kind \<Rightarrow>
          (if kind = ''bond'' then Bond
           else if kind = ''bridge'' then Bridge
           else if kind = ''vlan'' then Vlan
           else if kind \<in> {''tunnel'', ''gre'', ''ipip'', ''sit'', ''vti''} then Tunnel
           else if kind = ''wireguard'' then WireGuard
           else if kind = ''vxlan'' then Tunnel
           else if kind \<in> {''macvlan'', ''macvtap'', ''ipvlan'', ''ipvtap''} then Virtual
           else if kind \<in> {''dummy'', ''ifb''} then Virtual
           else if kind \<in> {''tailscale'', ''tailscale0''} then Tailscale
           else UnknownType)
      | None \<Rightarrow>
          (let name = le_name link
           in if starts_with name ''wg'' then WireGuard
              else if name = ''tailscale0'' \<or> starts_with name ''ts-'' then Tailscale
              else if starts_with name ''tun'' \<or> starts_with name ''tap'' then Tunnel
              else if starts_with name ''ppp'' \<or> starts_with name ''pppoe'' then Ppp
              else if starts_with name ''usb'' \<and> (contains_str name ''tether'' \<or> contains_str name ''rndis'') then UsbTether
              else if starts_with name ''wwan'' \<or> starts_with name ''ttyACM'' \<or> starts_with name ''cdc'' then Cellular
              else if starts_with name ''wl'' \<or> starts_with name ''wifi'' \<or> starts_with name ''ra'' then Wireless
              else if le_mac link \<noteq> None \<and> name \<noteq> ''lo'' then Ethernet
              else UnknownType))"

definition is_nm_managed :: "string \<Rightarrow> bool" where
  "is_nm_managed interface_name = False"

datatype network_stack = NetworkManager | SystemdNetworkd | Netplan | Ifupdown | UnknownStack

definition detect_network_stack :: "'w files \<Rightarrow> 'w \<Rightarrow> network_stack \<times> 'w" where
  "detect_network_stack fs w =
     (let (b, w) = fs_exists fs ''/var/run/NetworkManager/NetworkManager.pid'' w
      in if b then (NetworkManager, w)
      else let (b, w) = fs_exists fs ''/run/systemd/netif'' w
      in if b then (SystemdNetworkd, w)
      else let (b, w) = fs_exists fs ''/etc/netplan'' w
      in if b then (Netplan, w)
      else let (b, w) = fs_exists fs ''/etc/network/interfaces'' w
      in if b then (Ifupdown, w) else (UnknownStack, w))"

fun show_network_stack :: "network_stack \<Rightarrow> string" where
  "show_network_stack NetworkManager = ''NetworkManager''"
| "show_network_stack SystemdNetworkd = ''systemd-networkd''"
| "show_network_stack Netplan = ''netplan''"
| "show_network_stack Ifupdown = ''ifupdown''"
| "show_network_stack UnknownStack = ''unknown''"

definition is_virtual_interface :: "string \<Rightarrow> bool" where
  "is_virtual_interface name \<longleftrightarrow>
     starts_with name ''docker'' \<or> starts_with name ''br-'' \<or> starts_with name ''veth''
   \<or> starts_with name ''virbr'' \<or> starts_with name ''lxcbr'' \<or> starts_with name ''cali''
   \<or> starts_with name ''flannel'' \<or> starts_with name ''cni'' \<or> starts_with name ''podman''"

section \<open>Enumeration\<close>

text \<open>Reading a stream of messages to its end or to its first error.\<close>

fun read_stream :: "(string, 'm) result list \<Rightarrow> (string, 'm list) result" where
  "read_stream [] = Ok []"
| "read_stream (Inl e # _) = Err e"
| "read_stream (Inr m # ms) = (case read_stream ms of Inl e \<Rightarrow> Err e | Inr xs \<Rightarrow> Ok (m # xs))"

fun attr_if_name :: "link_attribute \<Rightarrow> string option" where
  "attr_if_name (IfName n) = Some n" | "attr_if_name _ = None"

definition show_hex2 :: "nat \<Rightarrow> string" where
  "show_hex2 b = [hex_digit (b div 16), hex_digit (b mod 16)]"

fun attr_mac :: "link_attribute \<Rightarrow> string option" where
  "attr_mac (Address bs) = Some (join '':'' (List.map show_hex2 bs))" | "attr_mac _ = None"

fun attr_mtu :: "link_attribute \<Rightarrow> nat option" where
  "attr_mtu (Mtu m) = Some m" | "attr_mtu _ = None"

fun attr_oper_state :: "link_attribute \<Rightarrow> oper_state option" where
  "attr_oper_state (OperState s) = Some s" | "attr_oper_state _ = None"

fun info_kind :: "link_info \<Rightarrow> string option" where
  "info_kind (Kind k) = Some k" | "info_kind OtherInfo = None"

fun attr_kind :: "link_attribute \<Rightarrow> string option" where
  "attr_kind (LinkInfo info) = find_map info_kind info" | "attr_kind _ = None"

definition link_entry_of :: "link_message \<Rightarrow> link_entry" where
  "link_entry_of msg =
     (let attrs = lm_attributes msg;
          state = (if FlagUp \<in> set (lm_flags msg) then Up else Down)
      in \<lparr>le_index = lm_index msg,
          le_name = (case find_map attr_if_name attrs of Some n \<Rightarrow> n | None \<Rightarrow> ''unknown-'' @ show_nat (lm_index msg)),
          le_mac = find_map attr_mac attrs,
          le_mtu = (case find_map attr_mtu attrs of Some m \<Rightarrow> m | None \<Rightarrow> 1500),
          le_state = (case find_map attr_oper_state attrs of
                        Some OperDown \<Rightarrow> Down
                      | Some OperLowerLayerDown \<Rightarrow> Up
                      | Some OperDormant \<Rightarrow> Up
                      | Some OperUp \<Rightarrow> Up
                      | _ \<Rightarrow> state),
          le_link_type = find_map attr_kind attrs\<rparr>)"

definition enumerate_links :: "'w scan_netlink \<Rightarrow> 'w \<Rightarrow> (scan_error, link_entry list) result \<times> 'w" where
  "enumerate_links sn w =
     (case sn_links sn w of (ms, w) \<Rightarrow>
       (case read_stream ms of
          Inl e \<Rightarrow> (Err (EnumerateLinksError e), w)
        | Inr msgs \<Rightarrow> (Ok (List.map link_entry_of msgs), w)))"

definition address_entry_of :: "address_message \<Rightarrow> address_entry option" where
  "address_entry_of msg =
     (case am_addresses msg of
        [] \<Rightarrow> None
      | addr # _ \<Rightarrow> Some \<lparr>ae_index = am_index msg, ae_address = addr, ae_prefix_len = am_prefix_len msg\<rparr>)"

definition enumerate_addresses :: "'w scan_netlink \<Rightarrow> 'w \<Rightarrow> (scan_error, address_entry list) result \<times> 'w" where
  "enumerate_addresses sn w =
     (case sn_addresses sn w of (ms, w) \<Rightarrow>
       (case read_stream ms of
          Inl e \<Rightarrow> (Err (EnumerateAddressesError e), w)
        | Inr msgs \<Rightarrow> (Ok (List.map_filter address_entry_of msgs), w)))"

definition route_entry_of :: "route_message \<Rightarrow> route_entry" where
  "route_entry_of msg =
     \<lparr>re_gateway = find_map attr_gateway (rm_attributes msg),
      re_dst_prefix_len = rm_destination_prefix_length msg,
      re_if_index = find_map attr_oif (rm_attributes msg)\<rparr>"

definition enumerate_routes :: "'w scan_netlink \<Rightarrow> 'w \<Rightarrow> (scan_error, route_entry list) result \<times> 'w" where
  "enumerate_routes sn w =
     (case sn_routes sn w of (ms, w) \<Rightarrow>
       (case read_stream ms of
          Inl e \<Rightarrow> (Err (EnumerateRoutesError e), w)
        | Inr msgs \<Rightarrow> (Ok (List.map route_entry_of msgs), w)))"

section \<open>Counters\<close>

definition name_to_index :: "'w files \<Rightarrow> string \<Rightarrow> 'w \<Rightarrow> nat option \<times> 'w" where
  "name_to_index fs name w =
     (case fs_read fs (''/sys/class/net/'' @ name @ ''/ifindex'') w of
        (Inl _, w) \<Rightarrow> (None, w)
      | (Inr s, w) \<Rightarrow> (parse_u32 (trim s), w))"

definition counter :: "string list \<Rightarrow> nat \<Rightarrow> nat" where
  "counter parts i = (case parse_u64 (parts ! i) of None \<Rightarrow> 0 | Some n \<Rightarrow> n)"

definition stats_of_parts :: "string list \<Rightarrow> interface_stats" where
  "stats_of_parts parts =
     \<lparr>st_rx_bytes = counter parts 1, st_tx_bytes = counter parts 9,
      st_rx_packets = counter parts 2, st_tx_packets = counter parts 10,
      st_rx_errors = counter parts 3, st_tx_errors = counter parts 11,
      st_rx_dropped = counter parts 4, st_tx_dropped = counter parts 12\<rparr>"

fun collect_stats_lines ::
  "'w files \<Rightarrow> string list \<Rightarrow> (nat, interface_stats) hmap \<Rightarrow> 'w \<Rightarrow> (nat, interface_stats) hmap \<times> 'w" where
  "collect_stats_lines fs [] stats w = (stats, w)"
| "collect_stats_lines fs (line # rest) stats w =
     (let parts = split_whitespace line
      in if length parts < 17 then collect_stats_lines fs rest stats w
         else
           (let (i, w) = name_to_index fs (trim_end_matches (parts ! 0) '':'') w;
                index = (case i of None \<Rightarrow> 0 | Some i \<Rightarrow> i)
            in if index = 0 then collect_stats_lines fs rest stats w
               else collect_stats_lines fs rest (hm_insert index (stats_of_parts parts) stats) w))"

definition collect_stats :: "'w files \<Rightarrow> 'w \<Rightarrow> (scan_error, (nat, interface_stats) hmap) result \<times> 'w" where
  "collect_stats fs w =
     (case fs_read fs ''/proc/net/dev'' w of
        (Inl _, w) \<Rightarrow> (Ok [], w)
      | (Inr content, w) \<Rightarrow>
          (case collect_stats_lines fs (drop 2 (str_lines content)) [] w of (stats, w) \<Rightarrow> (Ok stats, w)))"

section \<open>Detailed metadata\<close>

datatype ethtool_duplex = EtFull | EtHalf | EtUnknown | EtOther

datatype ethtool_attr = EtSpeed nat | EtDuplex ethtool_duplex | EtOtherAttr

text \<open>
  The ethtool library: a connection may fail; the request answers messages, and an error ends
  the loop like the end of the stream. \<open>dev_driver\<close> is the last component of a symbolic link, if
  it can be read and has one.
\<close>

record 'w devices =
  dev_ethtool :: "string \<Rightarrow> 'w \<Rightarrow> (string, ethtool_attr list list) result \<times> 'w"
  dev_link_name :: "string \<Rightarrow> 'w \<Rightarrow> string option \<times> 'w"

fun apply_ethtool_attr :: "ethtool_attr \<Rightarrow> interface_info \<Rightarrow> interface_info" where
  "apply_ethtool_attr (EtSpeed speed) i = (if 0 < speed then i\<lparr>if_speed_mbps := Some speed\<rparr> else i)"
| "apply_ethtool_attr (EtDuplex d) i =
     i\<lparr>if_duplex := (case d of EtFull \<Rightarrow> Some Full | EtHalf \<Rightarrow> Some Half | EtUnknown \<Rightarrow> Some DuplexUnknown
                      | EtOther \<Rightarrow> None)\<rparr>"
| "apply_ethtool_attr EtOtherAttr i = i"

definition collect_ethtool_data :: "'w devices \<Rightarrow> interface_info \<Rightarrow> 'w \<Rightarrow> interface_info \<times> 'w" where
  "collect_ethtool_data dv i w =
     (case dev_ethtool dv (if_name i) w of
        (Inl _, w) \<Rightarrow> (i, w)
      | (Inr msgs, w) \<Rightarrow>
          (let i = fold apply_ethtool_attr (concat msgs) i
           in (case dev_link_name dv (''/sys/class/net/'' @ if_name i @ ''/device/driver'') w of
                 (None, w) \<Rightarrow> (i, w)
               | (Some driver_name, w) \<Rightarrow> (i\<lparr>if_driver := Some driver_name\<rparr>, w))))"

definition is_wireless_interface :: "string \<Rightarrow> bool" where
  "is_wireless_interface name \<longleftrightarrow>
     starts_with name ''wl'' \<or> starts_with name ''wifi'' \<or> starts_with name ''ra''
   \<or> starts_with name ''ath'' \<or> starts_with name ''wlp'' \<or> starts_with name ''wlan''"

text \<open>\<^verbatim>\<open>get_or_insert_with(WirelessInfo::default)\<close>.\<close>

definition wireless_or_default :: "interface_info \<Rightarrow> wireless_info" where
  "wireless_or_default i = (case if_wireless i of None \<Rightarrow> wireless_info_default | Some w \<Rightarrow> w)"

text \<open>One line of the output of \<^verbatim>\<open>iw dev X info\<close>.\<close>

definition iw_line :: "string \<Rightarrow> wireless_info \<Rightarrow> wireless_info" where
  "iw_line line wi =
     (let trimmed = trim line;
          wi = (case strip_prefix trimmed ''ssid '' of
                  Some v \<Rightarrow> if trim v \<noteq> [] then wi\<lparr>wi_ssid := Some (trim v)\<rparr> else wi
                | None \<Rightarrow> wi);
          wi = (case strip_prefix trimmed ''channel '' of
                  Some channel_info \<Rightarrow>
                    (case split_whitespace channel_info of
                       freq_str # _ \<Rightarrow>
                         (case parse_u32 freq_str of Some freq \<Rightarrow> wi\<lparr>wi_frequency_mhz := Some freq\<rparr> | None \<Rightarrow> wi)
                     | [] \<Rightarrow> wi)
                | None \<Rightarrow> wi)
      in (case strip_prefix trimmed ''signal: '' of
            Some signal_str \<Rightarrow>
              (case parse_i8 (trim_end_matches signal_str '' dBm'') of
                 Some signal \<Rightarrow> wi\<lparr>wi_signal_dbm := Some signal\<rparr>
               | None \<Rightarrow> wi)
          | None \<Rightarrow> wi))"

definition collect_cfg80211_data :: "'w shell \<Rightarrow> interface_info \<Rightarrow> 'w \<Rightarrow> interface_info \<times> 'w" where
  "collect_cfg80211_data sh i w =
     (case sh [''iw'', ''dev'', if_name i, ''info''] w of
        (Inr out, w) \<Rightarrow>
          (i\<lparr>if_wireless := Some (fold iw_line (str_lines (out_stdout out)) (wireless_or_default i))\<rparr>, w)
      | (Inl _, w) \<Rightarrow> (i, w))"

text \<open>One line of the legacy statistics.\<close>

definition legacy_wireless_line :: "string \<Rightarrow> interface_info \<Rightarrow> interface_info" where
  "legacy_wireless_line line i =
     (let parts = split_whitespace line
      in if 2 \<le> length parts
         then (if parts ! 0 = ''Signal.level''
               then (case parse_i8 (parts ! 1) of
                       Some level \<Rightarrow> i\<lparr>if_wireless := Some ((wireless_or_default i)\<lparr>wi_signal_dbm := Some level\<rparr>)\<rparr>
                     | None \<Rightarrow> i)
               else if parts ! 0 = ''Noise.level''
               then (case parse_i8 (parts ! 1) of
                       Some level \<Rightarrow> i\<lparr>if_wireless := Some ((wireless_or_default i)\<lparr>wi_noise_dbm := Some level\<rparr>)\<rparr>
                     | None \<Rightarrow> i)
               else i)
         else i)"

definition collect_wireless_data :: "'w shell \<Rightarrow> 'w files \<Rightarrow> interface_info \<Rightarrow> 'w \<Rightarrow> interface_info \<times> 'w" where
  "collect_wireless_data sh fs i w =
     (if \<not> is_wireless_interface (if_name i) then (i, w)
      else
        (case fs_exists fs (''/sys/class/net/'' @ if_name i @ ''/phy80211'') w of
           (True, w) \<Rightarrow> collect_cfg80211_data sh i w
         | (False, w) \<Rightarrow>
             (case fs_read fs (''/sys/class/net/'' @ if_name i @ ''/wireless'') w of
                (Inr content, w) \<Rightarrow> (fold legacy_wireless_line (str_lines content) i, w)
              | (Inl _, w) \<Rightarrow> (i, w))))"

definition collect_detailed_metadata ::
  "'w devices \<Rightarrow> 'w shell \<Rightarrow> 'w files \<Rightarrow> interface_info \<Rightarrow> 'w \<Rightarrow> interface_info \<times> 'w" where
  "collect_detailed_metadata dv sh fs i w =
     (case collect_ethtool_data dv i w of (i, w) \<Rightarrow> collect_wireless_data sh fs i w)"

section \<open>The scan\<close>

text \<open>\<^verbatim>\<open>map.entry(addr.index).or_default().push(addr)\<close> over all addresses.\<close>

definition addr_by_index :: "address_entry list \<Rightarrow> (nat, address_entry list) hmap" where
  "addr_by_index addresses =
     fold (\<lambda>a m. hm_insert (ae_index a)
              ((case hm_get m (ae_index a) of None \<Rightarrow> [] | Some as \<Rightarrow> as) @ [a]) m) addresses []"

definition default_gateway_by_index :: "route_entry list \<Rightarrow> (nat, string) hmap" where
  "default_gateway_by_index routes =
     fold (\<lambda>(idx, gw) m. hm_insert idx gw m)
       (List.map_filter
          (\<lambda>r. map_option (\<lambda>idx. (idx, case re_gateway r of None \<Rightarrow> [] | Some g \<Rightarrow> g)) (re_if_index r))
          (filter (\<lambda>r. re_dst_prefix_len r = 0) routes)) []"

definition ip_info_of :: "address_entry \<Rightarrow> ip_info" where
  "ip_info_of a = \<lparr>ip_cidr = ae_address a @ ''/'' @ show_nat (ae_prefix_len a), ip_dhcp = False\<rparr>"

definition interface_of_link ::
  "(nat, address_entry list) hmap \<Rightarrow> (nat, string) hmap \<Rightarrow> (nat, interface_stats) hmap \<Rightarrow> link_entry \<Rightarrow> interface_info" where
  "interface_of_link addrs gws stats link =
     \<lparr>if_name = le_name link, if_type = detect_interface_type link, if_mac = le_mac link,
      if_driver = None, if_speed_mbps = None, if_duplex = None, if_mtu = le_mtu link,
      if_addresses = List.map ip_info_of (case hm_get addrs (le_index link) of None \<Rightarrow> [] | Some as \<Rightarrow> as),
      if_gateway = hm_get gws (le_index link), if_dns_servers = [], if_link_state = le_state link,
      if_managed = False, if_nm_managed = False, if_wireless = None, if_cellular = None,
      if_stats = (case hm_get stats (le_index link) of None \<Rightarrow> interface_stats_default | Some s \<Rightarrow> s),
      if_health = None, if_last_seen = None\<rparr>"

fun scan_links ::
  "'w devices \<Rightarrow> 'w shell \<Rightarrow> 'w files \<Rightarrow> (link_entry \<Rightarrow> interface_info) \<Rightarrow> link_entry list \<Rightarrow> 'w
     \<Rightarrow> interface_info list \<times> 'w" where
  "scan_links dv sh fs mk [] w = ([], w)"
| "scan_links dv sh fs mk (link # rest) w =
     (if le_name link = ''lo'' then scan_links dv sh fs mk rest w
      else if is_virtual_interface (le_name link) then scan_links dv sh fs mk rest w
      else
        (let (i, w) = collect_detailed_metadata dv sh fs (mk link) w;
             (is, w) = scan_links dv sh fs mk rest w
         in (i # is, w)))"

definition scan ::
  "'w scan_netlink \<Rightarrow> 'w devices \<Rightarrow> 'w shell \<Rightarrow> 'w files \<Rightarrow> 'w \<Rightarrow> (scan_error, interface_info list) result \<times> 'w" where
  "scan sn dv sh fs w =
     and_then (enumerate_links sn w) (\<lambda>links w.
     and_then (enumerate_addresses sn w) (\<lambda>addresses w.
     and_then (enumerate_routes sn w) (\<lambda>routes w.
     and_then (collect_stats fs w) (\<lambda>stats w.
       (case scan_links dv sh fs
               (interface_of_link (addr_by_index addresses) (default_gateway_by_index routes) stats) links w of
          (interfaces, w) \<Rightarrow> (Ok interfaces, w))))))"

section \<open>Properties\<close>

text \<open>What the metadata step leaves alone.\<close>

definition scanned_part :: "interface_info \<Rightarrow> string \<times> interface_type \<times> ip_info list \<times> string option \<times> link_state \<times> interface_stats" where
  "scanned_part i = (if_name i, if_type i, if_addresses i, if_gateway i, if_link_state i, if_stats i)"

lemma scanned_part_ethtool_attr [simp]: "scanned_part (apply_ethtool_attr a i) = scanned_part i"
  by (cases a) (auto simp: scanned_part_def)

lemma scanned_part_ethtool: "scanned_part (fold apply_ethtool_attr as i) = scanned_part i"
  by (induction as arbitrary: i) simp_all

lemma scanned_part_updates [simp]:
  "scanned_part (i\<lparr>if_driver := d\<rparr>) = scanned_part i"
  "scanned_part (i\<lparr>if_wireless := x\<rparr>) = scanned_part i"
  by (simp_all add: scanned_part_def)

lemma scanned_part_legacy: "scanned_part (fold legacy_wireless_line ls i) = scanned_part i"
proof (induction ls arbitrary: i)
  case (Cons l ls)
  have "scanned_part (legacy_wireless_line l i) = scanned_part i"
    by (simp add: legacy_wireless_line_def Let_def split: option.split)
  with Cons show ?case by simp
qed simp

lemma scanned_part_metadata: "scanned_part (fst (collect_detailed_metadata dv sh fs i w)) = scanned_part i"
  by (auto simp: collect_detailed_metadata_def collect_ethtool_data_def collect_wireless_data_def
      collect_cfg80211_data_def scanned_part_ethtool scanned_part_legacy Let_def
      split: prod.split sum.split option.split bool.split)

text \<open>The links the scan reports.\<close>

definition reported_link :: "link_entry \<Rightarrow> bool" where
  "reported_link link \<longleftrightarrow> le_name link \<noteq> ''lo'' \<and> \<not> is_virtual_interface (le_name link)"

lemma scan_links_parts:
  "List.map scanned_part (fst (scan_links dv sh fs mk links w))
     = List.map (\<lambda>l. scanned_part (mk l)) (filter reported_link links)"
proof (induction links arbitrary: w)
  case (Cons l links)
  obtain i w1 where m: "collect_detailed_metadata dv sh fs (mk l) w = (i, w1)" by fastforce
  then have "scanned_part i = scanned_part (mk l)"
    using scanned_part_metadata [of dv sh fs "mk l" w] by simp
  with m Cons.IH [of w1] Cons.IH [of w] show ?case
    by (auto simp: reported_link_def Let_def split: prod.splits)
qed simp

lemma addr_by_index_get:
  "hm_get (addr_by_index addresses) k =
     (if filter (\<lambda>a. ae_index a = k) addresses = [] then None else Some (filter (\<lambda>a. ae_index a = k) addresses))"
proof -
  define step where "step = (\<lambda>a m. hm_insert (ae_index a)
     ((case hm_get m (ae_index a) of None \<Rightarrow> [] | Some as \<Rightarrow> as) @ [a]) (m :: (nat, address_entry list) hmap))"
  have "hm_get (fold step as m) k =
     (case hm_get m k of
        None \<Rightarrow> if filter (\<lambda>a. ae_index a = k) as = [] then None else Some (filter (\<lambda>a. ae_index a = k) as)
      | Some xs \<Rightarrow> Some (xs @ filter (\<lambda>a. ae_index a = k) as))" for as m
    by (induction as arbitrary: m) (auto simp: step_def hm_other split: option.splits)
  from this [of addresses "[]"] show ?thesis by (simp add: addr_by_index_def step_def)
qed

text \<open>The default gateway of an interface: the one of its last default route, empty without a gateway.\<close>

definition gateway_of :: "route_entry list \<Rightarrow> nat \<Rightarrow> string option" where
  "gateway_of routes k =
     (case rev (filter (\<lambda>r. re_dst_prefix_len r = 0 \<and> re_if_index r = Some k) routes) of
        [] \<Rightarrow> None
      | r # _ \<Rightarrow> Some (case re_gateway r of None \<Rightarrow> [] | Some g \<Rightarrow> g))"

lemma default_gateway_get: "hm_get (default_gateway_by_index routes) k = gateway_of routes k"
  by (induction routes rule: rev_induct)
    (auto simp: default_gateway_by_index_def gateway_of_def map_filter_snoc map_filter_simps hm_other split: option.splits)

lemma collect_stats_ok: "\<exists>st w'. collect_stats fs w = (Ok st, w')"
  unfolding collect_stats_def
  by (cases "fs_read fs ''/proc/net/dev'' w"; cases "fst (fs_read fs ''/proc/net/dev'' w)") (simp_all split: prod.split)

text \<open>C26: when netlink answers all three requests, the scan reports exactly the links that are neither the
  loopback nor have the name of a container interface, in the order of netlink, each with the
  addresses of its own index in order, the gateway of its last default route (the empty string
  for a default route without one), the state that the operational state and the flags give,
  and the type its kind or name gives; what ethtool, sysfs and iw answer does not matter.\<close>

theorem scan_reports_links:
  assumes "sn_links sn w = (ls, w1)" "read_stream ls = Ok lms"
    and "sn_addresses sn w1 = (as, w2)" "read_stream as = Ok ams"
    and "sn_routes sn w2 = (rs, w3)" "read_stream rs = Ok rms"
  shows "\<exists>ifs. fst (scan sn dv sh fs w) = Ok ifs
    \<and> List.map (\<lambda>i. (if_name i, if_type i, if_addresses i, if_gateway i, if_link_state i)) ifs
      = List.map (\<lambda>l. (le_name l, detect_interface_type l,
            List.map ip_info_of (filter (\<lambda>a. ae_index a = le_index l) (List.map_filter address_entry_of ams)),
            gateway_of (List.map route_entry_of rms) (le_index l), le_state l))
          (filter reported_link (List.map link_entry_of lms))"
proof -
  obtain st w4 where st: "collect_stats fs w3 = (Ok st, w4)"
    using collect_stats_ok [of fs w3] by blast
  let ?mk = "interface_of_link (addr_by_index (List.map_filter address_entry_of ams))
      (default_gateway_by_index (List.map route_entry_of rms)) st"
  obtain ifs w5 where ifs: "scan_links dv sh fs ?mk (List.map link_entry_of lms) w4 = (ifs, w5)" by fastforce
  have res: "scan sn dv sh fs w = (Ok ifs, w5)"
    using assms st ifs by (simp add: scan_def enumerate_links_def enumerate_addresses_def enumerate_routes_def)
  let ?p = "\<lambda>(n, t, a, g, s, _ :: interface_stats). (n, t, a, g, s)"
  have "List.map ?p (List.map scanned_part ifs)
    = List.map ?p (List.map (\<lambda>l. scanned_part (?mk l)) (filter reported_link (List.map link_entry_of lms)))"
    using scan_links_parts [of dv sh fs ?mk "List.map link_entry_of lms" w4] ifs by simp
  then have "List.map (\<lambda>i. (if_name i, if_type i, if_addresses i, if_gateway i, if_link_state i)) ifs
    = List.map (\<lambda>l. (le_name l, detect_interface_type l,
          List.map ip_info_of (filter (\<lambda>a. ae_index a = le_index l) (List.map_filter address_entry_of ams)),
          gateway_of (List.map route_entry_of rms) (le_index l), le_state l))
        (filter reported_link (List.map link_entry_of lms))"
    by (simp add: scanned_part_def interface_of_link_def addr_by_index_get default_gateway_get o_def
        if_distrib [of "case_option _ _"] cong: if_cong)
  with res show ?thesis by auto
qed

definition empty_devices :: "nat devices" where
  "empty_devices = \<lparr>dev_ethtool = \<lambda>_ w. (Err [], w), dev_link_name = \<lambda>_ w. (None, w)\<rparr>"

definition empty_files :: "nat files" where
  "empty_files = \<lparr>fs_read = \<lambda>_ w. (Err ''not found'', w), fs_write = \<lambda>_ _ w. (Ok (), w),
     fs_remove = \<lambda>_ w. (Err ''not found'', w), fs_exists = \<lambda>_ w. (False, w)\<rparr>"

definition sample_scan_netlink :: "nat scan_netlink" where
  "sample_scan_netlink =
     \<lparr>sn_links = \<lambda>w. ([Inr \<lparr>lm_index = 2, lm_flags = [FlagUp], lm_attributes = [IfName ''eth0'', Address [2, 66]]\<rparr>], w),
      sn_addresses = \<lambda>w. ([Inr \<lparr>am_index = 2, am_prefix_len = 8, am_addresses = [''10.0.0.2'']\<rparr>], w),
      sn_routes = \<lambda>w. ([Inr \<lparr>rm_destination_prefix_length = 0, rm_attributes = [Oif 2]\<rparr>], w)\<rparr>"

lemma scan_reports_links_witness:
  "\<exists>is. fst (scan sample_scan_netlink empty_devices (\<lambda>_ w. (Err [], w)) empty_files 0) = Ok is
    \<and> List.map (\<lambda>i. (if_name i, if_type i, if_addresses i, if_gateway i, if_link_state i)) is
      = List.map (\<lambda>l. (le_name l, detect_interface_type l,
            List.map ip_info_of (filter (\<lambda>a. ae_index a = le_index l) (List.map_filter address_entry_of
              [\<lparr>am_index = 2, am_prefix_len = 8, am_addresses = [''10.0.0.2'']\<rparr>])),
            gateway_of (List.map route_entry_of [\<lparr>rm_destination_prefix_length = 0, rm_attributes = [Oif 2]\<rparr>]) (le_index l),
            le_state l))
          (filter reported_link (List.map link_entry_of
            [\<lparr>lm_index = 2, lm_flags = [FlagUp], lm_attributes = [IfName ''eth0'', Address [2, 66]]\<rparr>]))"
  by (rule scan_reports_links) (simp add: sample_scan_netlink_def)+

text \<open>The kind of a link is printed with \<open>Debug\<close>, which writes the name of the constructor with an
  upper-case first letter; the type detection compares with lower-case names, so every link
  that has a kind, a bond, a bridge or a WireGuard device as well, is of unknown type,
  whatever its name.\<close>

theorem link_kind_is_never_recognised:
  assumes "find_map attr_kind (lm_attributes msg) = Some kind"
    and "kind \<noteq> []" and "hd kind \<in> set ''ABCDEFGHIJKLMNOPQRSTUVWXYZ''"
  shows "detect_interface_type (link_entry_of msg) = UnknownType"
proof -
  have "detect_interface_type (link_entry_of msg) = UnknownType
    \<or> kind \<in> {''bond'', ''bridge'', ''vlan'', ''tunnel'', ''gre'', ''ipip'', ''sit'', ''vti'', ''wireguard'', ''vxlan'',
        ''macvlan'', ''macvtap'', ''ipvlan'', ''ipvtap'', ''dummy'', ''ifb'', ''tailscale'', ''tailscale0''}"
    using assms(1) by (simp add: detect_interface_type_def link_entry_of_def Let_def)
  then have "detect_interface_type (link_entry_of msg) = UnknownType \<or> hd kind \<in> set ''bvtgiswmd''"
    by (elim disjE insertE) simp_all
  moreover have "set ''bvtgiswmd'' \<inter> set ''ABCDEFGHIJKLMNOPQRSTUVWXYZ'' = {}"
    by simp
  ultimately show ?thesis
    using assms(3) by blast
qed

lemma link_kind_is_never_recognised_witness:
  "detect_interface_type (link_entry_of \<lparr>lm_index = 3, lm_flags = [FlagUp],
     lm_attributes = [IfName ''bond0'', LinkInfo [Kind ''Bond'']]\<rparr>) = UnknownType"
  by (rule link_kind_is_never_recognised [where kind = "''Bond''"]) (simp_all add: find_map_def map_filter_simps)

section \<open>Round trip of the counters\<close>

lemma split_whitespace_cons:
  assumes "word \<noteq> []" and "\<forall>c \<in> set word. \<not> is_ws c" and "is_ws c"
  shows "split_whitespace (word @ c # s) = word # split_whitespace s"
  using assms by (simp add: split_whitespace_def split_when_append)


lemma digit_not_ws: "is_digit c \<Longrightarrow> \<not> is_ws c"
  by (auto simp: is_digit_def is_ws_def)

lemma show_nat_no_ws: "\<forall>c \<in> set (show_nat n). \<not> is_ws c"
  using show_nat_digits [of n] digit_not_ws by (auto simp: list_all_iff)






text \<open>
  \<^verbatim>\<open>iw\<close> prints the channel as \<^verbatim>\<open>channel 36 (5180 MHz), ...\<close>; what is stored as the frequency is the
  number of the channel.
\<close>

lemma iw_channel_stored_as_frequency:
  assumes "n \<le> 4294967295" and "trim line = ''channel '' @ show_nat n @ '' ('' @ rest"
  shows "wi_frequency_mhz (iw_line line wi) = Some n"
proof -
  have "split_whitespace (show_nat n @ '' ('' @ rest) = show_nat n # split_whitespace (''('' @ rest)"
    using split_whitespace_cons [of "show_nat n" "CHR '' ''" "''('' @ rest"] show_nat_no_ws by (simp add: is_ws_def)
  moreover have "strip_prefix (trim line) ''channel '' = Some (show_nat n @ '' ('' @ rest)"
    using strip_prefix_append [of "''channel ''"] assms(2) by metis
  moreover have "strip_prefix (trim line) ''signal: '' = None" "strip_prefix (trim line) ''ssid '' = None"
    using assms(2) by (simp_all add: strip_prefix_def starts_with_def)
  ultimately show ?thesis
    using assms(1) by (simp add: iw_line_def Let_def parse_show_nat)
qed

end
