(* ===== verification/State_Store.thy ===== *)
theory State_Store
  imports Shared_Types "HOL-Library.List_Lexorder" "HOL-Library.Char_ord" "HOL-Library.Multiset"
begin

text \<open>
  \<^verbatim>\<open>crates/netfusion-core/src/state/store.rs\<close>: the state kept in an SQLite database. The tables
  are lists of rows in row order and every operation is the meaning of its SQL statement on
  them. Left open, as parameters: \<open>flt\<close>, which statements fail and why (a failing statement
  changes nothing); \<open>shuffle\<close>, the order in which rows with equal timestamps come out of a
  sorted query; \<open>fmt\<close> and \<open>prs\<close>, how the \<open>chrono\<close> library prints and parses a time. Times are
  stored and compared as text.
\<close>

section \<open>Rows and values\<close>

datatype store_error = Db string | CorruptedStore string | Migration string

record stored_bond_state =
  sb_name :: string
  sb_active_members :: string
  sb_standby_members :: string
  sb_failover_active :: bool
  sb_last_failover :: "timestamp option"
  sb_bond_interface :: "string option"

record stored_event =
  se_id :: int
  se_event_type :: string
  se_data :: string
  se_timestamp :: timestamp

record stored_health_entry =
  sh_id :: int
  sh_interface :: string
  sh_overall :: f64
  sh_rtt :: f64
  sh_jitter :: f64
  sh_loss :: f64
  sh_throughput :: f64
  sh_stability :: f64
  sh_timestamp :: timestamp

text \<open>The rows: a flag is an integer, a time is text.\<close>

record bond_row =
  br_name :: string
  br_active_members :: string
  br_standby_members :: string
  br_failover_active :: int
  br_last_failover :: "string option"
  br_bond_interface :: "string option"

record event_row =
  er_id :: int
  er_event_type :: string
  er_data :: string
  er_timestamp :: string

record health_row =
  hr_id :: int
  hr_interface :: string
  hr_scores :: "f64 list"
  hr_timestamp :: string

record state_store =
  db_bond_state :: "bond_row list"
  db_events :: "event_row list"
  db_events_seq :: int
  db_health_history :: "health_row list"
  db_health_seq :: int
  db_config_snapshot :: "(string \<times> string) option"

text \<open>A database file may lack any of the tables; the migration creates the missing ones, empty.\<close>

record database_file =
  df_bond_state :: "bond_row list option"
  df_events :: "(event_row list \<times> int) option"
  df_health_history :: "(health_row list \<times> int) option"
  df_config_snapshot :: "(string \<times> string) option option"

definition or_else :: "'a option \<Rightarrow> 'a \<Rightarrow> 'a" where
  "or_else x d = (case x of None \<Rightarrow> d | Some y \<Rightarrow> y)"

definition migrate :: "database_file \<Rightarrow> state_store" where
  "migrate df =
     \<lparr>db_bond_state = or_else (df_bond_state df) [],
      db_events = fst (or_else (df_events df) ([], 0)), db_events_seq = snd (or_else (df_events df) ([], 0)),
      db_health_history = fst (or_else (df_health_history df) ([], 0)),
      db_health_seq = snd (or_else (df_health_history df) ([], 0)),
      db_config_snapshot = or_else (df_config_snapshot df) None\<rparr>"

text \<open>\<open>opened\<close>, \<open>pragmas\<close> and \<open>created\<close> are what SQLite answers to opening, to the pragmas and to the migration.\<close>

definition store_open ::
  "(string, database_file) result \<Rightarrow> string option \<Rightarrow> string option \<Rightarrow> (store_error, state_store) result" where
  "store_open opened pragmas created =
     (case opened of
        Inl e \<Rightarrow> Err (Db e)
      | Inr df \<Rightarrow>
          (case pragmas of
             Some e \<Rightarrow> Err (Db e)
           | None \<Rightarrow> (case created of Some e \<Rightarrow> Err (Db e) | None \<Rightarrow> Ok (migrate df))))"

text \<open>One statement: it fails, or its effect happens.\<close>

definition statement ::
  "(state_store \<Rightarrow> string option) \<Rightarrow> ('a \<times> state_store) \<Rightarrow> state_store \<Rightarrow> (store_error, 'a) result \<times> state_store" where
  "statement flt eff s = (case flt s of Some e \<Rightarrow> (Err (Db e), s) | None \<Rightarrow> (Ok (fst eff), snd eff))"

text \<open>\<open>n as i64\<close> for a \<open>usize\<close>, and the \<open>LIMIT\<close> clause, for which a negative number is no limit.\<close>

definition as_i64 :: "nat \<Rightarrow> int" where
  "as_i64 n = sint (of_nat n :: 64 word)"

definition sql_limit :: "int \<Rightarrow> 'r list \<Rightarrow> 'r list" where
  "sql_limit l xs = (if l < 0 then xs else take (nat l) xs)"

section \<open>Bond states\<close>


definition bond_state_of_row :: "(string \<Rightarrow> timestamp option) \<Rightarrow> bond_row \<Rightarrow> stored_bond_state" where
  "bond_state_of_row prs r =
     \<lparr>sb_name = br_name r, sb_active_members = br_active_members r, sb_standby_members = br_standby_members r,
      sb_failover_active = (br_failover_active r \<noteq> 0),
      sb_last_failover = Option.bind (br_last_failover r) prs, sb_bond_interface = br_bond_interface r\<rparr>"



definition load_all_bond_states ::
  "(state_store \<Rightarrow> string option) \<Rightarrow> (string \<Rightarrow> timestamp option) \<Rightarrow> state_store
     \<Rightarrow> (store_error, stored_bond_state list) result \<times> state_store" where
  "load_all_bond_states flt prs s = statement flt (List.map (bond_state_of_row prs) (db_bond_state s), s) s"


section \<open>Events\<close>

text \<open>What \<open>execute\<close> returns, the number of changed rows, is passed on as the identifier.\<close>

definition append_event ::
  "(state_store \<Rightarrow> string option) \<Rightarrow> (timestamp \<Rightarrow> string) \<Rightarrow> timestamp \<Rightarrow> string \<Rightarrow> string \<Rightarrow> state_store
     \<Rightarrow> (store_error, int) result \<times> state_store" where
  "append_event flt fmt now event_type dat s =
     statement flt
       (1, s\<lparr>db_events := db_events s @ [\<lparr>er_id = db_events_seq s + 1, er_event_type = event_type,
               er_data = dat, er_timestamp = fmt now\<rparr>],
             db_events_seq := db_events_seq s + 1\<rparr>) s"

definition event_of_row :: "(string \<Rightarrow> timestamp option) \<Rightarrow> event_row \<Rightarrow> stored_event" where
  "event_of_row prs r =
     \<lparr>se_id = er_id r, se_event_type = er_event_type r, se_data = er_data r,
      se_timestamp = or_else (prs (er_timestamp r)) 0\<rparr>"

definition get_recent_events ::
  "(state_store \<Rightarrow> string option) \<Rightarrow> (string \<Rightarrow> timestamp option) \<Rightarrow> (event_row list \<Rightarrow> event_row list) \<Rightarrow> nat
     \<Rightarrow> state_store \<Rightarrow> (store_error, stored_event list) result \<times> state_store" where
  "get_recent_events flt prs shuffle limit s =
     statement flt
       (List.map (event_of_row prs)
          (sql_limit (as_i64 limit) (rev (sort_key er_timestamp (shuffle (db_events s))))), s) s"

text \<open>
  The limit of the inner query is computed by SQLite: a difference beyond 64 bits becomes a
  floating-point number, which is no limit but an error.
\<close>

definition trim_events ::
  "(state_store \<Rightarrow> string option) \<Rightarrow> (event_row list \<Rightarrow> event_row list) \<Rightarrow> nat \<Rightarrow> state_store
     \<Rightarrow> (store_error, nat) result \<times> state_store" where
  "trim_events flt shuffle max_count s =
     (let surplus = int (length (db_events s)) - as_i64 max_count;
          victims = List.map er_id (sql_limit (max 0 surplus) (sort_key er_timestamp (shuffle (db_events s))));
          kept = filter (\<lambda>r. er_id r \<notin> set victims) (db_events s)
      in if 2 ^ 63 \<le> surplus then (Err (Db ''datatype mismatch''), s)
         else statement flt (length (db_events s) - length kept, s\<lparr>db_events := kept\<rparr>) s)"

section \<open>Health history\<close>



definition health_entry_of_row :: "(string \<Rightarrow> timestamp option) \<Rightarrow> health_row \<Rightarrow> stored_health_entry" where
  "health_entry_of_row prs r =
     \<lparr>sh_id = hr_id r, sh_interface = hr_interface r, sh_overall = hr_scores r ! 0, sh_rtt = hr_scores r ! 1,
      sh_jitter = hr_scores r ! 2, sh_loss = hr_scores r ! 3, sh_throughput = hr_scores r ! 4,
      sh_stability = hr_scores r ! 5, sh_timestamp = or_else (prs (hr_timestamp r)) 0\<rparr>"

definition get_health_history ::
  "(state_store \<Rightarrow> string option) \<Rightarrow> (string \<Rightarrow> timestamp option) \<Rightarrow> (health_row list \<Rightarrow> health_row list) \<Rightarrow> string
     \<Rightarrow> nat \<Rightarrow> state_store \<Rightarrow> (store_error, stored_health_entry list) result \<times> state_store" where
  "get_health_history flt prs shuffle interface max_entries s =
     statement flt
       (List.map (health_entry_of_row prs)
          (sql_limit (as_i64 max_entries)
            (rev (sort_key hr_timestamp (shuffle (filter (\<lambda>r. hr_interface r = interface) (db_health_history s)))))), s) s"

section \<open>Configuration snapshot\<close>



section \<open>Properties\<close>

subsection \<open>Identifiers and names are unique\<close>

definition store_ok :: "state_store \<Rightarrow> bool" where
  "store_ok s \<longleftrightarrow> distinct (List.map er_id (db_events s)) \<and> (\<forall>r \<in> set (db_events s). er_id r \<le> db_events_seq s)
     \<and> distinct (List.map hr_id (db_health_history s)) \<and> (\<forall>r \<in> set (db_health_history s). hr_id r \<le> db_health_seq s)
     \<and> distinct (List.map br_name (db_bond_state s))"






lemma store_ok_trim_events: "store_ok s \<Longrightarrow> store_ok (snd (trim_events flt shuffle n s))"
  by (auto simp: trim_events_def Let_def statement_def store_ok_def distinct_map_filter split: option.split)

subsection \<open>The store is a model of maps and lists\<close>










lemma find_none_const: "find (\<lambda>x. False) xs = None"
  by (induction xs) auto











definition sample_prs :: "string \<Rightarrow> timestamp option" where
  "sample_prs s = (case s of
      [] \<Rightarrow> None
    | c # ds \<Rightarrow> Some (if c = CHR ''-'' then - int (digits_val ds) else int (digits_val ds)))"






subsection \<open>Sorted queries\<close>

lemma as_i64_small: "n < 2 ^ 63 \<Longrightarrow> as_i64 n = int n"
  by (simp add: as_i64_def signed_of_nat signed_take_bit_int_eq_self)

text \<open>The first rows of a query that sorts by a key, newest first.\<close>

lemma newest_rows:
  fixes f :: "'r \<Rightarrow> 'k :: linorder"
  assumes "mset (shuffle xs) = mset xs" and "out = take k (rev (sort_key f (shuffle xs)))"
  shows "mset out \<subseteq># mset xs \<and> length out = min k (length xs) \<and> sorted_wrt (\<lambda>a b. f b \<le> f a) out
    \<and> (\<forall>a \<in> set out. \<forall>b. b \<in># mset xs - mset out \<longrightarrow> f b \<le> f a)"
proof -
  let ?ys = "rev (sort_key f (shuffle xs))"
  have m: "mset ?ys = mset xs" using assms(1) by simp
  have split: "mset out + mset (drop k ?ys) = mset xs"
    using m assms(2) by (metis append_take_drop_id mset_append)
  have sorted: "sorted_wrt (\<lambda>a b. f b \<le> f a) ?ys"
    using sorted_sort_key [of f "shuffle xs"] by (simp add: sorted_wrt_rev sorted_map)
  then have "sorted_wrt (\<lambda>a b. f b \<le> f a) (out @ drop k ?ys)"
    by (simp add: assms(2))
  moreover have "mset xs - mset out = mset (drop k ?ys)"
    using split by (metis add_diff_cancel_left')
  moreover have "length out = min k (length xs)"
    using mset_eq_length [OF m] assms(2) by simp
  moreover have "mset out \<subseteq># mset xs" using split by (metis mset_subset_eq_add_left)
  ultimately show ?thesis
    by (auto simp: sorted_wrt_append)
qed

text \<open>The most recent events: at most \<open>limit\<close> of them and as many as there are up to it, newest
  first by their stored time, and no event left out is newer than one returned, in whatever
  order rows of the same time come.\<close>

theorem recent_events_are_newest:
  assumes "limit < 2 ^ 63" and "\<forall>xs. mset (shuffle xs) = mset xs" and "flt s = None"
  shows "\<exists>out. fst (get_recent_events flt prs shuffle limit s) = Ok (List.map (event_of_row prs) out)
    \<and> mset out \<subseteq># mset (db_events s) \<and> length out = min limit (length (db_events s))
    \<and> sorted_wrt (\<lambda>a b. er_timestamp b \<le> er_timestamp a) out
    \<and> (\<forall>a \<in> set out. \<forall>b. b \<in># mset (db_events s) - mset out \<longrightarrow> er_timestamp b \<le> er_timestamp a)"
proof -
  let ?out = "take limit (rev (sort_key er_timestamp (shuffle (db_events s))))"
  have "fst (get_recent_events flt prs shuffle limit s) = Ok (List.map (event_of_row prs) ?out)"
    using assms(1,3) by (simp add: get_recent_events_def statement_def sql_limit_def as_i64_small)
  moreover have "mset (shuffle (db_events s)) = mset (db_events s)" using assms(2) by blast
  ultimately show ?thesis using newest_rows [OF _ refl] by blast
qed

lemma trim_partition:
  fixes f :: "'r \<Rightarrow> 'k :: linorder" and key :: "'r \<Rightarrow> 'i"
  assumes "mset (shuffle xs) = mset xs" and "distinct (List.map key xs)"
    and "kept = filter (\<lambda>r. key r \<notin> set (List.map key (take k (sort_key f (shuffle xs))))) xs"
  shows "mset kept = mset (drop k (sort_key f (shuffle xs)))
    \<and> (\<forall>r \<in> set kept. \<forall>d. d \<in># mset xs - mset kept \<longrightarrow> f d \<le> f r)"
proof -
  let ?ys = "sort_key f (shuffle xs)"
  let ?gone = "set (List.map key (take k ?ys))"
  have m: "mset ?ys = mset xs" using assms(1) by simp
  have dis: "distinct (List.map key ?ys)"
    using assms(2) m by (metis mset_map mset_eq_imp_distinct_iff)
  have "mset kept = filter_mset (\<lambda>r. key r \<notin> ?gone) (mset ?ys)"
    using m assms(3) by simp
  also have "\<dots> = mset (filter (\<lambda>r. key r \<notin> ?gone) (take k ?ys @ drop k ?ys))"
    by simp
  also have "filter (\<lambda>r. key r \<notin> ?gone) (take k ?ys @ drop k ?ys) = drop k ?ys"
  proof -
    have "filter (\<lambda>r. key r \<notin> ?gone) (take k ?ys) = []"
      by (auto simp: filter_empty_conv)
    moreover have "set (List.map key (take k ?ys)) \<inter> set (List.map key (drop k ?ys)) = {}"
      using dis by (metis append_take_drop_id distinct_append map_append)
    then have "filter (\<lambda>r. key r \<notin> ?gone) (drop k ?ys) = drop k ?ys"
      by (intro filter_True) auto
    ultimately show ?thesis by (simp only: filter_append append_Nil)
  qed
  finally have kept: "mset kept = mset (drop k ?ys)" .
  have "sorted_wrt (\<lambda>a b. f a \<le> f b) (take k ?ys @ drop k ?ys)"
    using sorted_sort_key [of f "shuffle xs"] by (simp add: sorted_map)
  then have le: "f d \<le> f r" if "d \<in> set (take k ?ys)" "r \<in> set (drop k ?ys)" for d r
    using that unfolding sorted_wrt_append by blast
  have "mset (take k ?ys) + mset kept = mset xs"
    using m kept by (metis append_take_drop_id mset_append)
  then have "mset xs - mset kept = mset (take k ?ys)" by (metis add_diff_cancel_right')
  moreover have "set kept = set (drop k ?ys)" using kept by (rule mset_eq_setD)
  ultimately show ?thesis
    using kept le by (metis set_mset_mset)
qed

text \<open>C29: trimming keeps as many events as there are up to \<open>max_count\<close>, answers how many were
  deleted, and deletes only events that are not newer than any that is kept.\<close>

theorem trim_events_keeps_newest:
  assumes "max_count < 2 ^ 63" and "length (db_events s) < 2 ^ 63" and "flt s = None"
    and "\<forall>xs. mset (shuffle xs) = mset xs" and "distinct (List.map er_id (db_events s))"
  shows "let (r, s') = trim_events flt shuffle max_count s
    in length (db_events s') = min max_count (length (db_events s))
       \<and> r = Ok (length (db_events s) - length (db_events s'))
       \<and> set (db_events s') \<subseteq> set (db_events s)
       \<and> (\<forall>k \<in> set (db_events s'). \<forall>d. d \<in># mset (db_events s) - mset (db_events s') \<longrightarrow> er_timestamp d \<le> er_timestamp k)"
proof -
  let ?es = "db_events s"
  let ?k = "length ?es - max_count"
  define kept where "kept = filter (\<lambda>r. er_id r \<notin> set (List.map er_id (take ?k (sort_key er_timestamp (shuffle ?es))))) ?es"
  have lim: "sql_limit (max 0 (int (length ?es) - int max_count)) (ys :: event_row list) = take ?k ys" for ys
    by (simp add: sql_limit_def nat_diff_distrib max_def)
  have "trim_events flt shuffle max_count s = (Ok (length ?es - length kept), s\<lparr>db_events := kept\<rparr>)"
    using assms(1-3) by (simp add: trim_events_def Let_def lim statement_def kept_def as_i64_small)
  moreover have p: "mset kept = mset (drop ?k (sort_key er_timestamp (shuffle ?es)))
      \<and> (\<forall>r \<in> set kept. \<forall>d. d \<in># mset ?es - mset kept \<longrightarrow> er_timestamp d \<le> er_timestamp r)"
    using trim_partition [where shuffle = shuffle and xs = ?es and key = er_id and f = er_timestamp and k = ?k and kept = kept]
      assms(4,5) kept_def by blast
  moreover have "length (shuffle ?es) = length ?es"
    using assms(4) by (metis mset_eq_length)
  then have "length kept = min max_count (length ?es)"
    using mset_eq_length [OF conjunct1 [OF p]] by simp
  ultimately show ?thesis by (auto simp: kept_def)
qed

definition sample_events :: state_store where
  "sample_events = (migrate \<lparr>df_bond_state = None, df_events = None, df_health_history = None, df_config_snapshot = None\<rparr>)
     \<lparr>db_events := [\<lparr>er_id = 1, er_event_type = ''a'', er_data = [], er_timestamp = ''2024''\<rparr>,
                    \<lparr>er_id = 2, er_event_type = ''b'', er_data = [], er_timestamp = ''2023''\<rparr>], db_events_seq := 2\<rparr>"

lemma recent_events_are_newest_witness:
  "\<exists>out. fst (get_recent_events (\<lambda>_. None) sample_prs rev 1 sample_events) = Ok (List.map (event_of_row sample_prs) out)
    \<and> mset out \<subseteq># mset (db_events sample_events) \<and> length out = min 1 (length (db_events sample_events))
    \<and> sorted_wrt (\<lambda>a b. er_timestamp b \<le> er_timestamp a) out
    \<and> (\<forall>a \<in> set out. \<forall>b. b \<in># mset (db_events sample_events) - mset out \<longrightarrow> er_timestamp b \<le> er_timestamp a)"
  by (rule recent_events_are_newest) simp_all

lemma trim_events_keeps_newest_witness:
  "let (r, s') = trim_events (\<lambda>_. None) rev 1 sample_events
   in length (db_events s') = min 1 (length (db_events sample_events))
      \<and> r = Ok (length (db_events sample_events) - length (db_events s'))
      \<and> set (db_events s') \<subseteq> set (db_events sample_events)
      \<and> (\<forall>k \<in> set (db_events s'). \<forall>d. d \<in># mset (db_events sample_events) - mset (db_events s') \<longrightarrow> er_timestamp d \<le> er_timestamp k)"
  by (rule trim_events_keeps_newest) (simp_all add: sample_events_def migrate_def)

subsection \<open>Identifiers and boundary cases\<close>

text \<open>The answer of \<open>append_event\<close> is 1, whatever the identifier of the new row.\<close>

lemma append_event_answer:
  "flt s = None \<Longrightarrow> fst (append_event flt fmt now ty dat s) = Ok 1
     \<and> er_id (last (db_events (snd (append_event flt fmt now ty dat s)))) = db_events_seq s + 1"
  by (simp add: append_event_def statement_def)

text \<open>With \<^verbatim>\<open>usize::MAX\<close>, "keep everything", the limit of the inner query is one above the number of rows.\<close>

lemma trim_events_usize_max:
  assumes "flt s = None" and "mset (shuffle (db_events s)) = mset (db_events s)" and "length (db_events s) < 2 ^ 62"
  shows "db_events (snd (trim_events flt shuffle (2 ^ 64 - 1) s)) = []"
proof -
  have "as_i64 (2 ^ 64 - 1) = - 1" by (simp add: as_i64_def)
  moreover have "set (sort_key er_timestamp (shuffle (db_events s))) = set (db_events s)"
    using assms(2) by (metis set_sort mset_eq_setD)
  moreover have "length (shuffle (db_events s)) = length (db_events s)" using assms(2) by (rule mset_eq_length)
  ultimately show ?thesis
    using assms(1,3) by (simp add: trim_events_def Let_def statement_def sql_limit_def nat_add_distrib filter_empty_conv)
qed

end
