(* ===== verification/Daemon.thy ===== *)
theory Daemon
  imports Ipc Discovery State_Store Config_Toml
begin

text \<open>
  \<^verbatim>\<open>crates/netfusion-daemon/src/main.rs\<close> and \<^verbatim>\<open>config_watcher.rs\<close>: loading and reloading the
  configuration, starting the daemon, and the tasks that share its state, the periodic scan,
  the IPC requests and the configuration watcher, interleaved as a step relation. Reading a
  document is the parameter \<open>toml\<close>, which the last sections give the schema of \<open>Config_Toml\<close>;
  \<open>notify\<close> events are the kinds the code distinguishes.
\<close>

definition DEFAULT_SOCKET_PATH :: string where
  "DEFAULT_SOCKET_PATH = ''/run/netfusion/netfusion.sock''"

definition CONFIG_PATH :: string where
  "CONFIG_PATH = ''/etc/netfusion/netfusion.toml''"

section \<open>Configuration\<close>

definition load_config ::
  "'w files \<Rightarrow> (string \<Rightarrow> (string, netfusion_config) result) \<Rightarrow> 'w \<Rightarrow> (string, netfusion_config) result \<times> 'w" where
  "load_config fs toml w =
     (case fs_exists fs CONFIG_PATH w of
        (True, w) \<Rightarrow>
          (case fs_read fs CONFIG_PATH w of
             (Inr content, w) \<Rightarrow>
               (case toml content of
                  Inl e \<Rightarrow> (Err (''Failed to parse config: '' @ e), w)
                | Inr config \<Rightarrow> (Ok config, w))
           | (Inl _, w) \<Rightarrow> (Ok netfusion_config_default, w))
      | (False, w) \<Rightarrow> (Ok netfusion_config_default, w))"

text \<open>The state the tasks share: the server's state and the events broadcast so far.\<close>

record daemon_state =
  ds_server :: ipc_server
  ds_events :: "netfusion_event list"

definition handle_config_change ::
  "'w files \<Rightarrow> (string \<Rightarrow> (string, netfusion_config) result) \<Rightarrow> (daemon_config \<Rightarrow> string) \<Rightarrow> timestamp \<Rightarrow> string
     \<Rightarrow> daemon_state \<Rightarrow> 'w \<Rightarrow> (string, unit) result \<times> daemon_state \<times> 'w" where
  "handle_config_change fs toml invalid now path d w =
     (case fs_read fs path w of
        (Inl e, w) \<Rightarrow> (Err (''failed to read config: '' @ e), d, w)
      | (Inr content, w) \<Rightarrow>
          (case toml content of
             Inl e \<Rightarrow> (Err (''failed to parse config: '' @ e), d, w)
           | Inr new_config \<Rightarrow>
               if \<not> validate_daemon (nc_daemon new_config)
               then (Err (''invalid config: '' @ invalid (nc_daemon new_config)), d, w)
               else (Ok (), d\<lparr>ds_server := (ds_server d)\<lparr>sv_config := new_config\<rparr>,
                             ds_events := ds_events d @ [ConfigReloaded \<lparr>cfe_timestamp = now, cfe_source = path, cfe_errors = []\<rparr>]\<rparr>, w)))"

datatype notify_event = NotifyModify | NotifyCreate | NotifyOther | NotifyError

text \<open>
  The callback of the watcher, which is not told the path of the change: any creation or
  modification in the directory starts a task that reloads. Starting a task panics, which is
  \<open>None\<close>, on a thread outside the asynchronous runtime; \<open>runtime\<close> says whether the thread on which
  the library calls back is inside. The panic ends that thread, and the rest of the daemon goes on.
\<close>

definition on_notify ::
  "bool \<Rightarrow> 'w files \<Rightarrow> (string \<Rightarrow> (string, netfusion_config) result) \<Rightarrow> (daemon_config \<Rightarrow> string) \<Rightarrow> timestamp \<Rightarrow> notify_event
     \<Rightarrow> daemon_state \<Rightarrow> 'w \<Rightarrow> (daemon_state \<times> 'w) option" where
  "on_notify runtime fs toml invalid now ev d w =
     (if ev = NotifyModify \<or> ev = NotifyCreate
      then if runtime then Some (snd (handle_config_change fs toml invalid now CONFIG_PATH d w)) else None
      else Some (d, w))"

text \<open>
  Starting the watcher: without the file nothing is watched. \<open>watch\<close> is the outcome of setting up
  the library's watcher; the answer says whether events will arrive.
\<close>

definition watcher_start :: "'w files \<Rightarrow> (string, unit) result \<Rightarrow> string \<Rightarrow> 'w \<Rightarrow> (string, bool) result \<times> 'w" where
  "watcher_start fs watch path w =
     (case fs_exists fs path w of
        (False, w) \<Rightarrow> (Ok False, w)
      | (True, w) \<Rightarrow> (case watch of Inl e \<Rightarrow> (Err e, w) | Inr _ \<Rightarrow> (Ok True, w)))"

section \<open>The daemon\<close>

text \<open>One scan of the periodic task; a failed scan leaves the interfaces.\<close>

definition rescan ::
  "'w scan_netlink \<Rightarrow> 'w devices \<Rightarrow> 'w shell \<Rightarrow> 'w files \<Rightarrow> daemon_state \<Rightarrow> 'w \<Rightarrow> daemon_state \<times> 'w" where
  "rescan sn dv sh fs d w =
     (case scan sn dv sh fs w of
        (Inr found, w) \<Rightarrow> (d\<lparr>ds_server := (ds_server d)\<lparr>sv_interfaces := found\<rparr>\<rparr>, w)
      | (Inl _, w) \<Rightarrow> (d, w))"

text \<open>
  \<open>main\<close> up to the point where the daemon is ready: an unreadable configuration ends it with an
  error, a scanner that cannot be created ends it well (\<open>None\<close>), a state store that cannot be
  opened does not matter. \<open>store\<close> is the outcome of opening it for a path, \<open>scanner\<close> of the
  netlink connection, \<open>started\<close> the monotonic clock.
\<close>

definition daemon_start ::
  "'w files \<Rightarrow> (string \<Rightarrow> (string, netfusion_config) result) \<Rightarrow> (string \<Rightarrow> (store_error, state_store) result)
     \<Rightarrow> (scan_error, unit) result \<Rightarrow> 'w scan_netlink \<Rightarrow> 'w devices \<Rightarrow> 'w shell \<Rightarrow> instant \<Rightarrow> 'w
     \<Rightarrow> (string, (daemon_state \<times> state_store option) option) result \<times> 'w" where
  "daemon_start fs toml store scanner sn dv sh started w =
     (case load_config fs toml w of
        (Inl e, w) \<Rightarrow> (Err e, w)
      | (Inr config, w) \<Rightarrow>
          (let st = (case store (dc_state_path (nc_daemon config)) of Inl _ \<Rightarrow> None | Inr s \<Rightarrow> Some s)
           in (case scanner of
                 Inl _ \<Rightarrow> (Ok None, w)
               | Inr _ \<Rightarrow>
                   (let server = ipc_server_new (dc_socket_path (nc_daemon config)) [] config started;
                        (d, w) = rescan sn dv sh fs \<lparr>ds_server = server, ds_events = []\<rparr> w
                    in (Ok (Some (d, st)), w)))))"

definition daemon_shutdown :: "'w files \<Rightarrow> 'w \<Rightarrow> 'w" where
  "daemon_shutdown fs w = snd (fs_remove fs DEFAULT_SOCKET_PATH w)"

text \<open>The tasks of the running daemon, interleaved, and what happens outside it.\<close>

inductive daemon_step ::
  "bool \<Rightarrow> 'w scan_netlink \<Rightarrow> 'w devices \<Rightarrow> 'w shell \<Rightarrow> 'w files \<Rightarrow> (string \<Rightarrow> (string, netfusion_config) result)
     \<Rightarrow> daemon_state \<times> 'w \<Rightarrow> daemon_state \<times> 'w \<Rightarrow> bool"
  for runtime sn dv sh fs toml where
  rescanned: "daemon_step runtime sn dv sh fs toml (d, w) (rescan sn dv sh fs d w)"
| requested: "process_request invalid clocks req (ds_server d) = (response, s') \<Longrightarrow>
    daemon_step runtime sn dv sh fs toml (d, w) (d\<lparr>ds_server := s'\<rparr>, w)"
| notified: "on_notify runtime fs toml invalid now ev d w = Some x \<Longrightarrow> daemon_step runtime sn dv sh fs toml (d, w) x"
| outside: "daemon_step runtime sn dv sh fs toml (d, w) (d, w')"

inductive_cases daemon_stepE: "daemon_step runtime sn dv sh fs toml (d, w) x"

section \<open>Properties\<close>

lemma scan_names:
  assumes "scan sn dv sh fs w = (Ok found, w')"
  shows "\<forall>i \<in> set found. if_name i \<noteq> ''lo'' \<and> \<not> is_virtual_interface (if_name i)"
proof -
  obtain links addrs gws stats w1 where l': "(case scan_links dv sh fs (interface_of_link addrs gws stats) links w1 of
      (interfaces, w) \<Rightarrow> (Ok interfaces, w)) = (Ok found :: (scan_error, interface_info list) result, w')"
    using assms unfolding scan_def and_then_ok by blast
  then have l: "scan_links dv sh fs (interface_of_link addrs gws stats) links w1 = (found, w')"
    by (simp split: prod.splits)
  let ?mk = "interface_of_link addrs gws stats"
  have "List.map scanned_part found = List.map (\<lambda>l. scanned_part (?mk l)) (filter reported_link links)"
    using scan_links_parts [of dv sh fs ?mk links w1] l by simp
  then have "List.map fst (List.map scanned_part found) = List.map fst (List.map (\<lambda>l. scanned_part (?mk l)) (filter reported_link links))"
    by simp
  then have "List.map if_name found = List.map le_name (filter reported_link links)"
    by (simp add: scanned_part_def interface_of_link_def o_def)
  then have "set (List.map if_name found) \<subseteq> le_name ` {l. reported_link l}"
    by auto
  then show ?thesis by (auto simp: reported_link_def)
qed

definition interfaces_ok :: "daemon_state \<Rightarrow> bool" where
  "interfaces_ok d \<longleftrightarrow> (\<forall>i \<in> set (sv_interfaces (ds_server d)). if_name i \<noteq> ''lo'' \<and> \<not> is_virtual_interface (if_name i))"

lemma interfaces_ok_rescan: "interfaces_ok d \<Longrightarrow> interfaces_ok (fst (rescan sn dv sh fs d w))"
  using scan_names [of sn dv sh fs w] by (auto simp: rescan_def interfaces_ok_def split: prod.split sum.split)

lemma interfaces_ok_notify:
  "on_notify runtime fs toml invalid now ev d w = Some x \<Longrightarrow> interfaces_ok d \<Longrightarrow> interfaces_ok (fst x)"
  by (auto simp: on_notify_def handle_config_change_def interfaces_ok_def split: prod.splits sum.splits if_splits)

lemma interfaces_ok_step:
  "daemon_step runtime sn dv sh fs toml (d, w) (d', w') \<Longrightarrow> interfaces_ok d \<Longrightarrow> interfaces_ok d'"
proof (erule daemon_stepE)
  fix invalid clocks req response s'
  assume "interfaces_ok d" "process_request invalid clocks req (ds_server d) = (response, s')" "(d', w') = (d\<lparr>ds_server := s'\<rparr>, w)"
  moreover have "s' = (case req of ApplyConfig c \<Rightarrow> (ds_server d)\<lparr>sv_config := c\<rparr> | _ \<Rightarrow> ds_server d)"
    using process_request_state [of invalid clocks req "ds_server d"] calculation(2) by simp
  ultimately show "interfaces_ok d'"
    by (auto simp: interfaces_ok_def split: daemon_request.splits)
qed (use interfaces_ok_rescan interfaces_ok_notify in \<open>metis fst_conv\<close>)+

interpretation served: step_invariant "daemon_step runtime sn dv sh fs toml" "\<lambda>x. interfaces_ok (fst x)" for runtime sn dv sh fs toml
  by unfold_locales (use interfaces_ok_step in \<open>auto simp: split_paired_all\<close>)

lemma interfaces_ok_start:
  assumes "daemon_start fs toml store scanner sn dv sh started w = (Ok (Some (d, st)), w')"
  shows "interfaces_ok d"
proof -
  have "interfaces_ok (fst (rescan sn dv sh fs \<lparr>ds_server = \<lparr>sv_socket_path = p, sv_interfaces = [],
      sv_config = c, sv_uptime_start = started\<rparr>, ds_events = []\<rparr> v))" for p c v
    by (rule interfaces_ok_rescan) (simp add: interfaces_ok_def)
  moreover have "\<exists>p c v. rescan sn dv sh fs \<lparr>ds_server = \<lparr>sv_socket_path = p, sv_interfaces = [],
      sv_config = c, sv_uptime_start = started\<rparr>, ds_events = []\<rparr> v = (d, w')"
    using assms by (auto simp: daemon_start_def ipc_server_new_def Let_def split: prod.splits sum.splits)
  ultimately show ?thesis by (metis fst_conv)
qed

text \<open>C33: from the start of the daemon on, and whatever the periodic scan, the clients, the watcher and
  the system do in between, the interfaces a client is told are scanned ones: none is the
  loopback or has the name of a container interface, and asking for \<open>lo\<close> is an error.\<close>

theorem served_interfaces_are_real:
  assumes "daemon_start fs toml store scanner sn dv sh started w = (Ok (Some (d, st)), w')"
    and "(daemon_step runtime sn dv sh fs toml)\<^sup>*\<^sup>* (d, w') (d', w'')"
  shows "(\<exists>is. fst (process_request invalid clocks GetInterfaces (ds_server d')) = OkResponse (Some (InterfacesData is))
      \<and> list_all (\<lambda>i. if_name i \<noteq> ''lo'' \<and> \<not> is_virtual_interface (if_name i)) is)
    \<and> fst (process_request invalid clocks (GetInterface ''lo'') (ds_server d'))
        = ErrorResponse (''Interface '' @ quoted ''lo'' @ '' not found'') False"
proof -
  have ok: "interfaces_ok d'"
    using served.reached_keeps [OF assms(2)] interfaces_ok_start [OF assms(1)] by simp
  then have "find (\<lambda>i. if_name i = ''lo'') (sv_interfaces (ds_server d')) = None"
    by (auto simp: find_None_iff interfaces_ok_def)
  then show ?thesis
    using ok by (simp add: interfaces_ok_def success_def error_response_def list_all_iff)
qed

text \<open>Reloading the configuration is all or nothing: on success the configuration is the parsed
  content of the file and exactly one event is broadcast, on failure configuration and events
  are as before; the interfaces never change.\<close>

theorem reload_all_or_nothing:
  "case handle_config_change fs toml invalid now path d w of
     (Inr _, d', w') \<Rightarrow>
       (\<exists>content c. fs_read fs path w = (Ok content, w') \<and> toml content = Ok c
          \<and> d' = d\<lparr>ds_server := (ds_server d)\<lparr>sv_config := c\<rparr>,
                  ds_events := ds_events d @ [ConfigReloaded \<lparr>cfe_timestamp = now, cfe_source = path, cfe_errors = []\<rparr>]\<rparr>)
   | (Inl _, d', w') \<Rightarrow> d' = d \<and> ((\<exists>e. fs_read fs path w = (Err e, w'))
          \<or> (\<exists>content e. fs_read fs path w = (Ok content, w') \<and> toml content = Err e))"
  by (auto simp: handle_config_change_def validate_daemon_def split: prod.split sum.split)

text \<open>
  A daemon on a system with a loopback, a wired and a container interface, with a file system that
  knows no file; it starts with the defaults, and a client then asks it for the status.
\<close>

definition sample_netlink3 :: "nat scan_netlink" where
  "sample_netlink3 = \<lparr>sn_links = \<lambda>w. (List.map (\<lambda>(n, name). Inr \<lparr>lm_index = n, lm_flags = [FlagUp], lm_attributes = [IfName name]\<rparr>)
       [(1, ''lo''), (2, ''eth0''), (3, ''docker0'')], w),
     sn_addresses = \<lambda>w. ([], w), sn_routes = \<lambda>w. ([], w)\<rparr>"

definition no_commands :: "nat shell" where
  "no_commands = (\<lambda>_ w. (Err [], w))"

definition sample_daemon :: "daemon_state \<times> nat" where
  "sample_daemon = rescan sample_netlink3 empty_devices no_commands empty_files
     \<lparr>ds_server = \<lparr>sv_socket_path = dc_socket_path (nc_daemon netfusion_config_default), sv_interfaces = [],
        sv_config = netfusion_config_default, sv_uptime_start = 0\<rparr>, ds_events = []\<rparr> 0"


lemma sample_config: "load_config empty_files (\<lambda>_. Err []) (0 :: nat) = (Ok netfusion_config_default, 0)"
  by (simp add: load_config_def empty_files_def)

lemma served_interfaces_are_real_witness:
  "(\<exists>is. fst (process_request (\<lambda>_. []) (0, 0) GetInterfaces (ds_server (fst sample_daemon))) = OkResponse (Some (InterfacesData is))
      \<and> list_all (\<lambda>i. if_name i \<noteq> ''lo'' \<and> \<not> is_virtual_interface (if_name i)) is)
   \<and> fst (process_request (\<lambda>_. []) (0, 0) (GetInterface ''lo'') (ds_server (fst sample_daemon)))
       = ErrorResponse (''Interface '' @ quoted ''lo'' @ '' not found'') False"
proof (rule served_interfaces_are_real)
  show "daemon_start empty_files (\<lambda>_. Err []) (\<lambda>_. Err (Db [])) (Ok ()) sample_netlink3 empty_devices no_commands 0 0
      = (Ok (Some (fst sample_daemon, None)), snd sample_daemon)"
    by (simp add: daemon_start_def ipc_server_new_def sample_config sample_daemon_def Let_def case_prod_beta)
  have "daemon_step True sample_netlink3 empty_devices no_commands empty_files (\<lambda>_. Err []) sample_daemon
      ((fst sample_daemon)\<lparr>ds_server := ds_server (fst sample_daemon)\<rparr>, snd sample_daemon)"
    using daemon_step.requested [where req = GetStatus and invalid = "\<lambda>_. []" and clocks = "(0, 0)" and d = "fst sample_daemon"
        and w = "snd sample_daemon"] by simp
  then show "(daemon_step True sample_netlink3 empty_devices no_commands empty_files (\<lambda>_. Err []))\<^sup>*\<^sup>* (fst sample_daemon, snd sample_daemon)
      (fst sample_daemon, snd sample_daemon)"
    by (simp add: r_into_rtranclp)
qed

text \<open>The socket removed at the end is the default one, whatever the configured path is.\<close>

lemma shutdown_keeps_configured_socket:
  "daemon_shutdown (empty_files\<lparr>fs_remove := \<lambda>p w. (Ok (), if p = ''/tmp/custom.sock'' then 1 else w)\<rparr>) 0 = 0"
  by (simp add: daemon_shutdown_def DEFAULT_SOCKET_PATH_def)

text \<open>When the library calls back on a thread of its own, which is outside the runtime, the running daemon
  never takes up a change of the file: whatever happens nothing is announced, and the callback
  panics on every change.\<close>

definition unreloaded :: "daemon_state \<Rightarrow> daemon_state \<Rightarrow> bool" where
  "unreloaded d0 d \<longleftrightarrow> ds_events d = ds_events d0"

interpretation unreloaded: step_invariant "daemon_step False sn dv sh fs toml" "\<lambda>x. unreloaded d0 (fst x)"
  for sn dv sh fs toml d0
proof unfold_locales
  fix x y
  assume s: "daemon_step False sn dv sh fs toml x y" and u: "unreloaded d0 (fst x)"
  show "unreloaded d0 (fst y)"
    using s u by (cases rule: daemon_step.cases)
      (auto simp: unreloaded_def rescan_def on_notify_def split: prod.splits sum.splits if_splits)
qed

theorem reload_never_happens:
  assumes "(daemon_step False sn dv sh fs toml)\<^sup>*\<^sup>* (d, w) (d', w')"
  shows "ds_events d' = ds_events d
    \<and> (ev = NotifyModify \<or> ev = NotifyCreate \<longrightarrow> on_notify False fs toml invalid now ev d' w' = None)"
  using unreloaded.reached_keeps [OF assms, of d] by (simp add: unreloaded_def on_notify_def)

text \<open>Without the file nothing is watched, so a file created later is not noticed.\<close>

lemma missing_file_is_not_watched: "fs_exists fs path w = (False, w') \<Longrightarrow> watcher_start fs watch path w = (Ok False, w')"
  by (simp add: watcher_start_def)

section \<open>A document without a required key\<close>

text \<open>C38: a configuration file without one of the seven required sections does not start the daemon:
  it ends with the error of the parser, having opened neither the store nor the scanner; a
  running daemon that is told of such a file keeps its configuration and announces nothing.\<close>

theorem incomplete_config_stops_daemon:
  assumes "fs_exists fs CONFIG_PATH w = (True, w1)" "fs_read fs CONFIG_PATH w1 = (Ok content, w2)"
    and "parse content = Ok t" "k \<in> set required_keys" "map_of t k = None"
  shows "daemon_start fs (config_from_str parse describe) store scanner sn dv sh started w
           = (Err (''Failed to parse config: '' @ describe t), w2)
    \<and> handle_config_change fs (config_from_str parse describe) invalid now CONFIG_PATH d w1
           = (Err (''failed to parse config: '' @ describe t), d, w2)"
  using assms required_key_missing [OF assms(4,5)]
  by (simp add: daemon_start_def load_config_def handle_config_change_def config_from_str_def)

text \<open>A file system with the sample of the documentation, and what the parser makes of it.\<close>

definition readme_files :: "nat files" where
  "readme_files = empty_files\<lparr>fs_exists := \<lambda>_ w. (True, w), fs_read := \<lambda>_ w. (Ok ''README'', w)\<rparr>"

theorem incomplete_config_stops_daemon_witness:
  "daemon_start readme_files (config_from_str (\<lambda>_. Ok readme_config) (\<lambda>_. ''missing field'')) (\<lambda>_. Err (Db [])) (Ok ())
      sample_netlink3 empty_devices no_commands 0 0 = (Err ''Failed to parse config: missing field'', 0)
   \<and> handle_config_change readme_files (config_from_str (\<lambda>_. Ok readme_config) (\<lambda>_. ''missing field'')) (\<lambda>_. []) 7 CONFIG_PATH
        (fst sample_daemon) 0 = (Err ''failed to parse config: missing field'', fst sample_daemon, 0)"
  using incomplete_config_stops_daemon [of readme_files 0 0 "''README''" 0 "\<lambda>_. Ok readme_config" readme_config "''schema_version''"
      "\<lambda>_. ''missing field''" "\<lambda>_. Err (Db [])" "Ok ()" sample_netlink3 empty_devices no_commands 0 "\<lambda>_. []" 7 "fst sample_daemon"]
  by (simp add: readme_files_def required_keys_def readme_config_parts)

section \<open>A written configuration is served\<close>




end
