(* ===== verification/Tui_App.thy ===== *)
theory Tui_App
  imports Ipc
begin

text \<open>
  The terminal interface without its drawing: the state of \<^verbatim>\<open>netfusion-tui/src/tui/app.rs\<close>, and
  the keys, the updates, the background fetcher and the main loop of \<^verbatim>\<open>netfusion-tui/src/main.rs\<close>.
\<close>

section \<open>The state\<close>

record app =
  ap_running :: bool
  ap_status :: "system_status option"
  ap_interfaces :: "interface_info list"
  ap_events :: "netfusion_event list"
  ap_selected_tab :: nat
  ap_connected :: bool
  ap_error :: "string option"
  ap_dirty :: bool
  ap_is_loading :: bool
  ap_last_refresh :: "timestamp option"
  ap_health_history :: "f64 list"
  ap_bonds :: "bond_state list"
  ap_tunnels :: "tunnel_state list"
  ap_interface_scroll_pos :: nat
  ap_log_scroll_pos :: nat
  ap_selected_interface_idx :: nat
  ap_interface_view_height :: nat
  ap_log_view_height :: nat

definition app_new :: app where
  "app_new =
     \<lparr>ap_running = True, ap_status = None, ap_interfaces = [], ap_events = [], ap_selected_tab = 0,
      ap_connected = False, ap_error = None, ap_dirty = False, ap_is_loading = False, ap_last_refresh = None,
      ap_health_history = [], ap_bonds = [], ap_tunnels = [], ap_interface_scroll_pos = 0,
      ap_log_scroll_pos = 0, ap_selected_interface_idx = 0, ap_interface_view_height = 0, ap_log_view_height = 0\<rparr>"

definition mark_dirty :: "app \<Rightarrow> app" where
  "mark_dirty a = a\<lparr>ap_dirty := True\<rparr>"

definition next_tab :: "app \<Rightarrow> app" where
  "next_tab a = mark_dirty (a\<lparr>ap_selected_tab := (ap_selected_tab a + 1) mod 4\<rparr>)"

definition prev_tab :: "app \<Rightarrow> app" where
  "prev_tab a = mark_dirty (a\<lparr>ap_selected_tab := (if ap_selected_tab a = 0 then 3 else ap_selected_tab a - 1)\<rparr>)"

definition MAX_EVENTS :: nat where "MAX_EVENTS = 100"

definition MAX_SAMPLES :: nat where "MAX_SAMPLES = 60"

definition push_event :: "netfusion_event \<Rightarrow> app \<Rightarrow> app" where
  "push_event e a = a\<lparr>ap_events := push_bounded MAX_EVENTS e (ap_events a)\<rparr>"

definition take_dirty :: "app \<Rightarrow> bool \<times> app" where
  "take_dirty a = (ap_dirty a, a\<lparr>ap_dirty := False\<rparr>)"

definition push_health_sample :: "f64 \<Rightarrow> app \<Rightarrow> app" where
  "push_health_sample score a = a\<lparr>ap_health_history := push_bounded MAX_SAMPLES score (ap_health_history a)\<rparr>"

definition select_interface_up :: "app \<Rightarrow> app" where
  "select_interface_up a =
     (if 0 < ap_selected_interface_idx a
      then mark_dirty (a\<lparr>ap_selected_interface_idx := ap_selected_interface_idx a - 1\<rparr>) else a)"

definition select_interface_down :: "app \<Rightarrow> app" where
  "select_interface_down a =
     (if ap_selected_interface_idx a + 1 < length (ap_interfaces a)
      then mark_dirty (a\<lparr>ap_selected_interface_idx := ap_selected_interface_idx a + 1\<rparr>) else a)"

text \<open>Subtraction on \<open>nat\<close> saturates as the code asks for.\<close>

definition log_max :: "app \<Rightarrow> nat" where
  "log_max a = length (ap_events a) - ap_log_view_height a"

definition scroll_logs_up :: "app \<Rightarrow> app" where
  "scroll_logs_up a = mark_dirty (a\<lparr>ap_log_scroll_pos := ap_log_scroll_pos a - 3\<rparr>)"

definition scroll_logs_down :: "app \<Rightarrow> app" where
  "scroll_logs_down a = mark_dirty (a\<lparr>ap_log_scroll_pos := min (ap_log_scroll_pos a + 3) (log_max a)\<rparr>)"

definition scroll_logs_page_up :: "app \<Rightarrow> app" where
  "scroll_logs_page_up a = mark_dirty (a\<lparr>ap_log_scroll_pos := ap_log_scroll_pos a - ap_log_view_height a\<rparr>)"

definition scroll_logs_page_down :: "app \<Rightarrow> app" where
  "scroll_logs_page_down a =
     mark_dirty (a\<lparr>ap_log_scroll_pos := min (ap_log_scroll_pos a + ap_log_view_height a) (log_max a)\<rparr>)"

definition scroll_logs_top :: "app \<Rightarrow> app" where
  "scroll_logs_top a = mark_dirty (a\<lparr>ap_log_scroll_pos := 0\<rparr>)"

definition scroll_logs_bottom :: "app \<Rightarrow> app" where
  "scroll_logs_bottom a = mark_dirty (a\<lparr>ap_log_scroll_pos := log_max a\<rparr>)"

definition apply_status :: "system_status \<Rightarrow> app \<Rightarrow> app" where
  "apply_status status a =
     (let a = (case ss_health status of None \<Rightarrow> a | Some h \<Rightarrow> push_health_sample (hs_overall h) a)
      in mark_dirty (a\<lparr>ap_status := Some status\<rparr>))"

definition apply_interfaces :: "interface_info list \<Rightarrow> app \<Rightarrow> app" where
  "apply_interfaces interfaces a =
     (let health_samples = List.map_filter (\<lambda>i. map_option hs_overall (if_health i)) interfaces;
          a = a\<lparr>ap_interfaces := interfaces\<rparr>;
          a = (if length interfaces \<le> ap_selected_interface_idx a
               then a\<lparr>ap_selected_interface_idx := length interfaces - 1\<rparr> else a)
      in mark_dirty (fold push_health_sample health_samples a))"

definition apply_bonds :: "bond_state list \<Rightarrow> app \<Rightarrow> app" where
  "apply_bonds bonds a = mark_dirty (a\<lparr>ap_bonds := bonds\<rparr>)"

definition apply_tunnels :: "tunnel_state list \<Rightarrow> app \<Rightarrow> app" where
  "apply_tunnels tunnels a = mark_dirty (a\<lparr>ap_tunnels := tunnels\<rparr>)"

definition apply_events :: "netfusion_event list \<Rightarrow> app \<Rightarrow> app" where
  "apply_events es a = fold push_event es a"

definition set_loading :: "bool \<Rightarrow> app \<Rightarrow> app" where
  "set_loading loading a = mark_dirty (a\<lparr>ap_is_loading := loading\<rparr>)"

definition set_error :: "string \<Rightarrow> app \<Rightarrow> app" where
  "set_error err a = mark_dirty (a\<lparr>ap_error := Some err\<rparr>)"

definition set_last_refresh :: "timestamp \<Rightarrow> app \<Rightarrow> app" where
  "set_last_refresh now a = a\<lparr>ap_last_refresh := Some now\<rparr>"

section \<open>Keys\<close>

datatype key_code = KeyChar char | KeyUp | KeyDown | KeyLeft | KeyRight | KeyPageUp | KeyPageDown | KeyOther

text \<open>A key event with its code, whether control is held and whether it is a press.\<close>

datatype input_event = KeyEvent key_code bool bool | OtherInput

definition interfaces_key :: "key_code \<Rightarrow> app \<Rightarrow> app" where
  "interfaces_key code a =
     (if code = KeyUp \<or> code = KeyChar (CHR ''k'') then select_interface_up a
      else if code = KeyDown \<or> code = KeyChar (CHR ''j'') then select_interface_down a
      else a)"

definition logs_key :: "key_code \<Rightarrow> bool \<Rightarrow> app \<Rightarrow> app" where
  "logs_key code control a =
     (if code = KeyUp \<or> code = KeyChar (CHR ''k'') then scroll_logs_up a
      else if code = KeyDown \<or> code = KeyChar (CHR ''j'') then scroll_logs_down a
      else if code = KeyPageUp then scroll_logs_page_up a
      else if code = KeyPageDown then scroll_logs_page_down a
      else if code = KeyChar (CHR ''g'') then (if control then scroll_logs_bottom a else scroll_logs_top a)
      else if code = KeyChar (CHR ''G'') then scroll_logs_bottom a
      else a)"

definition handle_key :: "input_event \<Rightarrow> app \<Rightarrow> app" where
  "handle_key ev a =
     (case ev of
        OtherInput \<Rightarrow> a
      | KeyEvent code control press \<Rightarrow>
          (if \<not> press then a
           else if code = KeyChar (CHR ''q'') then a\<lparr>ap_running := False\<rparr>
           else if code = KeyRight \<or> code = KeyChar (CHR ''l'') then next_tab a
           else if code = KeyLeft \<or> code = KeyChar (CHR ''h'') then prev_tab a
           else if code = KeyChar (CHR ''r'') then a\<lparr>ap_error := None\<rparr>
           else if ap_selected_tab a = 1 then interfaces_key code a
           else if ap_selected_tab a = 3 then logs_key code control a
           else a))"

section \<open>Updates and the main loop\<close>

datatype data_update =
    UStatus system_status
  | UInterfaces "interface_info list"
  | UBonds "bond_state list"
  | UTunnels "tunnel_state list"
  | ULoading bool
  | UError string

fun show_ipc_error :: "ipc_error \<Rightarrow> string" where
  "show_ipc_error (ConnectErr e) = ''connection failed: '' @ e"
| "show_ipc_error (IoErr e) = ''I/O error: '' @ e"
| "show_ipc_error (EncodeErr e) = ''encoding error: '' @ e"
| "show_ipc_error (ServerErr e) = ''server error: '' @ e"


fun apply_update :: "timestamp \<Rightarrow> data_update \<Rightarrow> app \<Rightarrow> app" where
  "apply_update now (UStatus s) a = apply_status s a"
| "apply_update now (UInterfaces i) a = apply_interfaces i a"
| "apply_update now (UBonds b) a = apply_bonds b a"
| "apply_update now (UTunnels t) a = apply_tunnels t a"
| "apply_update now (ULoading loading) a =
     (let a = set_loading loading a in if \<not> loading then set_last_refresh now a else a)"
| "apply_update now (UError e) a = set_error e a"

text \<open>What the loop waits for: an update (with the time of its arrival), a key, or the tick of the renderer.\<close>

datatype loop_event = Updated timestamp data_update | Pressed input_event | RenderTick

text \<open>One turn of the loop, with the state that is drawn, if one is.\<close>

fun main_turn :: "loop_event \<Rightarrow> app \<Rightarrow> app \<times> app option" where
  "main_turn (Updated now u) a = (apply_update now u a, None)"
| "main_turn (Pressed ev) a = (handle_key ev a, None)"
| "main_turn RenderTick a = (case take_dirty a of (d, a') \<Rightarrow> (a', if d then Some a' else None))"

text \<open>The loop: it ends when \<open>running\<close> is taken back, and what comes later is not looked at.\<close>

fun main_loop :: "loop_event list \<Rightarrow> app \<Rightarrow> app" where
  "main_loop [] a = a"
| "main_loop (e # es) a = (if ap_running a then main_loop es (fst (main_turn e a)) else a)"

text \<open>The state before the first turn: the outcome of connecting.\<close>

definition app_started :: "(ipc_error, unit) result \<Rightarrow> app" where
  "app_started outcome =
     set_loading True
       (case outcome of
          Inr _ \<Rightarrow> app_new\<lparr>ap_connected := True\<rparr>
        | Inl e \<Rightarrow> app_new\<lparr>ap_error := Some (''Daemon not running: '' @ show_ipc_error e)\<rparr>)"

section \<open>Polling the keyboard\<close>

text \<open>
  The terminal library: \<open>ti_poll\<close> waits at most so many milliseconds for an input and says whether there
  is one, \<open>ti_read\<close> takes it.
\<close>

record 'w terminal_input =
  ti_poll :: "nat \<Rightarrow> 'w \<Rightarrow> (string, bool) result \<times> 'w"
  ti_read :: "'w \<Rightarrow> (string, input_event) result \<times> 'w"

definition poll_input :: "'w terminal_input \<Rightarrow> 'w \<Rightarrow> (string, input_event) result option \<times> 'w" where
  "poll_input ti w =
     (case ti_poll ti 100 w of
        (Inr True, w') \<Rightarrow> (case ti_read ti w' of (r, w'') \<Rightarrow> (Some r, w''))
      | (_, w') \<Rightarrow> (None, w'))"

text \<open>
  The turn of the loop in which the poll ends first, and the one in which another branch \<open>e\<close> does: the
  poll goes on in its thread, and its outcome is dropped.
\<close>

definition polled_turn :: "'w terminal_input \<Rightarrow> 'w \<Rightarrow> app \<Rightarrow> app \<times> 'w" where
  "polled_turn ti w a =
     (case poll_input ti w of (Some (Inr ev), w') \<Rightarrow> (handle_key ev a, w') | (_, w') \<Rightarrow> (a, w'))"

definition abandoned_turn :: "'w terminal_input \<Rightarrow> loop_event \<Rightarrow> 'w \<Rightarrow> app \<Rightarrow> app \<times> 'w" where
  "abandoned_turn ti e w a = (fst (main_turn e a), snd (poll_input ti w))"

text \<open>A terminal whose inputs wait in a queue.\<close>

definition queued_input :: "input_event list terminal_input" where
  "queued_input = \<lparr>ti_poll = \<lambda>_ q. (Ok (q \<noteq> []), q), ti_read = \<lambda>q. (case q of [] \<Rightarrow> (Err [], q) | e # q \<Rightarrow> (Ok e, q))\<rparr>"

text \<open>A key that arrives while a poll is abandoned for the renderer is never handled; the next one is.\<close>

lemma abandoned_poll_loses_key:
  "abandoned_turn queued_input RenderTick (k # ks) a = (fst (main_turn RenderTick a), ks)"
  "polled_turn queued_input (k # ks) a = (handle_key k a, ks)"
  by (simp_all add: abandoned_turn_def polled_turn_def poll_input_def queued_input_def)

section \<open>The bounded histories\<close>

interpretation event_log: bounded_history ap_events push_event "\<lambda>_. MAX_EVENTS"
  by unfold_locales (simp_all add: push_event_def)

interpretation health_trend: bounded_history ap_health_history push_health_sample "\<lambda>_. MAX_SAMPLES"
  by unfold_locales (simp_all add: push_health_sample_def)

section \<open>Properties\<close>

text \<open>What every state of the interface satisfies; nothing ever sets the height of the log view.\<close>

definition app_ok :: "app \<Rightarrow> bool" where
  "app_ok a \<longleftrightarrow> ap_selected_tab a < 4
     \<and> (ap_selected_interface_idx a < length (ap_interfaces a)
         \<or> ap_interfaces a = [] \<and> ap_selected_interface_idx a = 0)
     \<and> length (ap_events a) \<le> MAX_EVENTS \<and> length (ap_health_history a) \<le> MAX_SAMPLES
     \<and> ap_log_scroll_pos a \<le> length (ap_events a) \<and> ap_log_view_height a = 0"

lemmas app_simps = mark_dirty_def next_tab_def prev_tab_def select_interface_up_def select_interface_down_def
  scroll_logs_up_def scroll_logs_down_def scroll_logs_page_up_def scroll_logs_page_down_def scroll_logs_top_def
  scroll_logs_bottom_def log_max_def apply_bonds_def apply_tunnels_def set_loading_def set_error_def
  set_last_refresh_def

lemma push_health_sample_other:
  "ap_selected_tab (push_health_sample x a) = ap_selected_tab a"
  "ap_selected_interface_idx (push_health_sample x a) = ap_selected_interface_idx a"
  "ap_interfaces (push_health_sample x a) = ap_interfaces a" "ap_events (push_health_sample x a) = ap_events a"
  "ap_log_scroll_pos (push_health_sample x a) = ap_log_scroll_pos a"
  "ap_log_view_height (push_health_sample x a) = ap_log_view_height a"
  by (simp_all add: push_health_sample_def)

lemma app_ok_sample: "app_ok a \<Longrightarrow> app_ok (push_health_sample x a)"
  using health_trend.push_bound [of x a] by (simp add: app_ok_def push_health_sample_other)

lemma app_ok_samples: "app_ok a \<Longrightarrow> app_ok (fold push_health_sample xs a)"
  by (induction xs arbitrary: a) (simp_all add: app_ok_sample)

lemma app_ok_dirty [simp]: "app_ok (mark_dirty a) = app_ok a"
  by (simp add: app_ok_def mark_dirty_def)

lemma app_ok_apply_status: "app_ok a \<Longrightarrow> app_ok (apply_status s a)"
proof -
  have "app_ok b \<Longrightarrow> app_ok (b\<lparr>ap_status := Some s\<rparr>)" for b by (simp add: app_ok_def)
  then show "app_ok a \<Longrightarrow> app_ok (apply_status s a)"
    using app_ok_sample by (simp add: apply_status_def Let_def split: option.split)
qed

lemma app_ok_apply_interfaces:
  assumes "app_ok a" shows "app_ok (apply_interfaces ifs a)"
proof -
  let ?a = "a\<lparr>ap_interfaces := ifs\<rparr>"
  have "app_ok (if length ifs \<le> ap_selected_interface_idx ?a
      then ?a\<lparr>ap_selected_interface_idx := length ifs - 1\<rparr> else ?a)"
    using assms by (cases ifs) (auto simp: app_ok_def)
  then show ?thesis
    unfolding apply_interfaces_def Let_def app_ok_dirty by (rule app_ok_samples)
qed

lemma app_ok_moves:
  assumes "app_ok a"
  shows "app_ok (next_tab a)" "app_ok (prev_tab a)" "app_ok (select_interface_up a)" "app_ok (select_interface_down a)"
    "app_ok (scroll_logs_up a)" "app_ok (scroll_logs_down a)" "app_ok (scroll_logs_page_up a)"
    "app_ok (scroll_logs_page_down a)" "app_ok (scroll_logs_top a)" "app_ok (scroll_logs_bottom a)"
    "app_ok (a\<lparr>ap_running := r\<rparr>)" "app_ok (a\<lparr>ap_error := e\<rparr>)"
  using assms by (auto simp: app_ok_def app_simps)

lemma app_ok_apply_update: "app_ok a \<Longrightarrow> app_ok (apply_update now u a)"
  by (cases u) (simp_all add: app_ok_apply_status app_ok_apply_interfaces, auto simp: app_ok_def app_simps Let_def)

lemma app_ok_handle_key: "app_ok a \<Longrightarrow> app_ok (handle_key ev a)"
  by (cases ev) (simp_all add: handle_key_def interfaces_key_def logs_key_def app_ok_moves)

lemma app_ok_turn: "app_ok a \<Longrightarrow> app_ok (fst (main_turn e a))"
  by (cases e) (simp_all add: app_ok_apply_update app_ok_handle_key take_dirty_def, simp add: app_ok_def)

interpretation app: step_invariant "\<lambda>a b. \<exists>e. b = fst (main_turn e a)" app_ok
  by unfold_locales (auto simp: app_ok_turn)

lemma app_ok_loop: "app_ok a \<Longrightarrow> app_ok (main_loop es a)"
  by (induction es arbitrary: a) (use app.step_keeps in \<open>simp_all, blast\<close>)

lemma app_ok_started: "app_ok (app_started r)"
  by (cases r) (simp_all add: app_ok_def app_started_def app_new_def app_simps)

text \<open>C35: whatever updates and keys arrive, in whatever order, the selected tab exists, the selected
  interface is one of the list (or the list is empty), at most 100 events and 60 health samples
  are kept and the log position is within the log.\<close>

theorem app_stays_ok:
  "let a = main_loop es (app_started outcome)
   in ap_selected_tab a < 4
      \<and> (ap_selected_interface_idx a < length (ap_interfaces a)
          \<or> ap_interfaces a = [] \<and> ap_selected_interface_idx a = 0)
      \<and> length (ap_events a) \<le> 100 \<and> length (ap_health_history a) \<le> 60
      \<and> ap_log_scroll_pos a \<le> length (ap_events a)"
  using app_ok_loop [OF app_ok_started, of es outcome] by (simp add: app_ok_def Let_def MAX_EVENTS_def MAX_SAMPLES_def)

text \<open>Going to the next tab and back is where one was, apart from the request to redraw.\<close>

lemma tabs_inverse:
  assumes "ap_selected_tab a < 4"
  shows "prev_tab (next_tab a) = mark_dirty a \<and> next_tab (prev_tab a) = mark_dirty a"
proof -
  have "ap_selected_tab a = 0 \<or> ap_selected_tab a = 1 \<or> ap_selected_tab a = 2 \<or> ap_selected_tab a = 3"
    using assms by linarith
  then show ?thesis by (cases a) (elim disjE; simp add: app_simps)
qed


end
