(* ===== verification/Tui_Ui.thy ===== *)
theory Tui_Ui
  imports Tui_App Health
begin

text \<open>
  \<^verbatim>\<open>netfusion-tui/src/tui/ui.rs\<close>: what is drawn for a state. The drawing is the list of the widgets
  given to the \<open>ratatui\<close> library with their areas; dividing an area, its interior and its height
  and the formatting of times are parameters (\<open>tui_lib\<close>). A gauge whose ratio is not between 0
  and 1 makes the library panic, and so does an overflowing sum when overflow checks are
  compiled in (\<open>chk\<close>): then there is no drawing, \<open>None\<close>. Of the styles the colours are kept.
\<close>

datatype direction = Vertical | Horizontal

datatype size_constraint = CLength nat | CMin nat | CPercentage nat

record 'a tui_lib =
  tl_split :: "direction \<Rightarrow> size_constraint list \<Rightarrow> 'a \<Rightarrow> 'a list"
  tl_inner :: "'a \<Rightarrow> 'a"
  tl_height :: "'a \<Rightarrow> nat"
  tl_hms :: "timestamp \<Rightarrow> string"
  tl_ymd_hms :: "timestamp \<Rightarrow> string"

datatype color = ColGreen | ColYellow | ColRed | ColCyan | ColGray | ColDarkGray | ColWhite | ColDefault

text \<open>A line is a list of spans, each with its foreground colour.\<close>

type_synonym tui_line = "(string \<times> color) list"

datatype widget =
    Paragraph "tui_line list" color
  | BlockTitle string
  | TabsBar "string list" nat
  | GaugeBar f64 string color
  | LineGaugeBar f64 string color
  | SparklineBars "nat list"
  | InterfaceTable "(string list \<times> color) list"
  | ScrollbarAt nat nat

type_synonym 'a drawing = "(widget \<times> 'a) list option"

definition raw :: "string \<Rightarrow> tui_line" where
  "raw s = [(s, ColDefault)]"

definition draw :: "widget \<Rightarrow> 'a \<Rightarrow> 'a drawing" where
  "draw wd area = Some [(wd, area)]"

text \<open>\<open>ratio\<close> asserts its range.\<close>

definition ratio_ok :: "f64 \<Rightarrow> bool" where
  "ratio_ok r \<longleftrightarrow> Fin 0 \<le> r \<and> r \<le> Fin 1"

definition draw_gauge :: "(f64 \<Rightarrow> string \<Rightarrow> color \<Rightarrow> widget) \<Rightarrow> f64 \<Rightarrow> string \<Rightarrow> color \<Rightarrow> 'a \<Rightarrow> 'a drawing" where
  "draw_gauge mk r label color area = (if ratio_ok r then draw (mk r label color) area else None)"

text \<open>Drawings one after the other.\<close>

fun draw_all :: "'a drawing list \<Rightarrow> 'a drawing" where
  "draw_all [] = Some []"
| "draw_all (None # ds) = None"
| "draw_all (Some ws # ds) = map_option (\<lambda>ws'. ws @ ws') (draw_all ds)"

definition pad_right :: "nat \<Rightarrow> string \<Rightarrow> string" where
  "pad_right n s = s @ replicate (n - length s) (CHR '' '')"

definition show_int :: "int \<Rightarrow> string" where
  "show_int n = (if n < 0 then ''-'' else []) @ show_nat (nat \<bar>n\<bar>)"

section \<open>Texts and colours\<close>

definition TAB_NAMES :: "string list" where
  "TAB_NAMES = [''Dashboard'', ''Interfaces'', ''Bonds'', ''Logs'']"

definition health_color :: "f64 \<Rightarrow> color" where
  "health_color score = (if Fin 70 \<le> score then ColGreen else if Fin 40 \<le> score then ColYellow else ColRed)"

definition format_uptime :: "nat \<Rightarrow> string" where
  "format_uptime secs =
     (let h = secs div 3600; m = secs mod 3600 div 60; s = secs mod 60
      in if 0 < h then show_nat h @ ''h '' @ show_nat m @ ''m '' @ show_nat s @ ''s''
         else if 0 < m then show_nat m @ ''m '' @ show_nat s @ ''s''
         else show_nat s @ ''s'')"

definition format_bytes :: "nat \<Rightarrow> string" where
  "format_bytes bytes =
     (if 1000000000 \<le> bytes then show_fixed 1 (divide (f_of_nat bytes) (Fin 1000000000)) @ '' GB''
      else if 1000000 \<le> bytes then show_fixed 1 (divide (f_of_nat bytes) (Fin 1000000)) @ '' MB''
      else if 1000 \<le> bytes then show_fixed 1 (divide (f_of_nat bytes) (Fin 1000)) @ '' KB''
      else show_nat bytes @ '' B'')"

fun debug_interface_type :: "interface_type \<Rightarrow> string" where
  "debug_interface_type Ethernet = ''Ethernet''"
| "debug_interface_type Wireless = ''Wireless''"
| "debug_interface_type Vlan = ''Vlan''"
| "debug_interface_type Bridge = ''Bridge''"
| "debug_interface_type Bond = ''Bond''"
| "debug_interface_type Tunnel = ''Tunnel''"
| "debug_interface_type WireGuard = ''WireGuard''"
| "debug_interface_type Tailscale = ''Tailscale''"
| "debug_interface_type Ppp = ''Ppp''"
| "debug_interface_type UsbTether = ''UsbTether''"
| "debug_interface_type Cellular = ''Cellular''"
| "debug_interface_type Loopback = ''Loopback''"
| "debug_interface_type Virtual = ''Virtual''"
| "debug_interface_type UnknownType = ''Unknown''"

fun debug_bond_mode :: "bond_mode \<Rightarrow> string" where
  "debug_bond_mode ActiveBackup = ''ActiveBackup''"
| "debug_bond_mode BalanceRr = ''BalanceRr''"
| "debug_bond_mode BalanceXor = ''BalanceXor''"
| "debug_bond_mode Broadcast = ''Broadcast''"
| "debug_bond_mode Lacp = ''Lacp''"
| "debug_bond_mode AdaptiveTlb = ''AdaptiveTlb''"
| "debug_bond_mode AdaptiveAlb = ''AdaptiveAlb''"
| "debug_bond_mode Mptcp = ''Mptcp''"
| "debug_bond_mode Ecmp = ''Ecmp''"
| "debug_bond_mode Weighted = ''Weighted''"
| "debug_bond_mode TunnelMode = ''Tunnel''"

text \<open>The arrows of the help texts, in UTF-8.\<close>

definition tabs_arrows :: string where
  "tabs_arrows = [CHR 0xE2, CHR 0x86, CHR 0x90] @ ''/'' @ [CHR 0xE2, CHR 0x86, CHR 0x92]"

definition updown_arrows :: string where
  "updown_arrows = [CHR 0xE2, CHR 0x86, CHR 0x91] @ [CHR 0xE2, CHR 0x86, CHR 0x93]"

section \<open>Header and status bar\<close>

definition render_header :: "'a tui_lib \<Rightarrow> app \<Rightarrow> 'a \<Rightarrow> 'a drawing" where
  "render_header lib a area =
     (let chunks = tl_split lib Vertical [CLength 1, CLength 2] area;
          title_text = (if ap_is_loading a then '' NetFusion '' @ [CHR 0xE2, CHR 0x9F, CHR 0xB3] @ '' Loading...''
                        else '' NetFusion'')
      in draw_all [draw (Paragraph [raw title_text] ColCyan) (chunks ! 0),
                   draw (TabsBar TAB_NAMES (ap_selected_tab a)) (chunks ! 1)])"

definition help_text :: "nat \<Rightarrow> string" where
  "help_text tab =
     (if tab = 0 \<or> tab = 2 then ''q:quit | '' @ tabs_arrows @ '':tabs | r:refresh''
      else if tab = 1 then ''q:quit | '' @ tabs_arrows @ '':tabs | '' @ updown_arrows @ ''/jk:select | r:refresh''
      else if tab = 3 then ''q:quit | '' @ tabs_arrows @ '':tabs | jk/'' @ updown_arrows
             @ '':scroll | g:top | G:bottom | PgUp/PgDn''
      else ''q:quit | '' @ tabs_arrows @ '':tabs'')"

definition render_status_bar :: "'a tui_lib \<Rightarrow> app \<Rightarrow> 'a \<Rightarrow> 'a drawing" where
  "render_status_bar lib a area =
     (let refresh_info = (case ap_last_refresh a of Some ts \<Rightarrow> ''Last: '' @ tl_hms lib ts @ '' | '' | None \<Rightarrow> []);
          event_count = (if ap_events a \<noteq> [] then ''Events: '' @ show_nat (length (ap_events a)) @ '' | '' else [])
      in draw (Paragraph [raw (refresh_info @ event_count @ help_text (ap_selected_tab a))] ColWhite) area)"

section \<open>Dashboard\<close>

definition status_text :: "app \<Rightarrow> string" where
  "status_text a =
     (case ap_status a of
        Some st \<Rightarrow>
          ''Interfaces: '' @ show_nat (ss_total_interfaces st) @ '' | Bonds: '' @ show_nat (ss_active_bonds st)
          @ '' | Tunnels: '' @ show_nat (ss_connected_tunnels st) @ '' | Uptime: '' @ format_uptime (ss_uptime_secs st)
          @ (if ss_failover_active st then '' | Failover Active'' else [])
          @ (case ss_active_profile st of Some p \<Rightarrow> '' | Profile: '' @ p | None \<Rightarrow> [])
      | None \<Rightarrow> (if \<not> ap_connected a then ''Disconnected from daemon'' else ''Loading system status...''))"

definition breakdown_items :: "health_score \<Rightarrow> (string \<times> f64) list" where
  "breakdown_items h =
     [(''Overall'', hs_overall h), (''RTT'', hs_rtt h), (''Jitter'', hs_jitter h), (''Loss'', hs_loss h),
      (''Throughput'', hs_throughput h), (''Stability'', hs_stability h)]"

text \<open>One line of the breakdown: the label and, after its column, the gauge.\<close>

definition breakdown_row :: "'a tui_lib \<Rightarrow> string \<times> f64 \<Rightarrow> 'a \<Rightarrow> 'a drawing" where
  "breakdown_row lib item row =
     (case item of (label, score) \<Rightarrow>
       (if ratio_ok (divide score (Fin 100))
        then draw_all [draw (Paragraph [raw ('' '' @ pad_right 12 label)] ColGray) row,
               draw (LineGaugeBar (divide score (Fin 100)) (show_fixed 0 score) (health_color score))
                 (tl_split lib Horizontal [CLength 13, CMin 0] row ! 1)]
        else None))"

definition render_health_breakdown :: "'a tui_lib \<Rightarrow> app \<Rightarrow> 'a \<Rightarrow> 'a drawing" where
  "render_health_breakdown lib a area =
     (case Option.bind (ap_status a) ss_health of
        None \<Rightarrow> Some []
      | Some h \<Rightarrow>
          (let items = breakdown_items h;
               rows = tl_split lib Vertical (replicate (length items) (CLength 1)) (tl_inner lib area)
           in draw_all (draw (BlockTitle '' Health Breakdown '') area
                # List.map (\<lambda>(item, row). breakdown_row lib item row) (zip items rows))))"

definition sparkline_data :: "app \<Rightarrow> nat list" where
  "sparkline_data a = List.map (\<lambda>v. min (f_as_uint (2 ^ 64 - 1) v) 100) (ap_health_history a)"

definition render_health_sparkline :: "'a tui_lib \<Rightarrow> app \<Rightarrow> 'a \<Rightarrow> 'a drawing" where
  "render_health_sparkline lib a area =
     draw_all [draw (BlockTitle '' Health Trend '') area, draw (SparklineBars (sparkline_data a)) (tl_inner lib area)]"

definition interface_gauge :: "interface_info \<Rightarrow> 'a \<Rightarrow> 'a drawing" where
  "interface_gauge iface area =
     (case if_health iface of
        None \<Rightarrow> Some []
      | Some h \<Rightarrow> draw_gauge GaugeBar (divide (hs_overall h) (Fin 100))
          ('' '' @ pad_right 10 (if_name iface) @ '' '' @ show_fixed 0 (hs_overall h) @ ''/100'')
          (health_color (hs_overall h)) area)"

definition render_interface_health :: "'a tui_lib \<Rightarrow> app \<Rightarrow> 'a \<Rightarrow> 'a drawing" where
  "render_interface_health lib a area =
     (if ap_interfaces a = []
      then draw_all [draw (BlockTitle '' Interface Health '') area,
                     draw (Paragraph [raw ''No interfaces discovered''] ColDarkGray) area]
      else
        (let inner = tl_inner lib area;
             rows = take (tl_height lib inner) (filter (\<lambda>i. if_health i \<noteq> None) (ap_interfaces a));
             chunks = tl_split lib Vertical (replicate (length rows) (CLength 1)) inner
         in draw_all (draw (BlockTitle '' Interface Health '') area
              # List.map (\<lambda>(iface, chunk). interface_gauge iface chunk) (zip rows chunks))))"

definition render_dashboard :: "'a tui_lib \<Rightarrow> app \<Rightarrow> 'a \<Rightarrow> 'a drawing" where
  "render_dashboard lib a area =
     (let chunks = tl_split lib Vertical [CLength 3, CLength 9, CMin 0] area;
          sub_chunks = tl_split lib Horizontal [CPercentage 50, CPercentage 50] (chunks ! 1)
      in draw_all [draw (BlockTitle '' System '') (chunks ! 0),
           draw (Paragraph [raw (status_text a)] (if ap_connected a then ColGreen else ColRed)) (chunks ! 0),
           render_health_breakdown lib a (sub_chunks ! 0),
           render_health_sparkline lib a (sub_chunks ! 1),
           render_interface_health lib a (chunks ! 2)])"

section \<open>Interfaces\<close>

fun link_state_text :: "link_state \<Rightarrow> string" where
  "link_state_text Up = ''UP''" | "link_state_text Down = ''DOWN''" | "link_state_text LinkUnknown = ''???''"

text \<open>The later foreground colour of a row, the one of the health, replaces the one of the state.\<close>

definition interface_row :: "interface_info \<Rightarrow> string list \<times> color" where
  "interface_row i =
     ([if_name i, debug_interface_type (if_type i), link_state_text (if_link_state i),
       (case if_speed_mbps i of Some s \<Rightarrow> show_nat s @ '' Mbps'' | None \<Rightarrow> ''-''),
       (case if_health i of Some h \<Rightarrow> show_fixed 0 (hs_overall h) | None \<Rightarrow> ''N/A'')],
      (case if_health i of Some h \<Rightarrow> health_color (hs_overall h) | None \<Rightarrow> ColGray))"

definition labelled :: "string \<Rightarrow> string \<Rightarrow> tui_line" where
  "labelled label v = [(label, ColGray), (v, ColDefault)]"

definition or_dash :: "string option \<Rightarrow> string" where
  "or_dash x = (case x of None \<Rightarrow> ''-'' | Some s \<Rightarrow> s)"

text \<open>A sum of two counters.\<close>

definition u64_add :: "bool \<Rightarrow> nat \<Rightarrow> nat \<Rightarrow> nat option" where
  "u64_add chk a b = (if chk \<and> 2 ^ 64 \<le> a + b then None else Some ((a + b) mod 2 ^ 64))"

definition wireless_lines :: "wireless_info \<Rightarrow> tui_line list" where
  "wireless_lines wifi =
     [labelled ''SSID:     '' (or_dash (wi_ssid wifi)),
      labelled ''Signal:   ''
        (or_dash (map_option show_int (wi_signal_dbm wifi)) @ '' dBm (''
         @ or_dash (map_option (\<lambda>q. show_nat (unat q) @ ''%'') (wi_quality_percent wifi)) @ '')'')]"

definition health_lines :: "health_score \<Rightarrow> tui_line list" where
  "health_lines h =
     [raw [], [(''Health breakdown:'', ColYellow)],
      raw (''  RTT: '' @ show_fixed 0 (hs_rtt h) @ ''  Jitter: '' @ show_fixed 0 (hs_jitter h)
        @ ''  Loss: '' @ show_fixed 0 (hs_loss h) @ ''  Throughput: '' @ show_fixed 0 (hs_throughput h)
        @ ''  Stability: '' @ show_fixed 0 (hs_stability h))]"

definition detail_lines :: "bool \<Rightarrow> interface_info \<Rightarrow> tui_line list option" where
  "detail_lines chk i =
     (let addr = (case if_addresses i of [] \<Rightarrow> ''-'' | a # _ \<Rightarrow> ip_cidr a)
      in (case u64_add chk (st_rx_errors (if_stats i)) (st_tx_errors (if_stats i)) of
            None \<Rightarrow> None
          | Some errors \<Rightarrow>
              (case u64_add chk (st_rx_dropped (if_stats i)) (st_tx_dropped (if_stats i)) of
                 None \<Rightarrow> None
               | Some dropped \<Rightarrow> Some
                   ([labelled ''Address:  '' addr,
                     labelled ''Gateway:  '' (or_dash (if_gateway i)),
                     labelled ''MAC:      '' (or_dash (if_mac i)),
                     labelled ''MTU:      '' (show_nat (if_mtu i)),
                     labelled ''RX:       '' (format_bytes (st_rx_bytes (if_stats i))),
                     labelled ''TX:       '' (format_bytes (st_tx_bytes (if_stats i))),
                     labelled ''Errors:   '' (show_nat errors),
                     labelled ''Dropped:  '' (show_nat dropped)]
                    @ (case if_wireless i of None \<Rightarrow> [] | Some wifi \<Rightarrow> wireless_lines wifi)
                    @ (case if_health i of None \<Rightarrow> [] | Some h \<Rightarrow> health_lines h)))))"

definition render_interface_detail :: "'a tui_lib \<Rightarrow> bool \<Rightarrow> app \<Rightarrow> 'a \<Rightarrow> 'a drawing" where
  "render_interface_detail lib chk a area =
     (let inner = tl_inner lib area
      in draw_all
           [draw (BlockTitle '' Interface Detail '') area,
            (if length (ap_interfaces a) \<le> ap_selected_interface_idx a
             then draw (Paragraph [raw ''No interface selected''] ColDefault) inner
             else (case detail_lines chk (ap_interfaces a ! ap_selected_interface_idx a) of
                     None \<Rightarrow> None
                   | Some ls \<Rightarrow> draw (Paragraph ls ColDefault) inner))])"

text \<open>The table is not a stateful widget: neither the selection nor a scroll position reaches it.\<close>

definition render_interfaces :: "'a tui_lib \<Rightarrow> bool \<Rightarrow> app \<Rightarrow> 'a \<Rightarrow> 'a drawing" where
  "render_interfaces lib chk a area =
     (let chunks = tl_split lib Vertical [CLength (tl_height lib area div 2 + 1), CMin 0] area
      in draw_all
           [draw (InterfaceTable (List.map interface_row (ap_interfaces a))) (chunks ! 0),
            draw (ScrollbarAt (length (ap_interfaces a)) (ap_interface_scroll_pos a)) (chunks ! 0),
            render_interface_detail lib chk a (chunks ! 1)])"

section \<open>Bonds\<close>

definition no_bonds_lines :: "tui_line list" where
  "no_bonds_lines =
     [raw ''No bonds configured.'', raw [], raw ''Add bonds to /etc/netfusion/netfusion.toml:'', raw [],
      raw ''  [[bonds]]'', raw (''  name = '' @ [CHR 0x22] @ ''netfusion0'' @ [CHR 0x22]),
      raw (''  mode = '' @ [CHR 0x22] @ ''active_backup'' @ [CHR 0x22])]"

definition bond_lines :: "'a tui_lib \<Rightarrow> bond_state \<Rightarrow> tui_line list" where
  "bond_lines lib b =
     [[(bs_name b @ '' ('' @ debug_bond_mode (bs_mode b) @ '')'', ColCyan)]]
     @ (case bs_health b of None \<Rightarrow> [] | Some h \<Rightarrow> [raw (''  Health: ['' @ show_fixed 0 (hs_overall h) @ ''/100]'')])
     @ [labelled ''Active: '' (join '', '' (bs_active_members b))]
     @ (if bs_standby_members b \<noteq> [] then [labelled ''Standby: '' (join '', '' (bs_standby_members b))] else [])
     @ (if bs_failover_active b
        then [(''  FAIL OVER ACTIVE'', ColRed)]
             # (case bs_last_failover b of None \<Rightarrow> [] | Some ts \<Rightarrow> [raw (''  Last failover: '' @ tl_ymd_hms lib ts)])
        else [])
     @ [raw []]"

definition render_bonds :: "'a tui_lib \<Rightarrow> app \<Rightarrow> 'a \<Rightarrow> 'a drawing" where
  "render_bonds lib a area =
     (if ap_bonds a = []
      then draw_all [draw (BlockTitle '' Bond Manager '') area, draw (Paragraph no_bonds_lines ColGray) area]
      else draw_all [draw (BlockTitle '' Bond Manager '') area,
             draw (Paragraph (concat (List.map (bond_lines lib) (ap_bonds a))) ColDefault) (tl_inner lib area)])"

section \<open>Logs\<close>

definition event_color :: "string \<Rightarrow> color" where
  "event_color desc =
     (if contains_str desc ''Up'' \<or> contains_str desc ''connected'' then ColGreen
      else if contains_str desc ''Down'' \<or> contains_str desc ''error'' \<or> contains_str desc ''Failover'' then ColRed
      else if contains_str desc ''health'' \<or> contains_str desc ''Health'' then ColYellow
      else ColWhite)"

definition event_line :: "'a tui_lib \<Rightarrow> netfusion_event \<Rightarrow> tui_line" where
  "event_line lib e =
     [(''['' @ tl_hms lib (event_timestamp e) @ ''] '', ColGray),
      (event_description e, event_color (event_description e))]"

definition log_lines :: "'a tui_lib \<Rightarrow> app \<Rightarrow> nat \<Rightarrow> tui_line list" where
  "log_lines lib a height = List.map (event_line lib) (take (height + 5) (drop (ap_log_scroll_pos a) (ap_events a)))"

definition render_logs :: "'a tui_lib \<Rightarrow> app \<Rightarrow> 'a \<Rightarrow> 'a drawing" where
  "render_logs lib a area =
     draw_all
       [draw (BlockTitle '' Event Log '') area,
        draw (Paragraph (log_lines lib a (tl_height lib area - 2)) ColDefault) (tl_inner lib area),
        draw (ScrollbarAt (length (ap_events a)) (ap_log_scroll_pos a)) area]"

section \<open>The whole screen\<close>

definition render_content :: "'a tui_lib \<Rightarrow> bool \<Rightarrow> app \<Rightarrow> 'a \<Rightarrow> 'a drawing" where
  "render_content lib chk a area =
     (if ap_selected_tab a = 0 then render_dashboard lib a area
      else if ap_selected_tab a = 1 then render_interfaces lib chk a area
      else if ap_selected_tab a = 2 then render_bonds lib a area
      else if ap_selected_tab a = 3 then render_logs lib a area
      else Some [])"

definition render :: "'a tui_lib \<Rightarrow> bool \<Rightarrow> app \<Rightarrow> 'a \<Rightarrow> 'a drawing" where
  "render lib chk a screen =
     (let chunks = tl_split lib Vertical [CLength 3, CMin 0, CLength 1] screen
      in draw_all [render_header lib a (chunks ! 0), render_content lib chk a (chunks ! 1),
                   render_status_bar lib a (chunks ! 2)])"

section \<open>Properties\<close>

definition drawn :: "'a drawing \<Rightarrow> bool" where
  "drawn d \<longleftrightarrow> d \<noteq> None"

lemma drawn_draw_all: "drawn (draw_all ds) \<longleftrightarrow> list_all drawn ds"
  by (induction ds rule: draw_all.induct) (simp_all add: drawn_def)

lemma drawn_simps [simp]: "drawn (draw wd area)" "drawn (Some ws)" "\<not> drawn None"
  by (simp_all add: drawn_def draw_def)

lemma drawn_each: "(\<And>x y. x \<in> set xs \<Longrightarrow> drawn (f x y)) \<Longrightarrow> list_all drawn (List.map (\<lambda>(x, y). f x y) (zip xs ys))"
  by (auto simp: list_all_iff dest: set_zip_leftD)

text \<open>A score in the range of the scores of the daemon gives a valid ratio.\<close>

definition score_ok :: "health_score \<Rightarrow> bool" where
  "score_ok h \<longleftrightarrow> list_all (\<lambda>(_, x). is_score x) (breakdown_items h)"

definition scores_ok :: "app \<Rightarrow> bool" where
  "scores_ok a \<longleftrightarrow> pred_option score_ok (Option.bind (ap_status a) ss_health)
     \<and> list_all score_ok (List.map_filter if_health (ap_interfaces a))"

text \<open>The sums of counters that the detail shows fit.\<close>

definition counters_ok :: "interface_info \<Rightarrow> bool" where
  "counters_ok i \<longleftrightarrow> st_rx_errors (if_stats i) + st_tx_errors (if_stats i) < 2 ^ 64
     \<and> st_rx_dropped (if_stats i) + st_tx_dropped (if_stats i) < 2 ^ 64"

lemma ratio_of_score: "is_score x \<Longrightarrow> ratio_ok (divide x (Fin 100))"
proof -
  assume "is_score x"
  then obtain r where r: "x = Fin r" "0 \<le> r" "r \<le> 100" using is_scoreE by blast
  then show ?thesis
    using fl_in_range [of 0 "r / 100" 1] by (simp add: ratio_ok_def f64_simps)
qed

lemma breakdown_row_some: "is_score (snd item) \<Longrightarrow> drawn (breakdown_row lib item row)"
  by (cases item) (simp add: breakdown_row_def ratio_of_score drawn_draw_all del: draw_all.simps)

lemma render_health_breakdown_some:
  "pred_option score_ok (Option.bind (ap_status a) ss_health) \<Longrightarrow> drawn (render_health_breakdown lib a area)"
proof -
  assume h: "pred_option score_ok (Option.bind (ap_status a) ss_health)"
  show ?thesis
  proof (cases "Option.bind (ap_status a) ss_health")
    case None
    then show ?thesis by (simp add: render_health_breakdown_def)
  next
    case (Some s)
    then have "\<forall>(l, x) \<in> set (breakdown_items s). is_score x"
      using h by (simp add: score_ok_def list_all_iff)
    then show ?thesis
      using Some by (auto simp: render_health_breakdown_def drawn_draw_all Let_def simp del: draw_all.simps
          intro!: drawn_each breakdown_row_some)
  qed
qed

lemma interface_gauge_some: "pred_option score_ok (if_health i) \<Longrightarrow> drawn (interface_gauge i area)"
  by (cases "if_health i") (simp_all add: interface_gauge_def draw_gauge_def score_ok_def breakdown_items_def ratio_of_score)

lemma render_interface_health_some:
  assumes "list_all score_ok (List.map_filter if_health (ap_interfaces a))"
  shows "drawn (render_interface_health lib a area)"
proof -
  have "pred_option score_ok (if_health i)" if "i \<in> set (take n (filter (\<lambda>i. if_health i \<noteq> None) (ap_interfaces a)))" for i n
    using assms in_set_takeD [OF that] by (force simp: list_all_iff List.map_filter_def)
  then show ?thesis
    by (simp add: render_interface_health_def drawn_draw_all Let_def drawn_each interface_gauge_some del: draw_all.simps)
qed

lemma detail_lines_some: "\<not> chk \<or> counters_ok i \<Longrightarrow> detail_lines chk i \<noteq> None"
  by (auto simp: detail_lines_def u64_add_def counters_ok_def Let_def)

lemma render_dashboard_some: "scores_ok a \<Longrightarrow> drawn (render_dashboard lib a area)"
  using render_health_breakdown_some render_interface_health_some
  by (auto simp: scores_ok_def render_dashboard_def drawn_draw_all render_health_sparkline_def Let_def simp del: draw_all.simps)

lemma render_interfaces_some:
  assumes "\<not> chk \<or> list_all counters_ok (ap_interfaces a)"
  shows "drawn (render_interfaces lib chk a area)"
proof -
  let ?i = "ap_interfaces a ! ap_selected_interface_idx a"
  have "detail_lines chk ?i \<noteq> None" if "ap_selected_interface_idx a < length (ap_interfaces a)"
    using assms that by (intro detail_lines_some) (auto simp: list_all_length)
  then show ?thesis
    by (cases "ap_selected_interface_idx a < length (ap_interfaces a)")
      (auto simp: render_interfaces_def render_interface_detail_def drawn_draw_all Let_def simp del: draw_all.simps)
qed

lemma render_rest_some:
  "drawn (render_bonds lib a area)" "drawn (render_logs lib a area)" "drawn (render_header lib a area)"
  "drawn (render_status_bar lib a area)"
  by (simp_all add: render_bonds_def render_logs_def render_header_def render_status_bar_def drawn_draw_all Let_def
      del: draw_all.simps)

lemma render_some:
  assumes "scores_ok a" "\<not> chk \<or> list_all counters_ok (ap_interfaces a)"
  shows "drawn (render lib chk a screen)"
  using render_dashboard_some [OF assms(1)] render_interfaces_some [OF assms(2)]
  by (auto simp: render_def render_content_def drawn_draw_all render_rest_some Let_def simp del: draw_all.simps)

text \<open>Outside of that range there is no drawing: the gauge of an interface panics.\<close>

lemma gauge_out_of_range:
  "if_health i = Some h \<Longrightarrow> hs_overall h = NaN \<or> hs_overall h = PInf \<Longrightarrow> interface_gauge i area = None"
  by (auto simp: interface_gauge_def draw_gauge_def ratio_ok_def f64_simps)

text \<open>The colour of the line of a lost tunnel is the one of a good event, since the word
  "disconnected" contains "connected"; and the word of an interface that came up is not looked for.\<close>

lemma lost_tunnel_is_green: "event_color (event_description (TunnelDisconnected e)) = ColGreen"
proof -
  have "event_description (TunnelDisconnected e) = (''Tunnel '' @ te_tunnel e @ '' dis'') @ ''connected'' @ []" by simp
  then have "contains_str (event_description (TunnelDisconnected e)) ''connected''" unfolding contains_str_iff by blast
  then show ?thesis by (simp add: event_color_def del: event_description.simps)
qed

text \<open>Whatever updates and keys came before, the key \<open>G\<close> on the log tab scrolls past the last
  event: however many events there are, the log then draws no line.\<close>

theorem logs_bottom_is_blank:
  "let a = main_loop es (app_started outcome);
       a' = handle_key (KeyEvent (KeyChar (CHR ''G'')) False True) (a\<lparr>ap_selected_tab := 3\<rparr>)
   in log_lines lib a' height = [] \<and> ap_log_scroll_pos a' = length (ap_events a')"
  using app_ok_loop [OF app_ok_started, of es outcome]
  by (simp add: handle_key_def logs_key_def log_lines_def app_ok_def app_simps Let_def)

end
