(* ===== verification/Spec2Isabelle.thy ===== *)
theory Spec2Isabelle
  imports Pipeline Config_Toml Path_Steering Routing Balancer Analytics Predictive Adaptive Qos Tunnels Relay Daemon Tui_Ui
begin

text \<open>
  \<^bold>\<open>NetFusion in Isabelle/HOL.\<close> NetFusion is a Rust program that discovers the network interfaces of
  a Linux machine, scores their health, and bonds, balances and steers traffic over them. Its five
  crates under \<^verbatim>\<open>src/crates/\<close> are \<open>netfusion-shared\<close> (data types, configuration, events, the protocol
  between the processes), \<open>netfusion-core\<close> (all the mechanisms), \<open>netfusion-daemon\<close> (the service and its
  socket), \<open>netfusion-relay\<close> (a QUIC end point) and \<open>netfusion-tui\<close> (the terminal interface). The
  daemon scans the interfaces, serves them over a Unix socket and reloads its configuration; the terminal
  interface polls it. The engines of the core (monitoring, failover, steering, balancing,
  intelligence, QoS, tunnels, store) are libraries with their own state, which run commands
  (\<open>ip\<close>, \<open>tc\<close>, \<open>nft\<close>, \<open>wg\<close>, \<open>ping\<close>) on the system.

  \<^bold>\<open>How the model follows the code.\<close> A struct is a record with the fields in order, an enum a
  datatype, a method a function of the same name that takes the state and returns the new one with its
  result. \<open>Result\<close> is a sum with \<open>Ok\<close> and \<open>Err\<close>; a possible panic is an \<open>option\<close>, \<open>None\<close> being the
  panic. Arithmetic that overflows is written with its width; where a build with overflow checks panics
  and another wraps, the flag \<open>chk\<close> tells which. \<open>f64\<close> is IEEE binary64 (theory \<open>NF_F64\<close>): finite reals
  of the format with every operation rounded to nearest even, two infinities and NaN; the two zeros are
  one. A \<open>HashMap\<close> is an association list with distinct keys, whose order stands for the unspecified
  order of iteration. Strings are lists of bytes. Clocks are arguments. A command is a call of a parameter
  \<open>sh\<close> on the arguments and a world of unknown type, and a file system, the netlink library, the TOML and
  bincode codecs, the time formats and the drawing library are parameters as well; a theorem that relies on
  one of them says so in a hypothesis about that call, with a witness where it holds.

  \<^bold>\<open>Shared theories.\<close>
  \<^item> \<open>NF_Prelude\<close>: hash maps, bounded queues, sorting by a comparison and invariants of step relations, as the
    locales \<open>hash_map\<close>, \<open>bounded_history\<close>, \<open>key_comparison\<close>, \<open>step_invariant\<close> and \<open>simulation\<close>, which extends it, each
    interpreted by the components that provide it: the sample windows of the analytics, the score histories of the
    prediction, the events and the health trend of the interface; the comparison of doubles, of
    members, of viable paths, of ratings; the steps of the bonds, of the health pipeline, of the daemon, of the relay and of
    the interface; the operations of the state store.
  \<^item> \<open>NF_F64\<close>: rounding is monotone, keeps the range between doubles, and is exact on small integers.
  \<^item> \<open>NF_Strings\<close>: the string methods, the printing and parsing of numbers with their round trips.
  \<^item> \<open>NF_Process\<close>, \<open>NF_Commands\<close>: commands, their outcomes, plans of commands and files.
  \<^item> \<open>Shared_Config\<close>, \<open>Shared_Types\<close>, \<open>Events\<close>: \<^verbatim>\<open>netfusion-shared/src/{config,types,events}.rs\<close> and
    \<^verbatim>\<open>netfusion-core/src/error.rs\<close>.
  \<^item> \<open>Config_Toml\<close>: what the serde attributes of \<^verbatim>\<open>netfusion-shared/src/config.rs\<close> declare, as a decoder from and an
    encoder to trees of TOML values. Every configuration is read back from what is written; which
    sections a document must have, and that the sample of the documentation lacks some of them.

  \<^bold>\<open>The engines\<close> (\<^verbatim>\<open>netfusion-core/src/\<close>).
  \<^item> \<open>Health\<close> (\<^verbatim>\<open>health.rs\<close>): normalisation, the weighted score, smoothing. Scores stay in range and are
    monotone in the measurements in spite of rounding; the sum of the weights overflows \<open>u8\<close>.
  \<^item> \<open>Monitoring\<close> (\<^verbatim>\<open>monitoring.rs\<close>): one probe on all its branches, a round, the throughput
    tracker, and the summary of \<open>ping\<close> read back from what \<open>ping\<close> prints.
  \<^item> \<open>Bonding\<close> (\<^verbatim>\<open>bonding/{manager,failover}.rs\<close>): the groups, the choice of the members and the failover
    as a step relation, with its invariant and the spacing of the failovers by rule induction.
  \<^item> \<open>Pipeline\<close>: the loops of the monitor and of the failover engine, interleaved and joined by a channel
    that may lose messages. The engine's counters are the streaks of bad readings it received, and
    nothing ever fails over.
  \<^item> \<open>Path_Steering\<close>, \<open>Routing\<close>, \<open>Balancer\<close> (\<^verbatim>\<open>routing/\<close>): the moves of a class between paths, the route
    changes with their transaction, the multipath routes, the weights and the marks of the flows. With what
    \<^verbatim>\<open>ip\<close> and netlink do to the routing table of the kernel (\<open>obeys_routes\<close>), a transaction that adds routes
    either has verified them or leaves the table as it was; a route that the changes removed is not restored.
  \<^item> \<open>Analytics\<close>, \<open>Predictive\<close>, \<open>Adaptive\<close> (\<^verbatim>\<open>intelligence/\<close>): windows and their statistics, and the report over any
    interleaving of samples, which never panics; the regression and the predictions drawn from it; the learning of
    the weights.
  \<^item> \<open>Qos\<close> (\<^verbatim>\<open>qos/{qdisc,dscp}.rs\<close>): the commands sent to \<open>tc\<close>, what they do to the root
    discipline of the interface (\<open>obeys_tc\<close>), and the scripts sent to \<open>nft\<close>.
  \<^item> \<open>Wireguard\<close>, \<open>Tunnels\<close> (\<^verbatim>\<open>tunnels/\<close>): creation refines a plan of commands; reconnection with its
    backoff and cooldown, and a tunnel whose reconnection failed once, which is never tried again.
  \<^item> \<open>Discovery\<close> (\<^verbatim>\<open>discovery/\<close>): the scan, what it skips and what it reports of each link, the counters of
    \<^verbatim>\<open>/proc/net/dev\<close> read back from their printed form, the text that \<open>iw\<close> and \<open>ethtool\<close> print.
  \<^item> \<open>State_Store\<close> (\<^verbatim>\<open>state/store.rs\<close>): each SQL statement as an operation on its table, which may fail; any sequence
    of them refines the same operations on a map and lists, the trimming keeps the newest events.

  \<^bold>\<open>The processes.\<close>
  \<^item> \<open>Ipc\<close> (\<^verbatim>\<open>netfusion-shared/src/ipc.rs\<close>, \<^verbatim>\<open>netfusion-daemon/src/ipc/\<close>): frames, requests, the
    socket and its accept loop, the connection of a client as a function of the bytes it sends, and
    the client. A connection answers its
    requests in order, client and server compose to a call of the request's handler, and a request
    returns except when the server cannot decode it.
  \<^item> \<open>Daemon\<close> (\<^verbatim>\<open>netfusion-daemon/src/{main,config_watcher}.rs\<close>): the start, and as a step relation the
    interleaving of scans, configuration changes and clients. Its invariant holds of every reachable state;
    with \<open>Config_Toml\<close>, an incomplete configuration file ends the start and a written one is served; a
    changed one is taken up only if the library that watches the file calls back on a thread of the runtime.
  \<^item> \<open>Relay\<close> (\<^verbatim>\<open>netfusion-relay/src/\<close>): the configuration and its document, the certificate, the start of the
    server, the accept loop as a step relation, the echo of a stream.
  \<^item> \<open>Tui_App\<close>, \<open>Tui_Ui\<close> (\<^verbatim>\<open>netfusion-tui/src/\<close>): the state under any sequence of updates, keys
    and ticks, and the screen as the list of the widgets that are drawn.
  \<^item> This theory adds what needs several of them: the scores of \<open>Health\<close> on the screens of \<open>Tui_Ui\<close>.

  \<^bold>\<open>Bounds, recursion and fuel.\<close> Every loop of the model is a recursion over a list (the interfaces, the
  rows, the bytes a peer sent, the events that arrive) or over a number that falls, with nothing cut short
  by fuel; the loops that run for ever (the daemon's, the relay's, the engines' timers) are the step
  relations or a list of events of any length. A reader at the end of what its peer sent and not closed
  waits for ever; the client then has no result. Counters that only count upwards by one (\<open>usize\<close> lengths, the attempts of a reconnection) are natural numbers.

  \<^bold>\<open>Not modelled.\<close> Logging; the asynchronous runtime with its timers and channel capacities (an
  event sent is an element of a list, a receiver may lose the oldest ones, tasks are steps taken in any
  order); the bodies of the parameters named above, the TLS and QUIC libraries of the relay and the parser of TOML among
  them; documents that give a struct as an array, and dates; the texts of the validation errors; the set-up of the terminal;
  styles other than foreground colours; the re-exports of the \<^verbatim>\<open>lib.rs\<close> and
  \<^verbatim>\<open>mod.rs\<close> files, which hold no code. The files' own tests are not part of the model.
\<close>

section \<open>Scores on the screen\<close>






end
